(* ===== verification/Prelude.thy ===== *)
theory Prelude
  imports Main "HOL-Library.List_Lexorder" "HOL-Library.Char_ord" "HOL-Library.AList"
begin

text \<open>
  Shared vocabulary of the development: the exceptions of the program as values, the
  combinators that sequence computations which may raise, the string helpers of the Python
  code (\<open>join\<close>, \<open>startswith\<close>, \<open>strip\<close>, \<open>lower\<close>, \<open>sorted\<close>) and the generic lemmas the
  component theories use. Python strings are \<open>string\<close>s holding their UTF-8 bytes.
\<close>

named_theorems errs \<open>unfolding of the exception combinators\<close>

subsection \<open>Exceptions as values\<close>

text \<open>
  \<open>WorkflowError\<close> is \<open>errors.WorkflowError\<close>, \<open>JournalCapacityError\<close> its subclass in
  \<open>journal.py\<close> and \<open>InboxError\<close> the one in \<open>orchestrator_inbox.py\<close>; the others are the builtin exceptions that a subscript or an attribute
  access on an unexpected value raises.
\<close>

datatype error =
    WorkflowError string
  | JournalCapacityError string
  | InboxError string
  | KeyError string
  | TypeError string
  | OSError string

fun is_WorkflowError :: "error \<Rightarrow> bool" where
  "is_WorkflowError (WorkflowError _) = True"
| "is_WorkflowError (JournalCapacityError _) = True"
| "is_WorkflowError (InboxError _) = True"
| "is_WorkflowError _ = False"

fun is_InboxError :: "error \<Rightarrow> bool" where
  "is_InboxError (InboxError _) = True"
| "is_InboxError _ = False"

fun error_text :: "error \<Rightarrow> string" where
  "error_text (WorkflowError m) = m"
| "error_text (JournalCapacityError m) = m"
| "error_text (InboxError m) = m"
| "error_text (KeyError m) = m"
| "error_text (TypeError m) = m"
| "error_text (OSError m) = m"

type_synonym 'a result = "error + 'a"

definition bindE :: "'a result \<Rightarrow> ('a \<Rightarrow> 'b result) \<Rightarrow> 'b result" where
  "bindE m f = (case m of Inl e \<Rightarrow> Inl e | Inr x \<Rightarrow> f x)"

definition raise_if :: "bool \<Rightarrow> string \<Rightarrow> unit result" where
  "raise_if b msg = (if b then Inl (WorkflowError msg) else Inr ())"

fun mapE :: "('a \<Rightarrow> 'b result) \<Rightarrow> 'a list \<Rightarrow> 'b list result" where
  "mapE f [] = Inr []"
| "mapE f (x # xs) = bindE (f x) (\<lambda>y. bindE (mapE f xs) (\<lambda>ys. Inr (y # ys)))"

fun foldE :: "('s \<Rightarrow> 'a \<Rightarrow> 's result) \<Rightarrow> 's \<Rightarrow> 'a list \<Rightarrow> 's result" where
  "foldE f s [] = Inr s"
| "foldE f s (x # xs) = bindE (f s x) (\<lambda>s'. foldE f s' xs)"

lemma bindE_Inl [simp]: "bindE (Inl e) f = Inl e"
  by (simp add: bindE_def)

lemma bindE_Inr [simp]: "bindE (Inr x) f = f x"
  by (simp add: bindE_def)

lemma bindE_eq_Inr [simp]: "bindE m f = Inr y \<longleftrightarrow> (\<exists>x. m = Inr x \<and> f x = Inr y)"
  by (cases m) simp_all

lemma bindE_cong [fundef_cong]:
  "m = m' \<Longrightarrow> (\<And>x. m' = Inr x \<Longrightarrow> f x = f' x) \<Longrightarrow> bindE m f = bindE m' f'"
  by (cases m') simp_all

lemma raise_if_False [simp]: "raise_if False m = Inr ()"
  by (simp add: raise_if_def)

lemma raise_if_True [simp]: "raise_if True m = Inl (WorkflowError m)"
  by (simp add: raise_if_def)

lemma raise_if_eq_Inr [simp]: "raise_if b m = Inr u \<longleftrightarrow> \<not> b"
  by (simp add: raise_if_def)

lemma mapE_cong [fundef_cong]:
  "xs = ys \<Longrightarrow> (\<And>x. x \<in> set ys \<Longrightarrow> f x = g x) \<Longrightarrow> mapE f xs = mapE g ys"
  by (induction ys arbitrary: xs) auto

lemma mapE_Inr_iff: "mapE f xs = Inr ys \<longleftrightarrow> list_all2 (\<lambda>x y. f x = Inr y) xs ys"
  by (induction xs arbitrary: ys) (auto simp: list_all2_Cons1)

lemma mapE_length: "mapE f xs = Inr ys \<Longrightarrow> length ys = length xs"
  by (auto simp: mapE_Inr_iff dest: list_all2_lengthD)

lemma mapE_pure [simp]: "mapE (\<lambda>x. Inr (f x)) xs = Inr (map f xs)"
  by (induction xs) simp_all

lemma foldE_append: "foldE f s (xs @ ys) = bindE (foldE f s xs) (\<lambda>s'. foldE f s' ys)"
  by (induction xs arbitrary: s) (auto simp: bindE_def split: sum.splits)

lemma foldE_invariant:
  assumes "foldE f s xs = Inr s'" and "I s"
    and "\<And>s x s'. x \<in> set xs \<Longrightarrow> I s \<Longrightarrow> f s x = Inr s' \<Longrightarrow> I s'"
  shows "I s'"
  using assms by (induction xs arbitrary: s) auto

text \<open>The state after a sequence of operations, whether they return or raise.\<close>

primrec run_ops :: "('op \<Rightarrow> 'st \<Rightarrow> 'st \<times> 'b) \<Rightarrow> 'op list \<Rightarrow> 'st \<Rightarrow> 'st" where
  "run_ops step [] st = st"
| "run_ops step (op # ops) st = run_ops step ops (fst (step op st))"

declare bindE_eq_Inr [errs] raise_if_eq_Inr [errs]

subsection \<open>Operations on a state\<close>

text \<open>
  An operation that changes a state and may raise; the state it leaves behind is there in both
  cases. \<open>pureS\<close> runs a computation that only reads, \<open>iterS\<close> is a \<open>for\<close> loop and \<open>mapS\<close> a list
  comprehension, \<open>catchW\<close> is \<open>try ... except WorkflowError\<close>.
\<close>

type_synonym ('s, 'a) op = "'s \<Rightarrow> 's \<times> 'a result"

definition returnS :: "'a \<Rightarrow> ('s, 'a) op" where
  "returnS x = (\<lambda>s. (s, Inr x))"

definition pureS :: "('s \<Rightarrow> 'a result) \<Rightarrow> ('s, 'a) op" where
  "pureS f = (\<lambda>s. (s, f s))"

definition bindS :: "('s, 'a) op \<Rightarrow> ('a \<Rightarrow> ('s, 'b) op) \<Rightarrow> ('s, 'b) op" where
  "bindS m f = (\<lambda>s. case m s of (s', Inl e) \<Rightarrow> (s', Inl e) | (s', Inr x) \<Rightarrow> f x s')"

definition catchW :: "('s, 'a) op \<Rightarrow> (error \<Rightarrow> ('s, 'a) op) \<Rightarrow> ('s, 'a) op" where
  "catchW m h = (\<lambda>s. case m s of
       (s', Inl e) \<Rightarrow> if is_WorkflowError e then h e s' else (s', Inl e)
     | (s', Inr x) \<Rightarrow> (s', Inr x))"

primrec iterS :: "('x \<Rightarrow> ('s, unit) op) \<Rightarrow> 'x list \<Rightarrow> ('s, unit) op" where
  "iterS f [] = returnS ()"
| "iterS f (x # xs) = bindS (f x) (\<lambda>_. iterS f xs)"

primrec mapS :: "('x \<Rightarrow> ('s, 'a) op) \<Rightarrow> 'x list \<Rightarrow> ('s, 'a list) op" where
  "mapS f [] = returnS []"
| "mapS f (x # xs) = bindS (f x) (\<lambda>y. bindS (mapS f xs) (\<lambda>ys. returnS (y # ys)))"

lemma returnS_apply [simp]: "returnS x s = (s, Inr x)"
  by (simp add: returnS_def)

lemma pureS_apply [simp]: "pureS f s = (s, f s)"
  by (simp add: pureS_def)

lemma bindS_eq_Inr:
  "bindS m f s = (s', Inr y) \<longleftrightarrow> (\<exists>t x. m s = (t, Inr x) \<and> f x t = (s', Inr y))"
  by (auto simp: bindS_def split: prod.splits sum.splits)

text \<open>A relation that every part keeps between the state before and after is kept by the whole.\<close>

lemma fst_bindS:
  assumes "\<And>s. R s (fst (m s))" and "\<And>x s. R s (fst (f x s))" and "\<And>a b c. R a b \<Longrightarrow> R b c \<Longrightarrow> R a c"
  shows "R s (fst (bindS m f s))"
  using assms(1) [of s] assms(2,3) by (auto simp: bindS_def split: prod.splits sum.splits)

lemma fst_catchW:
  assumes "\<And>s. R s (fst (m s))" and "\<And>x s. R s (fst (h x s))" and "\<And>a b c. R a b \<Longrightarrow> R b c \<Longrightarrow> R a c"
  shows "R s (fst (catchW m h s))"
  using assms(1) [of s] assms(2,3) by (auto simp: catchW_def split: prod.splits sum.splits)

lemma fst_iterS:
  assumes "\<And>x s. R s (fst (f x s))" and "\<And>s. R s s" and "\<And>a b c. R a b \<Longrightarrow> R b c \<Longrightarrow> R a c"
  shows "R s (fst (iterS f xs s))"
proof (induction xs arbitrary: s)
  case Nil
  show ?case using assms(2) by simp
next
  case (Cons x xs)
  show ?case unfolding iterS.simps by (rule fst_bindS [OF assms(1) Cons.IH assms(3)])
qed

lemma fst_mapS:
  assumes "\<And>x s. R s (fst (f x s))" and "\<And>s. R s s" and "\<And>a b c. R a b \<Longrightarrow> R b c \<Longrightarrow> R a c"
  shows "R s (fst (mapS f xs s))"
proof (induction xs arbitrary: s)
  case Nil
  show ?case using assms(2) by simp
next
  case (Cons x xs)
  have "R s (fst (bindS (mapS f xs) (\<lambda>ys. returnS (y # ys)) s))" for y s
    by (rule fst_bindS [where R = R]) (auto simp: assms(2) intro: Cons.IH assms(3))
  then show ?case unfolding mapS.simps
    by (intro fst_bindS [where R = R]) (auto intro: assms Cons.IH)
qed

subsection \<open>Python string helpers\<close>

fun py_join :: "string \<Rightarrow> string list \<Rightarrow> string" where
  "py_join sep [] = []"
| "py_join sep [x] = x"
| "py_join sep (x # y # xs) = x @ sep @ py_join sep (y # xs)"

fun startswith :: "string \<Rightarrow> string \<Rightarrow> bool" where
  "startswith s [] = True"
| "startswith [] (p # ps) = False"
| "startswith (c # s) (p # ps) = (c = p \<and> startswith s ps)"

lemma startswith_append [simp]: "startswith (p @ s) p"
  by (induction p) auto

definition ascii_space :: "char \<Rightarrow> bool" where
  "ascii_space c \<longleftrightarrow> c \<in> {CHR 0x09, CHR 0x0A, CHR 0x0B, CHR 0x0C, CHR 0x0D,
                        CHR 0x1C, CHR 0x1D, CHR 0x1E, CHR 0x1F, CHR '' ''}"

text \<open>\<open>str.strip()\<close> on ASCII white space.\<close>

definition py_strip :: "string \<Rightarrow> string" where
  "py_strip s = rev (dropWhile ascii_space (rev (dropWhile ascii_space s)))"

definition ascii_lower :: "char \<Rightarrow> char" where
  "ascii_lower c = (if CHR ''A'' \<le> c \<and> c \<le> CHR ''Z'' then char_of ((of_char c :: nat) + 32) else c)"

text \<open>\<open>str.lower()\<close> on ASCII letters.\<close>

definition py_lower :: "string \<Rightarrow> string" where
  "py_lower s = map ascii_lower s"

definition is_digit :: "char \<Rightarrow> bool" where
  "is_digit c \<longleftrightarrow> CHR ''0'' \<le> c \<and> c \<le> CHR ''9''"

definition is_alpha :: "char \<Rightarrow> bool" where
  "is_alpha c \<longleftrightarrow> (CHR ''a'' \<le> c \<and> c \<le> CHR ''z'') \<or> (CHR ''A'' \<le> c \<and> c \<le> CHR ''Z'')"

text \<open>\<open>s.split(sep)\<close> for a one-character separator.\<close>

fun split_on :: "char \<Rightarrow> string \<Rightarrow> string list" where
  "split_on sep [] = [[]]"
| "split_on sep (c # s) =
     (if c = sep then [] # split_on sep s
      else (case split_on sep s of [] \<Rightarrow> [[c]] | p # ps \<Rightarrow> (c # p) # ps))"

lemma split_on_nonempty [simp]: "split_on sep s \<noteq> []"
  by (induction s) (auto split: list.splits)

lemma join_split_on: "py_join [sep] (split_on sep s) = s"
proof (induction s)
  case Nil
  show ?case by simp
next
  case (Cons c s)
  obtain p ps where "split_on sep s = p # ps"
    by (cases "split_on sep s") auto
  with Cons show ?case
    by (cases ps) auto
qed

subsection \<open>Sorting and duplicates\<close>

text \<open>\<open>sorted(set(xs))\<close>.\<close>

definition sorted_set :: "'a::linorder list \<Rightarrow> 'a list" where
  "sorted_set xs = sort (remdups xs)"

lemma set_sorted_set [simp]: "set (sorted_set xs) = set xs"
  by (simp add: sorted_set_def)

lemma sorted_sorted_set [simp]: "sorted (sorted_set xs)"
  by (simp add: sorted_set_def)

lemma distinct_sorted_set [simp]: "distinct (sorted_set xs)"
  by (simp add: sorted_set_def)

lemma sorted_set_empty_iff [simp]: "sorted_set xs = [] \<longleftrightarrow> xs = []"
  by (metis set_empty set_sorted_set)

lemma map_of_map_pair:
  "map_of (map (\<lambda>x. (f x, g x)) xs) k = map_option g (List.find (\<lambda>x. f x = k) xs)"
  by (induction xs) auto

lemma distinct_map_of_zip_eq:
  "distinct (map f xs) \<Longrightarrow> x \<in> set xs \<Longrightarrow> map_of (map (\<lambda>x. (f x, g x)) xs) (f x) = Some (g x)"
  by (induction xs) (auto simp: rev_image_eqI)

end
