(* ===== verification/Json.thy ===== *)
theory Json
  imports Prelude
begin

text \<open>
  JSON values as the Python code holds them after \<open>json.loads\<close>, the Python operations on
  them that the program uses (\<open>dict.get\<close>, subscripts, \<open>isinstance\<close>, truth value, \<open>==\<close>,
  \<open>str\<close>), and the standard library's \<open>json\<close> codec in the two forms the program calls it:
  \<open>dumps(v, sort_keys=True, separators=(",", ":"))\<close> with either \<open>ensure_ascii\<close>, and
  \<open>loads\<close>. A dict is an association list in insertion order. A float is held by its
  \<open>repr\<close>, which is also the text \<open>dumps\<close> writes for it.
\<close>

datatype json =
    JNull
  | JBool bool
  | JInt int
  | JFloat string
  | JStr string
  | JList "json list"
  | JObj "(string \<times> json) list"

subsection \<open>Dictionary access and type tests\<close>

fun is_obj :: "json \<Rightarrow> bool" where
  "is_obj (JObj _) = True"
| "is_obj _ = False"

fun is_str :: "json \<Rightarrow> bool" where
  "is_str (JStr _) = True"
| "is_str _ = False"

fun is_list :: "json \<Rightarrow> bool" where
  "is_list (JList _) = True"
| "is_list _ = False"

fun is_bool :: "json \<Rightarrow> bool" where
  "is_bool (JBool _) = True"
| "is_bool _ = False"

text \<open>\<open>isinstance(v, int)\<close> holds of Python booleans too; \<open>int_of\<close> is the number such a value is.\<close>

fun is_int :: "json \<Rightarrow> bool" where
  "is_int (JInt _) = True"
| "is_int (JBool _) = True"
| "is_int _ = False"

fun int_of :: "json \<Rightarrow> int" where
  "int_of (JInt i) = i"
| "int_of (JBool b) = (if b then 1 else 0)"
| "int_of _ = 0"

fun str_of :: "json \<Rightarrow> string" where
  "str_of (JStr s) = s"
| "str_of _ = []"

fun obj_items :: "json \<Rightarrow> (string \<times> json) list" where
  "obj_items (JObj kvs) = kvs"
| "obj_items _ = []"

fun list_items :: "json \<Rightarrow> json list" where
  "list_items (JList xs) = xs"
| "list_items _ = []"

definition jlookup :: "json \<Rightarrow> string \<Rightarrow> json option" where
  "jlookup v k = map_of (obj_items v) k"

definition jhas :: "json \<Rightarrow> string \<Rightarrow> bool" where
  "jhas v k \<longleftrightarrow> jlookup v k \<noteq> None"

definition jget_or :: "json \<Rightarrow> string \<Rightarrow> json \<Rightarrow> json" where
  "jget_or v k d = (case jlookup v k of None \<Rightarrow> d | Some x \<Rightarrow> x)"

definition jget :: "json \<Rightarrow> string \<Rightarrow> json" where
  "jget v k = jget_or v k JNull"

text \<open>\<open>v[k]\<close>: a missing key raises \<open>KeyError\<close>, a value that is no dict \<open>TypeError\<close>.\<close>

definition jidx :: "json \<Rightarrow> string \<Rightarrow> json result" where
  "jidx v k =
     (if is_obj v then (case jlookup v k of None \<Rightarrow> Inl (KeyError k) | Some x \<Rightarrow> Inr x)
      else Inl (TypeError k))"

definition jset :: "string \<Rightarrow> json \<Rightarrow> json \<Rightarrow> json" where
  "jset k x v = JObj (AList.update k x (obj_items v))"

text \<open>\<open>dict.update\<close> with keyword arguments.\<close>

definition jupdate :: "json \<Rightarrow> (string \<times> json) list \<Rightarrow> json" where
  "jupdate v kvs = foldl (\<lambda>w (k, x). jset k x w) v kvs"

definition jpop :: "string \<Rightarrow> json \<Rightarrow> json" where
  "jpop k v = JObj (filter (\<lambda>(k', _). k' \<noteq> k) (obj_items v))"

fun opt_str :: "string option \<Rightarrow> json" where
  "opt_str None = JNull"
| "opt_str (Some s) = JStr s"

lemma opt_str_eq_JNull [simp]: "opt_str x = JNull \<longleftrightarrow> x = None" "JNull = opt_str x \<longleftrightarrow> x = None"
  by (cases x; simp)+

lemma jlookup_jset [simp]: "jlookup (jset k x v) k' = (if k' = k then Some x else jlookup v k')"
  by (simp add: jlookup_def jset_def update_conv')

lemma jget_jset [simp]: "jget (jset k x v) k' = (if k' = k then x else jget v k')"
  by (simp add: jget_def jget_or_def)

lemma is_obj_jset [simp]: "is_obj (jset k x v)"
  by (simp add: jset_def)

lemma jlookup_JObj: "jlookup (JObj kvs) k = map_of kvs k"
  by (simp add: jlookup_def)

lemma is_obj_conv: "is_obj v \<longleftrightarrow> (\<exists>kvs. v = JObj kvs)"
  by (cases v) auto

lemma is_str_conv: "is_str v \<longleftrightarrow> (\<exists>s. v = JStr s)"
  by (cases v) auto

lemma is_list_conv: "is_list v \<longleftrightarrow> (\<exists>xs. v = JList xs)"
  by (cases v) auto

lemma is_bool_conv: "is_bool v \<longleftrightarrow> (\<exists>b. v = JBool b)"
  by (cases v) auto

lemmas jaccess = jget_def jget_or_def jlookup_JObj jhas_def jidx_def

subsection \<open>Truth value and equality\<close>

definition float_zero :: "string \<Rightarrow> bool" where
  "float_zero r \<longleftrightarrow> r = ''0.0'' \<or> r = ''-0.0''"

fun truthy :: "json \<Rightarrow> bool" where
  "truthy JNull = False"
| "truthy (JBool b) = b"
| "truthy (JInt i) = (i \<noteq> 0)"
| "truthy (JFloat r) = (\<not> float_zero r)"
| "truthy (JStr s) = (s \<noteq> [])"
| "truthy (JList xs) = (xs \<noteq> [])"
| "truthy (JObj kvs) = (kvs \<noteq> [])"

fun nat_str :: "nat \<Rightarrow> string" where
  "nat_str n =
     (if n < 10 then [char_of (48 + n)] else nat_str (n div 10) @ [char_of (48 + n mod 10)])"

declare nat_str.simps [simp del]

definition int_str :: "int \<Rightarrow> string" where
  "int_str i = (if i < 0 then CHR ''-'' # nat_str (nat (- i)) else nat_str (nat i))"

text \<open>
  Python's \<open>==\<close> on JSON values: booleans are the integers 0 and 1, an integral float equals
  its integer (compared here through the \<open>repr\<close> \<open>n.0\<close>), dicts compare as maps.
\<close>

fun num_eq :: "json \<Rightarrow> json \<Rightarrow> bool" where
  "num_eq (JFloat a) (JFloat b) = (a = b \<and> a \<noteq> ''nan'' \<or> float_zero a \<and> float_zero b)"
| "num_eq (JFloat a) b = (is_int b \<and> (a = int_str (int_of b) @ ''.0'' \<or> float_zero a \<and> int_of b = 0))"
| "num_eq a (JFloat b) = (is_int a \<and> (b = int_str (int_of a) @ ''.0'' \<or> float_zero b \<and> int_of a = 0))"
| "num_eq a b = (is_int a \<and> is_int b \<and> int_of a = int_of b)"

function py_eq :: "json \<Rightarrow> json \<Rightarrow> bool" where
  "py_eq v w =
     (case v of
        JNull \<Rightarrow> w = JNull
      | JStr s \<Rightarrow> w = JStr s
      | JList xs \<Rightarrow>
          (case w of
             JList ys \<Rightarrow> length xs = length ys \<and> (\<forall>(x, y) \<in> set (zip xs ys). py_eq x y)
           | _ \<Rightarrow> False)
      | JObj kvs \<Rightarrow>
          (case w of
             JObj kws \<Rightarrow>
               length kvs = length kws \<and>
               (\<forall>(k, x) \<in> set kvs.
                  (case map_of kws k of None \<Rightarrow> False | Some y \<Rightarrow> py_eq x y))
           | _ \<Rightarrow> False)
      | _ \<Rightarrow> num_eq v w)"
  by pat_completeness auto
termination
proof (relation "measure (\<lambda>(v, w). size v)", goal_cases)
  case 1
  show ?case by simp
next
  case (2 v w xs ys z x y)
  then have "x \<in> set xs" by (auto dest: set_zip_leftD)
  then have "size x < Suc (size_list size xs)"
    by (simp add: less_Suc_eq_le size_list_estimation')
  with 2 show ?case by (cases z) simp
next
  case (3 v w kvs kws z k x y)
  then have "size x < Suc (size_list (size_prod (\<lambda>_. 0) size) kvs)"
    by (auto simp: less_Suc_eq_le intro!: size_list_estimation')
  with 3 show ?case by simp
qed

declare py_eq.simps [simp del]

lemma py_eq_JInt [simp]: "py_eq (JInt i) (JInt j) \<longleftrightarrow> i = j"
  by (simp add: py_eq.simps)

lemma py_eq_JStr [simp]: "py_eq (JStr s) w \<longleftrightarrow> w = JStr s"
  by (simp add: py_eq.simps)

lemma py_eq_JStr_right [simp]: "py_eq v (JStr s) \<longleftrightarrow> v = JStr s"
  by (cases v) (auto simp: py_eq.simps elim: num_eq.elims)

lemma py_eq_JNull [simp]: "py_eq JNull w \<longleftrightarrow> w = JNull"
  by (simp add: py_eq.simps)

lemma py_eq_JNull_right [simp]: "py_eq v JNull \<longleftrightarrow> v = JNull"
  by (cases v) (auto simp: py_eq.simps)

end
