(* ===== verification/Json_Codec.thy ===== *)
theory Json_Codec
  imports Json
begin

text \<open>
  The standard library functions behind the program's persisted evidence: \<open>str\<close> and
  \<open>repr\<close> of a JSON value, \<open>json.dumps\<close> in canonical form, UTF-8 validity, \<open>json.loads\<close>.
  The theory ends with the round trip: decoding an encoded value gives the value back with
  its dictionaries in key order. The decoder carries fuel that bounds its nesting;
  \<open>loads\<close> starts it with twice the input's length, which the round trip shows to be
  enough for every encoded value.
\<close>

subsection \<open>Hexadecimal digits and UTF-8\<close>

definition hex_digit :: "nat \<Rightarrow> char" where
  "hex_digit n = (if n < 10 then char_of (48 + n) else char_of (87 + n))"

definition hex2 :: "nat \<Rightarrow> string" where
  "hex2 n = [hex_digit (n div 16 mod 16), hex_digit (n mod 16)]"

definition hex4 :: "nat \<Rightarrow> string" where
  "hex4 n = hex2 (n div 256) @ hex2 (n mod 256)"

definition hex_val :: "char \<Rightarrow> nat option" where
  "hex_val c =
     (if CHR ''0'' \<le> c \<and> c \<le> CHR ''9'' then Some (of_char c - 48)
      else if CHR ''a'' \<le> c \<and> c \<le> CHR ''f'' then Some (of_char c - 87)
      else if CHR ''A'' \<le> c \<and> c \<le> CHR ''F'' then Some (of_char c - 55)
      else None)"

fun hex4_val :: "char \<Rightarrow> char \<Rightarrow> char \<Rightarrow> char \<Rightarrow> nat option" where
  "hex4_val a b c d =
     (case (hex_val a, hex_val b, hex_val c, hex_val d) of
        (Some w, Some x, Some y, Some z) \<Rightarrow> Some (4096 * w + 256 * x + 16 * y + z)
      | _ \<Rightarrow> None)"

definition utf8_encode :: "nat \<Rightarrow> string" where
  "utf8_encode n =
     (if n < 128 then [char_of n]
      else if n < 2048 then [char_of (192 + n div 64), char_of (128 + n mod 64)]
      else if n < 65536 then
        [char_of (224 + n div 4096), char_of (128 + n div 64 mod 64), char_of (128 + n mod 64)]
      else
        [char_of (240 + n div 262144), char_of (128 + n div 4096 mod 64),
         char_of (128 + n div 64 mod 64), char_of (128 + n mod 64)])"

definition cont_byte :: "char \<Rightarrow> bool" where
  "cont_byte c \<longleftrightarrow> 128 \<le> (of_char c :: nat) \<and> (of_char c :: nat) < 192"

text \<open>One encoded code point at the head of a byte string: its value and the bytes after it.\<close>

definition utf8_head :: "string \<Rightarrow> (nat \<times> string) option" where
  "utf8_head s =
     (case s of
        [] \<Rightarrow> None
      | a # r \<Rightarrow>
          (let n = of_char a :: nat in
           if n < 128 then Some (n, r)
           else if 194 \<le> n \<and> n < 224 then
             (case r of
                b # r1 \<Rightarrow> if cont_byte b then Some (64 * (n - 192) + (of_char b - 128), r1) else None
              | _ \<Rightarrow> None)
           else if 224 \<le> n \<and> n < 240 then
             (case r of
                b # c # r2 \<Rightarrow>
                  (let v = 4096 * (n - 224) + 64 * (of_char b - 128) + (of_char c - 128)
                   in if cont_byte b \<and> cont_byte c \<and> 2048 \<le> v \<and> \<not> (55296 \<le> v \<and> v < 57344)
                      then Some (v, r2) else None)
              | _ \<Rightarrow> None)
           else if 240 \<le> n \<and> n < 245 then
             (case r of
                b # c # d # r3 \<Rightarrow>
                  (let v = 262144 * (n - 240) + 4096 * (of_char b - 128) + 64 * (of_char c - 128)
                             + (of_char d - 128)
                   in if cont_byte b \<and> cont_byte c \<and> cont_byte d \<and> 65536 \<le> v \<and> v < 1114112
                      then Some (v, r3) else None)
              | _ \<Rightarrow> None)
           else None))"

lemma utf8_head_shorter: "utf8_head s = Some (n, r) \<Longrightarrow> length r < length s"
  by (auto simp: utf8_head_def Let_def split: list.splits if_splits)

text \<open>\<open>bytes.decode("utf-8")\<close> raises exactly when this is false.\<close>

function utf8_valid :: "string \<Rightarrow> bool" where
  "utf8_valid s =
     (s = [] \<or> (case utf8_head s of None \<Rightarrow> False | Some (_, r) \<Rightarrow> utf8_valid r))"
  by pat_completeness auto
termination
  by (relation "measure length") (auto dest: utf8_head_shorter)

declare utf8_valid.simps [simp del]

definition ascii :: "char \<Rightarrow> bool" where
  "ascii c \<longleftrightarrow> (of_char c :: nat) < 128"

lemma utf8_valid_ascii: "list_all ascii s \<Longrightarrow> utf8_valid s"
  by (induction s) (auto simp: utf8_valid.simps utf8_head_def ascii_def Let_def)

subsection \<open>Encoding\<close>

definition esc_char :: "char \<Rightarrow> string" where
  "esc_char c =
     (if c = CHR 0x22 then [CHR 0x5C, CHR 0x22]
      else if c = CHR 0x5C then [CHR 0x5C, CHR 0x5C]
      else if c = CHR 0x0A then [CHR 0x5C, CHR ''n'']
      else if c = CHR 0x0D then [CHR 0x5C, CHR ''r'']
      else if c = CHR 0x09 then [CHR 0x5C, CHR ''t'']
      else if c = CHR 0x0C then [CHR 0x5C, CHR ''f'']
      else if c = CHR 0x08 then [CHR 0x5C, CHR ''b'']
      else if (of_char c :: nat) < 32 then [CHR 0x5C, CHR ''u''] @ hex4 (of_char c)
      else [c])"

definition esc_point :: "nat \<Rightarrow> string" where
  "esc_point n =
     (if n < 65536 then [CHR 0x5C, CHR ''u''] @ hex4 n
      else [CHR 0x5C, CHR ''u''] @ hex4 (55296 + (n - 65536) div 1024)
           @ [CHR 0x5C, CHR ''u''] @ hex4 (56320 + (n - 65536) mod 1024))"

text \<open>The escaping of \<open>ensure_ascii=True\<close>: everything outside the printable ASCII range.\<close>

function esc_ascii :: "string \<Rightarrow> string" where
  "esc_ascii s =
     (case s of
        [] \<Rightarrow> []
      | c # r \<Rightarrow>
          (if (of_char c :: nat) < 127 then esc_char c @ esc_ascii r
           else (case utf8_head s of
                   None \<Rightarrow> esc_point (of_char c) @ esc_ascii r
                 | Some (n, r') \<Rightarrow> esc_point n @ esc_ascii r')))"
  by pat_completeness auto
termination
  by (relation "measure length") (auto dest: utf8_head_shorter)

declare esc_ascii.simps [simp del]

definition json_quote :: "bool \<Rightarrow> string \<Rightarrow> string" where
  "json_quote ensure_ascii s =
     CHR 0x22 # (if ensure_ascii then esc_ascii s else concat (map esc_char s)) @ [CHR 0x22]"

text \<open>
  \<open>json.dumps(v, sort_keys=True, separators=(",", ":"), ensure_ascii=b)\<close>, and its result as
  \<open>encode("utf-8")\<close> gives it.
\<close>

fun dumps :: "bool \<Rightarrow> json \<Rightarrow> string" where
  "dumps b JNull = ''null''"
| "dumps b (JBool p) = (if p then ''true'' else ''false'')"
| "dumps b (JInt i) = int_str i"
| "dumps b (JFloat r) = r"
| "dumps b (JStr s) = json_quote b s"
| "dumps b (JList xs) = ''['' @ py_join '','' (map (dumps b) xs) @ '']''"
| "dumps b (JObj kvs) =
     CHR 0x7B # py_join '',''
       (map (\<lambda>(k, t). json_quote b k @ '':'' @ t)
         (sort_key fst (map (\<lambda>(k, v). (k, dumps b v)) kvs))) @ [CHR 0x7D]"

text \<open>\<open>json.dumps(v, indent=2, sort_keys=True)\<close>; the number is the current indentation.\<close>

fun dumps_pretty :: "nat \<Rightarrow> json \<Rightarrow> string" where
  "dumps_pretty n (JList xs) =
     (if xs = [] then ''[]''
      else ''['' @ CHR 0x0A # replicate (n + 2) (CHR '' '')
           @ py_join ('','' @ CHR 0x0A # replicate (n + 2) (CHR '' '')) (map (dumps_pretty (n + 2)) xs)
           @ CHR 0x0A # replicate n (CHR '' '') @ '']'')"
| "dumps_pretty n (JObj kvs) =
     (if kvs = [] then ''{}''
      else CHR 0x7B # CHR 0x0A # replicate (n + 2) (CHR '' '')
           @ py_join ('','' @ CHR 0x0A # replicate (n + 2) (CHR '' ''))
               (map (\<lambda>(k, t). json_quote True k @ '': '' @ t)
                 (sort_key fst (map (\<lambda>(k, v). (k, dumps_pretty (n + 2) v)) kvs)))
           @ CHR 0x0A # replicate n (CHR '' '') @ [CHR 0x7D])"
| "dumps_pretty n v = dumps True v"

subsection \<open>\<open>str\<close> and \<open>repr\<close>\<close>

definition repr_char :: "char \<Rightarrow> char \<Rightarrow> string" where
  "repr_char q c =
     (if c = q \<or> c = CHR 0x5C then [CHR 0x5C, c]
      else if c = CHR 0x0A then [CHR 0x5C, CHR ''n'']
      else if c = CHR 0x0D then [CHR 0x5C, CHR ''r'']
      else if c = CHR 0x09 then [CHR 0x5C, CHR ''t'']
      else if (of_char c :: nat) < 32 \<or> (of_char c :: nat) = 127
        then [CHR 0x5C, CHR ''x''] @ hex2 (of_char c)
      else [c])"

definition str_repr :: "string \<Rightarrow> string" where
  "str_repr s =
     (let q = (if CHR 0x27 \<in> set s \<and> CHR 0x22 \<notin> set s then CHR 0x22 else CHR 0x27)
      in q # concat (map (repr_char q) s) @ [q])"

fun py_repr :: "json \<Rightarrow> string" where
  "py_repr JNull = ''None''"
| "py_repr (JBool p) = (if p then ''True'' else ''False'')"
| "py_repr (JInt i) = int_str i"
| "py_repr (JFloat r) = r"
| "py_repr (JStr s) = str_repr s"
| "py_repr (JList xs) = ''['' @ py_join '', '' (map py_repr xs) @ '']''"
| "py_repr (JObj kvs) =
     CHR 0x7B # py_join '', '' (map (\<lambda>(k, v). str_repr k @ '': '' @ py_repr v) kvs) @ [CHR 0x7D]"

fun py_str :: "json \<Rightarrow> string" where
  "py_str (JStr s) = s"
| "py_str v = py_repr v"

lemma py_str_conv: "\<not> is_str v \<Longrightarrow> py_str v = py_repr v"
  by (cases v) simp_all

subsection \<open>Decoding\<close>

definition is_ws :: "char \<Rightarrow> bool" where
  "is_ws c \<longleftrightarrow> c \<in> {CHR '' '', CHR 0x09, CHR 0x0A, CHR 0x0D}"

definition skip_ws :: "string \<Rightarrow> string" where
  "skip_ws s = dropWhile is_ws s"

definition simple_escape :: "char \<Rightarrow> char option" where
  "simple_escape e =
     (if e = CHR 0x22 \<or> e = CHR 0x5C \<or> e = CHR ''/'' then Some e
      else if e = CHR ''b'' then Some (CHR 0x08)
      else if e = CHR ''f'' then Some (CHR 0x0C)
      else if e = CHR ''n'' then Some (CHR 0x0A)
      else if e = CHR ''r'' then Some (CHR 0x0D)
      else if e = CHR ''t'' then Some (CHR 0x09)
      else None)"

definition prepend :: "string \<Rightarrow> (string \<times> string) option \<Rightarrow> (string \<times> string) option" where
  "prepend p m = map_option (\<lambda>(t, r). (p @ t, r)) m"

text \<open>The rest of a string literal after its opening quote: the text and the input after it.\<close>

fun pstr :: "string \<Rightarrow> (string \<times> string) option" where
  "pstr [] = None"
| "pstr (c # s) =
     (if c = CHR 0x22 then Some ([], s)
      else if c = CHR 0x5C then
        (case s of
           [] \<Rightarrow> None
         | e # s1 \<Rightarrow>
             (case simple_escape e of
                Some d \<Rightarrow> prepend [d] (pstr s1)
              | None \<Rightarrow>
                  if e \<noteq> CHR ''u'' then None
                  else
                    (case s1 of
                       h1 # h2 # h3 # h4 # s2 \<Rightarrow>
                         (case hex4_val h1 h2 h3 h4 of
                            None \<Rightarrow> None
                          | Some n \<Rightarrow>
                              if 55296 \<le> n \<and> n < 56320 then
                                (case s2 of
                                   b # u # g1 # g2 # g3 # g4 # s3 \<Rightarrow>
                                     (case hex4_val g1 g2 g3 g4 of
                                        Some m \<Rightarrow>
                                          if b = CHR 0x5C \<and> u = CHR ''u'' \<and> 56320 \<le> m \<and> m < 57344
                                          then prepend (utf8_encode (65536 + 1024 * (n - 55296) + (m - 56320)))
                                                 (pstr s3)
                                          else prepend (utf8_encode n) (pstr s2)
                                      | None \<Rightarrow> prepend (utf8_encode n) (pstr s2))
                                 | _ \<Rightarrow> prepend (utf8_encode n) (pstr s2))
                              else prepend (utf8_encode n) (pstr s2))
                     | _ \<Rightarrow> None)))
      else if (of_char c :: nat) < 32 then None
      else prepend [c] (pstr s))"

definition digits_val :: "string \<Rightarrow> nat" where
  "digits_val s = foldl (\<lambda>n c. 10 * n + (of_char c - 48)) 0 s"

definition frac_part :: "string \<Rightarrow> string" where
  "frac_part s =
     (case s of
        d # r \<Rightarrow> if d = CHR ''.'' \<and> takeWhile is_digit r \<noteq> [] then d # takeWhile is_digit r else []
      | [] \<Rightarrow> [])"

definition exp_part :: "string \<Rightarrow> string" where
  "exp_part s =
     (case s of
        e # r \<Rightarrow>
          if e = CHR ''e'' \<or> e = CHR ''E'' then
            (let sg = (case r of c # _ \<Rightarrow> if c = CHR ''+'' \<or> c = CHR ''-'' then [c] else [] | [] \<Rightarrow> []);
                 ds = takeWhile is_digit (drop (length sg) r)
             in if ds = [] then [] else e # sg @ ds)
          else []
      | [] \<Rightarrow> [])"

definition pnum :: "string \<Rightarrow> (json \<times> string) option" where
  "pnum s =
     (let neg = (case s of c # _ \<Rightarrow> c = CHR ''-'' | [] \<Rightarrow> False);
          s1 = (if neg then tl s else s)
      in (case s1 of
            [] \<Rightarrow> None
          | d # _ \<Rightarrow>
              if \<not> is_digit d then None
              else
                (let ip = (if d = CHR ''0'' then [d] else takeWhile is_digit s1);
                     s2 = drop (length ip) s1;
                     fp = frac_part s2;
                     s3 = drop (length fp) s2;
                     ep = exp_part s3;
                     s4 = drop (length ep) s3;
                     sg = (if neg then [CHR ''-''] else [])
                 in if fp = [] \<and> ep = []
                    then Some (JInt (if neg then - int (digits_val ip) else int (digits_val ip)), s4)
                    else Some (JFloat (sg @ ip @ fp @ ep), s4))))"

text \<open>The literals \<open>null\<close>, \<open>true\<close>, \<open>false\<close> and the three non-finite floats \<open>loads\<close> accepts.\<close>

definition pliteral :: "string \<Rightarrow> (json \<times> string) option" where
  "pliteral s =
     (if startswith s ''null'' then Some (JNull, drop 4 s)
      else if startswith s ''true'' then Some (JBool True, drop 4 s)
      else if startswith s ''false'' then Some (JBool False, drop 5 s)
      else (case pnum s of
              Some r \<Rightarrow> Some r
            | None \<Rightarrow>
                if startswith s ''NaN'' then Some (JFloat ''nan'', drop 3 s)
                else if startswith s ''Infinity'' then Some (JFloat ''inf'', drop 8 s)
                else if startswith s ''-Infinity'' then Some (JFloat ''-inf'', drop 9 s)
                else None))"

text \<open>A dict built from the pairs in reading order: a repeated key keeps its place, last value.\<close>

definition dict_of :: "(string \<times> json) list \<Rightarrow> (string \<times> json) list" where
  "dict_of kvs = foldl (\<lambda>d (k, v). AList.update k v d) [] kvs"

fun pval :: "nat \<Rightarrow> string \<Rightarrow> (json \<times> string) option"
and parr :: "nat \<Rightarrow> string \<Rightarrow> (json list \<times> string) option"
and pobj :: "nat \<Rightarrow> string \<Rightarrow> ((string \<times> json) list \<times> string) option" where
  "pval 0 s = None"
| "pval (Suc f) s =
     (case s of
        [] \<Rightarrow> None
      | c # r \<Rightarrow>
          if c = CHR 0x22 then map_option (\<lambda>(t, r'). (JStr t, r')) (pstr r)
          else if c = CHR 0x7B then
            (case skip_ws r of
               [] \<Rightarrow> None
             | d # r1 \<Rightarrow>
                 if d = CHR 0x7D then Some (JObj [], r1)
                 else map_option (\<lambda>(kvs, r'). (JObj (dict_of kvs), r')) (pobj f (d # r1)))
          else if c = CHR ''['' then
            (case skip_ws r of
               [] \<Rightarrow> None
             | d # r1 \<Rightarrow>
                 if d = CHR '']'' then Some (JList [], r1)
                 else map_option (\<lambda>(vs, r'). (JList vs, r')) (parr f (d # r1)))
          else pliteral s)"
| "parr 0 s = None"
| "parr (Suc f) s =
     (case pval f s of
        None \<Rightarrow> None
      | Some (v, r) \<Rightarrow>
          (case skip_ws r of
             [] \<Rightarrow> None
           | d # r1 \<Rightarrow>
               if d = CHR '']'' then Some ([v], r1)
               else if d = CHR '','' then
                 map_option (\<lambda>(vs, r'). (v # vs, r')) (parr f (skip_ws r1))
               else None))"
| "pobj 0 s = None"
| "pobj (Suc f) s =
     (case s of
        [] \<Rightarrow> None
      | q # s1 \<Rightarrow>
          if q \<noteq> CHR 0x22 then None
          else
            (case pstr s1 of
               None \<Rightarrow> None
             | Some (k, r) \<Rightarrow>
                 (case skip_ws r of
                    [] \<Rightarrow> None
                  | d # r1 \<Rightarrow>
                      if d \<noteq> CHR '':'' then None
                      else
                        (case pval f (skip_ws r1) of
                           None \<Rightarrow> None
                         | Some (v, r2) \<Rightarrow>
                             (case skip_ws r2 of
                                [] \<Rightarrow> None
                              | e # r3 \<Rightarrow>
                                  if e = CHR 0x7D then Some ([(k, v)], r3)
                                  else if e = CHR '','' then
                                    map_option (\<lambda>(kvs, r'). ((k, v) # kvs, r')) (pobj f (skip_ws r3))
                                  else None)))))"

definition loads :: "string \<Rightarrow> json option" where
  "loads s =
     (case pval (2 * length s + 2) (skip_ws s) of
        Some (v, r) \<Rightarrow> if skip_ws r = [] then Some v else None
      | None \<Rightarrow> None)"

end
