(* ===== verification/Json_Roundtrip.thy ===== *)
theory Json_Roundtrip
  imports Json_Codec
begin

text \<open>
  The codec's round trip. \<open>canon\<close> orders every dictionary by key, which is what
  \<open>sort_keys=True\<close> does to a value that is read back. Floats are left out of \<open>plain\<close>:
  the records the program journals and digests hold none.
\<close>

fun canon :: "json \<Rightarrow> json" where
  "canon (JList xs) = JList (map canon xs)"
| "canon (JObj kvs) = JObj (sort_key fst (map (\<lambda>(k, v). (k, canon v)) kvs))"
| "canon v = v"

text \<open>No float inside, and no dictionary with a repeated key.\<close>

fun plain :: "json \<Rightarrow> bool" where
  "plain (JFloat _) = False"
| "plain (JList xs) = list_all plain xs"
| "plain (JObj kvs) = (distinct (map fst kvs) \<and> list_all (\<lambda>(k, v). plain v) kvs)"
| "plain _ = True"

subsection \<open>Strings\<close>

lemma char_le_iff: "(c :: char) \<le> d \<longleftrightarrow> (of_char c :: nat) \<le> of_char d"
  by (simp add: less_eq_char_def)

lemma hex_val_digit: "n < 16 \<Longrightarrow> hex_val (hex_digit n) = Some n"
  by (auto simp: hex_val_def hex_digit_def char_le_iff)

lemma hex4_val_hex4:
  assumes "n < 256"
  shows "\<exists>a b c d. hex4 n = [a, b, c, d] \<and> hex4_val a b c d = Some n"
proof -
  have "n div 16 < 16" using assms by simp
  then have "n div 16 mod 16 = n div 16" by simp
  moreover have "16 * (n div 16) + n mod 16 = n" by simp
  ultimately show ?thesis
    using assms by (auto simp: hex4_def hex2_def hex_val_digit)
qed

lemma prepend_simps [simp]:
  "prepend p None = None" "prepend p (Some (t, r)) = Some (p @ t, r)"
  by (simp_all add: prepend_def)

lemma pstr_esc_char: "pstr (esc_char c @ s) = prepend [c] (pstr s)"
proof -
  obtain a b c' d where h: "hex4 (of_char c) = [a, b, c', d]"
    and v: "hex4_val a b c' d = Some (of_char c)"
    using hex4_val_hex4 [of "of_char c"] nat_of_char_less_256 [of c] by auto
  have small: "(of_char c :: nat) < 32 \<Longrightarrow> utf8_encode (of_char c) = [c]"
    by (simp add: utf8_encode_def)
  show ?thesis
    using h v small
    by (auto simp: esc_char_def simple_escape_def simp del: hex4_val.simps)
qed

lemma pstr_json_quote:
  "pstr (concat (map esc_char s) @ CHR 0x22 # rest) = Some (s, rest)"
  by (induction s) (auto simp: pstr_esc_char simp del: pstr.simps(2), simp)

subsection \<open>Numbers\<close>

text \<open>What may follow a value inside a document: nothing, or a character no number continues with.\<close>

definition delim :: "string \<Rightarrow> bool" where
  "delim s \<longleftrightarrow> (case s of [] \<Rightarrow> True | c # _ \<Rightarrow> c = CHR '','' \<or> c = CHR '']'' \<or> c = CHR 0x7D \<or> c = CHR 0x0A)"

lemma is_digit_char_of: "(n :: nat) < 10 \<Longrightarrow> is_digit (char_of (48 + n))"
  by (simp add: is_digit_def char_le_iff)

lemma nat_str_digits: "list_all is_digit (nat_str n)"
proof (induction n rule: nat_str.induct)
  case (1 n)
  then show ?case
    by (simp add: nat_str.simps [of n] is_digit_char_of)
qed

lemma digits_val_snoc: "digits_val (s @ [c]) = 10 * digits_val s + (of_char c - 48)"
  by (simp add: digits_val_def)

lemma digits_val_nat_str: "digits_val (nat_str n) = n"
proof (induction n rule: nat_str.induct)
  case (1 n)
  show ?case
  proof (cases "n < 10")
    case True
    then show ?thesis by (simp add: nat_str.simps [of n] digits_val_def)
  next
    case False
    with 1 show ?thesis by (simp add: nat_str.simps [of n] digits_val_snoc)
  qed
qed

lemma nat_str_head: "\<exists>c r. nat_str n = c # r \<and> is_digit c \<and> (c = CHR ''0'' \<longrightarrow> r = [])"
proof (induction n rule: nat_str.induct)
  case (1 n)
  show ?case
  proof (cases "n < 10")
    case True
    then show ?thesis by (auto simp: nat_str.simps [of n] is_digit_char_of)
  next
    case False
    with 1 obtain c r where h: "nat_str (n div 10) = c # r" "is_digit c" "c = CHR ''0'' \<longrightarrow> r = []"
      by blast
    have "c \<noteq> CHR ''0''"
    proof
      assume "c = CHR ''0''"
      with h have "nat_str (n div 10) = ''0''" by simp
      then have "n div 10 = 0"
        using digits_val_nat_str [of "n div 10"] by (simp add: digits_val_def)
      with False show False by simp
    qed
    with h False show ?thesis by (simp add: nat_str.simps [of n])
  qed
qed

lemma delim_parts:
  assumes "delim rest"
  shows "list_all is_digit ds \<Longrightarrow> takeWhile is_digit (ds @ rest) = ds" "frac_part rest = []" "exp_part rest = []"
  using assms
  by (auto simp: delim_def list_all_iff is_digit_def char_le_iff frac_part_def exp_part_def
           split: list.splits)

lemma pnum_nat_str:
  assumes "delim rest"
  shows "pnum (nat_str n @ rest) = Some (JInt (int n), rest)"
    and "pnum (CHR ''-'' # nat_str n @ rest) = Some (JInt (- int n), rest)"
proof -
  obtain c r where h: "nat_str n = c # r" "is_digit c" "c = CHR ''0'' \<longrightarrow> r = []"
    using nat_str_head by blast
  have all: "list_all is_digit (c # r)" using nat_str_digits [of n] h by simp
  then have tw: "takeWhile is_digit ((c # r) @ rest) = c # r"
    by (rule delim_parts(1) [OF assms])
  have val: "digits_val (c # r) = n" using digits_val_nat_str [of n] h by simp
  have neg: "c \<noteq> CHR ''-''" using h(2) by (auto simp: is_digit_def char_le_iff)
  show "pnum (nat_str n @ rest) = Some (JInt (int n), rest)"
    using h tw val neg delim_parts(2,3) [OF assms] by (auto simp: pnum_def Let_def)
  show "pnum (CHR ''-'' # nat_str n @ rest) = Some (JInt (- int n), rest)"
    using h tw val delim_parts(2,3) [OF assms] by (auto simp: pnum_def Let_def)
qed

lemma pliteral_pnum:
  assumes "is_digit c \<or> c = CHR ''-''" and "pnum (c # s) = Some r"
  shows "pliteral (c # s) = Some r"
proof -
  have "c \<noteq> CHR ''n''" "c \<noteq> CHR ''t''" "c \<noteq> CHR ''f''"
    using assms(1) by (auto simp: is_digit_def char_le_iff)
  with assms(2) show ?thesis by (simp add: pliteral_def)
qed

lemma pliteral_int_str:
  assumes "delim rest"
  shows "pliteral (int_str i @ rest) = Some (JInt i, rest)"
proof (cases "i < 0")
  case True
  then show ?thesis
    using pnum_nat_str(2) [OF assms, of "nat (- i)"] by (simp add: int_str_def pliteral_pnum)
next
  case False
  obtain c r where h: "nat_str (nat i) = c # r" "is_digit c"
    using nat_str_head by blast
  with False pnum_nat_str(1) [OF assms, of "nat i"] show ?thesis
    by (simp add: int_str_def pliteral_pnum)
qed

subsection \<open>Dictionaries\<close>

lemma update_fresh: "k \<notin> fst ` set d \<Longrightarrow> AList.update k v d = d @ [(k, v)]"
  by (induction d) auto

lemma foldl_update_distinct:
  "distinct (map fst kvs) \<Longrightarrow> fst ` set kvs \<inter> fst ` set d = {} \<Longrightarrow>
   foldl (\<lambda>d (k, v). AList.update k v d) d kvs = d @ kvs"
proof (induction kvs arbitrary: d)
  case Nil
  then show ?case by simp
next
  case (Cons kv kvs)
  obtain k v where kv: "kv = (k, v)" by (cases kv)
  have "AList.update k v d = d @ [(k, v)]"
    using Cons.prems kv by (intro update_fresh) auto
  moreover have "foldl (\<lambda>d (k, v). AList.update k v d) (d @ [(k, v)]) kvs = (d @ [(k, v)]) @ kvs"
    using Cons.prems kv by (intro Cons.IH) auto
  ultimately show ?case using kv by simp
qed

lemma dict_of_distinct: "distinct (map fst kvs) \<Longrightarrow> dict_of kvs = kvs"
  by (simp add: dict_of_def foldl_update_distinct)

lemma insort_map_val:
  "insort_key fst (k, g v) (map (\<lambda>(k, v). (k, g v)) xs) = map (\<lambda>(k, v). (k, g v)) (insort_key fst (k, v) xs)"
  by (induction xs) auto

lemma sort_map_val:
  "sort_key fst (map (\<lambda>(k, v). (k, g v)) xs) = map (\<lambda>(k, v). (k, g v)) (sort_key fst xs)"
  by (induction xs) (auto simp: insort_map_val)

lemma map_fst_sort: "map fst (sort_key fst kvs) = sort (map fst kvs)"
proof -
  have ins: "map fst (insort_key fst kv xs) = insort (fst kv) (map fst xs)" for kv and xs :: "('a \<times> 'b) list"
    by (induction xs) auto
  show ?thesis by (induction kvs) (auto simp: ins)
qed

lemma distinct_sort_keys: "distinct (map fst (sort_key fst kvs)) = distinct (map fst kvs)"
  by (simp add: map_fst_sort)

subsection \<open>Documents\<close>

definition entry_text :: "string \<times> json \<Rightarrow> string" where
  "entry_text kv = json_quote False (fst kv) @ '':'' @ dumps False (snd kv)"

lemma dumps_JObj:
  "dumps False (JObj kvs) = CHR 0x7B # py_join '','' (map entry_text (sort_key fst kvs)) @ [CHR 0x7D]"
proof -
  have "map (\<lambda>(k, t). json_quote False k @ '':'' @ t)
      (sort_key fst (map (\<lambda>(k, v). (k, dumps False v)) kvs)) = map entry_text (sort_key fst kvs)"
    unfolding sort_map_val by (simp add: entry_text_def case_prod_beta')
  then show ?thesis by simp
qed

definition reads :: "json \<Rightarrow> bool" where
  "reads v \<longleftrightarrow> (\<forall>f rest. delim rest \<longrightarrow> 2 * length (dumps False v) \<le> f \<longrightarrow>
     pval f (dumps False v @ rest) = Some (canon v, rest))"

lemma readsD:
  "reads v \<Longrightarrow> delim rest \<Longrightarrow> 2 * length (dumps False v) \<le> f \<Longrightarrow>
   pval f (dumps False v @ rest) = Some (canon v, rest)"
  by (simp add: reads_def)

lemma dumps_head:
  assumes "plain v"
  shows "\<exists>c r. dumps False v = c # r \<and> \<not> is_ws c \<and> c \<noteq> CHR '']'' \<and> c \<noteq> CHR 0x7D"
proof (cases v)
  case (JInt i)
  obtain c r where "nat_str (nat i) = c # r" "is_digit c"
    using nat_str_head by blast
  with JInt show ?thesis
    by (cases "i < 0") (auto simp: int_str_def is_ws_def is_digit_def char_le_iff)
qed (use assms in \<open>auto simp: json_quote_def is_ws_def\<close>)

lemma skip_ws_head: "\<not> is_ws c \<Longrightarrow> skip_ws (c # r) = c # r"
  by (simp add: skip_ws_def)

lemma skip_ws_dumps [simp]: "plain v \<Longrightarrow> skip_ws (dumps False v @ r) = dumps False v @ r"
  using dumps_head [of v] by (auto simp: skip_ws_head)

lemma skip_ws_marks [simp]:
  "skip_ws (CHR '','' # r) = CHR '','' # r" "skip_ws (CHR '']'' # r) = CHR '']'' # r"
  "skip_ws (CHR 0x7D # r) = CHR 0x7D # r" "skip_ws (CHR '':'' # r) = CHR '':'' # r"
  "skip_ws (CHR 0x22 # r) = CHR 0x22 # r"
  by (simp_all add: skip_ws_head is_ws_def)

lemma delim_marks [simp]:
  "delim []" "delim (CHR '','' # r)" "delim (CHR '']'' # r)" "delim (CHR 0x7D # r)"
  by (simp_all add: delim_def)

lemma py_join_Cons: "xs \<noteq> [] \<Longrightarrow> py_join sep (x # xs) = x @ sep @ py_join sep xs"
  by (cases xs) simp_all

lemma parr_dumps:
  assumes "vs \<noteq> []" and "\<forall>v \<in> set vs. plain v \<and> reads v"
    and "2 * length (py_join '','' (map (dumps False) vs)) + 1 \<le> f"
  shows "parr f (py_join '','' (map (dumps False) vs) @ CHR '']'' # rest) = Some (map canon vs, rest)"
  using assms
proof (induction vs arbitrary: f)
  case Nil
  then show ?case by simp
next
  case (Cons v vs)
  from Cons.prems obtain f' where f: "f = Suc f'" by (cases f) auto
  show ?case
  proof (cases "vs = []")
    case True
    with Cons.prems f show ?thesis by (simp add: readsD)
  next
    case False
    have "parr f' (py_join '','' (map (dumps False) vs) @ CHR '']'' # rest) = Some (map canon vs, rest)"
      using Cons.prems False f by (intro Cons.IH) (auto simp: py_join_Cons)
    moreover have "skip_ws (py_join '','' (map (dumps False) vs) @ CHR '']'' # rest)
        = py_join '','' (map (dumps False) vs) @ CHR '']'' # rest"
      using False Cons.prems by (cases vs; cases "tl vs") auto
    ultimately show ?thesis
      using Cons.prems False f by (simp add: py_join_Cons readsD)
  qed
qed

lemma pobj_entry:
  assumes "plain v" and "reads v" and "2 * length (entry_text (k, v)) \<le> f" and "delim rest"
  shows "pobj (Suc f) (entry_text (k, v) @ rest) =
    (case skip_ws rest of
       [] \<Rightarrow> None
     | e # r3 \<Rightarrow>
         if e = CHR 0x7D then Some ([(k, canon v)], r3)
         else if e = CHR '','' then
           map_option (\<lambda>(kvs, r'). ((k, canon v) # kvs, r')) (pobj f (skip_ws r3))
         else None)"
  using assms
  by (simp add: entry_text_def json_quote_def pstr_json_quote readsD cong: list.case_cong)

lemma skip_ws_entries:
  "kvs \<noteq> [] \<Longrightarrow> skip_ws (py_join '','' (map entry_text kvs) @ r) = py_join '','' (map entry_text kvs) @ r"
  by (cases kvs; cases "tl kvs") (auto simp: entry_text_def json_quote_def)

lemma pobj_dumps:
  assumes "kvs \<noteq> []" and "\<forall>(k, v) \<in> set kvs. plain v \<and> reads v"
    and "2 * length (py_join '','' (map entry_text kvs)) + 1 \<le> f"
  shows "pobj f (py_join '','' (map entry_text kvs) @ CHR 0x7D # rest) =
    Some (map (\<lambda>(k, v). (k, canon v)) kvs, rest)"
  using assms
proof (induction kvs arbitrary: f)
  case Nil
  then show ?case by simp
next
  case (Cons kv kvs)
  obtain k v where kv: "kv = (k, v)" by (cases kv)
  from Cons.prems obtain f' where f: "f = Suc f'" by (cases f) auto
  show ?case
  proof (cases "kvs = []")
    case True
    with Cons.prems f kv show ?thesis by (simp add: pobj_entry del: pobj.simps(2))
  next
    case False
    have "pobj f' (py_join '','' (map entry_text kvs) @ CHR 0x7D # rest) =
        Some (map (\<lambda>(k, v). (k, canon v)) kvs, rest)"
      using Cons.prems False f by (intro Cons.IH) (auto simp: py_join_Cons)
    then show ?thesis
      using Cons.prems False f kv 
      by (simp add: py_join_Cons pobj_entry skip_ws_entries del: pobj.simps(2))
  qed
qed

lemma canon_JObj: "canon (JObj kvs) = JObj (map (\<lambda>(k, v). (k, canon v)) (sort_key fst kvs))"
  by (simp add: sort_map_val)

lemma pval_open:
  "pval (Suc f) (CHR ''['' # s) =
     (case skip_ws s of
        [] \<Rightarrow> None
      | d # r1 \<Rightarrow>
          if d = CHR '']'' then Some (JList [], r1)
          else map_option (\<lambda>(vs, r'). (JList vs, r')) (parr f (skip_ws s)))"
  "pval (Suc f) (CHR 0x7B # s) =
     (case skip_ws s of
        [] \<Rightarrow> None
      | d # r1 \<Rightarrow>
          if d = CHR 0x7D then Some (JObj [], r1)
          else map_option (\<lambda>(kvs, r'). (JObj (dict_of kvs), r')) (pobj f (skip_ws s)))"
  by (auto split: list.splits)

lemma reads_JList:
  assumes "\<forall>v \<in> set vs. plain v \<and> reads v"
  shows "reads (JList vs)"
  unfolding reads_def
proof (intro allI impI)
  fix f rest
  assume "2 * length (dumps False (JList vs)) \<le> f" and "delim rest"
  then obtain f' where f: "f = Suc f'" "2 * length (py_join '','' (map (dumps False) vs)) + 1 \<le> f'"
    by (cases f) auto
  show "pval f (dumps False (JList vs) @ rest) = Some (canon (JList vs), rest)"
  proof (cases "vs = []")
    case True
    then show ?thesis by (simp add: f pval_open(1) del: pval.simps(2))
  next
    case False
    then obtain v ws where vs: "vs = v # ws" by (cases vs) auto
    obtain c r where c: "dumps False v = c # r" "\<not> is_ws c" "c \<noteq> CHR '']''"
      using dumps_head [of v] assms vs by auto
    then obtain r' where t: "py_join '','' (map (dumps False) vs) @ CHR '']'' # rest = c # r'"
      using vs by (cases ws) auto
    then show ?thesis
      using parr_dumps [OF False assms f(2), of rest] c f
      by (simp add: pval_open(1) skip_ws_head del: pval.simps(2) parr.simps(2))
  qed
qed

lemma reads_JObj:
  assumes "\<forall>(k, v) \<in> set kvs. plain v \<and> reads v" and "distinct (map fst kvs)"
  shows "reads (JObj kvs)"
  unfolding reads_def
proof (intro allI impI)
  fix f rest
  let ?s = "sort_key fst kvs"
  assume "2 * length (dumps False (JObj kvs)) \<le> f" and "delim rest"
  then obtain f' where f: "f = Suc f'" "2 * length (py_join '','' (map entry_text ?s)) + 1 \<le> f'"
    unfolding dumps_JObj by (cases f) auto
  show "pval f (dumps False (JObj kvs) @ rest) = Some (canon (JObj kvs), rest)"
  proof (cases "?s = []")
    case True
    then show ?thesis by (simp add: f dumps_JObj canon_JObj pval_open(2) del: pval.simps(2) dumps.simps(7) canon.simps(2))
  next
    case False
    then obtain kv ws where s: "?s = kv # ws" by (cases ?s) auto
    obtain r' where t: "py_join '','' (map entry_text ?s) @ CHR 0x7D # rest = CHR 0x22 # r'"
      using s by (cases ws) (auto simp: entry_text_def json_quote_def)
    have d: "dict_of (map (\<lambda>(k, v). (k, canon v)) ?s) = map (\<lambda>(k, v). (k, canon v)) ?s"
      using assms(2) by (intro dict_of_distinct) (simp add: comp_def case_prod_beta' distinct_sort_keys)
    have p: "\<forall>(k, v) \<in> set ?s. plain v \<and> reads v" using assms(1) by simp
    show ?thesis
      using pobj_dumps [OF False p f(2), of rest] t d f
      by (simp add: dumps_JObj canon_JObj pval_open(2) del: pval.simps(2) pobj.simps(2) dumps.simps(7) canon.simps(2))
  qed
qed

lemma reads_Suc:
  assumes "dumps False v \<noteq> []"
    and "\<And>f rest. delim rest \<Longrightarrow> pval (Suc f) (dumps False v @ rest) = Some (canon v, rest)"
  shows "reads v"
  unfolding reads_def
proof (intro allI impI)
  fix f rest
  assume "delim rest" and "2 * length (dumps False v) \<le> f"
  with assms(1) obtain f' where "f = Suc f'" by (cases f) auto
  with assms(2) \<open>delim rest\<close> show "pval f (dumps False v @ rest) = Some (canon v, rest)" by simp
qed

lemma reads_plain: "plain v \<Longrightarrow> reads v"
proof (induction v)
  case JNull
  show ?case by (rule reads_Suc) (simp_all add: pliteral_def)
next
  case (JBool b)
  show ?case by (rule reads_Suc) (cases b; simp add: pliteral_def)+
next
  case (JInt i)
  show ?case
  proof (rule reads_Suc)
    show "dumps False (JInt i) \<noteq> []"
      using nat_str_head [of "nat i"] by (auto simp: int_str_def)
  next
    fix f rest
    assume "delim rest"
    obtain c r where c: "int_str i @ rest = c # r" "is_digit c \<or> c = CHR ''-''"
      using nat_str_head [of "nat i"] by (cases "i < 0") (auto simp: int_str_def)
    then have "c \<noteq> CHR 0x22" "c \<noteq> CHR 0x7B" "c \<noteq> CHR ''[''"
      by (auto simp: is_digit_def char_le_iff)
    then show "pval (Suc f) (dumps False (JInt i) @ rest) = Some (canon (JInt i), rest)"
      using pliteral_int_str [OF \<open>delim rest\<close>, of i] c by simp
  qed
next
  case (JStr s)
  show ?case by (rule reads_Suc) (simp_all add: json_quote_def pstr_json_quote)
next
  case (JList vs)
  then show ?case by (intro reads_JList) (auto simp: list_all_iff)
next
  case (JObj kvs)
  then show ?case by (intro reads_JObj) (auto simp: list_all_iff)
qed simp

lemma loads_dumps: "plain v \<Longrightarrow> loads (dumps False v) = Some (canon v)"
  using readsD [OF reads_plain, of v "[]" "2 * length (dumps False v) + 2"] skip_ws_dumps [of v "[]"]
  by (simp add: loads_def skip_ws_def)

subsection \<open>Shape of the encoded text\<close>

definition line_char :: "char \<Rightarrow> bool" where
  "line_char c \<longleftrightarrow> c \<noteq> CHR 0x0A \<and> c \<noteq> CHR 0x0D"

lemma line_char_code: "line_char c \<longleftrightarrow> of_char c \<noteq> (10 :: nat) \<and> of_char c \<noteq> (13 :: nat)"
proof -
  have "(10 :: nat) = of_char (CHR 0x0A)" "(13 :: nat) = of_char (CHR 0x0D)" by simp_all
  then show ?thesis unfolding line_char_def by (metis of_char_eq_iff)
qed

lemma line_char_marks [simp]:
  "line_char (CHR '','')" "line_char (CHR ''['')" "line_char (CHR '']'')" "line_char (CHR '':'')"
  "line_char (CHR 0x7B)" "line_char (CHR 0x7D)" "line_char (CHR 0x22)" "line_char (CHR ''-'')"
  by (simp_all add: line_char_def)

lemma hex_digit_line: "n < 16 \<Longrightarrow> line_char (hex_digit n)"
  by (simp add: line_char_code hex_digit_def)

lemma esc_char_line: "list_all line_char (esc_char c)"
proof -
  have "n mod 256 div 16 < 16" for n :: nat
    using mod_less_divisor [of 256 n] by linarith
  then have "list_all line_char (hex4 n)" for n
    by (simp add: hex4_def hex2_def hex_digit_line)
  then show ?thesis by (auto simp: esc_char_def line_char_def)
qed

lemma json_quote_line: "list_all line_char (json_quote False s)"
  using esc_char_line by (auto simp: json_quote_def list_all_iff line_char_def)

lemma py_join_all: "list_all P sep \<Longrightarrow> \<forall>x \<in> set xs. list_all P x \<Longrightarrow> list_all P (py_join sep xs)"
  by (induction sep xs rule: py_join.induct) auto

lemma nat_str_line: "list_all line_char (nat_str n)"
  using nat_str_digits [of n]
  by (auto simp: list_all_iff line_char_def is_digit_def char_le_iff)

lemma dumps_line: "plain v \<Longrightarrow> list_all line_char (dumps False v)"
proof (induction v)
  case (JInt i)
  show ?case by (simp add: int_str_def nat_str_line)
next
  case (JList vs)
  then have "list_all line_char (py_join '','' (map (dumps False) vs))"
    by (intro py_join_all) (auto simp: list_all_iff)
  then show ?case by simp
next
  case (JObj kvs)
  have "list_all line_char (py_join '','' (map entry_text (sort_key fst kvs)))"
  proof (rule py_join_all)
    have "list_all line_char (entry_text (k, w))" if "(k, w) \<in> set kvs" for k w
    proof -
      from JObj.prems that have "plain w" by (auto simp: list_all_iff)
      with JObj.IH [of "(k, w)" w] that show ?thesis by (simp add: entry_text_def json_quote_line)
    qed
    then show "\<forall>x \<in> set (map entry_text (sort_key fst kvs)). list_all line_char x" by auto
  qed simp
  then show ?case unfolding dumps_JObj by simp
qed (use json_quote_line in \<open>auto simp: line_char_def\<close>)

lemma dumps_nonempty: "plain v \<Longrightarrow> dumps False v \<noteq> []"
  using dumps_head by fastforce

subsection \<open>Canonical values keep their content\<close>

lemma map_of_sort_key: "distinct (map fst kvs) \<Longrightarrow> map_of (sort_key fst kvs) = map_of kvs"
  by (intro map_of_inject_set [THEN iffD2]) (simp_all add: distinct_sort_keys)

lemma jlookup_canon:
  assumes "plain v"
  shows "jlookup (canon v) k = map_option canon (jlookup v k)"
proof (cases v)
  case (JObj kvs)
  with assms have "map_of (sort_key fst kvs) = map_of kvs"
    by (intro map_of_sort_key) simp
  then show ?thesis
    unfolding JObj canon_JObj jlookup_JObj by (simp add: map_of_map)
qed (simp_all add: jlookup_def)

lemma canon_atoms [simp]:
  "canon v = JNull \<longleftrightarrow> v = JNull" "canon v = JStr s \<longleftrightarrow> v = JStr s" "canon v = JInt i \<longleftrightarrow> v = JInt i"
  "canon v = JBool b \<longleftrightarrow> v = JBool b"
  by (cases v; simp)+

lemma is_kind_canon [simp]:
  "is_obj (canon v) = is_obj v" "is_str (canon v) = is_str v" "is_list (canon v) = is_list v"
  "is_bool (canon v) = is_bool v" "is_int (canon v) = is_int v" "int_of (canon v) = int_of v"
  by (cases v; simp)+

lemma jget_canon: "plain v \<Longrightarrow> jget (canon v) k = canon (jget v k)"
  by (simp add: jget_def jget_or_def jlookup_canon split: option.splits)

lemma plain_canon: "plain v \<Longrightarrow> plain (canon v)"
proof (induction v)
  case (JObj kvs)
  then have "distinct (map fst (sort_key fst (map (\<lambda>(k, v). (k, canon v)) kvs)))"
    by (simp add: distinct_sort_keys comp_def case_prod_beta')
  with JObj show ?case by (auto simp: list_all_iff)
qed (auto simp: list_all_iff)

subsection \<open>Plain ASCII text\<close>

fun ascii_json :: "json \<Rightarrow> bool" where
  "ascii_json (JStr s) = list_all ascii s"
| "ascii_json (JList xs) = list_all ascii_json xs"
| "ascii_json (JObj kvs) = list_all (\<lambda>(k, v). list_all ascii k \<and> ascii_json v) kvs"
| "ascii_json _ = True"

lemma ascii_marks [simp]:
  "ascii (CHR 0x22)" "ascii (CHR 0x5C)" "ascii (CHR '','')" "ascii (CHR '':'')" "ascii (CHR ''['')"
  "ascii (CHR '']'')" "ascii (CHR 0x7B)" "ascii (CHR 0x7D)" "ascii (CHR ''-'')"
  by (simp_all add: ascii_def)

lemma hex_digit_ascii: "n < 16 \<Longrightarrow> ascii (hex_digit n)"
  by (auto simp: hex_digit_def ascii_def)

lemma esc_char_ascii: "ascii c \<Longrightarrow> list_all ascii (esc_char c)"
  by (auto simp: esc_char_def hex4_def hex2_def hex_digit_ascii) (simp_all add: ascii_def)

lemma json_quote_ascii: "list_all ascii s \<Longrightarrow> list_all ascii (json_quote False s)"
  using esc_char_ascii by (fastforce simp: json_quote_def list_all_iff)

lemma nat_str_ascii: "list_all ascii (nat_str n)"
  using nat_str_digits [of n] by (fastforce simp: list_all_iff ascii_def is_digit_def char_le_iff)

lemma dumps_ascii: "plain v \<Longrightarrow> ascii_json v \<Longrightarrow> list_all ascii (dumps False v)"
proof (induction v)
  case JNull
  show ?case by (simp add: ascii_def)
next
  case (JBool b)
  show ?case by (simp add: ascii_def)
next
  case (JInt i)
  show ?case by (simp add: int_str_def nat_str_ascii)
next
  case (JFloat r)
  then show ?case by simp
next
  case (JStr s)
  then show ?case by (simp add: json_quote_ascii)
next
  case (JList vs)
  then have "list_all ascii (py_join '','' (map (dumps False) vs))"
    by (intro py_join_all) (auto simp: list_all_iff)
  then show ?case by simp
next
  case (JObj kvs)
  have "list_all ascii (py_join '','' (map entry_text (sort_key fst kvs)))"
  proof (rule py_join_all)
    have "list_all ascii (entry_text (k, w))" if "(k, w) \<in> set kvs" for k w
    proof -
      from JObj.prems that have "plain w" "ascii_json w" "list_all ascii k" by (auto simp: list_all_iff)
      with JObj.IH [of "(k, w)" w] that show ?thesis by (simp add: entry_text_def json_quote_ascii)
    qed
    then show "\<forall>x \<in> set (map entry_text (sort_key fst kvs)). list_all ascii x" by auto
  qed simp
  then show ?case unfolding dumps_JObj by simp
qed

lemma utf8_valid_dumps: "plain v \<Longrightarrow> ascii_json v \<Longrightarrow> utf8_valid (dumps False v)"
  by (simp add: utf8_valid_ascii dumps_ascii)

lemma dumps_canon: "plain v \<Longrightarrow> dumps b (canon v) = dumps b v"
proof (induction v)
  case (JList vs)
  then have "map (dumps b \<circ> canon) vs = map (dumps b) vs" by (auto simp: list_all_iff)
  then show ?case by (simp only: canon.simps dumps.simps map_map)
next
  case (JObj kvs)
  have idem: "sort_key fst (map (\<lambda>(k, v). (k, dumps b v)) (sort_key fst Z))
      = sort_key fst (map (\<lambda>(k, v). (k, dumps b v)) Z)" for Z :: "(string \<times> json) list"
    unfolding sort_map_val by (simp add: sort_key_id_if_sorted)
  note idem [of "map (\<lambda>(k, v). (k, canon v)) kvs"]
  also have "map (\<lambda>(k, v). (k, dumps b v)) (map (\<lambda>(k, v). (k, canon v)) kvs)
      = map (\<lambda>(k, v). (k, dumps b v)) kvs"
    using JObj by (fastforce simp: list_all_iff)
  finally show ?case by (simp only: canon.simps dumps.simps)
qed simp_all

end
