(* ===== verification/Util.thy ===== *)
theory Util
  imports Json_Roundtrip
begin

text \<open>
  \<open>util.py\<close>: safe identifiers, slugs and canonical JSON. SHA-256 comes from \<open>hashlib\<close>; it
  is a parameter of the definitions that use it.
\<close>

subsection \<open>Identifiers\<close>

definition id_start :: "char \<Rightarrow> bool" where
  "id_start c \<longleftrightarrow> is_alpha c \<or> is_digit c"

definition id_char :: "char \<Rightarrow> bool" where
  "id_char c \<longleftrightarrow> id_start c \<or> c = CHR ''_'' \<or> c = CHR ''.'' \<or> c = CHR ''-''"

text \<open>\<open>SAFE_ID.fullmatch\<close> for \<open>^[A-Za-z0-9][A-Za-z0-9_.-]{0,127}$\<close>.\<close>

fun SAFE_ID :: "string \<Rightarrow> bool" where
  "SAFE_ID [] = False"
| "SAFE_ID (c # r) = (id_start c \<and> list_all id_char r \<and> length r \<le> 127)"

definition validate_id :: "string \<Rightarrow> string \<Rightarrow> string result" where
  "validate_id v label =
     (if \<not> SAFE_ID v
      then Inl (WorkflowError (''invalid '' @ label @ '': '' @ str_repr v
             @ ''; use letters, digits, '' @ str_repr ''.'' @ '', '' @ str_repr ''_''
             @ '' or '' @ str_repr ''-''))
      else Inr v)"

lemma validate_id_Inr [simp]: "validate_id v label = Inr w \<longleftrightarrow> SAFE_ID v \<and> w = v"
  by (auto simp: validate_id_def)

definition slug_char :: "char \<Rightarrow> bool" where
  "slug_char c \<longleftrightarrow> (CHR ''a'' \<le> c \<and> c \<le> CHR ''z'') \<or> is_digit c"

text \<open>\<open>re.sub(r"[^a-z0-9]+", "-", s)\<close>: each maximal run of other characters is one dash.\<close>

fun sub_runs :: "bool \<Rightarrow> string \<Rightarrow> string" where
  "sub_runs inside [] = []"
| "sub_runs inside (c # s) =
     (if slug_char c then c # sub_runs False s
      else if inside then sub_runs True s
      else CHR ''-'' # sub_runs True s)"

definition strip_dash :: "string \<Rightarrow> string" where
  "strip_dash s = rev (dropWhile (\<lambda>c. c = CHR ''-'') (rev (dropWhile (\<lambda>c. c = CHR ''-'') s)))"

definition slug :: "string \<Rightarrow> string result" where
  "slug v =
     (let r = strip_dash (sub_runs False (py_lower v))
      in if r = [] then Inl (WorkflowError (''cannot derive slug from '' @ str_repr v))
         else Inr (take 96 r))"

subsection \<open>Canonical JSON\<close>

definition canonical_json_bytes :: "json \<Rightarrow> bool \<Rightarrow> bool \<Rightarrow> string" where
  "canonical_json_bytes v ensure_ascii trailing_newline =
     dumps ensure_ascii v @ (if trailing_newline then [CHR 0x0A] else [])"

definition canonical_json_sha256 :: "(string \<Rightarrow> string) \<Rightarrow> json \<Rightarrow> bool \<Rightarrow> string" where
  "canonical_json_sha256 sha256 v ensure_ascii = sha256 (canonical_json_bytes v ensure_ascii False)"

subsection \<open>Properties\<close>

lemma SAFE_ID_length: "SAFE_ID s \<Longrightarrow> 0 < length s \<and> length s \<le> 128"
  by (cases s) auto

lemma slug_char_id: "slug_char c \<Longrightarrow> id_start c"
  by (auto simp: slug_char_def id_start_def is_alpha_def)

lemma sub_runs_chars: "list_all (\<lambda>c. slug_char c \<or> c = CHR ''-'') (sub_runs b s)"
  by (induction b s rule: sub_runs.induct) auto

lemma strip_dash_hd: "strip_dash s = c # r \<Longrightarrow> c \<noteq> CHR ''-'' \<and> set (c # r) \<subseteq> set s"
proof -
  assume a: "strip_dash s = c # r"
  let ?D = "\<lambda>c. c = CHR ''-''"
  let ?u = "dropWhile ?D s"
  have sub: "set (strip_dash s) \<subseteq> set s"
    unfolding strip_dash_def by (auto dest!: set_dropWhileD)
  have "?u \<noteq> []"
  proof
    assume "?u = []"
    then have "strip_dash s = []" by (simp only: strip_dash_def dropWhile.simps rev.simps)
    with a show False by simp
  qed
  then have h: "\<not> ?D (hd ?u)" by (rule hd_dropWhile)
  obtain v where "?u = strip_dash s @ v"
    unfolding strip_dash_def by (metis rev_append rev_rev_ident takeWhile_dropWhile_id)
  with a h have "c \<noteq> CHR ''-''" by simp
  with sub a show ?thesis by simp
qed

text \<open>
  \<open>slug\<close> always produces an identifier that \<open>validate_id\<close> accepts, at most 96 characters
  long, whatever the text it is derived from.
\<close>

theorem slug_is_safe_id:
  assumes "slug v = Inr s"
  shows "SAFE_ID s \<and> length s \<le> 96 \<and> validate_id s label = Inr s"
proof -
  obtain c r where t: "strip_dash (sub_runs False (py_lower v)) = c # r" and s: "s = take 96 (c # r)"
    using assms by (auto simp: slug_def Let_def neq_Nil_conv split: if_splits)
  from strip_dash_hd [OF t] have ne: "c \<noteq> CHR ''-''"
    and sub: "set (c # r) \<subseteq> set (sub_runs False (py_lower v))" by blast+
  have all: "\<forall>d \<in> set (c # r). slug_char d \<or> d = CHR ''-''"
    using sub sub_runs_chars [of False "py_lower v"] by (auto simp: list_all_iff)
  have "id_start c" using all ne slug_char_id by auto
  moreover have "list_all id_char (take 95 r)"
    using all slug_char_id by (auto simp: list_all_iff id_char_def dest!: in_set_takeD)
  ultimately have "SAFE_ID s" by (simp add: s take_Cons')
  moreover have "length s \<le> 96" by (simp add: s)
  ultimately show ?thesis by simp
qed

theorem slug_is_safe_id_witness:
  "slug ''Fix the Parser!'' = Inr ''fix-the-parser'' \<and> SAFE_ID ''fix-the-parser''"
proof -
  have "slug ''Fix the Parser!'' = Inr ''fix-the-parser''" by code_simp
  with slug_is_safe_id [OF this] show ?thesis by simp
qed

text \<open>
  Canonical JSON identifies values: the canonical UTF-8 bytes of a value read back as the
  value with its keys in order, and two values have the same canonical bytes exactly when they
  differ in key order only. Digests over these bytes therefore identify values.
\<close>

theorem canonical_json_identifies:
  assumes "plain v" and "plain w"
  shows "loads (canonical_json_bytes v False False) = Some (canon v)
    \<and> (canonical_json_bytes v False nl = canonical_json_bytes w False nl \<longleftrightarrow> canon v = canon w)"
proof -
  have "canon v = canon w" if "dumps False v = dumps False w"
    using that loads_dumps [OF assms(1)] loads_dumps [OF assms(2)] by simp
  moreover have "dumps False v = dumps False w" if "canon v = canon w"
    using that dumps_canon [OF assms(1)] dumps_canon [OF assms(2)] by metis
  ultimately show ?thesis using loads_dumps [OF assms(1)] by (auto simp: canonical_json_bytes_def)
qed

theorem canonical_json_identifies_witness:
  "canonical_json_bytes (JObj [(''b'', JInt 1), (''a'', JNull)]) False True
     = canonical_json_bytes (JObj [(''a'', JNull), (''b'', JInt 1)]) False True"
proof -
  let ?v = "JObj [(''b'', JInt 1), (''a'', JNull)]" and ?w = "JObj [(''a'', JNull), (''b'', JInt 1)]"
  have "plain ?v" "plain ?w" "canon ?v = canon ?w" by code_simp+
  with canonical_json_identifies [of ?v ?w True] show ?thesis by simp
qed

end
