(* ===== verification/Journal.thy ===== *)
theory Journal
  imports Util
begin

text \<open>
  \<open>journal.py\<close>: append-only JSONL journals. A journal file is modelled by its bytes; a
  transaction runs under the exclusive lock, so it sees and changes the file alone. The
  definitions follow \<open>locked_file\<close>, \<open>read_locked_bytes\<close>, \<open>decode_jsonl\<close>, \<open>read_jsonl\<close>,
  \<open>transact_jsonl\<close> and \<open>append_jsonl\<close>. The re-check of the file's identity after a read
  (which detects writers that ignore the lock) has no counterpart here.
\<close>

subsection \<open>Files\<close>

text \<open>
  What a path can name: a regular file with its bytes and link count, a symlink, a directory,
  or a special file (pipe, socket, device).
\<close>

datatype fentry = Regular string nat | Symlink | Directory | SpecialFile

type_synonym slot = "fentry option"

record jcfg =
  jpath :: string
  max_bytes :: nat
  max_record_bytes :: nat
  max_records :: "nat option"
  require_trailing_newline :: bool
  sequence_field :: "string option"

definition DEFAULT_MAX_JOURNAL_BYTES :: nat where
  "DEFAULT_MAX_JOURNAL_BYTES = 32 * 1024 * 1024"

definition DEFAULT_MAX_RECORD_BYTES :: nat where
  "DEFAULT_MAX_RECORD_BYTES = 128 * 1024"

definition default_cfg :: "string \<Rightarrow> string option \<Rightarrow> jcfg" where
  "default_cfg path seq =
     \<lparr>jpath = path, max_bytes = DEFAULT_MAX_JOURNAL_BYTES,
      max_record_bytes = DEFAULT_MAX_RECORD_BYTES, max_records = None,
      require_trailing_newline = True, sequence_field = seq\<rparr>"

definition canonical_json_line :: "json \<Rightarrow> string" where
  "canonical_json_line v = dumps False v @ [CHR 0x0A]"

text \<open>
  Opening a journal by descriptor: the entry after the call (a missing file is created when
  \<open>create\<close> is set) and its bytes. Symlinks are never followed, other files and hard-linked
  files are refused.
\<close>

definition locked_file :: "bool \<Rightarrow> string \<Rightarrow> slot \<Rightarrow> slot \<times> string result" where
  "locked_file create path s =
     (case s of
        None \<Rightarrow>
          if create then (Some (Regular [] 1), Inr [])
          else (None, Inl (WorkflowError (''cannot open journal without following links: '' @ path)))
      | Some Symlink \<Rightarrow>
          (s, Inl (WorkflowError (''cannot open journal without following links: '' @ path)))
      | Some Directory \<Rightarrow>
          (s, Inl (WorkflowError
                ((if create then ''cannot open journal without following links: ''
                  else ''journal must be a regular file: '') @ path)))
      | Some SpecialFile \<Rightarrow> (s, Inl (WorkflowError (''journal must be a regular file: '' @ path)))
      | Some (Regular d n) \<Rightarrow>
          if n \<noteq> 1 then (s, Inl (WorkflowError (''journal must not be hard linked: '' @ path)))
          else (s, Inr d))"

definition read_locked_bytes :: "jcfg \<Rightarrow> string \<Rightarrow> string result" where
  "read_locked_bytes cfg d =
     (if max_bytes cfg < length d
      then Inl (WorkflowError (''journal exceeds size limit: '' @ jpath cfg)) else Inr d)"

definition read_bytes :: "jcfg \<Rightarrow> bool \<Rightarrow> slot \<Rightarrow> string result" where
  "read_bytes cfg missing_ok s =
     (if missing_ok \<and> s = None then Inr []
      else bindE (snd (locked_file False (jpath cfg) s)) (read_locked_bytes cfg))"

subsection \<open>Decoding\<close>

text \<open>\<open>bytes.splitlines()\<close>: lines end at a line feed, a carriage return or both.\<close>

fun split_nl :: "string \<Rightarrow> string \<Rightarrow> string list" where
  "split_nl acc [] = (if acc = [] then [] else [rev acc])"
| "split_nl acc (c # s) =
     (if c = CHR 0x0A then rev acc # split_nl [] s
      else if c = CHR 0x0D then
        (case s of
           d # s' \<Rightarrow> if d = CHR 0x0A then rev acc # split_nl [] s' else rev acc # split_nl [] s
         | [] \<Rightarrow> [rev acc])
      else split_nl (c # acc) s)"

definition splitlines :: "string \<Rightarrow> string list" where
  "splitlines s = split_nl [] s"

text \<open>\<open>json.loads(raw.decode("utf-8"))\<close>.\<close>

definition loads_utf8 :: "string \<Rightarrow> json option" where
  "loads_utf8 raw = (if utf8_valid raw then loads raw else None)"

definition decode_record :: "jcfg \<Rightarrow> (json \<Rightarrow> nat \<Rightarrow> 'a result) \<Rightarrow> nat \<Rightarrow> string \<Rightarrow> 'a result" where
  "decode_record cfg validator line_number raw =
     (let at = int_str (int line_number) @ '': '' @ jpath cfg in
      bindE (raise_if (raw = []) (''journal contains an empty record at line '' @ at)) (\<lambda>_.
      bindE (raise_if (max_record_bytes cfg < length raw)
              (''journal record exceeds size limit at line '' @ at)) (\<lambda>_.
      (case loads_utf8 raw of
         None \<Rightarrow> Inl (WorkflowError (''invalid journal JSON at line '' @ at))
       | Some decoded \<Rightarrow>
           bindE (case sequence_field cfg of
                    None \<Rightarrow> Inr ()
                  | Some field \<Rightarrow>
                      raise_if (\<not> is_obj decoded
                                \<or> \<not> py_eq (jget decoded field) (JInt (int line_number)))
                        (''journal sequence mismatch at line '' @ int_str (int line_number)
                         @ '': expected '' @ int_str (int line_number) @ '', got ''
                         @ (if is_obj decoded then py_repr (jget decoded field) else ''None'')
                         @ '': '' @ jpath cfg)) (\<lambda>_.
           validator decoded line_number)))))"

fun decode_lines :: "jcfg \<Rightarrow> (json \<Rightarrow> nat \<Rightarrow> 'a result) \<Rightarrow> nat \<Rightarrow> string list \<Rightarrow> 'a list result" where
  "decode_lines cfg validator n [] = Inr []"
| "decode_lines cfg validator n (raw # raws) =
     bindE (decode_record cfg validator (Suc n) raw) (\<lambda>v.
     bindE (case max_records cfg of
              None \<Rightarrow> Inr ()
            | Some m \<Rightarrow> raise_if (m < Suc n) (''journal exceeds record limit: '' @ jpath cfg)) (\<lambda>_.
     bindE (decode_lines cfg validator (Suc n) raws) (\<lambda>vs. Inr (v # vs))))"

definition decode_jsonl :: "jcfg \<Rightarrow> (json \<Rightarrow> nat \<Rightarrow> 'a result) \<Rightarrow> string \<Rightarrow> 'a list result" where
  "decode_jsonl cfg validator d =
     bindE (raise_if (require_trailing_newline cfg \<and> d \<noteq> [] \<and> last d \<noteq> CHR 0x0A)
             (''journal is truncated: '' @ jpath cfg)) (\<lambda>_.
     decode_lines cfg validator 0 (splitlines d))"

definition read_jsonl :: "jcfg \<Rightarrow> bool \<Rightarrow> (json \<Rightarrow> nat \<Rightarrow> 'a result) \<Rightarrow> slot \<Rightarrow> 'a list result" where
  "read_jsonl cfg missing_ok validator s =
     bindE (read_bytes cfg missing_ok s) (decode_jsonl cfg validator)"

subsection \<open>Transactions\<close>

text \<open>
  \<open>JournalTransactionResult\<close>: the value to return and the record to append, if any. The body
  below is what runs on the bytes of the opened file; it returns the bytes the file then has.
\<close>

type_synonym 'a decision = "'a \<times> json option"

definition transact_bytes ::
  "jcfg \<Rightarrow> (json \<Rightarrow> nat \<Rightarrow> 'a result) \<Rightarrow> ('a list \<Rightarrow> 'a decision result) \<Rightarrow> string \<Rightarrow> (string \<times> 'a) result" where
  "transact_bytes cfg validator transaction d0 =
     bindE (read_locked_bytes cfg d0) (\<lambda>d.
     bindE (decode_jsonl cfg validator d) (\<lambda>existing.
     bindE (transaction existing) (\<lambda>(val, rec).
     (case rec of
        None \<Rightarrow> Inr (d, val)
      | Some r \<Rightarrow>
          (let encoded = canonical_json_line r in
           if max_record_bytes cfg < length encoded
           then Inl (JournalCapacityError (''journal record exceeds size limit: '' @ jpath cfg))
           else if max_bytes cfg < length d + length encoded
           then Inl (JournalCapacityError (''journal exceeds size limit: '' @ jpath cfg))
           else if (case max_records cfg of None \<Rightarrow> False | Some m \<Rightarrow> m < length existing + 1)
           then Inl (JournalCapacityError (''journal exceeds record limit: '' @ jpath cfg))
           else Inr (d @ encoded, val))))))"

definition transact_jsonl ::
  "jcfg \<Rightarrow> (json \<Rightarrow> nat \<Rightarrow> 'a result) \<Rightarrow> ('a list \<Rightarrow> 'a decision result) \<Rightarrow> slot \<Rightarrow> slot \<times> 'a result" where
  "transact_jsonl cfg validator transaction s =
     (case locked_file True (jpath cfg) s of
        (s', Inl e) \<Rightarrow> (s', Inl e)
      | (s', Inr d) \<Rightarrow>
          (case transact_bytes cfg validator transaction d of
             Inl e \<Rightarrow> (s', Inl e)
           | Inr (d', val) \<Rightarrow> (Some (Regular d' 1), Inr val)))"

definition append_jsonl ::
  "jcfg \<Rightarrow> (json \<Rightarrow> nat \<Rightarrow> 'a result) \<Rightarrow> json \<Rightarrow> slot \<Rightarrow> slot \<times> 'a result" where
  "append_jsonl cfg validator rec s =
     transact_jsonl cfg validator
       (\<lambda>existing. bindE (validator rec (length existing + 1)) (\<lambda>val. Inr (val, Some rec))) s"

subsection \<open>Lines\<close>

lemma split_nl_append:
  "split_nl acc (d @ CHR 0x0A # s) = split_nl acc (d @ [CHR 0x0A]) @ split_nl [] s"
proof (induction acc d rule: split_nl.induct)
  case (1 acc)
  show ?case by simp
next
  case (2 acc c d)
  show ?case
  proof (cases d)
    case Nil
    with 2 show ?thesis by simp
  next
    case (Cons b d')
    show ?thesis
    proof (cases "c = CHR 0x0D")
      case True
      with 2 Cons show ?thesis by (cases "b = CHR 0x0A") simp_all
    next
      case False
      with 2 Cons show ?thesis by (cases "c = CHR 0x0A") simp_all
    qed
  qed
qed

lemma split_nl_line: "list_all line_char l \<Longrightarrow> split_nl acc (l @ [CHR 0x0A]) = [rev acc @ l]"
  by (induction l arbitrary: acc) (auto simp: line_char_def)

lemma splitlines_snoc:
  assumes "d = [] \<or> last d = CHR 0x0A" and "list_all line_char l"
  shows "splitlines (d @ l @ [CHR 0x0A]) = splitlines d @ [l]"
proof (cases "d = []")
  case True
  with assms(2) show ?thesis by (simp add: splitlines_def split_nl_line)
next
  case False
  with assms(1) obtain e where "d = e @ [CHR 0x0A]" by (metis append_butlast_last_id)
  with split_nl_append [of "[]" e "l @ [CHR 0x0A]"] split_nl_line [OF assms(2), of "[]"]
  show ?thesis by (simp add: splitlines_def)
qed

lemma decode_lines_snoc:
  "decode_lines cfg V n (raws @ [raw]) =
     bindE (decode_lines cfg V n raws) (\<lambda>vs.
     bindE (decode_record cfg V (Suc (n + length raws)) raw) (\<lambda>v.
     bindE (case max_records cfg of
              None \<Rightarrow> Inr ()
            | Some m \<Rightarrow> raise_if (m < Suc (n + length raws)) (''journal exceeds record limit: '' @ jpath cfg))
       (\<lambda>_. Inr (vs @ [v]))))"
  by (induction raws arbitrary: n)
    (auto simp: bindE_def raise_if_def split: sum.splits option.splits)

lemma decode_lines_length: "decode_lines cfg V n raws = Inr vs \<Longrightarrow> length vs = length raws"
  by (induction raws arbitrary: n vs) auto

lemma decode_lines_nth:
  "decode_lines cfg V n raws = Inr vs \<Longrightarrow> i < length vs \<Longrightarrow>
   decode_record cfg V (Suc (n + i)) (raws ! i) = Inr (vs ! i)"
proof (induction raws arbitrary: n vs i)
  case Nil
  then show ?case by simp
next
  case (Cons raw raws)
  then obtain v ws where v: "decode_record cfg V (Suc n) raw = Inr v"
    and ws: "decode_lines cfg V (Suc n) raws = Inr ws" and vs: "vs = v # ws"
    by auto
  show ?case
  proof (cases i)
    case 0
    with v vs show ?thesis by simp
  next
    case (Suc j)
    with Cons.IH [OF ws, of j] Cons.prems(2) vs show ?thesis by simp
  qed
qed

lemma decode_record_line:
  assumes "plain r" and "utf8_valid (dumps False r)" and "length (dumps False r) \<le> max_record_bytes cfg"
    and "case sequence_field cfg of None \<Rightarrow> True
         | Some f \<Rightarrow> is_obj r \<and> jget r f = JInt (int n)"
  shows "decode_record cfg V n (dumps False r) = V (canon r) n"
  using assms dumps_nonempty [OF assms(1)]
  by (auto simp: decode_record_def Let_def loads_utf8_def loads_dumps jget_canon split: option.splits)

subsection \<open>Reading back what a transaction wrote\<close>

definition slot_bytes :: "slot \<Rightarrow> string" where
  "slot_bytes s = (case s of Some (Regular d n) \<Rightarrow> d | _ \<Rightarrow> [])"

lemma slot_cases [case_names None Regular Symlink Directory Special]:
  fixes s :: slot
  obtains "s = None" | d n where "s = Some (Regular d n)" | "s = Some Symlink"
    | "s = Some Directory" | "s = Some SpecialFile"
  by (metis fentry.exhaust option.exhaust)

lemma read_jsonl_Inr:
  "read_jsonl cfg True V s = Inr vs \<Longrightarrow>
     length (slot_bytes s) \<le> max_bytes cfg \<and> decode_jsonl cfg V (slot_bytes s) = Inr vs
     \<and> (s = None \<or> s = Some (Regular (slot_bytes s) 1))"
  by (cases s rule: slot_cases)
    (auto simp: read_jsonl_def read_bytes_def locked_file_def read_locked_bytes_def slot_bytes_def
      split: if_splits)

lemma transact_open:
  assumes "s = None \<or> s = Some (Regular (slot_bytes s) 1)"
  shows "transact_jsonl cfg V T s =
     (case transact_bytes cfg V T (slot_bytes s) of
        Inl e \<Rightarrow> (Some (Regular (slot_bytes s) 1), Inl e)
      | Inr (d', val) \<Rightarrow> (Some (Regular d' 1), Inr val))"
  using assms
proof
  assume "s = None"
  then show ?thesis
    by (simp add: transact_jsonl_def locked_file_def slot_bytes_def split: sum.split)
next
  assume s: "s = Some (Regular (slot_bytes s) 1)"
  show ?thesis
    by (subst s) (simp add: transact_jsonl_def locked_file_def split: sum.split)
qed

lemma read_jsonl_exists: "s \<noteq> None \<Longrightarrow> read_jsonl cfg False V s = read_jsonl cfg True V s"
  by (cases s) (simp_all add: read_jsonl_def read_bytes_def)

lemma read_regular:
  "length d \<le> max_bytes cfg \<Longrightarrow>
   read_jsonl cfg m V (Some (Regular d 1)) = decode_jsonl cfg V d"
  by (simp add: read_jsonl_def read_bytes_def locked_file_def read_locked_bytes_def)

lemma decode_append:
  assumes "require_trailing_newline cfg" and "decode_jsonl cfg V d = Inr vs"
    and "plain r" and "utf8_valid (dumps False r)" and "length (canonical_json_line r) \<le> max_record_bytes cfg"
    and "case max_records cfg of None \<Rightarrow> True | Some m \<Rightarrow> length vs + 1 \<le> m"
    and "case sequence_field cfg of None \<Rightarrow> True
         | Some f \<Rightarrow> is_obj r \<and> jget r f = JInt (int (length vs + 1))"
    and "V (canon r) (length vs + 1) = Inr x"
  shows "decode_jsonl cfg V (d @ canonical_json_line r) = Inr (vs @ [x])"
proof -
  have nl: "d = [] \<or> last d = CHR 0x0A" and dl: "decode_lines cfg V 0 (splitlines d) = Inr vs"
    using assms(1,2) by (auto simp: decode_jsonl_def)
  have len: "length (splitlines d) = length vs"
    using decode_lines_length [OF dl] by simp
  have sp: "splitlines (d @ canonical_json_line r) = splitlines d @ [dumps False r]"
    unfolding canonical_json_line_def by (rule splitlines_snoc [OF nl dumps_line [OF assms(3)]])
  have rec: "decode_record cfg V (Suc (length vs)) (dumps False r) = Inr x"
  proof (subst decode_record_line [OF assms(3,4)])
    show "length (dumps False r) \<le> max_record_bytes cfg"
      using assms(5) by (simp add: canonical_json_line_def)
    show "case sequence_field cfg of None \<Rightarrow> True
          | Some f \<Rightarrow> is_obj r \<and> jget r f = JInt (int (Suc (length vs)))"
      using assms(7) by (simp only: Suc_eq_plus1)
    show "V (canon r) (Suc (length vs)) = Inr x"
      using assms(8) by (simp only: Suc_eq_plus1)
  qed
  have "decode_lines cfg V 0 (splitlines d @ [dumps False r]) = Inr (vs @ [x])"
    using dl len rec assms(6) by (simp add: decode_lines_snoc split: option.splits)
  then show ?thesis
    by (simp add: decode_jsonl_def sp) (simp add: canonical_json_line_def)
qed

text \<open>A record that a journal accepts as its \<open>n\<close>-th line.\<close>

definition good_record :: "jcfg \<Rightarrow> (json \<Rightarrow> nat \<Rightarrow> json result) \<Rightarrow> json \<Rightarrow> nat \<Rightarrow> bool" where
  "good_record cfg V r n \<longleftrightarrow>
     plain r \<and> utf8_valid (dumps False r) \<and> length (canonical_json_line r) \<le> max_record_bytes cfg
     \<and> V (canon r) n = Inr (canon r)
     \<and> (case sequence_field cfg of None \<Rightarrow> True | Some f \<Rightarrow> is_obj r \<and> jget r f = JInt (int n))"

lemma decode_records:
  assumes "require_trailing_newline cfg" and "max_records cfg = None"
    and "\<forall>i < length rs. good_record cfg V (rs ! i) (i + 1)"
  shows "decode_jsonl cfg V (concat (map canonical_json_line rs)) = Inr (map canon rs)"
  using assms(3)
proof (induction rs rule: rev_induct)
  case Nil
  show ?case by (simp add: decode_jsonl_def splitlines_def)
next
  case (snoc r rs)
  have "\<forall>i < length rs. good_record cfg V (rs ! i) (i + 1)"
    using snoc.prems by (metis length_append less_SucI nth_append length_append_singleton)
  note prev = snoc.IH [OF this]
  have "good_record cfg V r (length (map canon rs) + 1)" using snoc.prems by auto
  then have "decode_jsonl cfg V (concat (map canonical_json_line rs) @ canonical_json_line r)
      = Inr (map canon rs @ [canon r])"
    unfolding good_record_def by (intro decode_append [OF assms(1) prev]) (simp_all only: assms(2) option.case simp_thms)
  then show ?case by simp
qed

subsection \<open>Append-only logs\<close>

text \<open>
  What a client of a log relies on: an operation that raises leaves the log as it was, and an
  operation that returns leaves every record in place and adds at the end only. The lemmas
  below are proved from these two laws alone; the journal here, the workflow event log and
  the hierarchy journal are instances.
\<close>

locale append_only_log =
  fixes contents :: "'st \<Rightarrow> 'r list"
    and step :: "'op \<Rightarrow> 'st \<Rightarrow> 'st \<times> 'b result"
  assumes step_err: "snd (step op st) = Inl e \<Longrightarrow> contents (fst (step op st)) = contents st"
    and step_ok: "snd (step op st) = Inr b \<Longrightarrow> \<exists>rs. contents (fst (step op st)) = contents st @ rs"
begin

lemma step_extends: "\<exists>rs. contents (fst (step op st)) = contents st @ rs"
  using step_err [of op st] step_ok [of op st] by (cases "snd (step op st)") auto

lemma run_extends: "\<exists>rs. contents (run_ops step ops st) = contents st @ rs"
proof (induction ops arbitrary: st)
  case Nil
  show ?case by simp
next
  case (Cons op ops)
  from step_extends obtain rs where "contents (fst (step op st)) = contents st @ rs" by blast
  with Cons.IH [of "fst (step op st)"] show ?case by auto
qed

lemma run_nth: "i < length (contents st) \<Longrightarrow> contents (run_ops step ops st) ! i = contents st ! i"
  using run_extends [of ops st] by (auto simp: nth_append)

lemma run_take: "take (length (contents st)) (contents (run_ops step ops st)) = contents st"
  using run_extends [of ops st] by auto

end

lemma transact_cases:
  obtains (err) e where "snd (transact_jsonl cfg V T s) = Inl e"
      "slot_bytes (fst (transact_jsonl cfg V T s)) = slot_bytes s"
      "s \<noteq> None \<Longrightarrow> fst (transact_jsonl cfg V T s) = s"
  | (ok) d d' v where "transact_jsonl cfg V T s = (Some (Regular d' 1), Inr v)"
      "s = None \<and> d = [] \<or> s = Some (Regular d 1)" "transact_bytes cfg V T d = Inr (d', v)"
proof (cases "s = None \<or> s = Some (Regular (slot_bytes s) 1)")
  case True
  note open_s = transact_open [OF True, of cfg V T]
  show thesis
  proof (cases "transact_bytes cfg V T (slot_bytes s)")
    case (Inl e)
    with open_s True show thesis by (intro err [of e]) (auto simp: slot_bytes_def)
  next
    case (Inr p)
    obtain d' v where p: "p = (d', v)" by (cases p)
    from True have "s = None \<and> slot_bytes s = [] \<or> s = Some (Regular (slot_bytes s) 1)"
      by (auto simp: slot_bytes_def)
    with open_s Inr p show thesis by (intro ok [of d' v "slot_bytes s"]) simp_all
  qed
next
  case False
  then have "\<exists>e. transact_jsonl cfg V T s = (s, Inl e)"
    by (cases s rule: slot_cases) (auto simp: transact_jsonl_def locked_file_def slot_bytes_def)
  then show thesis using err by auto
qed

lemma transact_bytes_Inr:
  assumes "transact_bytes cfg V T d = Inr (d', v)"
  shows "\<exists>rs. d' = d @ rs" and "length d' \<le> max_bytes cfg"
  using assms
  by (auto simp: transact_bytes_def read_locked_bytes_def Let_def split: if_splits option.splits)

interpretation jb: append_only_log slot_bytes
  "\<lambda>(cfg, T) s. transact_jsonl cfg V T s" for V
proof (unfold_locales, goal_cases)
  case (1 op st e)
  obtain cfg T where op: "op = (cfg, T)" by (cases op)
  from 1 show ?case
    by (cases rule: transact_cases [where cfg = cfg and V = V and T = T and s = st]) (auto simp: op)
next
  case (2 op st b)
  obtain cfg T where op: "op = (cfg, T)" by (cases op)
  from 2 show ?case
  proof (cases rule: transact_cases [where cfg = cfg and V = V and T = T and s = st])
    case (err e)
    with 2 show ?thesis by (simp add: op)
  next
    case (ok d d' v)
    with transact_bytes_Inr(1) [OF ok(3)] show ?thesis by (auto simp: op slot_bytes_def)
  qed
qed

text \<open>
  A journal is append-only on disk, whatever its clients decide: after any sequence of
  transactions, successful or not, the bytes it held before are still its first bytes.
\<close>

theorem journal_bytes_append_only:
  fixes V :: "json \<Rightarrow> nat \<Rightarrow> 'a result"
  shows "take (length (slot_bytes s)) (slot_bytes (run_ops (\<lambda>(cfg, T). transact_jsonl cfg V T) ops s)) = slot_bytes s"
  by (rule jb.run_take)

text \<open>
  A transaction that raises, for whatever reason (a link, a corrupt or oversized journal,
  a rejecting decision, a capacity limit), changes no byte, and replaces no existing file.
\<close>

theorem transact_failure_atomic:
  assumes "transact_jsonl cfg V T s = (s', Inl e)"
  shows "slot_bytes s' = slot_bytes s \<and> (s \<noteq> None \<longrightarrow> s' = s)"
  using assms by (cases rule: transact_cases [where cfg = cfg and V = V and T = T and s = s]) auto

theorem transact_failure_atomic_witness:
  "transact_jsonl (default_cfg ''j'' None) (\<lambda>v n. Inr v) (\<lambda>_. Inr (JNull, None)) (Some Symlink)
     = (Some Symlink, Inl (WorkflowError ''cannot open journal without following links: j''))
   \<and> slot_bytes (Some Symlink) = []"
proof -
  have *: "transact_jsonl (default_cfg ''j'' None) (\<lambda>v n. Inr v) (\<lambda>_. Inr (JNull, None)) (Some Symlink)
     = (Some Symlink, Inl (WorkflowError ''cannot open journal without following links: j''))"
    by (simp add: transact_jsonl_def locked_file_def default_cfg_def)
  from transact_failure_atomic [OF *] * show ?thesis by (simp add: slot_bytes_def)
qed

text \<open>
  A transaction that returns leaves a regular file with a single link and within the
  byte limit.
\<close>

theorem transact_bounded:
  assumes "transact_jsonl cfg V T s = (s', Inr v)"
  shows "\<exists>d. s' = Some (Regular d 1) \<and> length d \<le> max_bytes cfg"
  using assms transact_bytes_Inr(2)
  by (cases rule: transact_cases [where cfg = cfg and V = V and T = T and s = s]) auto

theorem transact_bounded_witness:
  "transact_jsonl (default_cfg ''j'' None) (\<lambda>v n. Inr v) (\<lambda>_. Inr (JNull, None)) None
     = (Some (Regular [] 1), Inr JNull)
   \<and> (\<exists>d. Some (Regular [] 1) = Some (Regular d 1) \<and> length d \<le> max_bytes (default_cfg ''j'' None))"
proof -
  have *: "transact_jsonl (default_cfg ''j'' None) (\<lambda>v n. Inr v) (\<lambda>_. Inr (JNull, None)) None
     = (Some (Regular [] 1), Inr JNull)"
    by (simp add: transact_jsonl_def locked_file_def default_cfg_def transact_bytes_def
        read_locked_bytes_def decode_jsonl_def splitlines_def)
  from transact_bounded [OF *] * show ?thesis by simp
qed

text \<open>
  A journal that is read with a sequence field is contiguous: the record on line \<open>n\<close>
  carries the number \<open>n\<close>, from 1, so no record was dropped, repeated or moved; every record
  is one the validator accepted at that line.
\<close>

theorem read_sequence_contiguous:
  assumes "read_jsonl cfg m (\<lambda>v n. bindE (V v n) (\<lambda>_. Inr v)) s = Inr vs"
    and "sequence_field cfg = Some f" and "i < length vs"
  shows "py_eq (jget (vs ! i) f) (JInt (int i + 1)) \<and> (\<exists>u. V (vs ! i) (i + 1) = Inr u)"
proof -
  obtain d where "decode_jsonl cfg (\<lambda>v n. bindE (V v n) (\<lambda>_. Inr v)) d = Inr vs"
    using assms(1) by (auto simp: read_jsonl_def)
  then have "decode_lines cfg (\<lambda>v n. bindE (V v n) (\<lambda>_. Inr v)) 0 (splitlines d) = Inr vs"
    by (simp add: decode_jsonl_def)
  from decode_lines_nth [OF this assms(3)] assms(2) show ?thesis
    by (auto simp: decode_record_def Let_def add.commute split: option.splits)
qed

lemma transact_read_back:
  assumes "read_jsonl cfg True V s = Inr existing"
    and "require_trailing_newline cfg"
    and "T existing = Inr (val, Some r)"
    and "transact_jsonl cfg V T s = (s', Inr v)"
    and "plain r" and "utf8_valid (dumps False r)"
    and "case sequence_field cfg of None \<Rightarrow> True
         | Some f \<Rightarrow> is_obj r \<and> jget r f = JInt (int (length existing + 1))"
    and "V (canon r) (length existing + 1) = Inr x"
  shows "v = val \<and> read_jsonl cfg True V s' = Inr (existing @ [x])"
proof -
  from read_jsonl_Inr [OF assms(1)]
  have d: "length (slot_bytes s) \<le> max_bytes cfg" "decode_jsonl cfg V (slot_bytes s) = Inr existing"
    "s = None \<or> s = Some (Regular (slot_bytes s) 1)" by auto
  from assms(4) d(1,2) assms(3) transact_open [OF d(3), of cfg V T]
  have lim: "length (canonical_json_line r) \<le> max_record_bytes cfg"
    "length (slot_bytes s) + length (canonical_json_line r) \<le> max_bytes cfg"
    "case max_records cfg of None \<Rightarrow> True | Some m \<Rightarrow> length existing + 1 \<le> m"
    and out: "s' = Some (Regular (slot_bytes s @ canonical_json_line r) 1)" "v = val"
    by (auto simp: transact_bytes_def read_locked_bytes_def Let_def split: if_splits option.splits)
  have "decode_jsonl cfg V (slot_bytes s @ canonical_json_line r) = Inr (existing @ [x])"
    by (rule decode_append [OF assms(2) d(2) assms(5,6) lim(1,3) assms(7,8)])
  moreover have "length (slot_bytes s @ canonical_json_line r) \<le> max_bytes cfg"
    using lim(2) by simp
  ultimately show ?thesis unfolding out by (simp only: read_regular)
qed

text \<open>
  A transaction that appends a record returns the value it decided on, and a later read
  of the journal gives the earlier records, unchanged and in order, followed by the new one
  as its canonical encoding decodes.
\<close>

theorem transact_then_read:
  assumes "read_jsonl cfg True V s = Inr existing"
    and "require_trailing_newline cfg"
    and "T existing = Inr (val, Some r)"
    and "transact_jsonl cfg V T s = (s', Inr v)"
    and "plain r" and "utf8_valid (dumps False r)"
    and "case sequence_field cfg of None \<Rightarrow> True
         | Some f \<Rightarrow> is_obj r \<and> jget r f = JInt (int (length existing + 1))"
    and "V (canon r) (length existing + 1) = Inr x"
  shows "v = val \<and> read_jsonl cfg True V s' = Inr (existing @ [x])"
  using transact_read_back [OF assms] .

subsection \<open>Journals of numbered records\<close>

text \<open>
  The way the program's journals use a transaction: the next record is built from its sequence
  number, validated like a record that is read, and appended. What such a journal relies on is a
  contract of its validator, which returns the value it accepts; the lifecycle journal, the
  workflow event journal and the hierarchy journal are instances.
\<close>

definition stamped :: "(json \<Rightarrow> nat \<Rightarrow> json result) \<Rightarrow> (nat \<Rightarrow> json) \<Rightarrow> json list \<Rightarrow> json decision result" where
  "stamped V mk existing =
     bindE (V (mk (length existing + 1)) (length existing + 1)) (\<lambda>e. Inr (e, Some e))"

locale numbered_journal =
  fixes cfg :: jcfg and V :: "json \<Rightarrow> nat \<Rightarrow> json result"
  assumes newline: "require_trailing_newline cfg"
    and field: "sequence_field cfg = Some ''sequence''"
    and accepts: "V v n = Inr u \<Longrightarrow> u = v \<and> is_obj v"
begin

lemma stamped_decision:
  assumes "read_jsonl cfg True V s = Inr existing"
    and "transact_jsonl cfg V (stamped V mk) s = (s', Inr v)"
  shows "v = mk (length existing + 1)" and "V v (length existing + 1) = Inr v"
    and "stamped V mk existing = Inr (v, Some v)" and "s' = Some (Regular (slot_bytes s') 1)"
proof -
  from read_jsonl_Inr [OF assms(1)]
  have d: "length (slot_bytes s) \<le> max_bytes cfg" "decode_jsonl cfg V (slot_bytes s) = Inr existing"
    "s = None \<or> s = Some (Regular (slot_bytes s) 1)" by auto
  note tr = transact_open [OF d(3), of cfg V "stamped V mk"]
  have "\<exists>e. stamped V mk existing = Inr e"
  proof (rule ccontr)
    assume "\<not> ?thesis"
    then obtain e where "stamped V mk existing = Inl e" by (metis sumE)
    then have "transact_bytes cfg V (stamped V mk) (slot_bytes s) = Inl e"
      using d by (simp add: transact_bytes_def read_locked_bytes_def)
    with assms(2) tr show False by simp
  qed
  then have ok: "V (mk (length existing + 1)) (length existing + 1) = Inr (mk (length existing + 1))"
    and T: "stamped V mk existing = Inr (mk (length existing + 1), Some (mk (length existing + 1)))"
    using accepts by (auto simp: stamped_def)
  show v: "v = mk (length existing + 1)"
    using assms(2) tr d T
    by (auto simp: transact_bytes_def read_locked_bytes_def Let_def split: if_splits option.splits)
  show "V v (length existing + 1) = Inr v" using ok v by simp
  show "stamped V mk existing = Inr (v, Some v)" using T v by simp
  show "s' = Some (Regular (slot_bytes s') 1)"
    using assms(2) tr by (auto simp: slot_bytes_def split: sum.splits)
qed

text \<open>Within the limits of the journal an acceptable record is always appended.\<close>

lemma stamped_returns:
  assumes "read_jsonl cfg True V s = Inr existing"
    and "V (mk (length existing + 1)) (length existing + 1) = Inr r"
    and "length (canonical_json_line r) \<le> max_record_bytes cfg"
    and "length (slot_bytes s) + length (canonical_json_line r) \<le> max_bytes cfg"
    and "max_records cfg = None"
  shows "transact_jsonl cfg V (stamped V mk) s
    = (Some (Regular (slot_bytes s @ canonical_json_line r) 1), Inr r)"
proof -
  from read_jsonl_Inr [OF assms(1)]
  have d: "length (slot_bytes s) \<le> max_bytes cfg" "decode_jsonl cfg V (slot_bytes s) = Inr existing"
    "s = None \<or> s = Some (Regular (slot_bytes s) 1)" by auto
  have "stamped V mk existing = Inr (r, Some r)" using assms(2) by (simp add: stamped_def)
  with d assms(3-5) have "transact_bytes cfg V (stamped V mk) (slot_bytes s)
      = Inr (slot_bytes s @ canonical_json_line r, r)"
    by (simp add: transact_bytes_def read_locked_bytes_def Let_def)
  with transact_open [OF d(3), of cfg V "stamped V mk"] show ?thesis by simp
qed

lemma stamped_read_back:
  assumes "read_jsonl cfg True V s = Inr existing"
    and "transact_jsonl cfg V (stamped V mk) s = (s', Inr v)"
    and "plain v" and "utf8_valid (dumps False v)"
    and "jget v ''sequence'' = JInt (int (length existing + 1))"
    and "V (canon v) (length existing + 1) = Inr (canon v)"
  shows "read_jsonl cfg True V s' = Inr (existing @ [canon v])"
proof -
  note dec = stamped_decision [OF assms(1,2)]
  have "is_obj v" using accepts dec(2) by blast
  with assms(5) have seq: "case sequence_field cfg of None \<Rightarrow> True
      | Some f \<Rightarrow> is_obj v \<and> jget v f = JInt (int (length existing + 1))" by (simp add: field)
  from transact_read_back [OF assms(1) newline dec(3) assms(2-4) seq assms(6)] show ?thesis by simp
qed

end

definition small_cfg :: jcfg where
  "small_cfg = \<lparr>jpath = ''j'', max_bytes = 64, max_record_bytes = 32, max_records = Some 2,
                require_trailing_newline = True, sequence_field = Some ''n''\<rparr>"

lemma small_line: "canonical_json_line (JObj [(''n'', JInt 1)]) = ''{\"n\":1}'' @ [CHR 0x0A]"
  by code_simp

theorem read_sequence_contiguous_witness:
  "read_jsonl small_cfg True (\<lambda>v n. bindE (Inr ()) (\<lambda>_. Inr v)) (Some (Regular (canonical_json_line (JObj [(''n'', JInt 1)])) 1))
     = Inr [JObj [(''n'', JInt 1)]]
   \<and> py_eq (jget ([JObj [(''n'', JInt 1)]] ! 0) ''n'') (JInt (int 0 + 1))"
proof -
  have *: "read_jsonl small_cfg True (\<lambda>v n. bindE (Inr ()) (\<lambda>_. Inr v)) (Some (Regular (canonical_json_line (JObj [(''n'', JInt 1)])) 1))
     = Inr [JObj [(''n'', JInt 1)]]"
    by code_simp
  have "sequence_field small_cfg = Some ''n''" by (simp add: small_cfg_def)
  from read_sequence_contiguous [where V = "\<lambda>_ _. Inr ()", OF * this, of 0] *
  show ?thesis by simp
qed

theorem transact_then_read_witness:
  "read_jsonl small_cfg True (\<lambda>v n. Inr v) (Some (Regular (canonical_json_line (JObj [(''n'', JInt 1)])) 1))
     = Inr [JObj [(''n'', JInt 1)]]"
proof -
  let ?r = "JObj [(''n'', JInt 1)]"
  have 1: "read_jsonl small_cfg True (\<lambda>v n. Inr v) None = Inr []" by code_simp
  have 2: "transact_jsonl small_cfg (\<lambda>v n. Inr v) (\<lambda>_. Inr (?r, Some ?r)) None
      = (Some (Regular (canonical_json_line ?r) 1), Inr ?r)" by code_simp
  have 3: "plain ?r" "utf8_valid (dumps False ?r)" "canon ?r = ?r" by code_simp+
  have 4: "require_trailing_newline small_cfg" "sequence_field small_cfg = Some ''n''"
    by (simp_all add: small_cfg_def)
  from transact_then_read [OF 1 4(1) _ 2 3(1,2), of ?r ?r] 3(3) 4(2) show ?thesis
    by (simp add: jget_def jget_or_def jlookup_JObj)
qed

end
