(* ===== verification/Contracts.thy ===== *)
theory Contracts
  imports Journal
begin

text \<open>
  \<open>contracts.py\<close>: validation of JSON values against the packaged schemas, and the checks on
  an agent-run contract that no schema expresses. The \<open>jsonschema\<close> package and SHA-256 are
  parameters: \<open>schema_errors\<close> gives the rendered violations of a value against a schema, in
  the order the validator reports them, and \<open>sha256\<close> the hexadecimal digest of bytes.
\<close>

record ext =
  schema_errors :: "string \<Rightarrow> json \<Rightarrow> string list"
  sha256 :: "string \<Rightarrow> string"

definition validate_instance :: "ext \<Rightarrow> json \<Rightarrow> string \<Rightarrow> string \<Rightarrow> unit result" where
  "validate_instance X v schema_id artifact =
     (let errors = schema_errors X schema_id v in
      raise_if (errors \<noteq> []) (''invalid '' @ artifact @ '': '' @ py_join ''; '' (take 20 errors)))"

lemma validate_instance_Inr [simp]:
  "validate_instance X v s a = Inr u \<longleftrightarrow> schema_errors X s v = []"
  by (simp add: validate_instance_def Let_def)

definition AGENT_RUN_CONTRACT_SCHEMA :: string where
  "AGENT_RUN_CONTRACT_SCHEMA = ''agent-workflow/agent-run-contract/v1''"

definition validate_ticket_identity :: "json \<Rightarrow> unit result" where
  "validate_ticket_identity v =
     (let ti = jget v ''ticket_identity''; ticket = jget v ''ticket'' in
      if \<not> is_obj ti then Inr ()
      else raise_if (jget ti ''mode'' \<noteq> JStr (if ticket \<noteq> JNull then ''explicit'' else ''omitted'')
                     \<or> \<not> py_eq (jget ti ''value'') ticket)
             ''launch contract ticket identity does not match ticket'')"

fun criteria_loop :: "string list \<Rightarrow> json list \<Rightarrow> string list result" where
  "criteria_loop seen [] = Inr seen"
| "criteria_loop seen (item # items) =
     bindE (raise_if (\<not> is_obj item) ''launch contract criterion catalog contains a non-object'') (\<lambda>_.
     bindE (raise_if (\<not> is_str (jget item ''id'') \<or> str_of (jget item ''id'') = [])
             ''launch contract criterion catalog contains an empty ID'') (\<lambda>_.
     (let criterion_id = str_of (jget item ''id'') in
      bindE (raise_if (criterion_id \<in> set seen)
              (''launch contract contains duplicate criterion ID: '' @ criterion_id)) (\<lambda>_.
      criteria_loop (seen @ [criterion_id]) items))))"

definition validate_criteria_catalog :: "json \<Rightarrow> unit result" where
  "validate_criteria_catalog v =
     (let raw = jget_or v ''criteria'' (JList []) in
      bindE (raise_if (\<not> is_list raw) ''launch contract criterion catalog must be a list'') (\<lambda>_.
      bindE (criteria_loop [] (list_items raw)) (\<lambda>_. Inr ())))"

definition validate_agent_run_contract_value :: "ext \<Rightarrow> json \<Rightarrow> string \<Rightarrow> string result" where
  "validate_agent_run_contract_value X v artifact =
     (let schema_id = jget v ''schema'' in
      bindE (raise_if (schema_id \<noteq> JStr AGENT_RUN_CONTRACT_SCHEMA)
              (''unexpected agent run contract schema in '' @ artifact @ '': '' @ py_str schema_id)) (\<lambda>_.
      bindE (validate_instance X v AGENT_RUN_CONTRACT_SCHEMA artifact) (\<lambda>_.
      bindE (validate_ticket_identity v) (\<lambda>_.
      bindE (validate_criteria_catalog v) (\<lambda>_.
      Inr AGENT_RUN_CONTRACT_SCHEMA)))))"

lemma criteria_loop_Inr:
  "criteria_loop seen items = Inr out \<Longrightarrow>
     out = seen @ map (\<lambda>i. str_of (jget i ''id'')) items \<and> (distinct seen \<longrightarrow> distinct out)
     \<and> (\<forall>i \<in> set items. is_str (jget i ''id'') \<and> jget i ''id'' \<noteq> JStr [])"
  by (induction seen items rule: criteria_loop.induct) (force simp: Let_def)+

end
