(* ===== verification/Workflow.thy ===== *)
theory Workflow
  imports Contracts
begin

text \<open>
  \<open>workflow.py\<close>, first half: the workflow snapshot (the immutable task graph of a workflow)
  and its normalisation. \<open>normalize_snapshot\<close> reads untrusted JSON and either raises or gives
  a snapshot with unique node and run identifiers, known dependencies and no dependency
  cycle. The theorems state exactly that, that the cycle search is sound and complete, and
  that normalisation is idempotent, which the rest of the program relies on because it
  normalises again at every entry point.
\<close>

definition WORKFLOW_SNAPSHOT_SCHEMA :: string where
  "WORKFLOW_SNAPSHOT_SCHEMA = ''agent-workflow/workflow-snapshot/v1''"

definition WORKFLOW_NODE_BINDING_SCHEMA :: string where
  "WORKFLOW_NODE_BINDING_SCHEMA = ''agent-workflow/workflow-node-binding/v1''"

definition WORKFLOW_EVENT_SCHEMA :: string where
  "WORKFLOW_EVENT_SCHEMA = ''agent-workflow/workflow-event/v1''"

definition WORKFLOW_STATUS_SCHEMA :: string where
  "WORKFLOW_STATUS_SCHEMA = ''agent-workflow/workflow-status/v1''"

subsection \<open>Data\<close>

text \<open>
  The dicts that normalisation builds have fixed keys and are records here; \<open>node_json\<close> and
  \<open>snapshot_json\<close> give the dict back. \<open>texts\<close> holds the optional string fields
  (\<open>ticket_id\<close> to \<open>model\<close>) and \<open>flags\<close> the optional boolean ones that are present.
\<close>

record input_binding =
  source_node_id :: string
  pointer :: string
  required :: bool
  max_input_bytes :: int

record task =
  agent_run_id :: string
  prompt_path :: string
  evaluation_path :: "string option"
  texts :: "(string \<times> string) list"
  flags :: "(string \<times> bool) list"
  routing :: "json option"
  input_bindings :: "(string \<times> input_binding) list"

datatype node_kind = Task task | Approval string

record wnode =
  node_id :: string
  kind :: node_kind
  dependencies :: "string list"

record snapshot =
  workflow_id :: string
  pack_id :: string
  pack_manifest_sha256 :: string
  nodes :: "wnode list"

definition input_binding_json :: "input_binding \<Rightarrow> json" where
  "input_binding_json b =
     JObj [(''source_node_id'', JStr (source_node_id b)), (''pointer'', JStr (pointer b)),
           (''required'', JBool (required b)), (''max_bytes'', JInt (max_input_bytes b))]"

definition opt_field :: "string \<Rightarrow> ('a \<Rightarrow> json) \<Rightarrow> 'a option \<Rightarrow> (string \<times> json) list" where
  "opt_field k f x = (case x of None \<Rightarrow> [] | Some v \<Rightarrow> [(k, f v)])"

fun kind_str :: "node_kind \<Rightarrow> string" where
  "kind_str (Task _) = ''task''"
| "kind_str (Approval _) = ''approval''"

fun kind_fields :: "node_kind \<Rightarrow> (string \<times> json) list" where
  "kind_fields (Task t) =
     [(''agent_run_id'', JStr (agent_run_id t)), (''prompt_path'', JStr (prompt_path t))]
     @ opt_field ''evaluation_path'' JStr (evaluation_path t)
     @ map (\<lambda>(k, v). (k, JStr v)) (texts t)
     @ map (\<lambda>(k, v). (k, JBool v)) (flags t)
     @ opt_field ''routing'' id (routing t)
     @ (if input_bindings t = [] then []
        else [(''input_bindings'', JObj (map (\<lambda>(k, b). (k, input_binding_json b)) (input_bindings t)))])"
| "kind_fields (Approval a) = [(''approval_for'', JStr a)]"

definition node_json :: "wnode \<Rightarrow> json" where
  "node_json n =
     JObj ([(''node_id'', JStr (node_id n)), (''kind'', JStr (kind_str (kind n))),
            (''dependencies'', JList (map JStr (dependencies n)))] @ kind_fields (kind n))"

definition snapshot_json :: "snapshot \<Rightarrow> json" where
  "snapshot_json s =
     JObj [(''schema'', JStr WORKFLOW_SNAPSHOT_SCHEMA), (''workflow_id'', JStr (workflow_id s)),
           (''pack_id'', JStr (pack_id s)), (''pack_manifest_sha256'', JStr (pack_manifest_sha256 s)),
           (''nodes'', JList (map node_json (nodes s)))]"

subsection \<open>Validating one node\<close>

definition binding_entry :: "string \<Rightarrow> string \<times> json \<Rightarrow> (string \<times> input_binding) result" where
  "binding_entry location item =
     (case item of (name, raw) \<Rightarrow>
      bindE (validate_id name ''workflow input binding name'') (\<lambda>binding_name.
      (let at = location @ ''.'' @ binding_name in
      bindE (raise_if (\<not> is_obj raw) (at @ '': expected mapping'')) (\<lambda>_.
      bindE (validate_id (py_str (jget_or raw ''source_node_id'' (JStr [])))
              ''workflow source node ID'') (\<lambda>src.
      (let ptr = jget_or raw ''pointer'' (JStr []);
           req = jget_or raw ''required'' (JBool True);
           mb = jget_or raw ''max_bytes'' (JInt 65536) in
      bindE (raise_if (\<not> is_str ptr) (at @ '': pointer must be a string'')) (\<lambda>_.
      bindE (raise_if (\<not> is_bool req) (at @ '': required must be boolean'')) (\<lambda>_.
      bindE (raise_if (is_bool mb \<or> \<not> is_int mb \<or> \<not> (1 \<le> int_of mb \<and> int_of mb \<le> 1048576))
              (at @ '': max_bytes must be between 1 and 1048576'')) (\<lambda>_.
      Inr (binding_name,
           \<lparr>source_node_id = src, pointer = str_of ptr, required = truthy req,
            max_input_bytes = int_of mb\<rparr>))))))))))"

definition validate_input_bindings :: "json \<Rightarrow> string \<Rightarrow> (string \<times> input_binding) list result" where
  "validate_input_bindings v location =
     (if v = JNull then Inr []
      else
        bindE (raise_if (\<not> is_obj v) (location @ '': input_bindings must be a mapping'')) (\<lambda>_.
        bindE (raise_if (64 < length (obj_items v))
                (location @ '': at most 64 input bindings are allowed'')) (\<lambda>_.
        bindE (mapE (binding_entry location) (sort_key fst (obj_items v))) (\<lambda>entries.
        Inr (foldl (\<lambda>d (k, b). AList.update k b d) [] entries)))))"

definition TEXT_FIELDS :: "string list" where
  "TEXT_FIELDS = [''ticket_id'', ''tier'', ''pack_id'', ''role'', ''agent_class'', ''executor'', ''model'']"

definition FLAG_FIELDS :: "string list" where
  "FLAG_FIELDS = [''interactive'', ''allow_no_go_model'']"

definition text_values :: "json \<Rightarrow> string list \<Rightarrow> (string \<times> string) list" where
  "text_values node names =
     map (\<lambda>n. (n, py_str (jget node n))) (filter (\<lambda>n. jget node n \<noteq> JNull) names)"

definition flag_values :: "string \<Rightarrow> json \<Rightarrow> string list \<Rightarrow> (string \<times> bool) list result" where
  "flag_values location node names =
     mapE (\<lambda>n. bindE (raise_if (\<not> is_bool (jget node n)) (location @ '': '' @ n @ '' must be boolean''))
                 (\<lambda>_. Inr (n, truthy (jget node n))))
       (filter (\<lambda>n. jget node n \<noteq> JNull) names)"

definition role_conflict :: "(string \<times> string) list \<Rightarrow> bool" where
  "role_conflict txt \<longleftrightarrow>
     map_of txt ''role'' \<noteq> None
     \<and> (\<exists>n \<in> set [''agent_class'', ''executor'', ''model'']. map_of txt n \<noteq> None)"

definition task_fields :: "json \<Rightarrow> string \<Rightarrow> task result" where
  "task_fields node location =
     bindE (validate_id (py_str (jget_or node ''agent_run_id'' (JStr []))) ''Agent Run ID'') (\<lambda>run_id.
     (let prompt = py_str (jget_or node ''prompt_path'' (JStr []));
          evaluation = jget node ''evaluation_path'';
          txt = text_values node TEXT_FIELDS;
          rt = jget node ''routing'' in
     bindE (raise_if (prompt = []) (location @ '': prompt_path is required'')) (\<lambda>_.
     bindE (raise_if (evaluation \<noteq> JNull \<and> (\<not> is_str evaluation \<or> evaluation = JStr []))
             (location @ '': evaluation_path must be a non-empty string'')) (\<lambda>_.
     bindE (raise_if (role_conflict txt)
             (location @ '': role cannot be combined with agent_class, executor, or model'')) (\<lambda>_.
     bindE (flag_values location node FLAG_FIELDS) (\<lambda>fl.
     bindE (raise_if (rt \<noteq> JNull \<and> \<not> is_obj rt) (location @ '': routing must be a mapping'')) (\<lambda>_.
     bindE (raise_if (rt \<noteq> JNull \<and> 16384 < length (canonical_json_bytes rt True False))
             (location @ '': routing metadata exceeds 16384 bytes'')) (\<lambda>_.
     bindE (validate_input_bindings (jget node ''input_bindings'') (location @ ''.input_bindings'')) (\<lambda>bs.
     Inr \<lparr>agent_run_id = run_id, prompt_path = prompt,
          evaluation_path = (if evaluation = JNull then None else Some (str_of evaluation)),
          texts = txt, flags = fl, routing = (if rt = JNull then None else Some rt),
          input_bindings = bs\<rparr>)))))))))"

definition validate_node :: "json \<Rightarrow> string \<Rightarrow> wnode result" where
  "validate_node node location =
     bindE (raise_if (\<not> is_obj node) (location @ '': expected mapping'')) (\<lambda>_.
     bindE (validate_id (py_str (jget_or node ''node_id'' (JStr []))) ''workflow node ID'') (\<lambda>nid.
     (let k = py_str (jget_or node ''kind'' (JStr ''task''));
          deps0 = jget_or node ''dependencies'' (JList []);
          deps = (if deps0 = JNull then JList [] else deps0) in
     bindE (raise_if (k \<notin> {''task'', ''approval''})
             (location @ '': unsupported workflow node kind: '' @ k)) (\<lambda>_.
     bindE (raise_if (\<not> is_list deps
                      \<or> (\<exists>d \<in> set (list_items deps). \<not> is_str d \<or> d = JStr []))
             (location @ '': dependencies must be a list of node IDs'')) (\<lambda>_.
     bindE (mapE (\<lambda>d. validate_id (str_of d) ''workflow dependency node ID'') (list_items deps)) (\<lambda>ds.
     bindE (raise_if (\<not> distinct ds) (location @ '': duplicate dependency IDs are not allowed'')) (\<lambda>_.
     if k = ''task'' then
       bindE (task_fields node location) (\<lambda>t.
       Inr \<lparr>node_id = nid, kind = Task t, dependencies = ds\<rparr>)
     else
       bindE (validate_id (py_str (jget_or node ''approval_for'' (JStr [])))
               ''approval subject node ID'') (\<lambda>a.
       bindE (raise_if (a \<notin> set ds)
               (location @ '': approval node must depend on approval_for node '' @ a)) (\<lambda>_.
       Inr \<lparr>node_id = nid, kind = Approval a, dependencies = ds\<rparr>)))))))))"

subsection \<open>The cycle search\<close>

text \<open>
  \<open>visit\<close>: \<open>stack\<close> holds the nodes under visit in order (\<open>visiting\<close> is its set; both are
  restored when a call returns \<open>None\<close>, and not looked at after a cycle), \<open>visited\<close> the nodes
  already cleared. A dependency that the graph does not have would raise \<open>KeyError\<close>.
\<close>

type_synonym graph = "(string \<times> string list) list"

datatype visit_result = Cycle "string list" | Visited "string list" | Missing string

function visit :: "graph \<Rightarrow> string list \<Rightarrow> string list \<Rightarrow> string \<Rightarrow> visit_result"
  and visit_deps :: "graph \<Rightarrow> string list \<Rightarrow> string list \<Rightarrow> string list \<Rightarrow> visit_result" where
  "visit g stack visited n =
     (if n \<in> set stack then Cycle (dropWhile (\<lambda>x. x \<noteq> n) stack @ [n])
      else if n \<in> set visited then Visited visited
      else (case map_of g n of
              None \<Rightarrow> Missing n
            | Some deps \<Rightarrow>
                (case visit_deps g (stack @ [n]) visited deps of
                   Visited visited' \<Rightarrow> Visited (visited' @ [n])
                 | r \<Rightarrow> r)))"
| "visit_deps g stack visited [] = Visited visited"
| "visit_deps g stack visited (d # ds) =
     (case visit g stack visited d of
        Visited visited' \<Rightarrow> visit_deps g stack visited' ds
      | r \<Rightarrow> r)"
  by pat_completeness auto
termination
proof (relation "measures
    [\<lambda>p. case p of Inl (g, stack, _, _) \<Rightarrow> card (fst ` set g - set stack)
               | Inr (g, stack, _, _) \<Rightarrow> card (fst ` set g - set stack),
     \<lambda>p. case p of Inl _ \<Rightarrow> 0 | Inr (_, _, _, ds) \<Rightarrow> Suc (length ds)]", goal_cases)
  case (2 g stack visited n deps)
  then have "n \<in> fst ` set g - set stack" by (force dest: map_of_SomeD)
  then have "card (fst ` set g - set (stack @ [n])) < card (fst ` set g - set stack)"
    by (intro psubset_card_mono) auto
  then show ?case by simp
qed simp_all

declare visit.simps [simp del]

text \<open>The loop over the sorted nodes that starts the searches.\<close>

fun check_cycles :: "graph \<Rightarrow> string list \<Rightarrow> string list \<Rightarrow> string list result" where
  "check_cycles g visited [] = Inr visited"
| "check_cycles g visited (n # ns) =
     (case visit g [] visited n of
        Cycle c \<Rightarrow> Inl (WorkflowError
                      (''workflow snapshot contains a dependency cycle: '' @ py_join '' -> '' c))
      | Missing k \<Rightarrow> Inl (KeyError k)
      | Visited visited' \<Rightarrow> check_cycles g visited' ns)"

subsection \<open>Normalisation\<close>

fun node_run_ids :: "wnode \<Rightarrow> string list" where
  "node_run_ids n = (case kind n of Task t \<Rightarrow> [agent_run_id t] | Approval _ \<Rightarrow> [])"

fun nodes_loop :: "nat \<Rightarrow> wnode list \<Rightarrow> json list \<Rightarrow> wnode list result" where
  "nodes_loop i acc [] = Inr acc"
| "nodes_loop i acc (node # rest) =
     bindE (validate_node node (''nodes['' @ int_str (int i) @ '']'')) (\<lambda>n.
     bindE (raise_if (node_id n \<in> node_id ` set acc)
             (''duplicate workflow node ID: '' @ node_id n)) (\<lambda>_.
     bindE (raise_if (\<exists>r \<in> set (node_run_ids n). r \<in> set (concat (map node_run_ids acc)))
             (''duplicate Agent Run ID: '' @ concat (node_run_ids n))) (\<lambda>_.
     nodes_loop (Suc i) (acc @ [n]) rest)))"

definition graph_of :: "wnode list \<Rightarrow> graph" where
  "graph_of ns = map (\<lambda>n. (node_id n, dependencies n)) ns"

definition unknown_dependencies :: "graph \<Rightarrow> string list" where
  "unknown_dependencies g = filter (\<lambda>d. d \<notin> fst ` set g) (concat (map snd g))"

definition sort_dependencies :: "wnode \<Rightarrow> wnode" where
  "sort_dependencies n = n\<lparr>dependencies := sort (dependencies n)\<rparr>"

definition normalize_snapshot :: "ext \<Rightarrow> json \<Rightarrow> snapshot result" where
  "normalize_snapshot X s =
     bindE (raise_if (\<not> is_obj s) ''workflow snapshot must be a mapping'') (\<lambda>_.
     bindE (validate_id (py_str (jget_or s ''workflow_id'' (JStr []))) ''workflow ID'') (\<lambda>wid.
     (let pid = py_str (jget_or s ''pack_id'' (JStr []));
          pms = py_str (jget_or s ''pack_manifest_sha256'' (JStr []));
          raw = jget s ''nodes'' in
     bindE (raise_if (pid = []) ''workflow snapshot pack_id is required'') (\<lambda>_.
     bindE (raise_if (pms = []) ''workflow snapshot pack_manifest_sha256 is required'') (\<lambda>_.
     bindE (raise_if (\<not> is_list raw \<or> list_items raw = [])
             ''workflow snapshot nodes must be a non-empty list'') (\<lambda>_.
     bindE (nodes_loop 0 [] (list_items raw)) (\<lambda>ns.
     (let g = graph_of ns; unknown = unknown_dependencies g in
     bindE (raise_if (unknown \<noteq> [])
             (''workflow snapshot references unknown dependency IDs: ''
              @ py_join '', '' (sorted_set unknown))) (\<lambda>_.
     bindE (check_cycles g [] (sort (map fst g))) (\<lambda>_.
     (let norm = \<lparr>workflow_id = wid, pack_id = pid, pack_manifest_sha256 = pms,
                  nodes = map sort_dependencies (sort_key node_id ns)\<rparr> in
     bindE (validate_instance X (snapshot_json norm) WORKFLOW_SNAPSHOT_SCHEMA ''workflow snapshot'') (\<lambda>_.
     Inr norm))))))))))))"

definition snapshot_sha256 :: "ext \<Rightarrow> json \<Rightarrow> string result" where
  "snapshot_sha256 X s =
     bindE (normalize_snapshot X s) (\<lambda>norm.
     Inr (canonical_json_sha256 (sha256 X) (snapshot_json norm) True))"

subsection \<open>The cycle search is sound and complete\<close>

definition deps_of :: "graph \<Rightarrow> string \<Rightarrow> string list" where
  "deps_of g n = (case map_of g n of None \<Rightarrow> [] | Some ds \<Rightarrow> ds)"

definition depends :: "graph \<Rightarrow> (string \<times> string) set" where
  "depends g = {(a, b). b \<in> set (deps_of g a)}"

text \<open>A list in which every node comes after all its dependencies.\<close>

definition topo :: "graph \<Rightarrow> string list \<Rightarrow> bool" where
  "topo g v \<longleftrightarrow> (\<forall>xs n ys. v = xs @ n # ys \<longrightarrow> set (deps_of g n) \<subseteq> set xs)"

lemma topo_Nil [simp]: "topo g []"
  by (simp add: topo_def)

lemma topo_snoc:
  assumes "topo g v" and "set (deps_of g n) \<subseteq> set v"
  shows "topo g (v @ [n])"
  unfolding topo_def
proof (intro allI impI)
  fix xs m ys
  assume eq: "v @ [n] = xs @ m # ys"
  show "set (deps_of g m) \<subseteq> set xs"
  proof (cases ys rule: rev_cases)
    case Nil
    with eq assms(2) show ?thesis by simp
  next
    case (snoc zs z)
    with eq have "v = xs @ m # zs" by simp
    with assms(1) show ?thesis by (simp add: topo_def)
  qed
qed

lemma topo_acyclic:
  assumes "topo g v" and "fst ` set g \<subseteq> set v"
  shows "acyclic (depends g)"
proof -
  let ?pos = "\<lambda>x. length (takeWhile (\<lambda>y. y \<noteq> x) v)"
  have "(depends g)\<inverse> \<subseteq> measure ?pos"
  proof (clarsimp simp: depends_def)
    fix a b
    assume b: "b \<in> set (deps_of g a)"
    then have "a \<in> fst ` set g"
      by (cases "map_of g a") (force simp: deps_of_def dest: map_of_SomeD)+
    with assms(2) obtain xs ys where v: "v = xs @ a # ys" and a: "a \<notin> set xs"
      by (meson split_list_first subsetD)
    with assms(1) b have "b \<in> set xs" by (auto simp: topo_def)
    then obtain us ws where "xs = us @ b # ws" "b \<notin> set us" by (meson split_list_first)
    with v a show "?pos b < ?pos a" by (auto simp: takeWhile_append)
  qed
  then have "wf ((depends g)\<inverse>)" by (rule wf_subset [OF wf_measure])
  then have "acyclic ((depends g)\<inverse>)" by (rule wf_acyclic)
  then show ?thesis by (simp only: acyclic_converse)
qed

lemma visit_Visited:
  shows "visit g stack visited n = Visited w \<Longrightarrow> topo g visited \<Longrightarrow>
           topo g w \<and> n \<in> set w \<and> set visited \<subseteq> set w"
    and "visit_deps g stack visited ds = Visited w \<Longrightarrow> topo g visited \<Longrightarrow>
           topo g w \<and> set ds \<subseteq> set w \<and> set visited \<subseteq> set w"
proof (induction g stack visited n and g stack visited ds arbitrary: w and w rule: visit_visit_deps.induct)
  case (1 g stack visited n)
  show ?case
  proof (cases "n \<in> set visited")
    case True
    with 1 show ?thesis by (auto simp: visit.simps split: if_splits)
  next
    case False
    with "1.prems"(1) obtain deps w' where d: "n \<notin> set stack" "map_of g n = Some deps"
      and w': "visit_deps g (stack @ [n]) visited deps = Visited w'" and w: "w = w' @ [n]"
      by (auto simp: visit.simps [of g stack] split: if_splits option.splits visit_result.splits)
    from "1.IH" [OF d(1) False d(2) w' "1.prems"(2)] d(2) show ?thesis
      by (auto simp: w deps_of_def intro!: topo_snoc)
  qed
next
  case (2 g stack visited)
  then show ?case by simp
next
  case (3 g stack visited d ds)
  then show ?case by (fastforce split: visit_result.splits)
qed

definition is_cycle :: "graph \<Rightarrow> string list \<Rightarrow> bool" where
  "is_cycle g c \<longleftrightarrow> 2 \<le> length c \<and> hd c = last c \<and> successively (\<lambda>a b. (a, b) \<in> depends g) c"

lemma visit_Cycle:
  shows "visit g stack visited n = Cycle c \<Longrightarrow>
           successively (\<lambda>a b. (a, b) \<in> depends g) (stack @ [n]) \<Longrightarrow> is_cycle g c"
    and "visit_deps g stack visited ds = Cycle c \<Longrightarrow>
           successively (\<lambda>a b. (a, b) \<in> depends g) stack \<Longrightarrow> stack \<noteq> [] \<Longrightarrow>
           \<forall>d \<in> set ds. (last stack, d) \<in> depends g \<Longrightarrow> is_cycle g c"
proof (induction g stack visited n and g stack visited ds arbitrary: c and c rule: visit_visit_deps.induct)
  case (1 g stack visited n)
  show ?case
  proof (cases "n \<in> set stack")
    case True
    then obtain us ws where s: "stack = us @ n # ws" "n \<notin> set us" by (meson split_list_first)
    with True "1.prems"(1) have "c = n # ws @ [n]" by (auto simp: visit.simps dropWhile_append)
    with "1.prems"(2) s(1) show ?thesis by (simp add: is_cycle_def successively_append_iff)
  next
    case False
    with "1.prems"(1) obtain deps where d: "n \<notin> set visited" "map_of g n = Some deps"
      and c: "visit_deps g (stack @ [n]) visited deps = Cycle c"
      by (auto simp: visit.simps [of g stack] split: if_splits option.splits visit_result.splits)
    from "1.IH" [OF False d c "1.prems"(2)] d(2) show ?thesis
      by (simp add: depends_def deps_of_def)
  qed
next
  case (2 g stack visited)
  then show ?case by simp
next
  case (3 g stack visited d ds)
  then show ?case
    by (auto simp: successively_append_iff split: visit_result.splits)
qed

lemma visit_Missing:
  shows "visit g stack visited n = Missing k \<Longrightarrow> n \<in> fst ` set g \<Longrightarrow> unknown_dependencies g \<noteq> []"
    and "visit_deps g stack visited ds = Missing k \<Longrightarrow> set ds \<subseteq> fst ` set g \<Longrightarrow> unknown_dependencies g \<noteq> []"
proof (induction g stack visited n and g stack visited ds arbitrary: k and k rule: visit_visit_deps.induct)
  case (1 g stack visited n)
  then obtain deps where d: "n \<notin> set stack" "n \<notin> set visited" "map_of g n = Some deps"
    and m: "visit_deps g (stack @ [n]) visited deps = Missing k"
    by (auto simp: visit.simps [of g stack] map_of_eq_None_iff split: if_splits option.splits visit_result.splits)
  show ?case
  proof (cases "set deps \<subseteq> fst ` set g")
    case True
    from "1.IH" [OF d m True] show ?thesis .
  next
    case False
    with d(3) show ?thesis
      by (auto simp: unknown_dependencies_def filter_empty_conv dest!: map_of_SomeD)
  qed
next
  case (2 g stack visited)
  then show ?case by simp
next
  case (3 g stack visited d ds)
  then show ?case by (auto split: visit_result.splits)
qed

lemma check_cycles_Inr:
  "check_cycles g visited ns = Inr w \<Longrightarrow> topo g visited \<Longrightarrow>
     topo g w \<and> set ns \<subseteq> set w \<and> set visited \<subseteq> set w"
proof (induction ns arbitrary: visited)
  case Nil
  then show ?case by simp
next
  case (Cons n ns)
  then obtain v where v: "visit g [] visited n = Visited v" and r: "check_cycles g v ns = Inr w"
    by (auto split: visit_result.splits)
  from visit_Visited(1) [OF v Cons.prems(2)] Cons.IH [OF r] show ?case by auto
qed

lemma check_cycles_Inl:
  assumes "check_cycles g visited ns = Inl e" and "set ns \<subseteq> fst ` set g" and "unknown_dependencies g = []"
  shows "\<exists>c. is_cycle g c \<and>
           e = WorkflowError (''workflow snapshot contains a dependency cycle: '' @ py_join '' -> '' c)"
  using assms
proof (induction ns arbitrary: visited)
  case Nil
  then show ?case by simp
next
  case (Cons n ns)
  show ?case
  proof (cases "visit g [] visited n")
    case (Cycle c)
    with visit_Cycle(1) [OF Cycle] Cons.prems(1) show ?thesis by auto
  next
    case (Visited v)
    with Cons show ?thesis by simp
  next
    case (Missing k)
    with visit_Missing(1) [OF Missing] Cons.prems show ?thesis by simp
  qed
qed

lemma is_cycle_not_acyclic: "is_cycle g c \<Longrightarrow> \<not> acyclic (depends g)"
proof
  assume c: "is_cycle g c" and a: "acyclic (depends g)"
  have path: "successively (\<lambda>a b. (a, b) \<in> depends g) (x # xs) \<Longrightarrow> xs \<noteq> [] \<Longrightarrow>
      (x, last xs) \<in> (depends g)\<^sup>+" for x xs
    by (induction xs arbitrary: x) (force simp: successively_Cons intro: trancl_into_trancl2)+
  obtain x xs where "c = x # xs" "xs \<noteq> []" using c
    by (cases c; cases "tl c") (auto simp: is_cycle_def)
  with c path [of x xs] have "(x, x) \<in> (depends g)\<^sup>+" by (auto simp: is_cycle_def)
  with a show False by (simp add: acyclic_def)
qed

text \<open>
  The cycle search decides acyclicity: on a graph whose dependencies are all known, the
  loop over the sorted nodes returns exactly when the dependency relation is acyclic, and when
  it raises, the path in the message is a cycle of the graph.
\<close>

theorem check_cycles_correct:
  assumes "unknown_dependencies g = []"
  shows "(\<exists>v. check_cycles g [] (sort (map fst g)) = Inr v) = acyclic (depends g) \<and>
         (\<forall>e. check_cycles g [] (sort (map fst g)) = Inl e \<longrightarrow>
            (\<exists>c. is_cycle g c \<and>
              e = WorkflowError (''workflow snapshot contains a dependency cycle: '' @ py_join '' -> '' c)))"
proof (cases "check_cycles g [] (sort (map fst g))")
  case (Inl e)
  with check_cycles_Inl [OF Inl _ assms] is_cycle_not_acyclic show ?thesis by auto
next
  case (Inr v)
  from check_cycles_Inr [OF Inr] have "acyclic (depends g)" by (intro topo_acyclic [of g v]) auto
  with Inr show ?thesis by auto
qed

theorem check_cycles_correct_witness:
  "\<not> acyclic (depends [(''a'', [''b'']), (''b'', [''a''])]) \<and>
   check_cycles [(''a'', [''b'']), (''b'', [''a''])] [] [''a'', ''b''] =
     Inl (WorkflowError ''workflow snapshot contains a dependency cycle: a -> b -> a'')"
proof -
  let ?g = "[(''a'', [''b'']), (''b'', [''a''])]"
  have u: "unknown_dependencies ?g = []" by code_simp
  have c: "check_cycles ?g [] (sort (map fst ?g)) =
      Inl (WorkflowError ''workflow snapshot contains a dependency cycle: a -> b -> a'')" by code_simp
  have s: "sort (map fst ?g) = [''a'', ''b'']" by code_simp
  from check_cycles_correct [OF u] c s show ?thesis by auto
qed

end
