(* ===== verification/Workflow_Normal.thy ===== *)
theory Workflow_Normal
  imports Workflow "HOL-Library.Multiset"
begin

text \<open>
  What \<open>normalize_snapshot\<close> guarantees: the predicate \<open>wf_snapshot\<close>, that every normalised
  snapshot satisfies it, and that a snapshot satisfying it is left unchanged.
\<close>

subsection \<open>Well-formed snapshots\<close>

definition wf_input_binding :: "input_binding \<Rightarrow> bool" where
  "wf_input_binding b \<longleftrightarrow>
     SAFE_ID (source_node_id b) \<and> 1 \<le> max_input_bytes b \<and> max_input_bytes b \<le> 1048576"

text \<open>The keys present, in the order of the list \<open>L\<close> of the keys that may be present.\<close>

definition ordered_fields :: "string list \<Rightarrow> (string \<times> 'a) list \<Rightarrow> bool" where
  "ordered_fields L kvs \<longleftrightarrow> map fst kvs = filter (\<lambda>n. n \<in> fst ` set kvs) L"

definition wf_task :: "task \<Rightarrow> bool" where
  "wf_task t \<longleftrightarrow>
     SAFE_ID (agent_run_id t) \<and> prompt_path t \<noteq> [] \<and> evaluation_path t \<noteq> Some []
     \<and> ordered_fields TEXT_FIELDS (texts t) \<and> ordered_fields FLAG_FIELDS (flags t)
     \<and> \<not> role_conflict (texts t)
     \<and> (case routing t of None \<Rightarrow> True
        | Some r \<Rightarrow> is_obj r \<and> length (canonical_json_bytes r True False) \<le> 16384)
     \<and> length (input_bindings t) \<le> 64 \<and> sorted_wrt (<) (map fst (input_bindings t))
     \<and> (\<forall>(k, b) \<in> set (input_bindings t). SAFE_ID k \<and> wf_input_binding b)"

definition wf_node :: "wnode \<Rightarrow> bool" where
  "wf_node n \<longleftrightarrow>
     SAFE_ID (node_id n) \<and> list_all SAFE_ID (dependencies n) \<and> distinct (dependencies n)
     \<and> (case kind n of Task t \<Rightarrow> wf_task t
        | Approval a \<Rightarrow> a \<in> set (dependencies n))"

definition wf_snapshot :: "snapshot \<Rightarrow> bool" where
  "wf_snapshot s \<longleftrightarrow>
     SAFE_ID (workflow_id s) \<and> pack_id s \<noteq> [] \<and> pack_manifest_sha256 s \<noteq> [] \<and> nodes s \<noteq> []
     \<and> sorted (map node_id (nodes s)) \<and> distinct (map node_id (nodes s))
     \<and> distinct (concat (map node_run_ids (nodes s)))
     \<and> (\<forall>n \<in> set (nodes s). wf_node n \<and> sorted (dependencies n)
          \<and> set (dependencies n) \<subseteq> node_id ` set (nodes s))
     \<and> acyclic (depends (graph_of (nodes s)))"

subsection \<open>Dictionaries built in key order\<close>

lemma set_update_subset: "set (AList.update k v d) \<subseteq> insert (k, v) (set d)"
  by (induction d) auto

lemma keys_update: "map fst (AList.update k v d) = (if k \<in> fst ` set d then map fst d else map fst d @ [k])"
  by (induction d) auto

lemma foldl_update_sorted:
  assumes "sorted_wrt (<) (map fst d)" and "sorted (map fst kvs)"
    and "\<forall>k \<in> fst ` set d. \<forall>k' \<in> fst ` set kvs. k \<le> (k' :: 'a :: linorder)"
  shows "sorted_wrt (<) (map fst (foldl (\<lambda>d (k, v). AList.update k v d) d kvs))
     \<and> length (foldl (\<lambda>d (k, v). AList.update k v d) d kvs) \<le> length d + length kvs
     \<and> set (foldl (\<lambda>d (k, v). AList.update k v d) d kvs) \<subseteq> set d \<union> set kvs"
  using assms
proof (induction kvs arbitrary: d)
  case Nil
  then show ?case by simp
next
  case (Cons kv kvs)
  obtain k v where kv: "kv = (k, v)" by (cases kv)
  let ?d = "AList.update k v d"
  have le: "\<forall>x \<in> fst ` set d. x \<le> k" using Cons.prems(3) kv by simp
  have s: "sorted_wrt (<) (map fst ?d)"
  proof (cases "k \<in> fst ` set d")
    case True
    with Cons.prems(1) show ?thesis by (simp add: keys_update)
  next
    case False
    with le have "\<forall>x \<in> fst ` set d. x < k" by (metis order_le_imp_less_or_eq)
    with False Cons.prems(1) show ?thesis by (simp add: keys_update sorted_wrt_append)
  qed
  have keys: "fst ` set ?d \<subseteq> insert k (fst ` set d)"
    using set_update_subset [of k v d] by fastforce
  have "\<forall>x \<in> fst ` set ?d. \<forall>y \<in> fst ` set kvs. x \<le> y"
    using keys Cons.prems(2,3) kv by fastforce
  moreover have "length ?d \<le> Suc (length d)"
    using arg_cong [OF keys_update, of length k v d] by (simp split: if_splits)
  ultimately show ?case
    using Cons.IH [OF s] Cons.prems(2) set_update_subset [of k v d] by (auto simp: kv)
qed

lemma foldl_update_id:
  assumes "sorted_wrt (<) (map fst kvs)"
  shows "foldl (\<lambda>d (k :: 'a :: linorder, v). AList.update k v d) [] kvs = kvs"
proof -
  have "distinct (map fst kvs)" using assms by (simp add: strict_sorted_iff)
  then have "foldl (\<lambda>d (k, v). AList.update k v d) d kvs = d @ kvs"
    if "fst ` set d \<inter> fst ` set kvs = {}" for d
    using that
  proof (induction kvs arbitrary: d)
    case Nil
    then show ?case by simp
  next
    case (Cons kv kvs)
    obtain k v where kv: "kv = (k, v)" by (cases kv)
    with Cons.prems have "AList.update k v d = d @ [(k, v)]"
      by (induction d) auto
    with Cons kv show ?case by auto
  qed
  from this [of "[]"] show ?thesis by simp
qed

lemma sort_key_strict: "sorted_wrt (<) (map fst kvs) \<Longrightarrow> sort_key fst kvs = (kvs :: ('a :: linorder \<times> 'b) list)"
  by (intro sort_key_id_if_sorted) (simp add: strict_sorted_iff)

lemma ordered_fields_keys: "ordered_fields L kvs \<Longrightarrow> fst ` set kvs \<subseteq> set L"
  unfolding ordered_fields_def by (metis filter_is_subset list.set_map)

lemma ordered_fields_None [simp]: "ordered_fields L kvs \<Longrightarrow> k \<notin> set L \<Longrightarrow> map_of kvs k = None"
  using ordered_fields_keys by (fastforce simp: map_of_eq_None_iff)

lemma ordered_fields_rebuild:
  assumes "ordered_fields L kvs" and "distinct L"
  shows "map (\<lambda>n. (n, the (map_of kvs n))) (filter (\<lambda>n. map_of kvs n \<noteq> None) L) = kvs"
proof -
  have d: "distinct (map fst kvs)" using assms by (simp add: ordered_fields_def)
  have "filter (\<lambda>n. map_of kvs n \<noteq> None) L = map fst kvs"
    using assms(1) by (simp add: ordered_fields_def map_of_eq_None_iff)
  moreover have "map (\<lambda>n. (n, the (map_of kvs n))) (map fst kvs) = kvs"
    using d by (auto intro!: map_idI simp: comp_def)
  ultimately show ?thesis by simp
qed

lemma ordered_fieldsI: "map fst kvs = filter P L \<Longrightarrow> ordered_fields L kvs"
proof -
  assume *: "map fst kvs = filter P L"
  then have "fst ` set kvs = {n \<in> set L. P n}" by (metis list.set_map set_filter)
  with * show ?thesis by (auto simp: ordered_fields_def intro: filter_cong)
qed

subsection \<open>Validated nodes are well formed\<close>

lemma binding_entry_Inr:
  "binding_entry loc (k, raw) = Inr e \<Longrightarrow>
     fst e = k \<and> SAFE_ID k \<and> wf_input_binding (snd e)"
  by (auto simp: binding_entry_def Let_def wf_input_binding_def)

lemma validate_input_bindings_Inr:
  assumes "validate_input_bindings v loc = Inr bs"
  shows "length bs \<le> 64 \<and> sorted_wrt (<) (map fst bs)
     \<and> (\<forall>(k, b) \<in> set bs. SAFE_ID k \<and> wf_input_binding b)"
proof (cases "v = JNull")
  case True
  with assms show ?thesis by (simp add: validate_input_bindings_def)
next
  case False
  with assms obtain es where len: "length (obj_items v) \<le> 64"
    and es: "list_all2 (\<lambda>x y. binding_entry loc x = Inr y) (sort_key fst (obj_items v)) es"
    and bs: "bs = foldl (\<lambda>d (k, b). AList.update k b d) [] es"
    by (auto simp: validate_input_bindings_def mapE_Inr_iff)
  from es have keys: "map fst es = map fst (sort_key fst (obj_items v))"
    by (induction rule: list_all2_induct) (auto dest: binding_entry_Inr)
  from es have ok: "\<forall>e \<in> set es. SAFE_ID (fst e) \<and> wf_input_binding (snd e)"
    by (induction rule: list_all2_induct) (auto dest: binding_entry_Inr)
  have "length es = length (obj_items v)" using list_all2_lengthD [OF es] by simp
  with foldl_update_sorted [of "[]" es] keys len
  have "sorted_wrt (<) (map fst bs)" "length bs \<le> 64" "set bs \<subseteq> set es" by (auto simp: bs)
  with ok show ?thesis by fastforce
qed

lemma text_values_ordered [simp]: "ordered_fields L (text_values node L)"
  by (rule ordered_fieldsI) (simp add: text_values_def comp_def)

lemma flag_values_ordered: "flag_values loc node L = Inr fl \<Longrightarrow> ordered_fields L fl"
proof -
  assume "flag_values loc node L = Inr fl"
  then have "list_all2 (\<lambda>n y. is_bool (jget node n) \<and> y = (n, truthy (jget node n)))
      (filter (\<lambda>n. jget node n \<noteq> JNull) L) fl"
    by (auto simp: flag_values_def mapE_Inr_iff elim!: list_all2_mono)
  then have "map fst fl = filter (\<lambda>n. jget node n \<noteq> JNull) L"
    by (induction rule: list_all2_induct) auto
  then show ?thesis by (rule ordered_fieldsI)
qed

lemma task_fields_Inr: "task_fields node loc = Inr t \<Longrightarrow> wf_task t"
  by (auto simp: task_fields_def Let_def wf_task_def is_str_conv flag_values_ordered
      dest!: validate_input_bindings_Inr)

lemma validate_node_Inr: "validate_node node loc = Inr n \<Longrightarrow> wf_node n"
proof -
  assume *: "validate_node node loc = Inr n"
  have "list_all SAFE_ID ds"
    if "mapE (\<lambda>d. validate_id (str_of d) l) xs = Inr ds" for xs ds l
    using that unfolding mapE_Inr_iff by (induction rule: list_all2_induct) auto
  with * show ?thesis
    by (auto simp: validate_node_def Let_def wf_node_def task_fields_Inr split: if_splits)
qed

lemma nodes_loop_Inr:
  assumes "nodes_loop i acc js = Inr ns" and "list_all wf_node acc"
    and "distinct (map node_id acc)" and "distinct (concat (map node_run_ids acc))"
  shows "list_all wf_node ns \<and> distinct (map node_id ns) \<and> distinct (concat (map node_run_ids ns))
     \<and> length ns = length acc + length js"
  using assms
proof (induction i acc js rule: nodes_loop.induct)
  case (1 i acc)
  then show ?case by simp
next
  case (2 i acc node rest)
  then obtain n where n: "validate_node node (''nodes['' @ int_str (int i) @ '']'') = Inr n"
    and fresh: "node_id n \<notin> node_id ` set acc"
      "\<forall>r \<in> set (node_run_ids n). r \<notin> set (concat (map node_run_ids acc))"
    and rest: "nodes_loop (Suc i) (acc @ [n]) rest = Inr ns"
    by (auto simp del: node_run_ids.simps)
  have "distinct (node_run_ids n)" by (simp split: node_kind.splits)
  with 2 n fresh rest validate_node_Inr [OF n] show ?case by (auto simp del: node_run_ids.simps)
qed

subsection \<open>Normalised snapshots are well formed\<close>

lemma sort_dependencies_simps [simp]:
  "node_id (sort_dependencies n) = node_id n" "kind (sort_dependencies n) = kind n"
  "dependencies (sort_dependencies n) = sort (dependencies n)"
  "node_run_ids (sort_dependencies n) = node_run_ids n"
  by (simp_all add: sort_dependencies_def)

lemma wf_sort_dependencies: "wf_node n \<Longrightarrow> wf_node (sort_dependencies n)"
  by (auto simp: wf_node_def list_all_iff split: node_kind.splits)

lemma map_node_id_sort: "map node_id (sort_key node_id ns) = sort (map node_id ns)"
  by (rule properties_for_sort [symmetric]) simp_all

lemma distinct_run_ids_sort:
  "distinct (concat (map node_run_ids (sort_key node_id ns))) = distinct (concat (map node_run_ids ns))"
proof (rule mset_eq_imp_distinct_iff)
  have "mset (map (\<lambda>n. mset (node_run_ids n)) (sort_key node_id ns))
      = mset (map (\<lambda>n. mset (node_run_ids n)) ns)"
    by (simp del: node_run_ids.simps)
  then have "sum_list (map (\<lambda>n. mset (node_run_ids n)) (sort_key node_id ns))
      = sum_list (map (\<lambda>n. mset (node_run_ids n)) ns)"
    by (metis sum_mset_sum_list)
  then show "mset (concat (map node_run_ids (sort_key node_id ns))) = mset (concat (map node_run_ids ns))"
    by (simp add: mset_concat comp_def del: node_run_ids.simps)
qed

lemma unknown_dependencies_Nil:
  "unknown_dependencies (graph_of ns) = [] \<longleftrightarrow>
     (\<forall>n \<in> set ns. set (dependencies n) \<subseteq> node_id ` set ns)"
  by (auto simp: unknown_dependencies_def graph_of_def filter_empty_conv image_image)

lemma depends_graph_of:
  assumes "distinct (map node_id ns)"
  shows "depends (graph_of ns) = {(a, b). \<exists>n \<in> set ns. node_id n = a \<and> b \<in> set (dependencies n)}"
proof -
  have "map_of (graph_of ns) a = Some ds \<longleftrightarrow> (\<exists>n \<in> set ns. node_id n = a \<and> ds = dependencies n)" for a ds
  proof -
    have "distinct (map fst (graph_of ns))" using assms by (simp add: graph_of_def comp_def)
    from map_of_eq_Some_iff [OF this, of a ds] show ?thesis by (auto simp: graph_of_def)
  qed
  moreover have "b \<in> set (deps_of (graph_of ns) a) \<longleftrightarrow>
      (\<exists>ds. map_of (graph_of ns) a = Some ds \<and> b \<in> set ds)" for a b
    by (cases "map_of (graph_of ns) a") (simp_all add: deps_of_def)
  ultimately show ?thesis unfolding depends_def by (auto; metis)
qed

lemma fst_graph_of [simp]:
  "map fst (graph_of ns) = map node_id ns" "fst ` set (graph_of ns) = node_id ` set ns"
  by (simp_all add: graph_of_def comp_def image_image)

lemma normalize_snapshot_Inr:
  assumes "normalize_snapshot X j = Inr s"
  shows "wf_snapshot s \<and> schema_errors X WORKFLOW_SNAPSHOT_SCHEMA (snapshot_json s) = []"
proof -
  obtain raw ns v where raw: "raw \<noteq> []" and loop: "nodes_loop 0 [] raw = Inr ns"
    and u: "unknown_dependencies (graph_of ns) = []"
    and cyc: "check_cycles (graph_of ns) [] (sort (map fst (graph_of ns))) = Inr v"
    and s: "nodes s = map sort_dependencies (sort_key node_id ns)"
    and top: "SAFE_ID (workflow_id s)" "pack_id s \<noteq> []" "pack_manifest_sha256 s \<noteq> []"
      "schema_errors X WORKFLOW_SNAPSHOT_SCHEMA (snapshot_json s) = []"
    using assms by (auto simp: normalize_snapshot_def Let_def)
  from nodes_loop_Inr [OF loop] have ns: "list_all wf_node ns" "distinct (map node_id ns)"
    "distinct (concat (map node_run_ids ns))" "length ns = length raw" by simp_all
  have set_nodes: "set (nodes s) = sort_dependencies ` set ns" by (simp add: s)
  have ids: "map node_id (nodes s) = sort (map node_id ns)"
    by (simp add: s comp_def map_node_id_sort)
  have dist: "distinct (map node_id (nodes s))" using ns(2) by (simp add: ids)
  from check_cycles_Inr [OF cyc] have "acyclic (depends (graph_of ns))"
    by (intro topo_acyclic [of _ v]) auto
  moreover have "depends (graph_of (nodes s)) = depends (graph_of ns)"
    unfolding depends_graph_of [OF ns(2)] depends_graph_of [OF dist] by (auto simp: set_nodes)
  moreover have "distinct (concat (map node_run_ids (nodes s)))"
    using ns(3) distinct_run_ids_sort [of ns] by (simp add: s comp_def del: node_run_ids.simps)
  moreover have "\<forall>n \<in> set (nodes s). wf_node n \<and> sorted (dependencies n)
      \<and> set (dependencies n) \<subseteq> node_id ` set (nodes s)"
    using u ns(1) by (auto simp: set_nodes unknown_dependencies_Nil list_all_iff image_image wf_sort_dependencies)
  moreover have "nodes s \<noteq> []" using raw ns(4) by (metis length_0_conv length_map length_sort s)
  ultimately show ?thesis using top dist by (simp add: wf_snapshot_def ids)
qed

text \<open>
  C37. A snapshot that normalisation accepts is well formed whatever the JSON it was read from:
  identifiers are safe path components, node identifiers are unique and sorted, no two tasks
  share an agent run, every dependency names a node of the snapshot, an approval node depends
  on the node it approves, a task with a role pins neither executor nor model, input bindings
  are bounded, and the dependency relation is acyclic.
\<close>

theorem normalize_snapshot_wf:
  assumes "normalize_snapshot X j = Inr s"
  shows "wf_snapshot s"
  using normalize_snapshot_Inr [OF assms] by simp

subsection \<open>Normalisation is idempotent\<close>

lemma jget_fields: "jget (JObj kvs) k = (case map_of kvs k of None \<Rightarrow> JNull | Some x \<Rightarrow> x)"
  by (simp add: jaccess)

lemma jget_or_fields: "jget_or (JObj kvs) k d = (case map_of kvs k of None \<Rightarrow> d | Some x \<Rightarrow> x)"
  by (simp add: jaccess)

lemma map_of_opt_field: "map_of (opt_field k f x) k' = (if k' = k then map_option f x else None)"
  by (simp add: opt_field_def split: option.splits)

lemma binding_entry_json:
  "SAFE_ID k \<Longrightarrow> wf_input_binding b \<Longrightarrow> binding_entry loc (k, input_binding_json b) = Inr (k, b)"
  by (simp add: binding_entry_def input_binding_json_def jget_or_fields Let_def wf_input_binding_def)

lemma validate_input_bindings_json:
  assumes "length bs \<le> 64" and "sorted_wrt (<) (map fst bs)"
    and "\<forall>(k, b) \<in> set bs. SAFE_ID k \<and> wf_input_binding b"
  shows "validate_input_bindings (JObj (map (\<lambda>(k, b). (k, input_binding_json b)) bs)) loc = Inr bs"
proof -
  have keys: "map fst (map (\<lambda>(k, b). (k, input_binding_json b)) bs) = map fst bs"
    by (simp add: comp_def case_prod_beta)
  have "mapE (binding_entry loc) (map (\<lambda>(k, b). (k, input_binding_json b)) bs) = Inr bs"
    using assms(3) by (induction bs) (auto simp: binding_entry_json)
  moreover have "sort_key fst (map (\<lambda>(k, b). (k, input_binding_json b)) bs)
      = map (\<lambda>(k, b). (k, input_binding_json b)) bs"
    by (rule sort_key_strict) (simp only: keys assms(2))
  ultimately show ?thesis
    using assms(1) by (simp add: validate_input_bindings_def foldl_update_id [OF assms(2)])
qed

lemmas key_lists = TEXT_FIELDS_def FLAG_FIELDS_def

lemma kind_fields_lookup:
  assumes "wf_task t"
  shows "map_of (kind_fields (Task t)) k =
     (if k = ''agent_run_id'' then Some (JStr (agent_run_id t))
      else if k = ''prompt_path'' then Some (JStr (prompt_path t))
      else if k = ''evaluation_path'' then map_option JStr (evaluation_path t)
      else if k \<in> set TEXT_FIELDS then map_option JStr (map_of (texts t) k)
      else if k \<in> set FLAG_FIELDS then map_option JBool (map_of (flags t) k)
      else if k = ''routing'' then routing t
      else if k = ''input_bindings'' then
        (if input_bindings t = [] then None
         else Some (JObj (map (\<lambda>(k, b). (k, input_binding_json b)) (input_bindings t))))
      else None)"
proof -
  have T: "map_of (map (\<lambda>(k, v). (k, JStr v)) (texts t)) k =
      (if k \<in> set TEXT_FIELDS then map_option JStr (map_of (texts t) k) else None)"
    and F: "map_of (map (\<lambda>(k, v). (k, JBool v)) (flags t)) k =
      (if k \<in> set FLAG_FIELDS then map_option JBool (map_of (flags t) k) else None)" for k
    using assms by (auto simp: wf_task_def map_of_map)
  let ?lits = "{''agent_run_id'', ''prompt_path'', ''evaluation_path'', ''routing'', ''input_bindings''}"
  have lits: "\<forall>k \<in> ?lits. k \<notin> set TEXT_FIELDS \<and> k \<notin> set FLAG_FIELDS"
    and TF: "k \<in> set TEXT_FIELDS \<Longrightarrow> k \<notin> set FLAG_FIELDS"
    by (auto simp: key_lists)
  show ?thesis
  proof (cases "k \<in> ?lits")
    case True
    then show ?thesis using lits
      by (elim insertE) (simp_all add: map_of_opt_field map_add_def T F split: option.splits)
  next
    case False
    with TF show ?thesis
      by (cases "k \<in> set FLAG_FIELDS")
        (auto simp: map_of_opt_field map_add_def T F split: option.splits)
  qed
qed

lemma node_json_lookup:
  assumes "wf_task t"
  shows "map_of (obj_items (node_json \<lparr>node_id = i, kind = Task t, dependencies = ds\<rparr>)) k =
     (if k = ''node_id'' then Some (JStr i) else if k = ''kind'' then Some (JStr ''task'')
      else if k = ''dependencies'' then Some (JList (map JStr ds))
      else map_of (kind_fields (Task t)) k)"
  by (simp add: node_json_def)

lemma validate_ids_json: "list_all SAFE_ID ds \<Longrightarrow>
    mapE (\<lambda>d. validate_id (str_of d) l) (map JStr ds) = Inr ds"
  by (induction ds) auto

lemma text_values_json:
  assumes "ordered_fields L kvs" and "distinct L"
    and "\<And>k. k \<in> set L \<Longrightarrow> jget node k = opt_str (map_of kvs k)"
  shows "text_values node L = kvs"
proof -
  have "filter (\<lambda>n. jget node n \<noteq> JNull) L = filter (\<lambda>n. map_of kvs n \<noteq> None) L"
    using assms(3) by (intro filter_cong) (auto elim: opt_str.elims)
  moreover have "map (\<lambda>n. (n, py_str (jget node n))) (filter (\<lambda>n. map_of kvs n \<noteq> None) L)
      = map (\<lambda>n. (n, the (map_of kvs n))) (filter (\<lambda>n. map_of kvs n \<noteq> None) L)"
    using assms(3) by auto
  ultimately show ?thesis
    using ordered_fields_rebuild [OF assms(1,2)] by (simp only: text_values_def)
qed

lemma flag_values_json:
  assumes "ordered_fields L kvs" and "distinct L"
    and "\<And>k. k \<in> set L \<Longrightarrow> jget node k = (case map_of kvs k of None \<Rightarrow> JNull | Some b \<Rightarrow> JBool b)"
  shows "flag_values loc node L = Inr kvs"
proof -
  let ?L = "filter (\<lambda>n. map_of kvs n \<noteq> None) L"
  have "filter (\<lambda>n. jget node n \<noteq> JNull) L = ?L"
    using assms(3) by (intro filter_cong) (auto split: option.splits)
  moreover have "mapE (\<lambda>n. bindE (raise_if (\<not> is_bool (jget node n)) (loc @ '': '' @ n @ '' must be boolean''))
        (\<lambda>_. Inr (n, truthy (jget node n)))) ?L
      = mapE (\<lambda>n. Inr (n, the (map_of kvs n))) ?L"
    using assms(3) by (intro mapE_cong) auto
  ultimately show ?thesis
    using ordered_fields_rebuild [OF assms(1,2)] by (simp add: flag_values_def)
qed

lemma task_fields_json:
  assumes "wf_task t"
    and "\<And>k. k \<notin> {''node_id'', ''kind'', ''dependencies''} \<Longrightarrow> jlookup node k = map_of (kind_fields (Task t)) k"
  shows "task_fields node loc = Inr t"
proof -
  note look = assms(2) kind_fields_lookup [OF assms(1)]
  have keys: "distinct TEXT_FIELDS" "distinct FLAG_FIELDS" by (simp_all add: key_lists)
  have other: "k \<in> set TEXT_FIELDS \<Longrightarrow> k \<notin> {''node_id'', ''kind'', ''dependencies'', ''agent_run_id'',
      ''prompt_path'', ''evaluation_path''} \<and> k \<notin> set FLAG_FIELDS"
    "k \<in> set FLAG_FIELDS \<Longrightarrow> k \<notin> {''node_id'', ''kind'', ''dependencies'', ''agent_run_id'',
      ''prompt_path'', ''evaluation_path''} \<and> k \<notin> set TEXT_FIELDS" for k
    by (auto simp: key_lists)
  have "jlookup node k = map_option JStr (map_of (texts t) k)" if "k \<in> set TEXT_FIELDS" for k
    using other(1) [OF that] that by (simp add: look del: kind_fields.simps)
  then have "jget node k = opt_str (map_of (texts t) k)" if "k \<in> set TEXT_FIELDS" for k
    using that by (cases "map_of (texts t) k") (simp_all add: jget_def jget_or_def)
  then have tx: "text_values node TEXT_FIELDS = texts t"
    using assms(1) keys(1) by (intro text_values_json) (simp_all add: wf_task_def)
  have "jlookup node k = map_option JBool (map_of (flags t) k)" if "k \<in> set FLAG_FIELDS" for k
    using other(2) [OF that] that by (simp add: look del: kind_fields.simps)
  then have "jget node k = (case map_of (flags t) k of None \<Rightarrow> JNull | Some b \<Rightarrow> JBool b)"
    if "k \<in> set FLAG_FIELDS" for k
    using that by (cases "map_of (flags t) k") (simp_all add: jget_def jget_or_def)
  then have fl: "flag_values loc node FLAG_FIELDS = Inr (flags t)"
    using assms(1) keys(2) by (intro flag_values_json) (simp_all add: wf_task_def)
  have get: "jget_or node ''agent_run_id'' d = JStr (agent_run_id t)"
    "jget_or node ''prompt_path'' d = JStr (prompt_path t)"
    "jget node ''evaluation_path'' = opt_str (evaluation_path t)"
    "jget node ''routing'' = (case routing t of None \<Rightarrow> JNull | Some r \<Rightarrow> r)"
    "jget node ''input_bindings'' = (if input_bindings t = [] then JNull
       else JObj (map (\<lambda>(k, b). (k, input_binding_json b)) (input_bindings t)))" for d
    by (simp_all add: jget_def jget_or_def look key_lists del: kind_fields.simps split: option.splits)
  have ib: "validate_input_bindings (jget node ''input_bindings'') l = Inr (input_bindings t)" for l
    using assms(1) validate_input_bindings_json [of "input_bindings t" l]
    by (simp add: get wf_task_def) (simp add: validate_input_bindings_def)
  show ?thesis
    using assms(1)
    by (auto simp: task_fields_def get(1-4) tx fl ib Let_def wf_task_def split: option.splits
        elim: opt_str.elims)
qed

lemma validate_node_json:
  assumes "wf_node n"
  shows "validate_node (node_json n) loc = Inr n"
proof -
  have ds: "list_all SAFE_ID (dependencies n)" "distinct (dependencies n)" "SAFE_ID (node_id n)"
    using assms by (simp_all add: wf_node_def)
  then have ne: "\<forall>d \<in> set (dependencies n). d \<noteq> []" by (auto simp: list_all_iff)
  have base: "jget_or (node_json n) ''node_id'' d = JStr (node_id n)"
    "jget_or (node_json n) ''kind'' d = JStr (kind_str (kind n))"
    "jget_or (node_json n) ''dependencies'' d = JList (map JStr (dependencies n))"
    "is_obj (node_json n)" for d
    by (simp_all add: node_json_def jget_or_fields)
  show ?thesis
  proof (cases "kind n")
    case (Task t)
    have "task_fields (node_json n) loc = Inr t"
      using assms Task
      by (intro task_fields_json) (simp_all add: wf_node_def node_json_def jlookup_def)
    then show ?thesis using ds ne Task
      by (simp add: validate_node_def Let_def base validate_ids_json)
  next
    case (Approval a)
    then have a: "jget_or (node_json n) ''approval_for'' d = JStr a" for d
      by (simp add: node_json_def jget_or_fields)
    from assms Approval have "a \<in> set (dependencies n)" "SAFE_ID a"
      by (auto simp: wf_node_def list_all_iff)
    with ds ne Approval show ?thesis
      by (simp add: validate_node_def Let_def base validate_ids_json a)
  qed
qed

lemma nodes_loop_json:
  "\<forall>n \<in> set ns. wf_node n \<Longrightarrow> distinct (map node_id (acc @ ns)) \<Longrightarrow>
   distinct (concat (map node_run_ids (acc @ ns))) \<Longrightarrow>
   nodes_loop i acc (map node_json ns) = Inr (acc @ ns)"
proof (induction ns arbitrary: i acc)
  case Nil
  then show ?case by simp
next
  case (Cons n ns)
  have "nodes_loop (Suc i) (acc @ [n]) (map node_json ns) = Inr ((acc @ [n]) @ ns)"
    using Cons.prems by (intro Cons.IH) (simp_all del: node_run_ids.simps)
  moreover have "node_id n \<notin> node_id ` set acc"
    "\<forall>r \<in> set (node_run_ids n). r \<notin> set (concat (map node_run_ids acc))"
    using Cons.prems by (auto simp del: node_run_ids.simps)
  ultimately show ?case
    using Cons.prems(1) by (simp add: validate_node_json del: node_run_ids.simps)
qed

lemma sort_dependencies_id: "sorted (dependencies n) \<Longrightarrow> sort_dependencies n = n"
  by (simp add: sort_dependencies_def sorted_sort_id)

lemma check_cycles_acyclic:
  assumes "acyclic (depends g)" and "unknown_dependencies g = []"
  shows "\<exists>v. check_cycles g [] (sort (map fst g)) = Inr v"
proof (cases "check_cycles g [] (sort (map fst g))")
  case (Inl e)
  with check_cycles_Inl [OF Inl _ assms(2)] is_cycle_not_acyclic assms(1) show ?thesis by auto
next
  case (Inr v)
  then show ?thesis by simp
qed

lemma normalize_snapshot_json:
  assumes "wf_snapshot s" and "schema_errors X WORKFLOW_SNAPSHOT_SCHEMA (snapshot_json s) = []"
  shows "normalize_snapshot X (snapshot_json s) = Inr s"
proof -
  let ?ns = "nodes s"
  from assms(1) have w: "SAFE_ID (workflow_id s)" "pack_id s \<noteq> []" "pack_manifest_sha256 s \<noteq> []" "?ns \<noteq> []"
    "sorted (map node_id ?ns)" "distinct (map node_id ?ns)" "distinct (concat (map node_run_ids ?ns))"
    "\<forall>n \<in> set ?ns. wf_node n" "\<forall>n \<in> set ?ns. sorted (dependencies n)"
    "\<forall>n \<in> set ?ns. set (dependencies n) \<subseteq> node_id ` set ?ns" "acyclic (depends (graph_of ?ns))"
    by (simp_all add: wf_snapshot_def del: node_run_ids.simps)
  have u: "unknown_dependencies (graph_of ?ns) = []" using w(10) by (simp add: unknown_dependencies_Nil)
  from check_cycles_acyclic [OF w(11) u] obtain v
    where c: "check_cycles (graph_of ?ns) [] (sort (map node_id ?ns)) = Inr v" by auto
  have loop: "nodes_loop 0 [] (map node_json ?ns) = Inr ?ns"
    using nodes_loop_json [OF w(8), of "[]"] w(6,7) by simp
  have srt: "map sort_dependencies (sort_key node_id ?ns) = ?ns"
    using w(5,9) by (simp add: sort_key_id_if_sorted map_idI sort_dependencies_id)
  have get: "jget_or (snapshot_json s) ''workflow_id'' d = JStr (workflow_id s)"
    "jget_or (snapshot_json s) ''pack_id'' d = JStr (pack_id s)"
    "jget_or (snapshot_json s) ''pack_manifest_sha256'' d = JStr (pack_manifest_sha256 s)"
    "jget (snapshot_json s) ''nodes'' = JList (map node_json ?ns)" "is_obj (snapshot_json s)" for d
    by (simp_all add: snapshot_json_def jaccess)
  have eta: "\<lparr>workflow_id = workflow_id s, pack_id = pack_id s,
      pack_manifest_sha256 = pack_manifest_sha256 s, nodes = nodes s\<rparr> = s" by simp
  show ?thesis
    using w(1-4) assms(2)
    by (simp add: normalize_snapshot_def Let_def get loop u c srt eta del: snapshot.surjective)
qed

text \<open>
  Normalisation is idempotent: the JSON form of a normalised snapshot normalises to the
  same snapshot, so every later entry point that normalises again works on the same graph and
  computes the same digest.
\<close>

theorem normalize_snapshot_idempotent:
  assumes "normalize_snapshot X j = Inr s"
  shows "normalize_snapshot X (snapshot_json s) = Inr s
     \<and> snapshot_sha256 X (snapshot_json s) = snapshot_sha256 X j"
  using normalize_snapshot_Inr [OF assms] normalize_snapshot_json [of s X] assms
  by (simp add: snapshot_sha256_def)

subsection \<open>A concrete workflow\<close>

text \<open>
  The workflow on which the theorems are evaluated: a task \<open>build\<close>, its approval \<open>gate\<close> and a
  task \<open>ship\<close> behind the gate, with a schema validator that reports nothing.
\<close>

definition demo_ext :: ext where
  "demo_ext = \<lparr>schema_errors = (\<lambda>_ _. []), sha256 = (\<lambda>s. ''d'')\<rparr>"

definition demo_snapshot :: snapshot where
  "demo_snapshot =
     \<lparr>workflow_id = ''w'', pack_id = ''p'', pack_manifest_sha256 = ''m'',
      nodes =
        [\<lparr>node_id = ''build'',
          kind = Task \<lparr>agent_run_id = ''r1'', prompt_path = ''b.md'', evaluation_path = None,
                       texts = [(''role'', ''dev'')], flags = [], routing = None, input_bindings = []\<rparr>,
          dependencies = []\<rparr>,
         \<lparr>node_id = ''gate'', kind = Approval ''build'', dependencies = [''build'']\<rparr>,
         \<lparr>node_id = ''ship'',
          kind = Task \<lparr>agent_run_id = ''r2'', prompt_path = ''s.md'', evaluation_path = None,
                       texts = [], flags = [(''interactive'', True)], routing = None,
                       input_bindings = [(''log'', \<lparr>source_node_id = ''build'', pointer = ''/log'',
                                                   required = True, max_input_bytes = 65536\<rparr>)]\<rparr>,
          dependencies = [''gate'']\<rparr>]\<rparr>"

definition demo_json :: json where
  "demo_json =
     JObj [(''workflow_id'', JStr ''w''), (''pack_id'', JStr ''p''), (''pack_manifest_sha256'', JStr ''m''),
           (''nodes'', JList
              [JObj [(''node_id'', JStr ''ship''), (''dependencies'', JList [JStr ''gate'']),
                     (''agent_run_id'', JStr ''r2''), (''prompt_path'', JStr ''s.md''),
                     (''interactive'', JBool True),
                     (''input_bindings'', JObj [(''log'',
                        JObj [(''source_node_id'', JStr ''build''), (''pointer'', JStr ''/log'')])])],
               JObj [(''node_id'', JStr ''gate''), (''kind'', JStr ''approval''),
                     (''dependencies'', JList [JStr ''build'']), (''approval_for'', JStr ''build'')],
               JObj [(''node_id'', JStr ''build''), (''agent_run_id'', JStr ''r1''),
                     (''prompt_path'', JStr ''b.md''), (''role'', JStr ''dev'')]])]"

lemma demo_normal: "normalize_snapshot demo_ext demo_json = Inr demo_snapshot"
  by code_simp

theorem normalize_snapshot_wf_witness:
  "normalize_snapshot demo_ext demo_json = Inr demo_snapshot \<and> wf_snapshot demo_snapshot"
  using normalize_snapshot_wf [OF demo_normal] demo_normal by simp

theorem normalize_snapshot_idempotent_witness:
  "normalize_snapshot demo_ext demo_json = Inr demo_snapshot
   \<and> normalize_snapshot demo_ext (snapshot_json demo_snapshot) = Inr demo_snapshot"
  using normalize_snapshot_idempotent [OF demo_normal] demo_normal by simp

end
