(* ===== verification/Task_Chains.thy ===== *)
theory Task_Chains
  imports Workflow_Normal
begin

text \<open>
  \<open>task_chains.py\<close>: the deterministic order of a task chain and the checks that bind one
  execution to its place in the chain. \<open>order_tasks\<close> is Kahn's algorithm with a lexicographic
  choice; the theorems say that it returns exactly on acyclic chains and that the order
  respects every predecessor.
\<close>

definition PLAN :: string where
  "PLAN = ''agent-workflow/task-chain/v1''"

definition BINDING :: string where
  "BINDING = ''agent-workflow/execution-binding/v1''"

text \<open>The digest of \<open>task_chains.digest\<close> and of the integration receipts.\<close>

definition digest :: "ext \<Rightarrow> json \<Rightarrow> string" where
  "digest X v = sha256 X (canonical_json_bytes v True False)"

definition ready :: "string list \<Rightarrow> graph \<Rightarrow> string list" where
  "ready order pending = sort (map fst (filter (\<lambda>(_, deps). set deps \<subseteq> set order) pending))"

lemma ready_in: "ready order pending = t # ts \<Longrightarrow> t \<in> fst ` set pending"
proof -
  assume "ready order pending = t # ts"
  then have "t \<in> set (ready order pending)" by simp
  then show ?thesis by (auto simp: ready_def)
qed

function order_loop :: "string list \<Rightarrow> graph \<Rightarrow> string list result" where
  "order_loop order pending =
     (if pending = [] then Inr order
      else (case ready order pending of
              [] \<Rightarrow> Inl (WorkflowError ''cyclic task dependencies'')
            | task # _ \<Rightarrow> order_loop (order @ [task]) (filter (\<lambda>(t, _). t \<noteq> task) pending)))"
  by pat_completeness auto
termination
proof (relation "measure (\<lambda>(_, p). length p)", goal_cases)
  case 1
  show ?case by simp
next
  case (2 order pending task ts)
  from ready_in [OF 2(2)] obtain ds where "(task, ds) \<in> set pending" by auto
  then show ?case by (auto intro: length_filter_less)
qed

declare order_loop.simps [simp del]

definition order_graph :: "graph \<Rightarrow> string list result" where
  "order_graph g =
     (let ids = map fst g in
      bindE (raise_if (ids = [] \<or> \<not> distinct ids) ''task chain requires unique task identities'') (\<lambda>_.
      bindE (raise_if (\<exists>(task, deps) \<in> set g. task \<in> set deps \<or> \<not> set deps \<subseteq> set ids)
              ''missing predecessor or self-dependency'') (\<lambda>_.
      order_loop [] g)))"

text \<open>The fields of a task: its identity and the identities of its predecessors.\<close>

definition task_row :: "json \<Rightarrow> (string \<times> string list) result" where
  "task_row item =
     bindE (jidx item ''task_id'') (\<lambda>t.
     bindE (jidx item ''predecessors'') (\<lambda>ps.
     Inr (py_str t, map py_str (list_items ps))))"

definition order_tasks :: "json list \<Rightarrow> string list result" where
  "order_tasks tasks = bindE (mapE task_row tasks) order_graph"

definition validate_plan :: "ext \<Rightarrow> json \<Rightarrow> string list result" where
  "validate_plan X plan =
     bindE (validate_instance X plan PLAN ''task chain plan'') (\<lambda>_.
     bindE (jidx plan ''plan_sha256'') (\<lambda>h.
     bindE (raise_if (h \<noteq> JStr (digest X (jpop ''plan_sha256'' plan))) ''task chain plan hash mismatch'') (\<lambda>_.
     bindE (jidx plan ''tasks'') (\<lambda>ts.
     bindE (order_tasks (list_items ts)) (\<lambda>order.
     bindE (jidx plan ''order'') (\<lambda>o'.
     bindE (raise_if (\<not> py_eq (JList (map JStr order)) o') ''task chain order mismatch'') (\<lambda>_.
     Inr order)))))))"

text \<open>\<open>task_integration._verify_receipt_hash\<close>.\<close>

definition verify_receipt_hash :: "ext \<Rightarrow> json \<Rightarrow> unit result" where
  "verify_receipt_hash X receipt =
     (let schema = jget receipt ''schema'' in
     bindE (raise_if (schema \<notin> {JStr ''agent-workflow/task-integration/v1'',
                                 JStr ''agent-workflow/task-integration/v2''})
             ''unsupported integration receipt'') (\<lambda>_.
     bindE (validate_instance X receipt (str_of schema) ''integration receipt'') (\<lambda>_.
     bindE (jidx receipt ''receipt_sha256'') (\<lambda>h.
     bindE (raise_if (h \<noteq> JStr (digest X (jpop ''receipt_sha256'' receipt)))
             ''integration receipt canonical hash mismatch'') (\<lambda>_.
     bindE (jidx receipt ''request'') (\<lambda>req.
     bindE (jidx receipt ''request_sha256'') (\<lambda>rh.
     raise_if (rh \<noteq> JStr (digest X req)) ''integration request hash mismatch'')))))))"

definition accepted_prefix :: "json \<Rightarrow> json \<Rightarrow> string list \<Rightarrow> bool result" where
  "accepted_prefix prior plan pre =
     bindE (jidx prior ''schema'') (\<lambda>sc. if sc \<noteq> JStr ''agent-workflow/task-integration/v2'' then Inr False else
     bindE (jidx prior ''status'') (\<lambda>st. if st \<noteq> JStr ''success'' then Inr False else
     bindE (jidx prior ''decision'') (\<lambda>d. if d \<noteq> JStr ''accepted'' then Inr False else
     bindE (jidx prior ''purpose'') (\<lambda>p. if p \<noteq> JStr ''transition'' then Inr False else
     bindE (jidx prior ''chain_plan'') (\<lambda>cp. if \<not> py_eq cp plan then Inr False else
     bindE (jidx prior ''inputs'') (\<lambda>ins.
     bindE (mapE (\<lambda>row. jidx row ''task_id'') (list_items ins)) (\<lambda>ids.
     Inr (py_eq (JList ids) (JList (map JStr pre))))))))))"

text \<open>\<open>validate_execution_binding(value)\<close>, called without a job.\<close>

definition validate_execution_binding :: "ext \<Rightarrow> json \<Rightarrow> json result" where
  "validate_execution_binding X v =
     bindE (validate_instance X v BINDING ''execution binding'') (\<lambda>_.
     bindE (jidx v ''plan'') (\<lambda>plan.
     bindE (validate_plan X plan) (\<lambda>order.
     bindE (jidx v ''task_id'') (\<lambda>task.
     bindE (raise_if (task \<notin> JStr ` set order) ''execution task is absent from chain'') (\<lambda>_.
     (let before = takeWhile (\<lambda>t. JStr t \<noteq> task) order in
     bindE (jidx v ''prior_integration'') (\<lambda>prior.
     bindE (if before = [] then
              bindE (jidx plan ''planning_revision'') (\<lambda>rev.
              bindE (raise_if (prior \<noteq> JNull) ''first task cannot have predecessor integration'') (\<lambda>_.
              Inr rev))
            else
              bindE (raise_if (\<not> is_obj prior) ''missing accepted predecessor integration'') (\<lambda>_.
              bindE (verify_receipt_hash X prior) (\<lambda>_.
              bindE (accepted_prefix prior plan before) (\<lambda>ok.
              bindE (raise_if (\<not> ok) ''execution baseline lacks accepted predecessor prefix'') (\<lambda>_.
              jidx prior ''head_revision''))))) (\<lambda>expected.
     bindE (jidx v ''execution_revision'') (\<lambda>rev.
     bindE (raise_if (\<not> py_eq rev expected) ''incorrect or stale execution baseline'') (\<lambda>_.
     Inr v))))))))))"

subsection \<open>Correctness of the order\<close>

definition order_inv :: "graph \<Rightarrow> string list \<Rightarrow> graph \<Rightarrow> bool" where
  "order_inv g order pending \<longleftrightarrow>
     topo g order \<and> distinct order \<and> set order \<subseteq> fst ` set g
     \<and> pending = filter (\<lambda>(t, _). t \<notin> set order) g"

lemma deps_of_entry: "distinct (map fst g) \<Longrightarrow> (t, ds) \<in> set g \<Longrightarrow> deps_of g t = ds"
  by (simp add: deps_of_def)

lemma order_inv_step:
  assumes "distinct (map fst g)" and "order_inv g order pending" and "ready order pending = t # ts"
  shows "order_inv g (order @ [t]) (filter (\<lambda>(u, _). u \<noteq> t) pending)"
proof -
  have "t \<in> set (ready order pending)" using assms(3) by simp
  then obtain ds where ds: "(t, ds) \<in> set pending" "set ds \<subseteq> set order" by (auto simp: ready_def)
  with assms(2) have g: "(t, ds) \<in> set g" "t \<notin> set order" by (auto simp: order_inv_def)
  have "topo g (order @ [t])"
    using assms(2) ds(2) deps_of_entry [OF assms(1) g(1)] by (intro topo_snoc) (simp_all add: order_inv_def)
  moreover have "filter (\<lambda>(u, _). u \<noteq> t) pending = filter (\<lambda>(u, _). u \<notin> set (order @ [t])) g"
    using assms(2) by (auto simp: order_inv_def case_prod_beta intro: filter_cong)
  ultimately show ?thesis using assms(2) g by (force simp: order_inv_def)
qed

lemma order_loop_Inr:
  "order_loop order pending = Inr out \<Longrightarrow> distinct (map fst g) \<Longrightarrow> order_inv g order pending \<Longrightarrow>
   topo g out \<and> distinct out \<and> set out = fst ` set g"
proof (induction order pending rule: order_loop.induct)
  case (1 order pending)
  show ?case
  proof (cases "pending = []")
    case True
    with "1.prems" have "out = order" "filter (\<lambda>(t, _). t \<notin> set order) g = []"
      by (simp_all add: order_loop.simps [of order] order_inv_def)
    with "1.prems"(3) show ?thesis by (auto simp: order_inv_def filter_empty_conv)
  next
    case False
    with "1.prems"(1) obtain t ts where r: "ready order pending = t # ts"
      and l: "order_loop (order @ [t]) (filter (\<lambda>(u, _). u \<noteq> t) pending) = Inr out"
      by (auto simp: order_loop.simps [of order] split: list.splits)
    from "1.IH" [OF False r l] order_inv_step [OF "1.prems"(2,3) r] "1.prems"(2) show ?thesis by simp
  qed
qed

lemma depends_entry: "(a, b) \<in> depends g \<Longrightarrow> \<exists>ds. (a, ds) \<in> set g \<and> b \<in> set ds"
  by (cases "map_of g a") (auto simp: depends_def deps_of_def dest: map_of_SomeD)

lemma order_stuck_cyclic:
  assumes "distinct (map fst g)" and "\<forall>(t, ds) \<in> set g. set ds \<subseteq> fst ` set g"
    and "order_inv g order pending" and "pending \<noteq> []" and "ready order pending = []"
  shows "\<not> acyclic (depends g)"
proof
  assume "acyclic (depends g)"
  moreover have "depends g \<subseteq> (fst ` set g) \<times> (\<Union>(t, ds) \<in> set g. set ds)"
  proof (rule subrelI)
    fix a b
    assume "(a, b) \<in> depends g"
    from depends_entry [OF this] show "(a, b) \<in> (fst ` set g) \<times> (\<Union>(t, ds) \<in> set g. set ds)" by force
  qed
  then have "finite (depends g)" by (rule finite_subset) auto
  ultimately have wf: "wf ((depends g)\<inverse>)" using finite_acyclic_wf_converse by blast
  have "fst ` set pending \<noteq> {}" using assms(4) by simp
  then obtain t where t: "t \<in> fst ` set pending"
    and min: "\<And>u. (u, t) \<in> (depends g)\<inverse> \<Longrightarrow> u \<notin> fst ` set pending"
    using wfE_min' [OF wf] by metis
  then obtain ds where ds: "(t, ds) \<in> set pending" by auto
  then have g: "(t, ds) \<in> set g" using assms(3) by (auto simp: order_inv_def)
  have "set (ready order pending) = {}" using assms(5) by simp
  then have "\<not> set ds \<subseteq> set order" using ds by (auto simp: ready_def)
  then obtain d where d: "d \<in> set ds" "d \<notin> set order" by blast
  with g assms(2) have "d \<in> fst ` set g" by auto
  with d(2) assms(3) have "d \<in> fst ` set pending" by (force simp: order_inv_def)
  moreover have "(d, t) \<in> (depends g)\<inverse>" using d(1) deps_of_entry [OF assms(1) g] by (simp add: depends_def)
  ultimately show False using min by blast
qed

lemma order_loop_Inl:
  "order_loop order pending = Inl e \<Longrightarrow> distinct (map fst g) \<Longrightarrow>
   \<forall>(t, ds) \<in> set g. set ds \<subseteq> fst ` set g \<Longrightarrow> order_inv g order pending \<Longrightarrow>
   \<not> acyclic (depends g) \<and> e = WorkflowError ''cyclic task dependencies''"
proof (induction order pending rule: order_loop.induct)
  case (1 order pending)
  from "1.prems"(1) have ne: "pending \<noteq> []" by (auto simp: order_loop.simps)
  show ?case
  proof (cases "ready order pending")
    case Nil
    with order_stuck_cyclic [OF "1.prems"(2-4) ne] "1.prems"(1) ne show ?thesis
      by (simp add: order_loop.simps [of order])
  next
    case (Cons t ts)
    with "1.prems"(1) ne have "order_loop (order @ [t]) (filter (\<lambda>(u, _). u \<noteq> t) pending) = Inl e"
      by (simp add: order_loop.simps [of order])
    from "1.IH" [OF ne Cons this "1.prems"(2,3)] order_inv_step [OF "1.prems"(2,4) Cons] show ?thesis by simp
  qed
qed

lemma order_inv_initial: "order_inv g [] g"
  by (simp add: order_inv_def)

text \<open>
  The order of a task chain is correct and total: for tasks with unique identities and known
  predecessors other than themselves, \<open>order_tasks\<close> returns exactly when the predecessor relation
  is acyclic, and then the result lists every task once, each after all its predecessors.
\<close>

theorem order_tasks_correct:
  assumes "mapE task_row tasks = Inr g" and "g \<noteq> []" and "distinct (map fst g)"
    and "\<forall>(t, ds) \<in> set g. t \<notin> set ds \<and> set ds \<subseteq> fst ` set g"
  shows "(\<exists>out. order_tasks tasks = Inr out) = acyclic (depends g)
    \<and> (\<forall>out. order_tasks tasks = Inr out \<longrightarrow>
         topo g out \<and> distinct out \<and> set out = fst ` set g)"
proof -
  have eq: "order_tasks tasks = order_loop [] g"
  proof -
    have "\<not> (\<exists>(task, deps) \<in> set g. task \<in> set deps \<or> \<not> set deps \<subseteq> set (map fst g))"
      using assms(4) by auto
    then show ?thesis using assms(1-3) by (simp add: order_tasks_def order_graph_def Let_def)
  qed
  have known: "\<forall>(t, ds) \<in> set g. set ds \<subseteq> fst ` set g" using assms(4) by auto
  show ?thesis
  proof (cases "order_loop [] g")
    case (Inl e)
    with order_loop_Inl [OF Inl assms(3) known order_inv_initial] eq show ?thesis by simp
  next
    case (Inr out)
    from order_loop_Inr [OF Inr assms(3) order_inv_initial] topo_acyclic [of g out] eq Inr
    show ?thesis by simp
  qed
qed

theorem order_tasks_correct_witness:
  "order_tasks [JObj [(''task_id'', JStr ''b''), (''predecessors'', JList [JStr ''a''])],
                JObj [(''task_id'', JStr ''a''), (''predecessors'', JList [])]] = Inr [''a'', ''b'']
   \<and> topo [(''b'', [''a'']), (''a'', [])] [''a'', ''b'']"
proof -
  let ?ts = "[JObj [(''task_id'', JStr ''b''), (''predecessors'', JList [JStr ''a''])],
              JObj [(''task_id'', JStr ''a''), (''predecessors'', JList [])]]"
  have 1: "mapE task_row ?ts = Inr [(''b'', [''a'']), (''a'', [])]" by code_simp
  have 2: "order_tasks ?ts = Inr [''a'', ''b'']" by code_simp
  from order_tasks_correct [OF 1] 2 show ?thesis by simp
qed

end
