(* ===== verification/Receipts.thy ===== *)
theory Receipts
  imports Task_Chains
begin

text \<open>
  \<open>receipts.py\<close>: sealed run directories. A run directory is a tree of entries plus the
  lifecycle journal, which is kept apart because it is never sealed. The theory models the
  reading and verification of a seal; messages of the operating system that the code appends
  to its own are left out.
\<close>

subsection \<open>Run directories\<close>

text \<open>
  An entry of the tree: a regular file with its bytes, link count and whether it is writable, a
  symlink (and whether it resolves to a regular file), a directory, or a special file. Keys are
  paths relative to the run directory.
\<close>

datatype rentry = RFile string nat bool | RLink bool | RDir | RSpecial

record rundir =
  run_name :: string
  run_path :: string
  tree :: "(string \<times> rentry) list"
  lifecycle_log :: slot

definition run_entry :: "rundir \<Rightarrow> string \<Rightarrow> rentry option" where
  "run_entry d p = map_of (tree d) p"

text \<open>\<open>Path.is_file()\<close>, which follows links, and \<open>path.exists() or path.is_symlink()\<close>.\<close>

definition is_file :: "rundir \<Rightarrow> string \<Rightarrow> bool" where
  "is_file d p = (case run_entry d p of Some (RFile _ _ _) \<Rightarrow> True | Some (RLink f) \<Rightarrow> f | _ \<Rightarrow> False)"

definition present :: "rundir \<Rightarrow> string \<Rightarrow> bool" where
  "present d p \<longleftrightarrow> run_entry d p \<noteq> None"

definition write_file :: "rundir \<Rightarrow> string \<Rightarrow> string \<Rightarrow> bool \<Rightarrow> rundir" where
  "write_file d p bytes writable = d\<lparr>tree := AList.update p (RFile bytes 1 writable) (tree d)\<rparr>"

lemma run_entry_write_file [simp]:
  "run_entry (write_file d p b w) q = (if q = p then Some (RFile b 1 w) else run_entry d q)"
  by (simp add: run_entry_def write_file_def update_conv')

lemma write_file_simps [simp]:
  "run_name (write_file d p b w) = run_name d" "run_path (write_file d p b w) = run_path d"
  "lifecycle_log (write_file d p b w) = lifecycle_log d"
  by (simp_all add: write_file_def)

lemma run_entry_log [simp]: "run_entry (d\<lparr>lifecycle_log := f\<rparr>) p = run_entry d p"
  by (simp add: run_entry_def)

definition SEALED_ARTIFACTS :: "string list" where
  "SEALED_ARTIFACTS =
     [''prompt.md'', ''launch-prompt.md'', ''command.json'', ''agent-run-contract.json'',
      ''command-catalog.json'', ''command-card.md'', ''source-baseline.json'', ''completion.md'',
      ''completion.json'', ''run-provenance.json'', ''executor-events.jsonl'', ''executor-stderr.log'',
      ''output.log'', ''final-status.json'', ''patch.diff'', ''collections/completion.json'']"

subsection \<open>The final receipt\<close>

definition seal_lock :: "rundir \<Rightarrow> unit result" where
  "seal_lock d =
     (case run_entry d ''seal.lock'' of
        None \<Rightarrow> Inr ()
      | Some (RFile _ _ _) \<Rightarrow> Inr ()
      | Some RSpecial \<Rightarrow> Inl (WorkflowError (''run seal lock must be a regular file: '' @ run_path d @ ''/seal.lock''))
      | Some _ \<Rightarrow> Inl (WorkflowError (''cannot open run seal lock '' @ run_path d @ ''/seal.lock'')))"

definition read_final_receipt :: "ext \<Rightarrow> rundir \<Rightarrow> (json \<times> string) result" where
  "read_final_receipt X d =
     (let path = run_path d @ ''/final-receipt.json'' in
      case run_entry d ''final-receipt.json'' of
        Some (RFile data _ writable) \<Rightarrow>
          bindE (raise_if writable (''final receipt must be read-only: '' @ path)) (\<lambda>_.
          (case loads_utf8 data of
             None \<Rightarrow> Inl (WorkflowError (''cannot read final receipt '' @ path))
           | Some receipt \<Rightarrow>
               bindE (raise_if (\<not> is_obj receipt \<or> \<not> is_list (jget receipt ''artifacts''))
                       (''invalid final receipt: '' @ path)) (\<lambda>_.
               bindE (validate_instance X receipt ''agent-workflow/final-receipt/v1'' path) (\<lambda>_.
               Inr (receipt, sha256 X data)))))
      | Some RDir \<Rightarrow> Inl (OSError path)
      | Some RSpecial \<Rightarrow> Inl (WorkflowError (''final receipt must be a regular file: '' @ path))
      | _ \<Rightarrow> Inl (WorkflowError (''cannot open final receipt '' @ path)))"

definition artifacts :: "json \<Rightarrow> json list" where
  "artifacts receipt = list_items (jget receipt ''artifacts'')"

definition artifact_entry :: "json \<Rightarrow> string \<Rightarrow> json result" where
  "artifact_entry receipt rel =
     (case filter (\<lambda>item. is_obj item \<and> jget item ''path'' = JStr rel) (artifacts receipt) of
        [] \<Rightarrow> Inl (WorkflowError (''final receipt is missing an artifact entry for '' @ rel))
      | m # ms \<Rightarrow>
          bindE (raise_if (\<exists>item \<in> set ms. \<not> py_eq item m)
                  (''conflicting final receipt entries for '' @ rel)) (\<lambda>_. Inr m))"

subsection \<open>Reading artifacts beneath the run directory\<close>

definition artifact_parts :: "string \<Rightarrow> string list result" where
  "artifact_parts rel =
     (let parts = split_on (CHR ''/'') rel in
      bindE (raise_if (\<exists>p \<in> set parts. p \<in> {[], ''.'', ''..''}) (''invalid sealed artifact path: '' @ rel)) (\<lambda>_.
      Inr parts))"

definition parent_dirs :: "string list \<Rightarrow> string list" where
  "parent_dirs parts = map (\<lambda>i. py_join ''/'' (take i parts)) [1..<length parts]"

text \<open>The bytes of an artifact; no component of its path may be a link.\<close>

definition read_artifact_descriptor :: "rundir \<Rightarrow> string \<Rightarrow> string result" where
  "read_artifact_descriptor d rel =
     bindE (artifact_parts rel) (\<lambda>parts.
     bindE (raise_if (\<exists>q \<in> set (parent_dirs parts). run_entry d q \<noteq> Some RDir)
             (''cannot open sealed artifact directory '' @ rel)) (\<lambda>_.
     (case run_entry d rel of
        Some (RFile data _ _) \<Rightarrow> Inr data
      | Some RDir \<Rightarrow> Inl (OSError rel)
      | Some RSpecial \<Rightarrow> Inl (WorkflowError (''sealed artifact must be a regular file: '' @ rel))
      | _ \<Rightarrow> Inl (WorkflowError (''cannot open sealed artifact '' @ rel)))))"

definition read_sealed_artifact_bytes :: "ext \<Rightarrow> rundir \<Rightarrow> json \<Rightarrow> string \<Rightarrow> (string \<times> string) result" where
  "read_sealed_artifact_bytes X d receipt rel =
     bindE (artifact_entry receipt rel) (\<lambda>entry.
     bindE (read_artifact_descriptor d rel) (\<lambda>data.
     bindE (raise_if (\<not> py_eq (jget entry ''size'') (JInt (int (length data))))
             (''sealed artifact size mismatch: '' @ rel)) (\<lambda>_.
     bindE (raise_if (jget entry ''sha256'' \<noteq> JStr (sha256 X data))
             (''sealed artifact checksum mismatch: '' @ rel)) (\<lambda>_.
     Inr (data, sha256 X data)))))"

definition read_sealed_json :: "ext \<Rightarrow> rundir \<Rightarrow> json \<Rightarrow> string \<Rightarrow> (json \<times> string) result" where
  "read_sealed_json X d receipt rel =
     bindE (read_sealed_artifact_bytes X d receipt rel) (\<lambda>(data, dig).
     (case loads_utf8 data of
        None \<Rightarrow> Inl (WorkflowError (''invalid sealed JSON artifact '' @ rel))
      | Some v \<Rightarrow> Inr (v, dig)))"

definition read_sealed_contract :: "ext \<Rightarrow> rundir \<Rightarrow> json \<Rightarrow> string \<Rightarrow> string \<Rightarrow> (json \<times> string) result" where
  "read_sealed_contract X d receipt rel schema =
     bindE (read_sealed_json X d receipt rel) (\<lambda>(v, dig).
     bindE (raise_if (\<not> is_obj v) (''sealed contract must be a JSON object: '' @ rel)) (\<lambda>_.
     bindE (validate_instance X v schema (run_path d @ ''/'' @ rel)) (\<lambda>_.
     Inr (v, dig))))"

text \<open>\<open>run_dir / v\<close> and \<open>receipt[v]\<close> need a string; any other value raises \<open>TypeError\<close>.\<close>

definition as_str :: "json \<Rightarrow> string result" where
  "as_str v = (if is_str v then Inr (str_of v) else Inl (TypeError (py_repr v)))"

subsection \<open>Verification of a seal\<close>

definition verify_artifact :: "ext \<Rightarrow> rundir \<Rightarrow> json \<Rightarrow> unit result" where
  "verify_artifact X d item =
     bindE (raise_if (\<not> is_obj item \<or> \<not> is_str (jget item ''path''))
             (''invalid artifact entry in '' @ run_path d @ ''/final-receipt.json'')) (\<lambda>_.
     (let rel = str_of (jget item ''path'') in
     bindE (read_artifact_descriptor d rel) (\<lambda>data.
     bindE (raise_if (\<not> py_eq (JInt (int (length data))) (jget item ''size''))
             (''sealed artifact size mismatch: '' @ rel)) (\<lambda>_.
     raise_if (JStr (sha256 X data) \<noteq> jget item ''sha256'')
             (''sealed artifact checksum mismatch: '' @ rel)))))"

definition listed_paths :: "json \<Rightarrow> json list" where
  "listed_paths receipt = map (\<lambda>item. jget item ''path'') (filter is_obj (artifacts receipt))"

definition verify_command_binding :: "ext \<Rightarrow> rundir \<Rightarrow> json \<Rightarrow> json \<Rightarrow> unit result" where
  "verify_command_binding X d receipt launch =
     bindE (jidx launch ''command_catalog'') (\<lambda>cb.
     bindE (bindE (jidx cb ''catalog_path'') as_str) (\<lambda>catalog_path.
     bindE (read_sealed_json X d receipt catalog_path) (\<lambda>(catalog, catalog_digest).
     bindE (bindE (jidx cb ''card_path'') as_str) (\<lambda>card_path.
     bindE (read_sealed_artifact_bytes X d receipt card_path) (\<lambda>(_, card_digest).
     bindE (jidx cb ''catalog_sha256'') (\<lambda>cs.
     bindE (raise_if (JStr catalog_digest \<noteq> cs) ''sealed command catalog disagrees with launch binding'') (\<lambda>_.
     bindE (jidx cb ''card_sha256'') (\<lambda>ks.
     bindE (raise_if (JStr card_digest \<noteq> ks) ''sealed command card disagrees with launch binding'') (\<lambda>_.
     bindE (bindE (jidx cb ''catalog_schema'') as_str) (\<lambda>sc.
     validate_instance X catalog sc (run_path d @ ''/'' @ catalog_path)))))))))))"

definition verify_job_binding :: "ext \<Rightarrow> rundir \<Rightarrow> json \<Rightarrow> unit result" where
  "verify_job_binding X d receipt =
     (if JStr ''job-binding.json'' \<notin> set (listed_paths receipt) then Inr ()
      else
        bindE (read_sealed_json X d receipt ''job-binding.json'') (\<lambda>(b, _).
        if \<not> is_obj b then Inl (TypeError ''get'')
        else if jget b ''schema'' \<noteq> JStr ''agent-workflow/job-binding/v3'' then Inr ()
        else
          bindE (validate_instance X b ''agent-workflow/job-binding/v3'' ''sealed job binding'') (\<lambda>_.
          bindE (read_sealed_contract X d receipt ''jobs/execution-binding.json''
                  ''agent-workflow/execution-binding/v1'') (\<lambda>(authority, authority_hash).
          bindE (validate_execution_binding X authority) (\<lambda>_.
          bindE (jidx b ''execution_binding_sha256'') (\<lambda>h.
          raise_if (JStr authority_hash \<noteq> h)
            ''sealed execution binding checksum differs from job binding'')))))) "

definition verify_seal_details :: "ext \<Rightarrow> rundir \<Rightarrow> string option \<Rightarrow> (json \<times> string) result" where
  "verify_seal_details X d expected =
     bindE (seal_lock d) (\<lambda>_.
     bindE (read_final_receipt X d) (\<lambda>(receipt, actual).
     bindE (case expected of None \<Rightarrow> Inr ()
            | Some e \<Rightarrow> raise_if (actual \<noteq> e)
                (''final receipt checksum mismatch: '' @ actual @ ''; expected '' @ e)) (\<lambda>_.
     (let missing = sort (filter (\<lambda>p. JStr p \<notin> set (listed_paths receipt)) SEALED_ARTIFACTS) in
     bindE (raise_if (missing \<noteq> [])
             (''final receipt omits required artifacts: '' @ py_repr (JList (map JStr missing)))) (\<lambda>_.
     bindE (read_sealed_json X d receipt ''agent-run-contract.json'') (\<lambda>(launch, _).
     bindE (raise_if (\<not> is_obj launch) ''sealed launch contract must be a JSON object'') (\<lambda>_.
     bindE (validate_agent_run_contract_value X launch (run_path d @ ''/agent-run-contract.json'')) (\<lambda>_.
     bindE (verify_command_binding X d receipt launch) (\<lambda>_.
     bindE (mapE (verify_artifact X d) (artifacts receipt)) (\<lambda>_.
     bindE (verify_job_binding X d receipt) (\<lambda>_.
     Inr (receipt, actual)))))))))))) "

definition verify_seal :: "ext \<Rightarrow> rundir \<Rightarrow> string option \<Rightarrow> json result" where
  "verify_seal X d expected = bindE (verify_seal_details X d expected) (\<lambda>(receipt, _). Inr receipt)"

definition final_receipt_sha256 :: "ext \<Rightarrow> rundir \<Rightarrow> string result" where
  "final_receipt_sha256 X d =
     bindE (seal_lock d) (\<lambda>_. bindE (read_final_receipt X d) (\<lambda>(_, dig). Inr dig))"

subsection \<open>What verification establishes\<close>

lemma verify_artifact_Inr:
  "verify_artifact X d item = Inr u \<longleftrightarrow>
     is_obj item \<and> (\<exists>rel data. jget item ''path'' = JStr rel \<and> read_artifact_descriptor d rel = Inr data
       \<and> py_eq (JInt (int (length data))) (jget item ''size'') \<and> jget item ''sha256'' = JStr (sha256 X data))"
  by (auto simp: verify_artifact_def Let_def is_str_conv)

lemma mapE_units: "mapE f xs = Inr us \<Longrightarrow> x \<in> set xs \<Longrightarrow> \<exists>u. f x = Inr u"
  by (induction xs arbitrary: us) auto

lemma read_final_receipt_Inr:
  "read_final_receipt X d = Inr (receipt, h) \<longleftrightarrow>
     (\<exists>data n. run_entry d ''final-receipt.json'' = Some (RFile data n False) \<and> loads_utf8 data = Some receipt
       \<and> is_obj receipt \<and> is_list (jget receipt ''artifacts'')
       \<and> schema_errors X ''agent-workflow/final-receipt/v1'' receipt = [] \<and> h = sha256 X data)"
  by (auto simp: read_final_receipt_def Let_def split: option.splits rentry.splits)

lemma verify_seal_details_Inr:
  assumes "verify_seal_details X d expected = Inr (receipt, h)"
  shows "read_final_receipt X d = Inr (receipt, h)"
    and "expected = None \<or> expected = Some h"
    and "p \<in> set SEALED_ARTIFACTS \<Longrightarrow> JStr p \<in> set (listed_paths receipt)"
    and "item \<in> set (artifacts receipt) \<Longrightarrow> \<exists>u. verify_artifact X d item = Inr u"
proof -
  from assms obtain us where r: "read_final_receipt X d = Inr (receipt, h)"
    and e: "case expected of None \<Rightarrow> True | Some e \<Rightarrow> h = e"
    and m: "sort (filter (\<lambda>p. JStr p \<notin> set (listed_paths receipt)) SEALED_ARTIFACTS) = []"
    and a: "mapE (verify_artifact X d) (artifacts receipt) = Inr us"
    by (auto simp: verify_seal_details_def Let_def split: option.splits)
  show "read_final_receipt X d = Inr (receipt, h)" by (rule r)
  show "expected = None \<or> expected = Some h" using e by (simp split: option.splits)
  have "set (filter (\<lambda>p. JStr p \<notin> set (listed_paths receipt)) SEALED_ARTIFACTS) = {}"
    using m by (metis set_sort list.set(1))
  then show "p \<in> set SEALED_ARTIFACTS \<Longrightarrow> JStr p \<in> set (listed_paths receipt)"
    by (auto simp: filter_empty_conv)
  show "item \<in> set (artifacts receipt) \<Longrightarrow> \<exists>u. verify_artifact X d item = Inr u"
    using mapE_units [OF a] by blast
qed

lemma listed_paths_iff:
  "JStr p \<in> set (listed_paths receipt) \<longleftrightarrow>
     (\<exists>item \<in> set (artifacts receipt). is_obj item \<and> jget item ''path'' = JStr p)"
  by (force simp: listed_paths_def)

lemma verify_seal_listed:
  assumes "verify_seal_details X d expected = Inr (receipt, h)" and "JStr p \<in> set (listed_paths receipt)"
  shows "\<exists>item \<in> set (artifacts receipt). \<exists>data. jget item ''path'' = JStr p
     \<and> read_artifact_descriptor d p = Inr data \<and> jget item ''sha256'' = JStr (sha256 X data)"
proof -
  from assms(2) obtain item where i: "item \<in> set (artifacts receipt)" "jget item ''path'' = JStr p"
    by (auto simp: listed_paths_iff)
  from verify_seal_details_Inr(4) [OF assms(1) i(1)] i show ?thesis by (auto simp: verify_artifact_Inr)
qed

text \<open>
  A verified seal is complete and truthful: every required artifact is listed, and every
  listed artifact is a regular file below the run directory, reached through no link, whose
  size and digest are the ones the receipt records.
\<close>

theorem verify_seal_sound:
  assumes "verify_seal_details X d expected = Inr (receipt, h)"
  shows "(\<forall>p \<in> set SEALED_ARTIFACTS. JStr p \<in> set (listed_paths receipt))
    \<and> (\<forall>item \<in> set (artifacts receipt). \<exists>rel data n w.
         jget item ''path'' = JStr rel \<and> run_entry d rel = Some (RFile data n w)
         \<and> (\<forall>q \<in> set (parent_dirs (split_on (CHR ''/'') rel)). run_entry d q = Some RDir)
         \<and> ''..'' \<notin> set (split_on (CHR ''/'') rel)
         \<and> py_eq (JInt (int (length data))) (jget item ''size'') \<and> jget item ''sha256'' = JStr (sha256 X data))"
proof -
  have desc: "\<exists>n w. run_entry d rel = Some (RFile data n w)
      \<and> (\<forall>q \<in> set (parent_dirs (split_on (CHR ''/'') rel)). run_entry d q = Some RDir)
      \<and> ''..'' \<notin> set (split_on (CHR ''/'') rel)"
    if "read_artifact_descriptor d rel = Inr data" for rel data
    using that by (auto simp: read_artifact_descriptor_def artifact_parts_def Let_def
        split: option.splits rentry.splits)
  show ?thesis
  proof (intro conjI ballI)
    fix p assume "p \<in> set SEALED_ARTIFACTS"
    then show "JStr p \<in> set (listed_paths receipt)" by (rule verify_seal_details_Inr(3) [OF assms])
  next
    fix item assume "item \<in> set (artifacts receipt)"
    from verify_seal_details_Inr(4) [OF assms this] obtain rel data where
      "jget item ''path'' = JStr rel" "read_artifact_descriptor d rel = Inr data"
      "py_eq (JInt (int (length data))) (jget item ''size'')" "jget item ''sha256'' = JStr (sha256 X data)"
      by (auto simp: verify_artifact_Inr)
    with desc [of rel data] show "\<exists>rel data n w.
         jget item ''path'' = JStr rel \<and> run_entry d rel = Some (RFile data n w)
         \<and> (\<forall>q \<in> set (parent_dirs (split_on (CHR ''/'') rel)). run_entry d q = Some RDir)
         \<and> ''..'' \<notin> set (split_on (CHR ''/'') rel)
         \<and> py_eq (JInt (int (length data))) (jget item ''size'') \<and> jget item ''sha256'' = JStr (sha256 X data)"
      by blast
  qed
qed

text \<open>The file contents that a directory holds, and the hypothesis that SHA-256 tells them apart.\<close>

definition contents :: "rundir \<Rightarrow> string set" where
  "contents d = {data. \<exists>p n w. run_entry d p = Some (RFile data n w)}"

definition no_collision :: "ext \<Rightarrow> string set \<Rightarrow> bool" where
  "no_collision X S \<longleftrightarrow> inj_on (sha256 X) S"

lemma read_artifact_contents: "read_artifact_descriptor d p = Inr data \<Longrightarrow> data \<in> contents d"
  by (auto simp: read_artifact_descriptor_def artifact_parts_def contents_def Let_def
      split: option.splits rentry.splits)

text \<open>
  C40. A seal is tamper evident: if two states of a run directory both verify against the same
  receipt checksum, then, unless two of their files collide under SHA-256, they hold the same
  receipt and the same bytes in every artifact it lists.
\<close>

theorem verify_seal_tamper_evident:
  assumes "verify_seal_details X d (Some h) = Inr (receipt, g)"
    and "verify_seal_details X d' (Some h) = Inr (receipt', g')"
    and "no_collision X (contents d \<union> contents d')"
  shows "receipt' = receipt
    \<and> (\<forall>p. JStr p \<in> set (listed_paths receipt) \<longrightarrow>
         read_artifact_descriptor d' p = read_artifact_descriptor d p)"
proof -
  have h: "g = h" "g' = h"
    using verify_seal_details_Inr(2) [OF assms(1)] verify_seal_details_Inr(2) [OF assms(2)] by simp_all
  from verify_seal_details_Inr(1) [OF assms(1)] verify_seal_details_Inr(1) [OF assms(2)] h
  obtain b n b' n' where r: "run_entry d ''final-receipt.json'' = Some (RFile b n False)"
    "run_entry d' ''final-receipt.json'' = Some (RFile b' n' False)" "sha256 X b' = sha256 X b"
    "loads_utf8 b = Some receipt" "loads_utf8 b' = Some receipt'"
    by (auto simp: read_final_receipt_Inr)
  have "b \<in> contents d" "b' \<in> contents d'" using r by (auto simp: contents_def)
  with r(3) assms(3) have "b' = b" by (auto simp: no_collision_def dest: inj_onD)
  with r have eq: "receipt' = receipt" by simp
  have "read_artifact_descriptor d' p = read_artifact_descriptor d p"
    if p: "JStr p \<in> set (listed_paths receipt)" for p
  proof -
    from p obtain item where i: "item \<in> set (artifacts receipt)" "jget item ''path'' = JStr p"
      by (auto simp: listed_paths_iff)
    from verify_seal_details_Inr(4) [OF assms(1) i(1)] i(2)
    obtain x where x: "read_artifact_descriptor d p = Inr x" "jget item ''sha256'' = JStr (sha256 X x)"
      by (auto simp: verify_artifact_Inr)
    from verify_seal_details_Inr(4) [OF assms(2), of item] i eq
    obtain y where y: "read_artifact_descriptor d' p = Inr y" "jget item ''sha256'' = JStr (sha256 X y)"
      by (auto simp: verify_artifact_Inr)
    have "x \<in> contents d" "y \<in> contents d'" using read_artifact_contents x(1) y(1) by blast+
    with x(2) y(2) assms(3) have "y = x" by (auto simp: no_collision_def dest: inj_onD)
    with x(1) y(1) show ?thesis by simp
  qed
  with eq show ?thesis by blast
qed

subsection \<open>A concrete sealed run\<close>

text \<open>
  A run directory with its final receipt: the digest is the identity, so it has no collision.
  The launch contract, the command catalog, the final status, the completion, its collection
  and the result are JSON, every other artifact is empty.
\<close>

definition seal_ext :: ext where
  "seal_ext = \<lparr>schema_errors = (\<lambda>_ _. []), sha256 = (\<lambda>s. s)\<rparr>"

definition demo_contract :: json where
  "demo_contract =
     JObj [(''command_catalog'', JObj [(''card_path'', JStr ''command-card.md''), (''card_sha256'', JStr []),
              (''catalog_path'', JStr ''command-catalog.json''), (''catalog_schema'', JStr ''c''),
              (''catalog_sha256'', JStr ''0'')]),
           (''schema'', JStr AGENT_RUN_CONTRACT_SCHEMA)]"

definition demo_final :: json where
  "demo_final = JObj [(''agent_run_id'', JStr ''r1''), (''executor'', JStr ''e''), (''status'', JStr ''completed''),
                      (''tier'', JStr ''high'')]"

definition demo_completion :: json where
  "demo_completion = JObj [(''agent_run_id'', JStr ''r1''), (''head_revision'', JStr ''abc''), (''result'', JStr ''completed'')]"

definition demo_collection :: json where
  "demo_collection = JObj [(''validation_status'', JStr ''valid'')]"

definition demo_result :: json where
  "demo_result = JObj [(''log'', JInt 7)]"

definition demo_provenance :: json where
  "demo_provenance = JObj [(''agent_run_id'', JStr ''r1''), (''schema'', JStr ''agent-workflow/run-provenance/v1'')]"

definition demo_table :: "(string \<times> json) list" where
  "demo_table = [(''agent-run-contract.json'', demo_contract), (''command-catalog.json'', JInt 0),
                 (''final-status.json'', demo_final), (''completion.json'', demo_completion),
                 (''collections/completion.json'', demo_collection), (''result.json'', demo_result),
                 (''run-provenance.json'', demo_provenance)]"

definition demo_names :: "string list" where
  "demo_names = SEALED_ARTIFACTS @ [''result.json'']"

definition demo_bytes :: "string \<Rightarrow> string" where
  "demo_bytes p = (case map_of demo_table p of None \<Rightarrow> [] | Some v \<Rightarrow> dumps False v)"

definition demo_item :: "string \<Rightarrow> json" where
  "demo_item p = JObj [(''path'', JStr p), (''sha256'', JStr (demo_bytes p)),
                       (''size'', JInt (int (length (demo_bytes p))))]"

definition demo_receipt :: json where
  "demo_receipt = JObj [(''agent_run_id'', JStr ''r1''), (''artifacts'', JList (map demo_item demo_names))]"

text \<open>The sealed tree, with further entries and a lifecycle journal.\<close>

definition demo_with :: "(string \<times> rentry) list \<Rightarrow> slot \<Rightarrow> rundir" where
  "demo_with extra lg =
     \<lparr>run_name = ''r1'', run_path = ''/runs/r1'',
      tree = [(''collections'', RDir), (''final-receipt.json'', RFile (dumps False demo_receipt) 1 False)]
             @ map (\<lambda>p. (p, RFile (demo_bytes p) 1 False)) demo_names @ extra,
      lifecycle_log = lg\<rparr>"

definition demo_run :: rundir where
  "demo_run = demo_with [] None"

lemma sealed_names:
  "distinct demo_names" "list_all (list_all ascii) demo_names"
  "\<forall>p \<in> set demo_names. p \<notin> {''collections'', ''final-receipt.json'', ''seal.lock''}"
  "\<forall>p \<in> set demo_names. \<forall>q \<in> set (split_on (CHR ''/'') p). q \<notin> {[], ''.'', ''..''}"
  "\<forall>p \<in> set demo_names. set (parent_dirs (split_on (CHR ''/'') p)) \<subseteq> {''collections''}"
  by code_simp+

lemma demo_table_text:
  "\<forall>(p, v) \<in> set demo_table. plain v \<and> ascii_json v \<and> canon v = v"
  by code_simp

lemma demo_tableD:
  assumes "map_of demo_table p = Some v"
  shows "plain v" "ascii_json v" "canon v = v"
  using demo_table_text map_of_SomeD [OF assms] by auto

lemma demo_artifacts: "artifacts demo_receipt = map demo_item demo_names"
  by (simp add: artifacts_def demo_receipt_def jaccess)

lemma demo_item_get [simp]:
  "jget (demo_item p) ''path'' = JStr p" "jget (demo_item p) ''sha256'' = JStr (demo_bytes p)"
  "jget (demo_item p) ''size'' = JInt (int (length (demo_bytes p)))" "is_obj (demo_item p)"
  by (simp_all add: demo_item_def jaccess)

lemma demo_bytes_ascii: "list_all ascii (demo_bytes p)"
  by (auto simp: demo_bytes_def split: option.split intro!: dumps_ascii dest: demo_tableD)

lemma demo_receipt_text:
  "plain demo_receipt" "ascii_json demo_receipt" "canon demo_receipt = demo_receipt"
proof -
  have "plain (demo_item p)" "canon (demo_item p) = demo_item p" for p
    by (simp_all add: demo_item_def)
  moreover have "ascii_json (demo_item p)" if "p \<in> set demo_names" for p
    using that sealed_names(2) demo_bytes_ascii [of p]
    by (simp add: demo_item_def list_all_iff) (simp add: ascii_def)
  ultimately show "plain demo_receipt" "ascii_json demo_receipt" "canon demo_receipt = demo_receipt"
    by (simp_all add: demo_receipt_def list_all_iff comp_def) (simp add: ascii_def)
qed

lemma map_of_graph: "map_of (map (\<lambda>p. (p, g p)) L) q = (if q \<in> set L then Some (g q) else None)"
  by (induction L) auto

lemma demo_entry:
  "run_entry (demo_with extra lg) ''final-receipt.json'' = Some (RFile (dumps False demo_receipt) 1 False)"
  "run_entry (demo_with extra lg) ''collections'' = Some RDir"
  "p \<in> set demo_names \<Longrightarrow> run_entry (demo_with extra lg) p = Some (RFile (demo_bytes p) 1 False)"
  "map_of extra ''seal.lock'' = None \<Longrightarrow> run_entry (demo_with extra lg) ''seal.lock'' = None"
proof -
  note m = map_of_graph [of "\<lambda>p. RFile (demo_bytes p) 1 False" demo_names]
  have "''seal.lock'' \<notin> set demo_names" using sealed_names(3) by blast
  then show "map_of extra ''seal.lock'' = None \<Longrightarrow> run_entry (demo_with extra lg) ''seal.lock'' = None"
    by (simp add: run_entry_def demo_with_def map_add_def m [unfolded One_nat_def] split: option.split)
  show "run_entry (demo_with extra lg) ''final-receipt.json'' = Some (RFile (dumps False demo_receipt) 1 False)"
    "run_entry (demo_with extra lg) ''collections'' = Some RDir"
    by (simp_all add: run_entry_def demo_with_def)
  show "p \<in> set demo_names \<Longrightarrow> run_entry (demo_with extra lg) p = Some (RFile (demo_bytes p) 1 False)"
    using sealed_names(3) by (auto simp: run_entry_def demo_with_def map_add_def m [unfolded One_nat_def])
qed

lemma demo_read: "p \<in> set demo_names \<Longrightarrow> read_artifact_descriptor (demo_with extra lg) p = Inr (demo_bytes p)"
  using sealed_names(4,5) demo_entry(2)
  by (fastforce simp: read_artifact_descriptor_def artifact_parts_def Let_def demo_entry(3))

lemma filter_map_unique:
  "distinct L \<Longrightarrow> p \<in> set L \<Longrightarrow> filter (\<lambda>x. Q x \<and> h x = k p) (map g L) = [g p]"
  if "\<And>q. Q (g q)" "\<And>q. h (g q) = k q" "inj k"
  using that by (induction L) (auto simp: inj_eq filter_empty_conv)

lemma demo_sealed:
  assumes "p \<in> set demo_names"
  shows "read_sealed_artifact_bytes seal_ext (demo_with extra lg) demo_receipt p = Inr (demo_bytes p, demo_bytes p)"
proof -
  have "artifact_entry demo_receipt p = Inr (demo_item p)"
    using filter_map_unique [of is_obj demo_item "\<lambda>i. jget i ''path''" JStr demo_names p] assms sealed_names(1)
    by (simp add: artifact_entry_def demo_artifacts inj_def)
  then show ?thesis
    using assms by (simp add: read_sealed_artifact_bytes_def demo_read seal_ext_def)
qed

lemma demo_sealed_json:
  assumes "p \<in> set demo_names" and "map_of demo_table p = Some v"
  shows "read_sealed_json seal_ext (demo_with extra lg) demo_receipt p = Inr (v, dumps False v)"
  using demo_sealed [OF assms(1)] demo_tableD [OF assms(2)] assms(2)
  by (simp add: read_sealed_json_def demo_bytes_def loads_utf8_def utf8_valid_dumps loads_dumps)

lemma demo_in [simp]:
  "''agent-run-contract.json'' \<in> set demo_names" "''command-catalog.json'' \<in> set demo_names"
  "''command-card.md'' \<in> set demo_names" "''job-binding.json'' \<notin> set demo_names"
  by (simp_all add: demo_names_def SEALED_ARTIFACTS_def)

lemma demo_listed: "set (listed_paths demo_receipt) = JStr ` set demo_names"
  by (auto simp: listed_paths_def demo_artifacts)

lemma demo_verified:
  "verify_seal_details seal_ext (demo_with extra lg) expected = Inr (demo_receipt, dumps False demo_receipt)"
  if "expected = None \<or> expected = Some (dumps False demo_receipt)" and "map_of extra ''seal.lock'' = None"
proof -
  have rd: "read_final_receipt seal_ext (demo_with extra lg) = Inr (demo_receipt, dumps False demo_receipt)"
    using demo_entry(1) demo_receipt_text
    by (simp add: read_final_receipt_Inr loads_utf8_def utf8_valid_dumps loads_dumps)
      (simp add: demo_receipt_def jaccess seal_ext_def)
  have c: "read_sealed_json seal_ext (demo_with extra lg) demo_receipt ''agent-run-contract.json''
      = Inr (demo_contract, dumps False demo_contract)"
    by (rule demo_sealed_json) (simp_all add: demo_table_def)
  have k: "read_sealed_json seal_ext (demo_with extra lg) demo_receipt ''command-catalog.json'' = Inr (JInt 0, ''0'')"
  proof -
    have "dumps False (JInt 0) = ''0''" by code_simp
    then show ?thesis
      using demo_sealed_json [of "''command-catalog.json''" "JInt 0"] by (simp add: demo_table_def)
  qed
  have card: "read_sealed_artifact_bytes seal_ext (demo_with extra lg) demo_receipt ''command-card.md'' = Inr ([], [])"
    using demo_sealed [of "''command-card.md''"] by (simp add: demo_bytes_def demo_table_def)
  have v: "validate_agent_run_contract_value seal_ext demo_contract a = Inr AGENT_RUN_CONTRACT_SCHEMA" for a
    by (simp add: validate_agent_run_contract_value_def demo_contract_def jaccess seal_ext_def
        validate_instance_def validate_ticket_identity_def validate_criteria_catalog_def)
  have b: "verify_command_binding seal_ext (demo_with extra lg) demo_receipt demo_contract = Inr ()"
    by (simp add: verify_command_binding_def demo_contract_def jaccess as_str_def k card)
      (simp add: seal_ext_def)
  have "\<forall>p \<in> set L. p \<in> set demo_names \<Longrightarrow>
      \<exists>us. mapE (verify_artifact seal_ext (demo_with extra lg)) (map demo_item L) = Inr us" for L
    by (induction L) (auto simp: verify_artifact_def demo_read seal_ext_def Let_def)
  then obtain us where a: "mapE (verify_artifact seal_ext (demo_with extra lg)) (artifacts demo_receipt) = Inr us"
    unfolding demo_artifacts by blast
  have j: "verify_job_binding seal_ext (demo_with extra lg) demo_receipt = Inr ()"
    by (auto simp: verify_job_binding_def demo_listed)
  have l: "filter (\<lambda>p. JStr p \<notin> set (listed_paths demo_receipt)) SEALED_ARTIFACTS = []"
    by (auto simp: filter_empty_conv demo_listed demo_names_def)
  have s: "seal_lock (demo_with extra lg) = Inr ()" by (simp add: seal_lock_def demo_entry(4) that(2))
  have o: "is_obj demo_contract" by (simp add: demo_contract_def)
  show ?thesis using that(1)
    by (auto simp: verify_seal_details_def rd c v b a j l s o)
qed

theorem verify_seal_sound_witness:
  "\<exists>receipt h. verify_seal_details seal_ext demo_run None = Inr (receipt, h)
     \<and> JStr ''completion.json'' \<in> set (listed_paths receipt)"
proof -
  have v: "verify_seal_details seal_ext demo_run None = Inr (demo_receipt, dumps False demo_receipt)"
    using demo_verified [of _ "[]"] by (simp add: demo_run_def)
  have "''completion.json'' \<in> set SEALED_ARTIFACTS" by (simp add: SEALED_ARTIFACTS_def)
  with verify_seal_sound [OF v] v show ?thesis by blast
qed

theorem verify_seal_tamper_evident_witness:
  "verify_seal_details seal_ext demo_run (Some (dumps False demo_receipt))
     = Inr (demo_receipt, dumps False demo_receipt)
   \<and> no_collision seal_ext (contents demo_run \<union> contents demo_run) \<and> demo_receipt = demo_receipt"
proof -
  have v: "verify_seal_details seal_ext demo_run (Some (dumps False demo_receipt))
      = Inr (demo_receipt, dumps False demo_receipt)"
    using demo_verified [of _ "[]"] by (simp add: demo_run_def)
  have n: "no_collision seal_ext (contents demo_run \<union> contents demo_run)"
    by (simp add: no_collision_def seal_ext_def)
  from verify_seal_tamper_evident [OF v v n] v n show ?thesis by simp
qed

end
