(* ===== verification/Run_Lifecycle.thy ===== *)
theory Run_Lifecycle
  imports Receipts
begin

text \<open>
  \<open>events.py\<close>, \<open>state.py\<close> and \<open>run_lifecycle.py\<close>: the execution lifecycle of an agent run. The
  lifecycle journal \<open>events.jsonl\<close> is the authority while a run is active, the sealed receipt
  once it is sealed; \<open>status.json\<close> is a projection of them. \<open>now\<close> is the reading of the clock.
\<close>

subsection \<open>The lifecycle journal (events.py)\<close>

definition LIFECYCLE_SCHEMA :: string where
  "LIFECYCLE_SCHEMA = ''agent-workflow/lifecycle-event/v1''"

definition LIFECYCLE_KEYS :: "string list" where
  "LIFECYCLE_KEYS = [''schema'', ''sequence'', ''timestamp'', ''dimension'', ''prior'', ''new'', ''actor'',
                     ''reason'', ''receipt_refs'']"

definition validate_lifecycle_event :: "json \<Rightarrow> nat \<Rightarrow> json result" where
  "validate_lifecycle_event v expected =
     bindE (raise_if (\<not> is_obj v) ''lifecycle event must be a JSON object'') (\<lambda>_.
     bindE (raise_if (set (map fst (obj_items v)) \<noteq> set LIFECYCLE_KEYS
                      \<or> jget v ''schema'' \<noteq> JStr LIFECYCLE_SCHEMA) ''invalid lifecycle event'') (\<lambda>_.
     bindE (raise_if (\<not> py_eq (jget v ''sequence'') (JInt (int expected)))
             (''lifecycle event sequence mismatch: expected '' @ int_str (int expected))) (\<lambda>_.
     bindE (raise_if (\<not> is_list (jget v ''receipt_refs'')
                      \<or> (\<exists>r \<in> set (list_items (jget v ''receipt_refs'')). \<not> is_str r))
             ''invalid lifecycle event receipt references'') (\<lambda>_.
     Inr v))))"

definition lifecycle_cfg :: "rundir \<Rightarrow> jcfg" where
  "lifecycle_cfg d = default_cfg (run_path d @ ''/events.jsonl'') (Some ''sequence'')"

definition lifecycle_event ::
  "nat \<Rightarrow> string \<Rightarrow> string \<Rightarrow> json \<Rightarrow> json \<Rightarrow> string \<Rightarrow> string \<Rightarrow> string list \<Rightarrow> json" where
  "lifecycle_event sequence now dimension prior new actor reason refs =
     JObj [(''schema'', JStr LIFECYCLE_SCHEMA), (''sequence'', JInt (int sequence)), (''timestamp'', JStr now),
           (''dimension'', JStr dimension), (''prior'', prior), (''new'', new), (''actor'', JStr actor),
           (''reason'', JStr reason), (''receipt_refs'', JList (map JStr refs))]"

definition append_lifecycle_event ::
  "string \<Rightarrow> string \<Rightarrow> json \<Rightarrow> json \<Rightarrow> string \<Rightarrow> string \<Rightarrow> string list \<Rightarrow> rundir \<Rightarrow> rundir \<times> json result" where
  "append_lifecycle_event now dimension prior new actor reason refs d =
     (case transact_jsonl (lifecycle_cfg d) validate_lifecycle_event
             (stamped validate_lifecycle_event
                (\<lambda>sequence. lifecycle_event sequence now dimension prior new actor reason refs))
             (lifecycle_log d) of
        (f, r) \<Rightarrow> (d\<lparr>lifecycle_log := f\<rparr>, r))"

definition read_lifecycle :: "rundir \<Rightarrow> json list result" where
  "read_lifecycle d = read_jsonl (lifecycle_cfg d) False validate_lifecycle_event (lifecycle_log d)"

definition lifecycle_state :: "json list \<Rightarrow> (string \<times> json) list" where
  "lifecycle_state events =
     foldl (\<lambda>st e. AList.update (py_str (jget e ''dimension'')) (jget e ''new'') st) [] events"

definition reconstruct_lifecycle :: "rundir \<Rightarrow> (nat \<times> (string \<times> json) list) result" where
  "reconstruct_lifecycle d = bindE (read_lifecycle d) (\<lambda>events. Inr (length events, lifecycle_state events))"

subsection \<open>The status projection (state.py)\<close>

definition TERMINAL_STATUSES :: "string set" where
  "TERMINAL_STATUSES = {''completed'', ''failed'', ''interrupted'', ''terminated'', ''retired''}"

definition STATUS_SCHEMA :: string where
  "STATUS_SCHEMA = ''agent-workflow/agent-run-status/v1''"

definition read_json :: "rundir \<Rightarrow> string \<Rightarrow> json result" where
  "read_json d name =
     (let path = run_path d @ ''/'' @ name in
      case run_entry d name of
        None \<Rightarrow> Inl (WorkflowError (''file not found: '' @ path))
      | Some (RFile data _ _) \<Rightarrow>
          if \<not> utf8_valid data then Inl (TypeError ''utf-8'')
          else (case loads data of
                  None \<Rightarrow> Inl (WorkflowError (''invalid JSON in '' @ path))
                | Some v \<Rightarrow> bindE (raise_if (\<not> is_obj v) (''expected JSON object in '' @ path)) (\<lambda>_. Inr v))
      | Some _ \<Rightarrow> Inl (OSError path))"

definition atomic_write_json :: "rundir \<Rightarrow> string \<Rightarrow> json \<Rightarrow> bool \<Rightarrow> rundir" where
  "atomic_write_json d name v writable = write_file d name (dumps_pretty 0 v @ [CHR 0x0A]) writable"

definition stamp_projection :: "string \<Rightarrow> string \<Rightarrow> string \<Rightarrow> json \<Rightarrow> json" where
  "stamp_projection now source freshness data =
     jupdate data [(''projection_generated_at'', JStr now), (''projection_source'', JStr source),
                   (''projection_freshness'', JStr freshness), (''projection_authority'', JStr ''cache'')]"

definition current_status :: "json \<Rightarrow> json result" where
  "current_status data =
     bindE (raise_if (jget data ''schema'' \<noteq> JStr STATUS_SCHEMA)
             (''unsupported Agent Run status schema: '' @ py_repr (jget data ''schema'')
              @ ''; expected '' @ py_repr (JStr STATUS_SCHEMA))) (\<lambda>_. Inr data)"

definition read_status_path :: "rundir \<Rightarrow> json result" where
  "read_status_path d = bindE (read_json d ''status.json'') current_status"

definition write_projection_path :: "string \<Rightarrow> string \<Rightarrow> string \<Rightarrow> json \<Rightarrow> rundir \<Rightarrow> rundir \<times> json result" where
  "write_projection_path now source freshness data d =
     (case current_status data of
        Inl e \<Rightarrow> (d, Inl e)
      | Inr cur \<Rightarrow>
          (let v = stamp_projection now source freshness cur in
           (atomic_write_json d ''status.json'' v True, Inr v)))"

definition update_projection_path_unchecked ::
  "string \<Rightarrow> string \<Rightarrow> string \<Rightarrow> (string \<times> json) list \<Rightarrow> rundir \<Rightarrow> rundir \<times> json result" where
  "update_projection_path_unchecked now source freshness changes d =
     (if \<not> present d ''status.json'' \<or> run_entry d ''status.json'' = Some (RLink False)
      then (d, Inl (WorkflowError (''unknown Agent Run projection: '' @ run_name d)))
      else (case read_status_path d of
              Inl e \<Rightarrow> (d, Inl e)
            | Inr data \<Rightarrow>
                (let given = jget (JObj changes) ''updated_at'';
                     stamped = jset ''updated_at'' (JStr (if truthy given then py_str given else now))
                                 (jupdate data changes);
                     v = stamp_projection now source freshness stamped in
                 (atomic_write_json d ''status.json'' v True, Inr v))))"

definition update_projection_path ::
  "string \<Rightarrow> string \<Rightarrow> string \<Rightarrow> (string \<times> json) list \<Rightarrow> rundir \<Rightarrow> rundir \<times> json result" where
  "update_projection_path now source freshness changes d =
     (if ''status'' \<in> fst ` set changes
      then (d, Inl (WorkflowError
             ''execution status must be changed through run_lifecycle.transition_execution''))
      else update_projection_path_unchecked now source freshness changes d)"

subsection \<open>Execution transitions (run\_lifecycle.py)\<close>

definition EXECUTION_STATUSES :: "string set" where
  "EXECUTION_STATUSES = {''prepared'', ''running'', ''interruption_requested'', ''completed'', ''failed'',
                         ''interrupted'', ''terminated'', ''retired''}"

definition EXECUTION_TRANSITIONS :: "(string option \<times> string set) list" where
  "EXECUTION_TRANSITIONS =
     [(None, {''prepared'', ''failed''}),
      (Some ''prepared'', {''running'', ''interruption_requested'', ''terminated'', ''retired'', ''failed''}),
      (Some ''running'', {''interruption_requested'', ''completed'', ''failed'', ''interrupted'', ''terminated''}),
      (Some ''interruption_requested'', {''completed'', ''failed'', ''interrupted'', ''terminated''}),
      (Some ''completed'', {}), (Some ''failed'', {}), (Some ''interrupted'', {}), (Some ''terminated'', {})]"

definition log_is_file :: "rundir \<Rightarrow> bool" where
  "log_is_file d = (case lifecycle_log d of Some (Regular _ _) \<Rightarrow> True | Some Symlink \<Rightarrow> True | _ \<Rightarrow> False)"

definition execution_state :: "rundir \<Rightarrow> string option result" where
  "execution_state d =
     (if \<not> log_is_file d then Inr None
      else bindE (reconstruct_lifecycle d) (\<lambda>(_, st).
           (case map_of st ''execution'' of
              None \<Rightarrow> Inr None
            | Some v \<Rightarrow>
                if v = JNull then Inr None
                else if is_list v \<or> is_obj v then Inl (TypeError ''unhashable type'')
                else bindE (raise_if (v \<notin> JStr ` EXECUTION_STATUSES)
                             (''invalid execution lifecycle state: '' @ py_repr v)) (\<lambda>_.
                     Inr (Some (str_of v))))))"

definition validate_transition :: "string option \<Rightarrow> string \<Rightarrow> unit result" where
  "validate_transition prior new =
     bindE (raise_if (new \<notin> EXECUTION_STATUSES)
             (''invalid Agent Run execution status: '' @ str_repr new)) (\<lambda>_.
     if prior = Some new then Inr ()
     else raise_if (case map_of EXECUTION_TRANSITIONS prior of None \<Rightarrow> True | Some a \<Rightarrow> new \<notin> a)
            (''invalid Agent Run lifecycle transition: '' @ py_repr (opt_str prior) @ '' -> '' @ str_repr new))"

definition initialize_execution_path ::
  "string \<Rightarrow> json \<Rightarrow> string \<Rightarrow> string \<Rightarrow> string list \<Rightarrow> string \<Rightarrow> rundir \<Rightarrow> rundir \<times> json result" where
  "initialize_execution_path now data actor reason refs source d =
     (let initial = py_str (jget data ''status'') in
      case bindE (raise_if (jget data ''schema'' \<noteq> JStr STATUS_SCHEMA)
                   ''Agent Run lifecycle initialization requires current status schema'') (\<lambda>_.
           bindE (execution_state d) (\<lambda>cur.
           bindE (raise_if (cur \<noteq> None)
                   (''Agent Run lifecycle is already initialized: '' @ py_str (opt_str cur))) (\<lambda>_.
           validate_transition None initial))) of
        Inl e \<Rightarrow> (d, Inl e)
      | Inr _ \<Rightarrow>
          (case append_lifecycle_event now ''execution'' JNull (JStr initial) actor reason refs d of
             (d', Inl e) \<Rightarrow> (d', Inl e)
           | (d', Inr _) \<Rightarrow> write_projection_path now source ''snapshot'' data d'))"

definition authoritative_execution_status :: "ext \<Rightarrow> rundir \<Rightarrow> string result" where
  "authoritative_execution_status X d =
     (if is_file d ''final-receipt.json'' then
        bindE (verify_seal_details X d None) (\<lambda>(receipt, _).
        bindE (read_sealed_contract X d receipt ''final-status.json'' STATUS_SCHEMA) (\<lambda>(final, _).
        (let status = jget final ''status'' in
         if is_list status \<or> is_obj status then Inl (TypeError ''unhashable type'')
         else bindE (raise_if (status \<notin> JStr ` EXECUTION_STATUSES)
                      ''sealed final status has invalid execution state'') (\<lambda>_.
              Inr (str_of status)))))
      else
        bindE (execution_state d) (\<lambda>cur.
        (case cur of
           None \<Rightarrow> Inl (WorkflowError ''Agent Run execution lifecycle is not initialized'')
         | Some s \<Rightarrow> Inr s)))"

definition transition_execution_path ::
  "ext \<Rightarrow> string \<Rightarrow> string \<Rightarrow> string \<Rightarrow> string \<Rightarrow> string list \<Rightarrow> string \<Rightarrow> string \<Rightarrow> (string \<times> json) list
     \<Rightarrow> rundir \<Rightarrow> rundir \<times> json result" where
  "transition_execution_path X now new actor reason refs source freshness updates d =
     (if is_file d ''final-receipt.json'' then
        (case bindE (authoritative_execution_status X d) (\<lambda>sealed.
              raise_if (new \<noteq> sealed)
                (''sealed Agent Run execution state is immutable: '' @ str_repr sealed @ '' -> '' @ str_repr new)) of
           Inl e \<Rightarrow> (d, Inl e)
         | Inr _ \<Rightarrow> update_projection_path_unchecked now source freshness ((''status'', JStr new) # updates) d)
      else
        (case bindE (execution_state d) (\<lambda>prior.
              (case prior of
                 None \<Rightarrow> Inl (WorkflowError ''Agent Run execution lifecycle is not initialized'')
               | Some p \<Rightarrow> bindE (validate_transition prior new) (\<lambda>_. Inr p))) of
           Inl e \<Rightarrow> (d, Inl e)
         | Inr p \<Rightarrow>
             (case (if new \<noteq> p
                    then append_lifecycle_event now ''execution'' (JStr p) (JStr new) actor reason refs d
                    else (d, Inr JNull)) of
                (d', Inl e) \<Rightarrow> (d', Inl e)
              | (d', Inr _) \<Rightarrow>
                  update_projection_path_unchecked now source freshness ((''status'', JStr new) # updates) d')))"

definition synchronize_projection ::
  "ext \<Rightarrow> string \<Rightarrow> string \<Rightarrow> string \<Rightarrow> (string \<times> json) list \<Rightarrow> rundir \<Rightarrow> rundir \<times> json result" where
  "synchronize_projection X now source freshness updates d =
     (case bindE (authoritative_execution_status X d) (\<lambda>cur.
           bindE (read_status_path d) (\<lambda>projected. Inr (cur, projected))) of
        Inl e \<Rightarrow> (d, Inl e)
      | Inr (cur, projected) \<Rightarrow>
          if jget projected ''status'' = JStr cur \<and> updates = [] then (d, Inr projected)
          else update_projection_path_unchecked now source freshness ((''status'', JStr cur) # updates) d)"

subsection \<open>The journal records what was appended\<close>

lemma validate_lifecycle_event_Inr:
  "validate_lifecycle_event v n = Inr u \<longleftrightarrow>
     u = v \<and> is_obj v \<and> set (map fst (obj_items v)) = set LIFECYCLE_KEYS
     \<and> jget v ''schema'' = JStr LIFECYCLE_SCHEMA \<and> py_eq (jget v ''sequence'') (JInt (int n))
     \<and> is_list (jget v ''receipt_refs'') \<and> (\<forall>r \<in> set (list_items (jget v ''receipt_refs'')). is_str r)"
  by (auto simp: validate_lifecycle_event_def)

interpretation ln: numbered_journal "lifecycle_cfg d" validate_lifecycle_event for d
  by unfold_locales (auto simp: lifecycle_cfg_def default_cfg_def validate_lifecycle_event_Inr)

lemma lifecycle_event_get [simp]:
  "jget (lifecycle_event n now dim p q a r refs) ''sequence'' = JInt (int n)"
  "jget (lifecycle_event n now dim p q a r refs) ''dimension'' = JStr dim"
  "jget (lifecycle_event n now dim p q a r refs) ''new'' = q"
  "jget (lifecycle_event n now dim p q a r refs) ''prior'' = p"
  "jget (lifecycle_event n now dim p q a r refs) ''receipt_refs'' = JList (map JStr refs)"
  by (simp_all add: lifecycle_event_def jaccess)

lemma lifecycle_event_plain: "plain p \<Longrightarrow> plain q \<Longrightarrow> plain (lifecycle_event n now dim p q a r refs)"
  by (simp add: lifecycle_event_def list_all_iff)

lemma lifecycle_event_ascii:
  assumes "ascii_json p" "ascii_json q" "list_all (list_all ascii) (now # dim # a # r # refs)"
  shows "ascii_json (lifecycle_event n now dim p q a r refs)"
proof -
  have "list_all (list_all ascii) (LIFECYCLE_SCHEMA # LIFECYCLE_KEYS)" by code_simp
  with assms show ?thesis
    by (simp add: lifecycle_event_def LIFECYCLE_KEYS_def list_all_iff)
qed

lemma keys_canon: "set (map fst (obj_items (canon v))) = set (map fst (obj_items v))"
  by (cases v) (auto simp: image_image case_prod_beta)

lemma py_eq_canon_JInt: "py_eq (canon v) (JInt i) = py_eq v (JInt i)"
  by (cases v) (simp_all add: py_eq.simps)

lemma validate_lifecycle_canon:
  "validate_lifecycle_event v n = Inr v \<Longrightarrow> plain v \<Longrightarrow> validate_lifecycle_event (canon v) n = Inr (canon v)"
  unfolding validate_lifecycle_event_Inr keys_canon
  by (simp add: jget_canon py_eq_canon_JInt) (auto simp: is_list_conv is_str_conv)

lemma append_lifecycle_Inr:
  assumes "append_lifecycle_event now dim p q a r refs d = (d', Inr e)"
    and "read_jsonl (lifecycle_cfg d) True validate_lifecycle_event (lifecycle_log d) = Inr events"
    and "plain p" "plain q" "ascii_json p" "ascii_json q" "list_all (list_all ascii) (now # dim # a # r # refs)"
  shows "e = lifecycle_event (length events + 1) now dim p q a r refs"
    and "read_lifecycle d' = Inr (events @ [canon e])" and "log_is_file d'"
    and "d' = d\<lparr>lifecycle_log := lifecycle_log d'\<rparr>"
proof -
  let ?mk = "\<lambda>n. lifecycle_event n now dim p q a r refs"
  have d': "d' = d\<lparr>lifecycle_log := lifecycle_log d'\<rparr>"
    and tr: "transact_jsonl (lifecycle_cfg d) validate_lifecycle_event (stamped validate_lifecycle_event ?mk)
      (lifecycle_log d) = (lifecycle_log d', Inr e)"
    using assms(1) by (auto simp: append_lifecycle_event_def split: prod.splits)
  note dec = ln.stamped_decision [OF assms(2) tr]
  show e: "e = ?mk (length events + 1)" by (rule dec(1))
  have plain: "plain e" unfolding e by (rule lifecycle_event_plain [OF assms(3,4)])
  moreover have "utf8_valid (dumps False e)"
    using plain lifecycle_event_ascii [OF assms(5-7)] unfolding e by (intro utf8_valid_dumps) simp_all
  moreover have "jget e ''sequence'' = JInt (int (length events + 1))" unfolding e by simp
  moreover have "validate_lifecycle_event (canon e) (length events + 1) = Inr (canon e)"
    by (rule validate_lifecycle_canon [OF dec(2) plain])
  ultimately have "read_jsonl (lifecycle_cfg d) True validate_lifecycle_event (lifecycle_log d')
      = Inr (events @ [canon e])"
    by (rule ln.stamped_read_back [OF assms(2) tr])
  moreover have "lifecycle_cfg d' = lifecycle_cfg d" by (subst d') (simp add: lifecycle_cfg_def)
  moreover have ex: "lifecycle_log d' \<noteq> None" using dec(4) by (metis option.distinct(1))
  ultimately show "read_lifecycle d' = Inr (events @ [canon e])"
    by (simp add: read_lifecycle_def read_jsonl_exists)
  obtain b where "lifecycle_log d' = Some (Regular b 1)" using dec(4) by blast
  then show "log_is_file d'" by (simp add: log_is_file_def)
  show "d' = d\<lparr>lifecycle_log := lifecycle_log d'\<rparr>" by (rule d')
qed

lemma lifecycle_state_snoc:
  "map_of (lifecycle_state (events @ [e])) k =
     (if k = py_str (jget e ''dimension'') then Some (jget e ''new'') else map_of (lifecycle_state events) k)"
  by (simp add: lifecycle_state_def update_conv')

lemma execution_state_Some:
  assumes "execution_state d = Inr (Some p)"
  obtains events where "read_lifecycle d = Inr events" "map_of (lifecycle_state events) ''execution'' = Some (JStr p)"
    "p \<in> EXECUTION_STATUSES" "log_is_file d"
    "read_jsonl (lifecycle_cfg d) True validate_lifecycle_event (lifecycle_log d) = Inr events"
proof -
  from assms have l: "log_is_file d" by (auto simp: execution_state_def split: if_splits)
  with assms obtain events where e: "read_lifecycle d = Inr events"
    "map_of (lifecycle_state events) ''execution'' = Some (JStr p)" "p \<in> EXECUTION_STATUSES"
    by (auto simp: execution_state_def reconstruct_lifecycle_def split: if_splits option.splits)
  moreover have "lifecycle_log d \<noteq> None" using l by (cases "lifecycle_log d") (simp_all add: log_is_file_def)
  ultimately show thesis using that [OF e] l by (simp add: read_lifecycle_def read_jsonl_exists)
qed

lemma execution_state_append:
  assumes "read_lifecycle d = Inr (events @ [canon e])" and "log_is_file d" and "plain e"
    and "jget e ''dimension'' = JStr ''execution''" and "jget e ''new'' = JStr q" and "q \<in> EXECUTION_STATUSES"
  shows "execution_state d = Inr (Some q)"
  using assms by (simp add: execution_state_def reconstruct_lifecycle_def lifecycle_state_snoc jget_canon)

subsection \<open>Projections\<close>

lemma jget_jupdate_other: "k \<notin> fst ` set kvs \<Longrightarrow> jget (jupdate v kvs) k = jget v k"
  by (induction kvs arbitrary: v) (auto simp: jupdate_def)

lemma jget_stamp: "k \<notin> {''projection_generated_at'', ''projection_source'', ''projection_freshness'',
    ''projection_authority''} \<Longrightarrow> jget (stamp_projection now s f v) k = jget v k"
  by (simp add: stamp_projection_def jget_jupdate_other)

lemma update_projection_Inr:
  assumes "update_projection_path_unchecked now source freshness ((''status'', q) # updates) d = (d', Inr v)"
    and "''status'' \<notin> fst ` set updates"
  shows "jget v ''status'' = q" and "lifecycle_log d' = lifecycle_log d"
    and "run_entry d' ''status.json'' = Some (RFile (dumps_pretty 0 v @ [CHR 0x0A]) 1 True)"
    and "p \<noteq> ''status.json'' \<Longrightarrow> run_entry d' p = run_entry d p"
    and "run_path d' = run_path d" and "run_name d' = run_name d"
proof -
  from assms(1) obtain data where
    v: "v = stamp_projection now source freshness
          (jset ''updated_at'' (JStr (let g = jget (JObj ((''status'', q) # updates)) ''updated_at'' in
             if truthy g then py_str g else now)) (jupdate data ((''status'', q) # updates)))"
    and d': "d' = atomic_write_json d ''status.json'' v True"
    by (auto simp: update_projection_path_unchecked_def Let_def split: if_splits sum.splits)
  show "jget v ''status'' = q"
    using assms(2) jget_jupdate_other [of "''status''" updates "jset ''status'' q data"]
    by (simp add: v jget_stamp) (simp add: jupdate_def)
  show "lifecycle_log d' = lifecycle_log d" "run_path d' = run_path d" "run_name d' = run_name d"
    "run_entry d' ''status.json'' = Some (RFile (dumps_pretty 0 v @ [CHR 0x0A]) 1 True)"
    "p \<noteq> ''status.json'' \<Longrightarrow> run_entry d' p = run_entry d p"
    by (simp_all add: d' atomic_write_json_def)
qed

lemma update_projection_log:
  "lifecycle_log (fst (update_projection_path_unchecked now source freshness changes d)) = lifecycle_log d"
  by (auto simp: update_projection_path_unchecked_def atomic_write_json_def Let_def split: sum.splits)

lemma same_log_execution_state:
  "lifecycle_log d' = lifecycle_log d \<Longrightarrow> run_path d' = run_path d \<Longrightarrow> execution_state d' = execution_state d"
  by (simp add: execution_state_def log_is_file_def reconstruct_lifecycle_def read_lifecycle_def lifecycle_cfg_def)

subsection \<open>Execution transitions\<close>

lemma execution_statuses_ascii: "q \<in> EXECUTION_STATUSES \<Longrightarrow> list_all ascii q"
proof -
  have "\<forall>q \<in> EXECUTION_STATUSES. list_all ascii q" by code_simp
  then show "q \<in> EXECUTION_STATUSES \<Longrightarrow> list_all ascii q" by blast
qed

lemma execution_ascii: "list_all ascii ''execution''"
  by code_simp

definition execution_allowed :: "string option \<Rightarrow> string \<Rightarrow> bool" where
  "execution_allowed prior new = (case map_of EXECUTION_TRANSITIONS prior of None \<Rightarrow> False | Some a \<Rightarrow> new \<in> a)"

lemma validate_transition_Inr:
  "validate_transition prior new = Inr u \<longleftrightarrow>
     new \<in> EXECUTION_STATUSES \<and> (prior = Some new \<or> execution_allowed prior new)"
  by (auto simp: validate_transition_def execution_allowed_def split: option.splits)

lemma append_execution:
  assumes "append_lifecycle_event now ''execution'' p (JStr q) actor reason refs d = (d', Inr e)"
    and "read_jsonl (lifecycle_cfg d) True validate_lifecycle_event (lifecycle_log d) = Inr events"
    and "p = JNull \<or> (\<exists>s \<in> EXECUTION_STATUSES. p = JStr s)" and "q \<in> EXECUTION_STATUSES"
    and "list_all (list_all ascii) (now # actor # reason # refs)"
  shows "read_lifecycle d' = Inr (events @ [canon e])" and "log_is_file d'"
    and "d' = d\<lparr>lifecycle_log := lifecycle_log d'\<rparr>" and "execution_state d' = Inr (Some q)"
    and "e = lifecycle_event (length events + 1) now ''execution'' p (JStr q) actor reason refs"
proof -
  have p: "plain p" "ascii_json p" using assms(3) execution_statuses_ascii by auto
  have asc: "list_all (list_all ascii) (now # ''execution'' # actor # reason # refs)"
    using assms(5) execution_ascii unfolding list.pred_inject by blast
  have q: "plain (JStr q)" "ascii_json (JStr q)" using assms(4) execution_statuses_ascii by auto
  note a = append_lifecycle_Inr [OF assms(1,2) p(1) q(1) p(2) q(2) asc]
  show "read_lifecycle d' = Inr (events @ [canon e])" "log_is_file d'"
    "d' = d\<lparr>lifecycle_log := lifecycle_log d'\<rparr>" by (fact a)+
  show e: "e = lifecycle_event (length events + 1) now ''execution'' p (JStr q) actor reason refs" by (fact a)
  show "execution_state d' = Inr (Some q)"
    using execution_state_append [OF a(2,3) _ _ _ assms(4)] lifecycle_event_plain [OF p(1) q(1)]
    by (simp add: e)
qed

lemma transition_unsealed:
  assumes "transition_execution_path X now new actor reason refs source freshness updates d = (d', Inr v)"
    and "\<not> is_file d ''final-receipt.json''"
  obtains p d1 where "execution_state d = Inr (Some p)" "new \<in> EXECUTION_STATUSES"
    "p = new \<or> execution_allowed (Some p) new"
    "(d1 = d \<and> p = new) \<or> (\<exists>e. append_lifecycle_event now ''execution'' (JStr p) (JStr new) actor reason refs d = (d1, Inr e))"
    "update_projection_path_unchecked now source freshness ((''status'', JStr new) # updates) d1 = (d', Inr v)"
proof -
  from assms obtain p where p: "execution_state d = Inr (Some p)" "validate_transition (Some p) new = Inr ()"
    by (auto simp: transition_execution_path_def split: sum.splits option.splits)
  have ok: "new \<in> EXECUTION_STATUSES" "p = new \<or> execution_allowed (Some p) new"
    using p(2) by (auto simp: validate_transition_Inr)
  show thesis
  proof (cases "new = p")
    case True
    with p(2) have "validate_transition (Some p) p = Inr ()" by simp
    with assms p True have "update_projection_path_unchecked now source freshness ((''status'', JStr new) # updates) d = (d', Inr v)"
      by (simp add: transition_execution_path_def)
    with True ok p(1) that [of p d] show thesis by blast
  next
    case False
    with assms p obtain d1 e where
      "append_lifecycle_event now ''execution'' (JStr p) (JStr new) actor reason refs d = (d1, Inr e)"
      "update_projection_path_unchecked now source freshness ((''status'', JStr new) # updates) d1 = (d', Inr v)"
      by (auto simp: transition_execution_path_def split: sum.splits prod.splits)
    with p(1) ok that [of p d1] show thesis by blast
  qed
qed


text \<open>
  A terminal execution state is final: while the run is unsealed, any transition from it to
  another state raises and leaves the run directory, journal and projection included, untouched.
\<close>

theorem terminal_state_final:
  assumes "execution_state d = Inr (Some p)" and "p \<in> TERMINAL_STATUSES" and "new \<noteq> p"
    and "\<not> is_file d ''final-receipt.json''"
  shows "\<exists>msg. transition_execution_path X now new actor reason refs source freshness updates d
           = (d, Inl (WorkflowError msg))"
proof -
  have "\<not> execution_allowed (Some p) new"
    using assms(2) by (auto simp: TERMINAL_STATUSES_def execution_allowed_def EXECUTION_TRANSITIONS_def)
  then have "\<exists>msg. validate_transition (Some p) new = Inl (WorkflowError msg)"
    using assms(3) by (auto simp: validate_transition_def execution_allowed_def raise_if_def split: option.splits)
  with assms(1,4) show ?thesis by (auto simp: transition_execution_path_def)
qed

text \<open>
  A sealed run is immutable: with a final receipt in place a transition never writes the
  lifecycle journal, and it returns only if the requested state is the sealed one.
\<close>

theorem sealed_execution_immutable:
  assumes "is_file d ''final-receipt.json''"
    and "transition_execution_path X now new actor reason refs source freshness updates d = (d', r)"
  shows "lifecycle_log d' = lifecycle_log d
    \<and> (\<forall>v. r = Inr v \<longrightarrow> authoritative_execution_status X d = Inr new)"
  using assms update_projection_log [of now source freshness "(''status'', JStr new) # updates" d]
  by (auto simp: transition_execution_path_def split: sum.splits)

text \<open>
  C39. A synchronised projection agrees with the authority: what \<open>synchronize_projection\<close> returns
  shows the authoritative execution state, sealed or journalled.
\<close>

theorem synchronize_projection_agrees:
  assumes "synchronize_projection X now source freshness updates d = (d', Inr v)"
    and "''status'' \<notin> fst ` set updates"
  shows "\<exists>s. authoritative_execution_status X d = Inr s \<and> jget v ''status'' = JStr s"
proof -
  from assms(1) obtain s where s: "authoritative_execution_status X d = Inr s"
    by (cases "authoritative_execution_status X d") (simp_all add: synchronize_projection_def)
  with assms(1) have "jget v ''status'' = JStr s
      \<or> update_projection_path_unchecked now source freshness ((''status'', JStr s) # updates) d = (d', Inr v)"
    by (cases "read_status_path d") (auto simp: synchronize_projection_def split: if_splits)
  with s update_projection_Inr(1) [OF _ assms(2)] show ?thesis by blast
qed

subsection \<open>A concrete run\<close>

text \<open>A run in state \<open>q\<close>, with its journal of one event and its projection.\<close>

definition demo_event :: "string \<Rightarrow> json" where
  "demo_event q = lifecycle_event 1 ''t'' ''execution'' JNull (JStr q) ''a'' ''r'' []"

definition demo_status :: "string \<Rightarrow> json" where
  "demo_status q = JObj [(''schema'', JStr STATUS_SCHEMA), (''status'', JStr q)]"

definition demo_in :: "string \<Rightarrow> rundir" where
  "demo_in q =
     \<lparr>run_name = ''r1'', run_path = ''/runs/r1'',
      tree = [(''status.json'', RFile (dumps False (demo_status q)) 1 True)],
      lifecycle_log = Some (Regular (canonical_json_line (demo_event q)) 1)\<rparr>"

lemma demo_texts:
  "\<forall>q \<in> EXECUTION_STATUSES. plain (demo_event q) \<and> ascii_json (demo_event q)
     \<and> length (canonical_json_line (demo_event q)) \<le> 300
     \<and> validate_lifecycle_event (demo_event q) 1 = Inr (demo_event q)
     \<and> plain (demo_status q) \<and> ascii_json (demo_status q) \<and> canon (demo_status q) = demo_status q"
  "length (canonical_json_line (lifecycle_event 2 ''t'' ''execution'' (JStr ''prepared'') (JStr ''running'') ''a'' ''r'' [])) \<le> 300"
  by code_simp+

lemma demo_cfg:
  "require_trailing_newline (lifecycle_cfg d)" "max_records (lifecycle_cfg d) = None"
  "sequence_field (lifecycle_cfg d) = Some ''sequence''" "max_record_bytes (lifecycle_cfg d) = 131072"
  "max_bytes (lifecycle_cfg d) = 33554432"
  by (simp_all add: lifecycle_cfg_def default_cfg_def DEFAULT_MAX_RECORD_BYTES_def DEFAULT_MAX_JOURNAL_BYTES_def)

lemma demo_log:
  assumes "q \<in> EXECUTION_STATUSES"
  shows "read_jsonl (lifecycle_cfg (demo_in q)) True validate_lifecycle_event (lifecycle_log (demo_in q))
     = Inr [canon (demo_event q)]"
proof -
  let ?cfg = "lifecycle_cfg (demo_in q)" and ?e = "demo_event q"
  have t: "plain ?e" "ascii_json ?e" "length (canonical_json_line ?e) \<le> 300"
    "validate_lifecycle_event ?e 1 = Inr ?e"
    using demo_texts(1) assms by blast+
  have "good_record ?cfg validate_lifecycle_event ?e 1"
    using t validate_lifecycle_canon [OF t(4,1)]
    by (simp add: good_record_def demo_cfg utf8_valid_dumps) (simp add: demo_event_def lifecycle_event_def jaccess)
  then have "decode_jsonl ?cfg validate_lifecycle_event (concat (map canonical_json_line [?e]))
      = Inr (map canon [?e])"
    by (intro decode_records [OF demo_cfg(1,2)]) simp
  moreover have "lifecycle_log (demo_in q) = Some (Regular (canonical_json_line ?e) 1)"
    by (simp add: demo_in_def)
  ultimately show ?thesis
    using t(3) read_regular [of "canonical_json_line ?e" ?cfg True validate_lifecycle_event]
    by (simp add: demo_cfg)
qed

lemma demo_state:
  assumes "q \<in> EXECUTION_STATUSES"
  shows "execution_state (demo_in q) = Inr (Some q)"
proof -
  have l: "log_is_file (demo_in q)" "lifecycle_log (demo_in q) \<noteq> None"
    by (simp_all add: demo_in_def log_is_file_def)
  then have "read_lifecycle (demo_in q) = Inr ([] @ [canon (demo_event q)])"
    using demo_log [OF assms] by (simp add: read_lifecycle_def read_jsonl_exists)
  moreover have "plain (demo_event q)" using demo_texts(1) assms by blast
  ultimately show ?thesis
    using execution_state_append [of "demo_in q" "[]" "demo_event q" q] l(1) assms
    by (simp add: demo_event_def)
qed

lemma demo_unsealed: "\<not> is_file (demo_in q) ''final-receipt.json''"
  by (simp add: is_file_def run_entry_def demo_in_def)

lemma demo_read_status:
  assumes "q \<in> EXECUTION_STATUSES"
  shows "read_status_path ((demo_in q)\<lparr>lifecycle_log := f\<rparr>) = Inr (demo_status q)"
proof -
  have t: "plain (demo_status q)" "ascii_json (demo_status q)" "canon (demo_status q) = demo_status q"
    using demo_texts(1) assms by blast+
  have "run_entry (demo_in q) ''status.json'' = Some (RFile (dumps False (demo_status q)) 1 True)"
    by (simp add: run_entry_def demo_in_def)
  then show ?thesis
    using t utf8_valid_dumps [OF t(1,2)]
    by (simp add: read_status_path_def read_json_def Let_def loads_dumps)
      (simp add: demo_status_def current_status_def jaccess)
qed

lemma demo_start:
  "\<exists>d' v. transition_execution_path X ''t'' ''running'' ''a'' ''r'' [] ''s'' ''f'' [] (demo_in ''prepared'') = (d', Inr v)"
proof -
  let ?mk = "\<lambda>n. lifecycle_event n ''t'' ''execution'' (JStr ''prepared'') (JStr ''running'') ''a'' ''r'' []"
  let ?q = "''prepared''"
  have q: "?q \<in> EXECUTION_STATUSES" by (simp add: EXECUTION_STATUSES_def)
  have mk: "validate_lifecycle_event (?mk 2) 2 = Inr (?mk 2)" by code_simp
  have b: "slot_bytes (lifecycle_log (demo_in ?q)) = canonical_json_line (demo_event ?q)"
    by (simp add: demo_in_def slot_bytes_def)
  have len: "length (canonical_json_line (demo_event ?q)) \<le> 300" using demo_texts(1) q by blast
  have n: "length [canon (demo_event ?q)] + 1 = 2" by simp
  note ret = ln.stamped_returns [OF demo_log [OF q], of ?mk "?mk 2", unfolded n b demo_cfg]
  obtain f where "transact_jsonl (lifecycle_cfg (demo_in ?q)) validate_lifecycle_event
      (stamped validate_lifecycle_event ?mk) (lifecycle_log (demo_in ?q)) = (f, Inr (?mk 2))"
    using ret [OF mk] len demo_texts(2) by auto
  then have app: "append_lifecycle_event ''t'' ''execution'' (JStr ?q) (JStr ''running'') ''a'' ''r'' [] (demo_in ?q)
      = ((demo_in ?q)\<lparr>lifecycle_log := f\<rparr>, Inr (?mk 2))"
    by (simp add: append_lifecycle_event_def)
  have "run_entry (demo_in ?q) ''status.json'' = Some (RFile (dumps False (demo_status ?q)) 1 True)"
    by (simp add: run_entry_def demo_in_def)
  then obtain d' v where "update_projection_path_unchecked ''t'' ''s'' ''f'' [(''status'', JStr ''running'')]
      ((demo_in ?q)\<lparr>lifecycle_log := f\<rparr>) = (d', Inr v)"
    using demo_read_status [OF q, of f] by (auto simp: update_projection_path_unchecked_def present_def Let_def)
  moreover have "validate_transition (Some ?q) ''running'' = Inr ()" by code_simp
  ultimately show ?thesis
    using app by (auto simp: transition_execution_path_def demo_unsealed demo_state [OF q])
qed


theorem terminal_state_final_witness:
  "execution_state (demo_in ''failed'') = Inr (Some ''failed'')
   \<and> (\<exists>msg. transition_execution_path demo_ext ''t'' ''running'' ''a'' ''r'' [] ''s'' ''f'' [] (demo_in ''failed'')
        = (demo_in ''failed'', Inl (WorkflowError msg)))"
proof -
  have st: "execution_state (demo_in ''failed'') = Inr (Some ''failed'')"
    by (rule demo_state) (simp add: EXECUTION_STATUSES_def)
  from terminal_state_final [OF st _ _ demo_unsealed] st show ?thesis by (simp add: TERMINAL_STATUSES_def)
qed

theorem sealed_execution_immutable_witness:
  "is_file demo_run ''final-receipt.json''
   \<and> lifecycle_log (fst (transition_execution_path seal_ext ''t'' ''running'' ''a'' ''r'' [] ''s'' ''f'' [] demo_run)) = None"
proof -
  have f: "is_file demo_run ''final-receipt.json''" by (simp add: is_file_def demo_run_def demo_entry(1))
  have "lifecycle_log demo_run = None" by (simp add: demo_run_def demo_with_def)
  with sealed_execution_immutable [OF f prod.collapse [symmetric]] f show ?thesis by metis
qed

theorem synchronize_projection_agrees_witness:
  "\<exists>v. synchronize_projection demo_ext ''t'' ''s'' ''f'' [] (demo_in ''running'') = (demo_in ''running'', Inr v)
     \<and> jget v ''status'' = JStr ''running''"
proof -
  have q: "''running'' \<in> EXECUTION_STATUSES" by (simp add: EXECUTION_STATUSES_def)
  have d: "(demo_in ''running'')\<lparr>lifecycle_log := lifecycle_log (demo_in ''running'')\<rparr> = demo_in ''running''" by simp
  have a: "authoritative_execution_status demo_ext (demo_in ''running'') = Inr ''running''"
    using demo_state [OF q] by (simp add: authoritative_execution_status_def demo_unsealed)
  moreover have "read_status_path (demo_in ''running'') = Inr (demo_status ''running'')"
    using demo_read_status [OF q, of "lifecycle_log (demo_in ''running'')"] by (simp only: d)
  moreover have "jget (demo_status ''running'') ''status'' = JStr ''running''" by (simp add: demo_status_def jaccess)
  ultimately have s: "synchronize_projection demo_ext ''t'' ''s'' ''f'' [] (demo_in ''running'')
      = (demo_in ''running'', Inr (demo_status ''running''))"
    by (simp add: synchronize_projection_def)
  from synchronize_projection_agrees [OF s] a s show ?thesis by auto
qed

end
