(* ===== verification/Scores.thy ===== *)
theory Scores
  imports Run_Lifecycle
begin

text \<open>
  \<open>eval/scoring.py\<close>: the check of a score set against the sealed evidence it was computed
  from. A score set lists score receipts; each is stored a second time in a read-only file
  named by its digest, and names sealed artifacts by their digests.
\<close>

subsection \<open>Python iteration, membership and nested reads\<close>

text \<open>
  \<open>for x in v\<close>: lists give their items, dicts their keys and strings their characters; any
  other value raises. \<open>v in {...}\<close> on a set of strings raises for unhashable values.
\<close>

fun py_iter :: "json \<Rightarrow> json list result" where
  "py_iter (JList xs) = Inr xs"
| "py_iter (JObj kvs) = Inr (map (\<lambda>(k, _). JStr k) kvs)"
| "py_iter (JStr s) = Inr (map (\<lambda>c. JStr [c]) s)"
| "py_iter v = Inl (TypeError ''object is not iterable'')"

definition member_of :: "json \<Rightarrow> string list \<Rightarrow> bool result" where
  "member_of v names =
     (if is_list v \<or> is_obj v then Inl (TypeError ''unhashable type'') else Inr (v \<in> JStr ` set names))"

lemma member_of_Inr [simp]:
  "member_of v names = Inr b \<longleftrightarrow> \<not> is_list v \<and> \<not> is_obj v \<and> b = (v \<in> JStr ` set names)"
  by (auto simp: member_of_def)

text \<open>\<open>v.get(k)\<close> where \<open>v\<close> may be no dict.\<close>

definition py_get :: "json \<Rightarrow> string \<Rightarrow> json result" where
  "py_get v k = (if is_obj v then Inr (jget v k) else Inl (TypeError ''get''))"

lemma py_get_Inr [simp]: "py_get v k = Inr x \<longleftrightarrow> is_obj v \<and> x = jget v k"
  by (auto simp: py_get_def)

subsection \<open>Sealed sources of the required scorers\<close>

definition KNOWN_SCORERS :: "string list" where
  "KNOWN_SCORERS =
     [''acceptance_commands'', ''completion_presence'', ''evidence_fidelity'', ''oracle_leak'',
      ''patch_applicability'', ''regression_guard'', ''repository_cleanliness'', ''semantic_evidence'',
      ''schema_validity'', ''static_quality_delta'', ''writable_scope'']"

definition load_receipt :: "rundir \<Rightarrow> string \<Rightarrow> bool \<Rightarrow> json result" where
  "load_receipt d rel require_read_only =
     (let path = run_path d @ ''/'' @ rel in
      case run_entry d rel of
        Some (RFile data _ writable) \<Rightarrow>
          bindE (raise_if (require_read_only \<and> writable)
                  (''content-addressed score receipt must be read-only: '' @ path)) (\<lambda>_.
          (case loads_utf8 data of
             None \<Rightarrow> Inl (WorkflowError (''cannot read evaluation receipt '' @ path))
           | Some v \<Rightarrow> bindE (raise_if (\<not> is_obj v) (''evaluation receipt must be an object: '' @ path)) (\<lambda>_. Inr v)))
      | Some RDir \<Rightarrow> Inl (OSError path)
      | Some RSpecial \<Rightarrow> Inl (WorkflowError (''evaluation receipt must be a regular file: '' @ path))
      | _ \<Rightarrow> Inl (WorkflowError (''cannot read evaluation receipt '' @ path)))"

definition sealed_load :: "ext \<Rightarrow> rundir \<Rightarrow> json \<Rightarrow> string \<Rightarrow> json result" where
  "sealed_load X d receipt rel =
     bindE (read_sealed_json X d receipt rel) (\<lambda>(v, _).
     bindE (raise_if (\<not> is_obj v) (''sealed evaluation artifact must be an object: '' @ rel)) (\<lambda>_. Inr v))"

definition criterion_id :: "json \<Rightarrow> string list result" where
  "criterion_id item =
     bindE (raise_if (\<not> is_obj item) ''sealed job binding contains an invalid criterion'') (\<lambda>_.
     bindE (raise_if (\<not> is_str (jget item ''id'') \<or> jget item ''id'' = JStr [])
             ''sealed job binding contains an empty criterion ID'') (\<lambda>_.
     (let command_ids = jget_or item ''acceptance_command_ids'' (JList []) in
      bindE (raise_if (\<not> is_list command_ids) ''sealed job binding criterion command IDs must be a list'') (\<lambda>_.
      Inr (if command_ids = JList [] then [str_of (jget item ''id'')] else [])))))"

definition semantic_criterion_ids :: "ext \<Rightarrow> rundir \<Rightarrow> json \<Rightarrow> string list result" where
  "semantic_criterion_ids X d receipt =
     (if JStr ''job-binding.json'' \<notin> set (listed_paths receipt) then Inr []
      else
        bindE (sealed_load X d receipt ''job-binding.json'') (\<lambda>b.
        (let criteria = jget_or b ''criteria'' (JList []) in
         bindE (raise_if (\<not> is_list criteria) ''sealed job binding criteria must be a list'') (\<lambda>_.
         bindE (mapE criterion_id (list_items criteria)) (\<lambda>ids. Inr (concat ids))))))"

definition evaluation_policy_for_run :: "ext \<Rightarrow> rundir \<Rightarrow> json \<Rightarrow> json result" where
  "evaluation_policy_for_run X d receipt =
     bindE (read_sealed_json X d receipt ''agent-run-contract.json'') (\<lambda>(contract, _).
     bindE (raise_if (\<not> is_obj contract) ''sealed launch contract must be a JSON object'') (\<lambda>_.
     bindE (validate_agent_run_contract_value X contract (run_path d @ ''/agent-run-contract.json'')) (\<lambda>_.
     (let v = jget_or contract ''evaluation_policy'' (JObj []) in
      Inr (if is_obj v then v else JObj [])))))"

definition required_scorers :: "ext \<Rightarrow> rundir \<Rightarrow> json \<Rightarrow> string list result" where
  "required_scorers X d receipt =
     bindE (semantic_criterion_ids X d receipt) (\<lambda>semantic.
     bindE (evaluation_policy_for_run X d receipt) (\<lambda>policy.
     bindE (if truthy policy then py_iter (jget_or policy ''scorers'' (JList [])) else Inr []) (\<lambda>extra.
     Inr ([''schema_validity'', ''completion_presence'']
          @ (if semantic \<noteq> [] then [''semantic_evidence''] else [])
          @ map py_str extra
          @ (if truthy policy \<and> truthy (jget policy ''oracle_refs'') then [''oracle_leak''] else [])))))"

definition expected_scorers :: "json \<Rightarrow> string list \<Rightarrow> string list" where
  "expected_scorers receipt needed =
     (let sealed = listed_paths receipt; has = (\<lambda>p. JStr p \<in> set sealed) in
      needed
      @ (if has ''collections/commands-post.json'' then [''acceptance_commands'', ''evidence_fidelity''] else [])
      @ (if has ''collections/commands-baseline.json'' \<and> has ''collections/commands-post.json''
         then [''regression_guard''] else [])
      @ (if has ''scope/scope-baseline.json'' \<and> has ''scope/scope-post.json'' then [''writable_scope''] else []))"

subsection \<open>Score sets\<close>

text \<open>\<open>sealed.get(path)\<close> of the dict of sealed digests: the last entry for a path wins.\<close>

definition sealed_digest :: "json \<Rightarrow> json \<Rightarrow> json result" where
  "sealed_digest receipt path =
     (if is_list path \<or> is_obj path then Inl (TypeError ''unhashable type'')
      else Inr (case List.find (\<lambda>item. py_eq (jget item ''path'') path) (rev (filter is_obj (artifacts receipt))) of
                  None \<Rightarrow> JNull | Some item \<Rightarrow> jget item ''sha256''))"

definition check_evidence :: "json \<Rightarrow> json \<Rightarrow> unit result" where
  "check_evidence receipt evidence =
     bindE (jidx evidence ''path'') (\<lambda>path.
     bindE (sealed_digest receipt path) (\<lambda>dig.
     bindE (jidx evidence ''sha256'') (\<lambda>h.
     raise_if (\<not> py_eq dig h) (''score evidence is absent from the final receipt: '' @ py_str path))))"

definition score_file :: "ext \<Rightarrow> string \<Rightarrow> json \<Rightarrow> string" where
  "score_file X identifier score = ''scores/'' @ identifier @ ''-'' @ sha256 X (dumps True score) @ ''.json''"

definition check_stored_score :: "ext \<Rightarrow> rundir \<Rightarrow> string \<Rightarrow> json \<Rightarrow> unit result" where
  "check_stored_score X d identifier score =
     (let rel = score_file X identifier score;
          msg = ''content-addressed score receipt is missing or changed: '' @ run_path d @ ''/'' @ rel in
      case load_receipt d rel True of
        Inl e \<Rightarrow> Inl (if is_WorkflowError e then WorkflowError (msg @ '': '' @ error_text e) else e)
      | Inr stored \<Rightarrow> raise_if (\<not> py_eq stored score) msg)"

definition check_score :: "ext \<Rightarrow> rundir \<Rightarrow> json \<Rightarrow> string \<Rightarrow> json \<Rightarrow> string result" where
  "check_score X d receipt final_hash score =
     bindE (validate_instance X score ''agent-workflow/score-receipt/v1'' ''score receipt'') (\<lambda>_.
     bindE (py_get score ''final_receipt_sha256'') (\<lambda>h.
     bindE (raise_if (h \<noteq> JStr final_hash) ''score receipt references a different final receipt'') (\<lambda>_.
     bindE (bindE (jidx score ''scorer'') (\<lambda>s. jidx s ''id'')) (\<lambda>scorer_id.
     (let identifier = py_str scorer_id in
     bindE (raise_if (identifier \<notin> set KNOWN_SCORERS) (''unknown scorer in score set: '' @ identifier)) (\<lambda>_.
     bindE (py_iter (jget_or score ''evidence'' (JList []))) (\<lambda>evidence.
     bindE (mapE (check_evidence receipt) evidence) (\<lambda>_.
     bindE (check_stored_score X d identifier score) (\<lambda>_.
     Inr identifier)))))))))"

definition derived_verdict :: "json list \<Rightarrow> string" where
  "derived_verdict scores =
     (if \<forall>s \<in> set scores. jget s ''verdict'' = JStr ''pass'' then ''pass''
      else if \<exists>s \<in> set scores. jget s ''verdict'' = JStr ''invalid'' then ''invalid'' else ''fail'')"

definition validate_score_set :: "ext \<Rightarrow> rundir \<Rightarrow> json \<Rightarrow> json \<Rightarrow> string \<Rightarrow> json result" where
  "validate_score_set X d v receipt final_hash =
     bindE (raise_if (\<not> is_obj v) ''score set must be an object'') (\<lambda>_.
     bindE (raise_if (jget v ''final_receipt_sha256'' \<noteq> JStr final_hash)
             ''score set references a different final receipt'') (\<lambda>_.
     (let scores = jget v ''scores'' in
     bindE (raise_if (\<not> is_list scores \<or> scores = JList [])
             ''score set contains no deterministic score receipts'') (\<lambda>_.
     bindE (required_scorers X d receipt) (\<lambda>needed.
     bindE (mapE (check_score X d receipt final_hash) (list_items scores)) (\<lambda>identifiers.
     bindE (raise_if (\<not> distinct identifiers) ''score set contains duplicate scorer IDs'') (\<lambda>_.
     (let missing = sorted_set (filter (\<lambda>s. s \<notin> set identifiers) needed) in
     bindE (raise_if (missing \<noteq> [])
             (''score set is missing required scorers: '' @ py_repr (JList (map JStr missing)))) (\<lambda>_.
     (let unexpected = sort (filter (\<lambda>s. s \<notin> set (expected_scorers receipt needed)) identifiers) in
     bindE (raise_if (unexpected \<noteq> [])
             (''score set contains unexpected scorers: '' @ py_repr (JList (map JStr unexpected)))) (\<lambda>_.
     bindE (raise_if (jget v ''verdict'' \<noteq> JStr (derived_verdict (list_items scores)))
             ''score-set verdict contradicts score receipts'') (\<lambda>_.
     Inr v))))))))))))"

end
