(* ===== verification/Acceptance.thy ===== *)
theory Acceptance
  imports Scores
begin

text \<open>
  \<open>lifecycle.py\<close> and \<open>approval.py\<close>: the review of a sealed run. Dispositions are immutable,
  numbered receipts below \<open>receipts/\<close>; \<open>record\<close> appends one after checking the evidence,
  \<open>force_accept\<close> writes a separate override, and \<open>lifecycle_disposition\<close> and
  \<open>is_approved\<close> read the outcome back. The run directory is the argument of every operation;
  its name is the Agent Run identifier.
\<close>

definition LIFECYCLE_ACTIONS :: "string list" where
  "LIFECYCLE_ACTIONS = [''reviewed'', ''accepted'', ''rejected'']"

definition LIFECYCLE_RECEIPT_SCHEMA :: string where
  "LIFECYCLE_RECEIPT_SCHEMA = ''agent-workflow/lifecycle-receipt/v1''"

subsection \<open>The chain of lifecycle receipts\<close>

text \<open>\<open>f"{n:06d}"\<close>, and the file name pattern of a receipt with its two groups.\<close>

definition pad6 :: "nat \<Rightarrow> string" where
  "pad6 n = replicate (6 - length (nat_str n)) (CHR ''0'') @ nat_str n"

definition RECEIPT_NAME :: "string \<Rightarrow> (nat \<times> string) option" where
  "RECEIPT_NAME name =
     (if length name < 6 \<or> \<not> list_all is_digit (take 6 name) then None
      else map_option (\<lambda>a. (digits_val (take 6 name), a))
             (List.find (\<lambda>a. drop 6 name = ''-'' @ a @ ''.json'') LIFECYCLE_ACTIONS))"

text \<open>\<open>sorted(os.listdir(...))\<close> of a directory of the run.\<close>

definition child_name :: "string \<Rightarrow> string \<Rightarrow> string option" where
  "child_name dir key =
     (if startswith key (dir @ ''/'') \<and> CHR ''/'' \<notin> set (drop (length dir + 1) key)
      then Some (drop (length dir + 1) key) else None)"

definition listdir :: "rundir \<Rightarrow> string \<Rightarrow> string list" where
  "listdir d dir = sorted_set (List.map_filter (child_name dir) (map fst (tree d)))"

record lentry =
  le_sequence :: nat
  le_name :: string
  le_sha256 :: string
  le_receipt :: json

definition read_lifecycle_receipt_descriptor :: "ext \<Rightarrow> rundir \<Rightarrow> string \<Rightarrow> (json \<times> string) result" where
  "read_lifecycle_receipt_descriptor X d name =
     (case run_entry d (''receipts/'' @ name) of
        Some (RFile data _ writable) \<Rightarrow>
          bindE (raise_if writable ''lifecycle receipt must be read-only'') (\<lambda>_.
          (case loads_utf8 data of
             None \<Rightarrow> Inl (WorkflowError (''cannot read lifecycle receipt '' @ name))
           | Some receipt \<Rightarrow>
               bindE (raise_if (\<not> is_obj receipt) ''lifecycle receipt must be a JSON object'') (\<lambda>_.
               bindE (validate_instance X receipt LIFECYCLE_RECEIPT_SCHEMA ''lifecycle receipt'') (\<lambda>_.
               Inr (receipt, sha256 X data)))))
      | Some RDir \<Rightarrow> Inl (OSError name)
      | Some RSpecial \<Rightarrow> Inl (WorkflowError ''lifecycle receipt must be a regular non-symlink file'')
      | _ \<Rightarrow> Inl (WorkflowError ''lifecycle receipt entry is unsafe''))"

definition read_chain_entry :: "ext \<Rightarrow> rundir \<Rightarrow> string option \<Rightarrow> nat \<Rightarrow> string \<Rightarrow> lentry result" where
  "read_chain_entry X d expected_final expected_sequence name =
     (case RECEIPT_NAME name of
        None \<Rightarrow> Inl (WorkflowError ''unexpected lifecycle receipt artifact'')
      | Some (sequence, action) \<Rightarrow>
          bindE (raise_if (sequence \<noteq> expected_sequence)
                  (''lifecycle receipt sequence mismatch: expected '' @ pad6 expected_sequence)) (\<lambda>_.
          bindE (read_lifecycle_receipt_descriptor X d name) (\<lambda>(receipt, receipt_sha256).
          bindE (raise_if (jget receipt ''action'' \<noteq> JStr action)
                  ''lifecycle receipt action does not match filename'') (\<lambda>_.
          bindE (raise_if (jget receipt ''agent_run_id'' \<noteq> JStr (run_name d))
                  ''lifecycle receipt belongs to another run'') (\<lambda>_.
          bindE (case expected_final of
                   None \<Rightarrow> Inr ()
                 | Some h \<Rightarrow> raise_if (jget receipt ''final_receipt_sha256'' \<noteq> JStr h)
                              ''lifecycle receipt final-receipt digest mismatch'') (\<lambda>_.
          Inr \<lparr>le_sequence = sequence, le_name = name, le_sha256 = receipt_sha256, le_receipt = receipt\<rparr>))))))"

fun read_chain :: "ext \<Rightarrow> rundir \<Rightarrow> string option \<Rightarrow> nat \<Rightarrow> string list \<Rightarrow> lentry list result" where
  "read_chain X d expected_final n [] = Inr []"
| "read_chain X d expected_final n (name # names) =
     bindE (read_chain_entry X d expected_final n name) (\<lambda>e.
     bindE (read_chain X d expected_final (Suc n) names) (\<lambda>es. Inr (e # es)))"

definition lifecycle_receipts :: "ext \<Rightarrow> rundir \<Rightarrow> string option \<Rightarrow> lentry list result" where
  "lifecycle_receipts X d expected_final =
     (case run_entry d ''receipts'' of
        None \<Rightarrow> Inr []
      | Some RDir \<Rightarrow> read_chain X d expected_final 1 (listdir d ''receipts'')
      | Some _ \<Rightarrow> Inl (WorkflowError ''lifecycle receipt root is unsafe''))"

definition append_receipt :: "ext \<Rightarrow> json \<Rightarrow> rundir \<Rightarrow> rundir \<times> string result" where
  "append_receipt X v d =
     (case validate_instance X v LIFECYCLE_RECEIPT_SCHEMA ''lifecycle receipt'' of
        Inl e \<Rightarrow> (d, Inl e)
      | Inr _ \<Rightarrow>
          if present d ''receipts'' \<and> run_entry d ''receipts'' \<noteq> Some RDir
          then (d, Inl (WorkflowError (''lifecycle receipt root is unsafe: '' @ run_path d @ ''/receipts'')))
          else
            (let d1 = (if present d ''receipts'' then d
                       else d\<lparr>tree := AList.update ''receipts'' RDir (tree d)\<rparr>) in
             case bindE (lifecycle_receipts X d1 None) (\<lambda>chain.
                  bindE (bindE (jidx v ''action'') (\<lambda>a. Inr (py_str a))) (\<lambda>action.
                  (let rel = ''receipts/'' @ pad6 (length chain + 1) @ ''-'' @ action @ ''.json'' in
                   bindE (raise_if (present d1 rel)
                           (''lifecycle receipt already exists: '' @ run_path d @ ''/'' @ rel)) (\<lambda>_. Inr rel)))) of
               Inl e \<Rightarrow> (d1, Inl e)
             | Inr rel \<Rightarrow> (write_file d1 rel (dumps_pretty 0 v @ [CHR 0x0A]) False, Inr (run_path d @ ''/'' @ rel))))"

subsection \<open>Operations and their gates\<close>

record operation_spec =
  op_action :: string
  allowed_prior :: "json list"
  projection_disposition :: string

definition LIFECYCLE_OPERATIONS :: "(string \<times> operation_spec) list" where
  "LIFECYCLE_OPERATIONS =
     [(''reviewed'', \<lparr>op_action = ''reviewed'', allowed_prior = [JNull, JStr ''rejected''],
                     projection_disposition = ''reviewed''\<rparr>),
      (''accepted'', \<lparr>op_action = ''accepted'', allowed_prior = [JStr ''reviewed''],
                     projection_disposition = ''accepted''\<rparr>),
      (''rejected'', \<lparr>op_action = ''rejected'', allowed_prior = [JNull, JStr ''reviewed'', JStr ''rejected''],
                     projection_disposition = ''rejected''\<rparr>)]"

definition operation :: "string \<Rightarrow> operation_spec result" where
  "operation action =
     (case map_of LIFECYCLE_OPERATIONS action of
        None \<Rightarrow> Inl (WorkflowError (''lifecycle action must be one of: '' @ py_join '', '' LIFECYCLE_ACTIONS))
      | Some spec \<Rightarrow>
          if action \<notin> set LIFECYCLE_ACTIONS
          then Inl (WorkflowError (''lifecycle action must be one of: '' @ py_join '', '' LIFECYCLE_ACTIONS))
          else Inr spec)"

definition require_allowed_prior :: "operation_spec \<Rightarrow> json \<Rightarrow> unit result" where
  "require_allowed_prior spec prior =
     (if prior \<in> set (allowed_prior spec) then Inr ()
      else if prior = JStr ''accepted'' then Inl (WorkflowError ''lifecycle disposition is already terminal'')
      else if op_action spec = ''accepted''
        then Inl (WorkflowError ''acceptance requires a prior reviewed disposition'')
      else if op_action spec = ''reviewed'' \<and> prior = JStr ''reviewed''
        then Inl (WorkflowError ''run is already reviewed'')
      else Inl (WorkflowError (''cannot record lifecycle action '' @ str_repr (op_action spec)
                               @ '' after '' @ py_repr prior)))"

definition acceptance_revision :: "json \<Rightarrow> string result" where
  "acceptance_revision completion =
     (let revision = jget completion ''head_revision'' in
      bindE (raise_if (\<not> is_str revision \<or> revision = JStr []) ''acceptance requires a completion head revision'') (\<lambda>_.
      Inr (str_of revision)))"

definition job_requires_independent_review :: "ext \<Rightarrow> rundir \<Rightarrow> json \<Rightarrow> bool result" where
  "job_requires_independent_review X d receipt =
     (if JStr ''job-binding.json'' \<notin> set (listed_paths receipt) then Inr False
      else
        bindE (read_sealed_json X d receipt ''job-binding.json'') (\<lambda>(b, _).
        bindE (raise_if (\<not> is_obj b) ''sealed job binding must be an object'') (\<lambda>_.
        (let requirement = jget_or b ''review_requirement'' (JObj []) in
         bindE (raise_if (\<not> is_obj requirement) ''sealed job binding review requirement must be an object'') (\<lambda>_.
         Inr (truthy (jget_or requirement ''independent'' (JBool False))))))))"

definition HIGH_TIERS :: "string list" where
  "HIGH_TIERS = [''high'', ''critical'']"

definition TIERS :: "string list" where
  "TIERS = [''low'', ''medium'', ''high'', ''critical'']"

definition check_acceptance_gates ::
  "json \<Rightarrow> json \<Rightarrow> json \<Rightarrow> json option \<Rightarrow> string option \<Rightarrow> json \<Rightarrow> bool \<Rightarrow> bool \<Rightarrow> unit result" where
  "check_acceptance_gates final_status completion collection score score_hash reviewed independent
       independent_review_required =
     bindE (raise_if (case score of None \<Rightarrow> False | Some s \<Rightarrow> jget s ''verdict'' \<noteq> JStr ''pass'')
             ''acceptance requires a passing deterministic score set'') (\<lambda>_.
     bindE (raise_if (jget reviewed ''score_receipt_sha256'' \<noteq> opt_str score_hash)
             ''score set changed after review'') (\<lambda>_.
     bindE (raise_if (independent_review_required \<and> \<not> truthy (jget reviewed ''reviewer_independent''))
             ''precommitted job acceptance requires an independent prior review'') (\<lambda>_.
     bindE (member_of (jget final_status ''tier'') HIGH_TIERS) (\<lambda>high.
     bindE (raise_if (high \<and> \<not> truthy (jget reviewed ''reviewer_independent''))
             ''high-risk acceptance requires an independent prior review'') (\<lambda>_.
     bindE (raise_if (jget completion ''result'' \<noteq> JStr ''completed'')
             (''acceptance requires completion result '' @ str_repr ''completed'')) (\<lambda>_.
     bindE (raise_if (jget collection ''validation_status'' \<noteq> JStr ''valid'')
             ''acceptance requires a valid collected completion'') (\<lambda>_.
     bindE (raise_if (jget final_status ''policy_result'' = JStr ''failed'')
             ''acceptance requires passing execution policy'') (\<lambda>_.
     bindE (raise_if (jget final_status ''tier'' \<notin> JStr ` set TIERS)
             ''acceptance requires a recorded task tier; relaunch with --tier'') (\<lambda>_.
     raise_if (high \<and> \<not> independent) ''high-risk acceptance requires an independent reviewer'')))))))))"

subsection \<open>Scores\<close>

definition read_score_set :: "ext \<Rightarrow> rundir \<Rightarrow> (json \<times> string) result" where
  "read_score_set X d =
     (let path = run_path d @ ''/scores/score-set.json'' in
      case run_entry d ''scores/score-set.json'' of
        Some (RFile data _ _) \<Rightarrow>
          (case loads_utf8 data of
             None \<Rightarrow> Inl (WorkflowError (''valid score set required: '' @ path))
           | Some v \<Rightarrow>
               bindE (raise_if (\<not> is_obj v) (''valid score set required: '' @ path @ '': expected JSON object'')) (\<lambda>_.
               Inr (v, sha256 X data)))
      | Some RDir \<Rightarrow> Inl (OSError path)
      | Some RSpecial \<Rightarrow> Inl (WorkflowError (''valid score set required: '' @ path @ '': not a regular file''))
      | _ \<Rightarrow> Inl (WorkflowError (''valid score set required: '' @ path)))"

definition score_of :: "ext \<Rightarrow> rundir \<Rightarrow> string \<Rightarrow> json \<Rightarrow> bool \<Rightarrow> (json option \<times> string option) result" where
  "score_of X d final_hash receipt needed =
     (if \<not> present d ''scores/score-set.json'' then
        bindE (raise_if needed (''valid score set required: '' @ run_path d
                                  @ ''/scores/score-set.json: file not found'')) (\<lambda>_.
        Inr (None, None))
      else
        bindE (read_score_set X d) (\<lambda>(v, dig).
        bindE (validate_score_set X d v receipt final_hash) (\<lambda>w.
        Inr (Some w, Some dig))))"

subsection \<open>Recording a disposition\<close>

text \<open>The sealed evidence \<open>record\<close> reads before it looks at the chain, in that order.\<close>

record evidence =
  ev_receipt :: json
  ev_sha256 :: string
  ev_status :: json
  ev_score :: "json option"
  ev_score_sha256 :: "string option"
  ev_completion :: json
  ev_collection :: json

definition check_task_result :: "ext \<Rightarrow> rundir \<Rightarrow> json \<Rightarrow> json \<Rightarrow> unit result" where
  "check_task_result X d receipt final_status =
     (let contract = jget final_status ''result_contract'' in
      if is_obj contract \<and> truthy (jget_or contract ''required'' (JBool True)) then
        bindE (read_sealed_contract X d receipt ''collections/task-result.json''
                ''agent-workflow/task-result-collection/v1'') (\<lambda>(task_result, _).
        raise_if (jget task_result ''validation_status'' \<noteq> JStr ''valid'')
          ''acceptance requires a valid collected task result'')
      else Inr ())"

definition gather_evidence :: "ext \<Rightarrow> rundir \<Rightarrow> evidence result" where
  "gather_evidence X d =
     bindE (verify_seal_details X d None) (\<lambda>(receipt, sealed_sha).
     bindE (read_sealed_contract X d receipt ''final-status.json'' STATUS_SCHEMA) (\<lambda>(final_status, _).
     bindE (raise_if (jget final_status ''agent_run_id'' \<noteq> JStr (run_name d))
             ''final status belongs to another run'') (\<lambda>_.
     bindE (raise_if (jget final_status ''status'' \<noteq> JStr ''completed'')
             ''only a completed execution can be reviewed'') (\<lambda>_.
     bindE (score_of X d sealed_sha receipt
             (truthy (jget final_status ''evaluation_path'')
              \<or> JStr ''evaluation-runtime.json'' \<in> set (listed_paths receipt))) (\<lambda>(score, score_sha).
     bindE (read_sealed_contract X d receipt ''completion.json'' ''agent-workflow/completion/v1'') (\<lambda>(completion, _).
     bindE (read_sealed_contract X d receipt ''collections/completion.json''
             ''agent-workflow/completion-collection/v1'') (\<lambda>(collection, _).
     bindE (check_task_result X d receipt final_status) (\<lambda>_.
     Inr \<lparr>ev_receipt = receipt, ev_sha256 = sealed_sha, ev_status = final_status, ev_score = score,
          ev_score_sha256 = score_sha, ev_completion = completion, ev_collection = collection\<rparr>))))))))"

definition chain_action :: "lentry list \<Rightarrow> json" where
  "chain_action chain = (if chain = [] then JNull else jget (le_receipt (last chain)) ''action'')"

definition accept_revision ::
  "ext \<Rightarrow> rundir \<Rightarrow> evidence \<Rightarrow> json \<Rightarrow> bool \<Rightarrow> string result" where
  "accept_revision X d ev reviewed independent =
     bindE (job_requires_independent_review X d (ev_receipt ev)) (\<lambda>job_review.
     bindE (check_acceptance_gates (ev_status ev) (ev_completion ev) (ev_collection ev) (ev_score ev)
             (ev_score_sha256 ev) reviewed independent job_review) (\<lambda>_.
     acceptance_revision (ev_completion ev)))"

definition receipt_value ::
  "string \<Rightarrow> string \<Rightarrow> string \<Rightarrow> string \<Rightarrow> string \<Rightarrow> evidence \<Rightarrow> string option \<Rightarrow> bool \<Rightarrow> json" where
  "receipt_value run_id action actor reason now ev revision independent =
     JObj [(''schema'', JStr LIFECYCLE_RECEIPT_SCHEMA), (''agent_run_id'', JStr run_id), (''action'', JStr action),
           (''actor'', JStr actor), (''reason'', JStr reason), (''created_at'', JStr now),
           (''final_receipt_sha256'', JStr (ev_sha256 ev)), (''score_receipt_sha256'', opt_str (ev_score_sha256 ev)),
           (''revision'', opt_str revision), (''reviewer_independent'', JBool independent)]"

record disposition_plan =
  plan_spec :: operation_spec
  plan_prior :: json
  plan_revision :: "string option"
  plan_value :: json

definition plan_disposition ::
  "ext \<Rightarrow> string \<Rightarrow> string \<Rightarrow> string \<Rightarrow> string \<Rightarrow> rundir \<Rightarrow> disposition_plan result" where
  "plan_disposition X now action actor reason d =
     bindE (raise_if (py_strip actor = [] \<or> py_strip reason = []) ''lifecycle actor and reason must be non-empty'') (\<lambda>_.
     bindE (operation action) (\<lambda>spec.
     bindE (validate_id (run_name d) ''agent run ID'') (\<lambda>run_id.
     bindE (gather_evidence X d) (\<lambda>ev.
     bindE (lifecycle_receipts X d (Some (ev_sha256 ev))) (\<lambda>chain.
     bindE (require_allowed_prior spec (chain_action chain)) (\<lambda>_.
     (let independent = (jget (ev_status ev) ''executor'' \<noteq> JStr actor) in
     bindE (if op_action spec = ''accepted''
            then bindE (accept_revision X d ev (le_receipt (last chain)) independent) (\<lambda>r. Inr (Some r))
            else Inr None) (\<lambda>revision.
     Inr \<lparr>plan_spec = spec, plan_prior = chain_action chain, plan_revision = revision,
          plan_value = receipt_value run_id (op_action spec) actor reason now ev revision independent\<rparr>))))))))"

definition lifecycle_record ::
  "ext \<Rightarrow> string \<Rightarrow> string \<Rightarrow> string \<Rightarrow> string \<Rightarrow> rundir \<Rightarrow> rundir \<times> json result" where
  "lifecycle_record X now action actor reason d =
     (case plan_disposition X now action actor reason d of
        Inl e \<Rightarrow> (d, Inl e)
      | Inr p \<Rightarrow>
          (case append_receipt X (plan_value p) d of
             (d1, Inl e) \<Rightarrow> (d1, Inl e)
           | (d1, Inr path) \<Rightarrow>
               (case append_lifecycle_event now ''review'' (plan_prior p) (JStr (op_action (plan_spec p)))
                       actor reason [path] d1 of
                  (d2, Inl e) \<Rightarrow> (d2, Inl e)
                | (d2, Inr _) \<Rightarrow>
                    (case update_projection_path now ''review-lifecycle'' ''snapshot''
                            ([(''disposition'', JStr (projection_disposition (plan_spec p))),
                              (''disposition_at'', JStr now), (''disposition_actor'', JStr actor),
                              (''lifecycle_receipt_path'', JStr path)]
                             @ (if op_action (plan_spec p) = ''accepted''
                                then [(''accepted_revision'', opt_str (plan_revision p))] else [])) d2 of
                       (d3, Inl e) \<Rightarrow> (d3, Inl e)
                     | (d3, Inr shown) \<Rightarrow>
                         (d3, Inr (jupdate shown
                                [(''lifecycle_receipt'', JStr path),
                                 (''operation'', JStr (op_action (plan_spec p))),
                                 (''revision'', opt_str (plan_revision p))]))))))"

subsection \<open>Overrides and approval (approval.py)\<close>

definition OVERRIDE_NAME :: string where
  "OVERRIDE_NAME = ''force-accept-receipt.json''"

definition FORCE_ACCEPT_SCHEMA :: string where
  "FORCE_ACCEPT_SCHEMA = ''agent-workflow/force-accept-receipt/v1''"

definition read_override :: "ext \<Rightarrow> rundir \<Rightarrow> (json \<times> string) option result" where
  "read_override X d =
     (case run_entry d OVERRIDE_NAME of
        None \<Rightarrow> Inr None
      | Some (RFile data _ writable) \<Rightarrow>
          bindE (raise_if writable ''force-accept receipt must be a read-only regular file'') (\<lambda>_.
          (case loads_utf8 data of
             None \<Rightarrow> Inl (WorkflowError ''force-accept receipt is invalid'')
           | Some v \<Rightarrow>
               bindE (validate_instance X v FORCE_ACCEPT_SCHEMA ''force-accept receipt'') (\<lambda>_.
               Inr (Some (v, sha256 X data)))))
      | Some RDir \<Rightarrow> Inl (OSError OVERRIDE_NAME)
      | Some RSpecial \<Rightarrow> Inl (WorkflowError ''force-accept receipt must be a read-only regular file'')
      | Some (RLink _) \<Rightarrow> Inl (WorkflowError ''force-accept receipt is unavailable''))"

text \<open>\<open>state.TERMINAL_STATUSES\<close> as a list, for \<open>member_of\<close>.\<close>

definition TERMINAL_STATUS_LIST :: "string list" where
  "TERMINAL_STATUS_LIST = [''completed'', ''failed'', ''interrupted'', ''terminated'', ''retired'']"

definition gate_failures :: "json \<Rightarrow> json \<Rightarrow> json \<Rightarrow> lentry list \<Rightarrow> string list result" where
  "gate_failures final_status completion collection chain =
     bindE (member_of (jget final_status ''tier'') TIERS) (\<lambda>known_tier.
     (let failures =
        (if chain_action chain \<noteq> JStr ''reviewed'' then [''acceptance requires a prior reviewed disposition''] else [])
        @ (if jget completion ''result'' \<noteq> JStr ''completed''
           then [''acceptance requires completion result '' @ str_repr ''completed''] else [])
        @ (if jget collection ''validation_status'' \<noteq> JStr ''valid''
           then [''acceptance requires a valid collected completion''] else [])
        @ (if \<not> known_tier then [''acceptance requires a recorded task tier''] else []) in
      Inr (if failures = [] then [''normal acceptance gate was not satisfied''] else failures)))"

definition plan_override ::
  "ext \<Rightarrow> string \<Rightarrow> string \<Rightarrow> string \<Rightarrow> string \<Rightarrow> string list \<Rightarrow> rundir \<Rightarrow> (json \<times> json) result" where
  "plan_override X now actor reason acknowledgement command d =
     bindE (raise_if (py_strip actor = [] \<or> py_strip reason = []) ''force-accept actor and reason must be non-empty'') (\<lambda>_.
     bindE (raise_if (acknowledgement \<noteq> ''FORCE-ACCEPT'') ''force-accept requires acknowledgement FORCE-ACCEPT'') (\<lambda>_.
     bindE (validate_id (run_name d) ''agent run ID'') (\<lambda>run_id.
     bindE (read_override X d) (\<lambda>prior_override.
     bindE (raise_if (prior_override \<noteq> None) ''force-accept override already exists'') (\<lambda>_.
     bindE (verify_seal_details X d None) (\<lambda>(receipt, sealed_sha).
     bindE (raise_if (jget receipt ''agent_run_id'' \<noteq> JStr run_id)
             ''force-accept final receipt belongs to another run'') (\<lambda>_.
     bindE (read_sealed_contract X d receipt ''final-status.json'' STATUS_SCHEMA) (\<lambda>(final_status, _).
     bindE (raise_if (jget final_status ''agent_run_id'' \<noteq> JStr run_id)
             ''force-accept final status belongs to another run'') (\<lambda>_.
     bindE (member_of (jget final_status ''status'') TERMINAL_STATUS_LIST) (\<lambda>terminal.
     bindE (raise_if (\<not> terminal) ''force-accept requires a terminal run'') (\<lambda>_.
     bindE (read_sealed_contract X d receipt ''completion.json'' ''agent-workflow/completion/v1'') (\<lambda>(completion, _).
     bindE (read_sealed_contract X d receipt ''collections/completion.json''
             ''agent-workflow/completion-collection/v1'') (\<lambda>(collection, _).
     bindE (lifecycle_receipts X d (Some sealed_sha)) (\<lambda>chain.
     bindE (raise_if (chain_action chain = JStr ''accepted'') ''lifecycle disposition is already terminal'') (\<lambda>_.
     bindE (gate_failures final_status completion collection chain) (\<lambda>failures.
     (let v = JObj
        [(''schema'', JStr FORCE_ACCEPT_SCHEMA), (''agent_run_id'', JStr run_id), (''actor'', JStr actor),
         (''created_at'', JStr now), (''reason'', JStr reason), (''acknowledgement'', JStr acknowledgement),
         (''command'', JList (map JStr command)),
         (''command_sha256'', JStr (sha256 X (dumps False (JList (map JStr command))))),
         (''final_receipt_sha256'', JStr sealed_sha),
         (''normal_gate_failures'', JList (map JStr (sorted_set failures)))] in
      bindE (validate_instance X v FORCE_ACCEPT_SCHEMA ''force-accept receipt'') (\<lambda>_.
      Inr (v, chain_action chain))))))))))))))))))) "

definition force_accept ::
  "ext \<Rightarrow> string \<Rightarrow> string \<Rightarrow> string \<Rightarrow> string \<Rightarrow> string list \<Rightarrow> rundir \<Rightarrow> rundir \<times> json result" where
  "force_accept X now actor reason acknowledgement command d =
     (case plan_override X now actor reason acknowledgement command d of
        Inl e \<Rightarrow> (d, Inl e)
      | Inr (v, prior) \<Rightarrow>
          if present d OVERRIDE_NAME then (d, Inl (WorkflowError ''force-accept override already exists''))
          else
            (let path = run_path d @ ''/'' @ OVERRIDE_NAME;
                 d1 = write_file d OVERRIDE_NAME (dumps_pretty 0 v @ [CHR 0x0A]) False in
             case append_lifecycle_event now ''review'' prior (JStr ''force-accepted'') actor reason [path] d1 of
               (d2, Inl e) \<Rightarrow> (d2, Inl e)
             | (d2, Inr _) \<Rightarrow>
                 (case update_projection_path now ''review-lifecycle'' ''snapshot''
                         [(''disposition'', JStr ''force-accepted''), (''disposition_at'', JStr now),
                          (''disposition_actor'', JStr actor), (''force_accept_receipt_path'', JStr path)] d2 of
                    (d3, Inl e) \<Rightarrow> (d3, Inl e)
                  | (d3, Inr shown) \<Rightarrow>
                      (d3, Inr (jupdate shown [(''force_accept_receipt'', JStr path),
                                (''normal_gate_failures'', jget v ''normal_gate_failures'')])))))"

record disposition =
  disp_action :: json
  disp_receipt :: json
  disp_receipt_path :: string
  disp_receipt_name :: string
  disp_receipt_sha256 :: string
  disp_final_receipt_sha256 :: string
  disp_final_receipt_path :: string
  disp_completion_sha256 :: string
  disp_revision :: string

definition accepted_checks :: "lentry list \<Rightarrow> json \<Rightarrow> unit result" where
  "accepted_checks chain revision =
     (let receipt = le_receipt (last chain) in
      if jget receipt ''action'' \<noteq> JStr ''accepted'' then Inr ()
      else
        bindE (raise_if (\<not> py_eq (jget receipt ''revision'') revision) ''approval receipt revision mismatch'') (\<lambda>_.
        bindE (raise_if (length chain < 2 \<or> jget (le_receipt (chain ! (length chain - 2))) ''action'' \<noteq> JStr ''reviewed'')
                ''accepted approval has no canonical prior review receipt'') (\<lambda>_.
        raise_if (\<not> py_eq (jget (le_receipt (chain ! (length chain - 2))) ''score_receipt_sha256'')
                          (jget receipt ''score_receipt_sha256''))
          ''approval score evidence changed after review'')))"

definition override_disposition ::
  "rundir \<Rightarrow> string \<Rightarrow> string \<Rightarrow> string \<Rightarrow> json \<Rightarrow> string \<Rightarrow> disposition option result" where
  "override_disposition d sealed_sha completion_sha revision v dig =
     bindE (py_get v ''final_receipt_sha256'') (\<lambda>h.
     bindE (raise_if (h \<noteq> JStr sealed_sha) ''force-accept receipt final-receipt digest mismatch'') (\<lambda>_.
     Inr (Some \<lparr>disp_action = JStr ''force-accepted'', disp_receipt = v,
           disp_receipt_path = run_path d @ ''/'' @ OVERRIDE_NAME, disp_receipt_name = OVERRIDE_NAME,
           disp_receipt_sha256 = dig, disp_final_receipt_sha256 = sealed_sha,
           disp_final_receipt_path = run_path d @ ''/final-receipt.json'',
           disp_completion_sha256 = completion_sha, disp_revision = revision\<rparr>)))"

definition chain_disposition ::
  "ext \<Rightarrow> rundir \<Rightarrow> string \<Rightarrow> string \<Rightarrow> string \<Rightarrow> disposition option result" where
  "chain_disposition X d sealed_sha completion_sha revision =
     bindE (lifecycle_receipts X d (Some sealed_sha)) (\<lambda>chain.
     if chain = [] then Inr None
     else
       bindE (accepted_checks chain (JStr revision)) (\<lambda>_.
       bindE (jidx (le_receipt (last chain)) ''action'') (\<lambda>action.
       Inr (Some \<lparr>disp_action = action, disp_receipt = le_receipt (last chain),
             disp_receipt_path = run_path d @ ''/receipts/'' @ le_name (last chain),
             disp_receipt_name = le_name (last chain), disp_receipt_sha256 = le_sha256 (last chain),
             disp_final_receipt_sha256 = sealed_sha,
             disp_final_receipt_path = run_path d @ ''/final-receipt.json'',
             disp_completion_sha256 = completion_sha, disp_revision = revision\<rparr>))))"

definition lifecycle_disposition :: "ext \<Rightarrow> rundir \<Rightarrow> disposition option result" where
  "lifecycle_disposition X d =
     bindE (verify_seal_details X d None) (\<lambda>(receipt, sealed_sha).
     bindE (raise_if (jget receipt ''agent_run_id'' \<noteq> JStr (run_name d))
             ''approval final receipt belongs to another run'') (\<lambda>_.
     bindE (read_sealed_contract X d receipt ''completion.json'' ''agent-workflow/completion/v1'')
       (\<lambda>(completion, completion_sha).
     (let revision = jget completion ''head_revision'' in
     bindE (raise_if (\<not> is_str revision \<or> revision = JStr []) ''approval requires a completion head revision'') (\<lambda>_.
     bindE (read_override X d) (\<lambda>override.
     (case override of
        Some (v, dig) \<Rightarrow> override_disposition d sealed_sha completion_sha (str_of revision) v dig
      | None \<Rightarrow> chain_disposition X d sealed_sha completion_sha (str_of revision))))))))"

definition accepted_lifecycle_receipt :: "ext \<Rightarrow> rundir \<Rightarrow> json result" where
  "accepted_lifecycle_receipt X d =
     bindE (lifecycle_disposition X d) (\<lambda>disp.
     (case disp of
        None \<Rightarrow> Inl (WorkflowError ''approval requires a lifecycle receipt'')
      | Some p \<Rightarrow>
          bindE (raise_if (disp_action p \<noteq> JStr ''accepted'') ''approval requires an accepted lifecycle receipt'') (\<lambda>_.
          Inr (disp_receipt p))))"

text \<open>\<open>is_approved\<close> turns every \<open>WorkflowError\<close> into a refusal; other exceptions pass through.\<close>

definition is_approved :: "ext \<Rightarrow> rundir \<Rightarrow> bool result" where
  "is_approved X d =
     (case lifecycle_disposition X d of
        Inl e \<Rightarrow> if is_WorkflowError e then Inr False else Inl e
      | Inr None \<Rightarrow> Inr False
      | Inr (Some p) \<Rightarrow> Inr (disp_action p \<in> {JStr ''accepted'', JStr ''force-accepted''}))"

subsection \<open>What a chain of receipts is\<close>

lemma TERMINAL_STATUS_LIST: "set TERMINAL_STATUS_LIST = TERMINAL_STATUSES"
  by (simp add: TERMINAL_STATUS_LIST_def TERMINAL_STATUSES_def)

text \<open>A receipt that the chain accepts for this run and this seal.\<close>

definition entry_ok :: "rundir \<Rightarrow> string option \<Rightarrow> lentry \<Rightarrow> bool" where
  "entry_ok d final e \<longleftrightarrow>
     RECEIPT_NAME (le_name e) = Some (le_sequence e, str_of (jget (le_receipt e) ''action''))
     \<and> jget (le_receipt e) ''action'' \<in> JStr ` set LIFECYCLE_ACTIONS
     \<and> jget (le_receipt e) ''agent_run_id'' = JStr (run_name d)
     \<and> (\<forall>h. final = Some h \<longrightarrow> jget (le_receipt e) ''final_receipt_sha256'' = JStr h)"

lemma RECEIPT_NAME_action: "RECEIPT_NAME name = Some (n, a) \<Longrightarrow> a \<in> set LIFECYCLE_ACTIONS"
  by (auto simp: RECEIPT_NAME_def find_Some_iff split: if_splits)

lemma read_chain_entry_ok:
  "read_chain_entry X d final n name = Inr e \<Longrightarrow> entry_ok d final e \<and> le_sequence e = n \<and> le_name e = name"
  by (auto simp: read_chain_entry_def entry_ok_def split: option.splits intro!: imageI)
    (rule RECEIPT_NAME_action, assumption)+

lemma read_chain_ok:
  "read_chain X d final n names = Inr chain \<Longrightarrow>
     list_all (entry_ok d final) chain \<and> map le_sequence chain = [n..<n + length chain] \<and> map le_name chain = names"
proof (induction names arbitrary: n chain)
  case (Cons name names)
  then obtain e es where "read_chain_entry X d final n name = Inr e" "chain = e # es"
    "read_chain X d final (Suc n) names = Inr es" by auto
  with Cons.IH [of "Suc n" es] read_chain_entry_ok [of X d final n name e] upt_conv_Cons [of n "n + length chain"]
  show ?case by (simp del: upt_Suc)
qed simp

lemma lifecycle_receipts_ok:
  "lifecycle_receipts X d final = Inr chain \<Longrightarrow>
     list_all (entry_ok d final) chain \<and> map le_sequence chain = [1..<1 + length chain]"
  by (auto simp: lifecycle_receipts_def dest!: read_chain_ok split: option.splits rentry.splits)

lemma chain_action_cases:
  assumes "lifecycle_receipts X d final = Inr chain"
  shows "chain_action chain \<in> insert JNull (JStr ` set LIFECYCLE_ACTIONS)"
  using lifecycle_receipts_ok [OF assms] by (auto simp: chain_action_def list_all_iff entry_ok_def)

subsection \<open>Gates\<close>

lemma operation_Inr:
  "operation action = Inr spec \<Longrightarrow>
     op_action spec = action \<and> projection_disposition spec = action \<and> action \<in> set LIFECYCLE_ACTIONS
     \<and> set (allowed_prior spec) = (if action = ''accepted'' then {JStr ''reviewed''}
          else if action = ''reviewed'' then {JNull, JStr ''rejected''} else {JNull, JStr ''reviewed'', JStr ''rejected''})"
  by (auto simp: operation_def LIFECYCLE_OPERATIONS_def LIFECYCLE_ACTIONS_def split: if_splits)

lemma require_allowed_prior_Inr [simp]:
  "require_allowed_prior spec prior = Inr u \<longleftrightarrow> prior \<in> set (allowed_prior spec)"
  by (simp add: require_allowed_prior_def)

lemma gates_Inr:
  "check_acceptance_gates st cmp coll score sh reviewed ind job = Inr u \<longleftrightarrow>
     (\<forall>s. score = Some s \<longrightarrow> jget s ''verdict'' = JStr ''pass'')
     \<and> jget reviewed ''score_receipt_sha256'' = opt_str sh
     \<and> (job \<longrightarrow> truthy (jget reviewed ''reviewer_independent''))
     \<and> (jget st ''tier'' \<in> JStr ` set HIGH_TIERS \<longrightarrow> truthy (jget reviewed ''reviewer_independent'') \<and> ind)
     \<and> jget cmp ''result'' = JStr ''completed'' \<and> jget coll ''validation_status'' = JStr ''valid''
     \<and> jget st ''policy_result'' \<noteq> JStr ''failed'' \<and> jget st ''tier'' \<in> JStr ` set TIERS"
  by (auto simp: check_acceptance_gates_def split: option.splits)

lemma plan_disposition_Inr:
  assumes "plan_disposition X now action actor reason d = Inr p"
  shows "\<exists>ev chain. operation action = Inr (plan_spec p) \<and> gather_evidence X d = Inr ev
    \<and> lifecycle_receipts X d (Some (ev_sha256 ev)) = Inr chain
    \<and> chain_action chain \<in> set (allowed_prior (plan_spec p)) \<and> plan_prior p = chain_action chain
    \<and> (if action = ''accepted''
       then \<exists>r. accept_revision X d ev (le_receipt (last chain)) (jget (ev_status ev) ''executor'' \<noteq> JStr actor) = Inr r
                \<and> plan_revision p = Some r
       else plan_revision p = None)
    \<and> plan_value p = receipt_value (run_name d) action actor reason now ev (plan_revision p)
         (jget (ev_status ev) ''executor'' \<noteq> JStr actor)"
  using assms operation_Inr [of action "plan_spec p"]
  by (auto simp: plan_disposition_def Let_def split: if_splits)

text \<open>Only a planned disposition touches the run directory.\<close>

lemma lifecycle_record_planned:
  assumes "lifecycle_record X now action actor reason d = (d', r)" and "d' \<noteq> d \<or> (\<exists>v. r = Inr v)"
  shows "\<exists>p. plan_disposition X now action actor reason d = Inr p"
  using assms by (cases "plan_disposition X now action actor reason d") (auto simp: lifecycle_record_def)

lemma gather_evidence_Inr:
  assumes "gather_evidence X d = Inr ev"
  shows "verify_seal_details X d None = Inr (ev_receipt ev, ev_sha256 ev)"
    and "jget (ev_status ev) ''status'' = JStr ''completed''"
    and "jget (ev_status ev) ''agent_run_id'' = JStr (run_name d)"
  using assms by (auto simp: gather_evidence_def)

lemma chain_last_reviewed:
  assumes "chain_action chain = JStr q"
  obtains front e where "chain = front @ [e]" "jget (le_receipt e) ''action'' = JStr q"
  using assms by (cases chain rule: rev_cases) (auto simp: chain_action_def split: if_splits)


text \<open>
  Acceptance is terminal: once the last lifecycle receipt of the verified seal is an
  acceptance, every further disposition and every override raises and leaves the run directory
  exactly as it was.
\<close>

theorem acceptance_terminal:
  assumes "verify_seal_details X d None = Inr (receipt, h)"
    and "lifecycle_receipts X d (Some h) = Inr chain" and "chain_action chain = JStr ''accepted''"
  shows "(\<exists>e. lifecycle_record X now action actor reason d = (d, Inl e))
    \<and> (\<exists>e. force_accept X now actor reason ack command d = (d, Inl e))"
proof -
  have "plan_disposition X now action actor reason d \<noteq> Inr p" for p
  proof
    assume "plan_disposition X now action actor reason d = Inr p"
    from plan_disposition_Inr [OF this] obtain ev chain' where
      op: "operation action = Inr (plan_spec p)" and ev: "gather_evidence X d = Inr ev"
      and ch: "lifecycle_receipts X d (Some (ev_sha256 ev)) = Inr chain'"
      and al: "chain_action chain' \<in> set (allowed_prior (plan_spec p))"
      by blast
    have "ev_sha256 ev = h" using gather_evidence_Inr(1) [OF ev] assms(1) by simp
    with ch al operation_Inr [OF op] assms(2,3) show False by (auto split: if_splits)
  qed
  then obtain e where "plan_disposition X now action actor reason d = Inl e"
    by (cases "plan_disposition X now action actor reason d") auto
  then have "\<exists>e. lifecycle_record X now action actor reason d = (d, Inl e)"
    by (simp add: lifecycle_record_def)
  moreover have "plan_override X now actor reason ack command d \<noteq> Inr q" for q
    using assms by (auto simp: plan_override_def Let_def)
  then obtain e where "plan_override X now actor reason ack command d = Inl e"
    by (cases "plan_override X now actor reason ack command d") auto
  then have "\<exists>e. force_accept X now actor reason ack command d = (d, Inl e)"
    by (simp add: force_accept_def)
  ultimately show ?thesis by blast
qed

lemma jidx_Inr: "jidx v k = Inr x \<longleftrightarrow> is_obj v \<and> jhas v k \<and> x = jget v k"
  by (auto simp: jidx_def jget_def jget_or_def jhas_def split: option.splits)

lemma lifecycle_disposition_Inr:
  assumes "lifecycle_disposition X d = Inr (Some disp)"
  shows "\<exists>receipt h completion ch rv override.
    verify_seal_details X d None = Inr (receipt, h) \<and> jget receipt ''agent_run_id'' = JStr (run_name d)
    \<and> read_sealed_contract X d receipt ''completion.json'' ''agent-workflow/completion/v1'' = Inr (completion, ch)
    \<and> jget completion ''head_revision'' = JStr rv \<and> rv \<noteq> [] \<and> read_override X d = Inr override
    \<and> (case override of Some (v, dig) \<Rightarrow> override_disposition d h ch rv v dig
       | None \<Rightarrow> chain_disposition X d h ch rv) = Inr (Some disp)"
proof -
  from assms obtain receipt h completion ch override where
    v: "verify_seal_details X d None = Inr (receipt, h)" "jget receipt ''agent_run_id'' = JStr (run_name d)"
    "read_sealed_contract X d receipt ''completion.json'' ''agent-workflow/completion/v1'' = Inr (completion, ch)"
    "is_str (jget completion ''head_revision'')" "jget completion ''head_revision'' \<noteq> JStr []"
    "read_override X d = Inr override"
    "(case override of
        Some (v, dig) \<Rightarrow> override_disposition d h ch (str_of (jget completion ''head_revision'')) v dig
      | None \<Rightarrow> chain_disposition X d h ch (str_of (jget completion ''head_revision''))) = Inr (Some disp)"
    unfolding lifecycle_disposition_def Let_def by (clarsimp split del: option.split)
  from v(4,5) obtain rv where r: "jget completion ''head_revision'' = JStr rv" "rv \<noteq> []"
    by (auto simp: is_str_conv)
  then have e: "str_of (jget completion ''head_revision'') = rv" by simp
  show ?thesis
    by (rule exI [of _ receipt], rule exI [of _ h], rule exI [of _ completion], rule exI [of _ ch],
        rule exI [of _ rv], rule exI [of _ override]) (intro conjI v r v(7) [unfolded e])
qed

lemma chain_disposition_Inr:
  assumes "chain_disposition X d h ch rv = Inr (Some disp)"
  shows "\<exists>chain. lifecycle_receipts X d (Some h) = Inr chain \<and> accepted_checks chain (JStr rv) = Inr ()
       \<and> disp_action disp = chain_action chain"
proof -
  from assms obtain chain where c: "lifecycle_receipts X d (Some h) = Inr chain"
    by (auto simp: chain_disposition_def)
  with assms have ne: "chain \<noteq> []" by (auto simp: chain_disposition_def)
  from assms c have "accepted_checks chain (JStr rv) = Inr () \<and> disp_action disp = chain_action chain"
    by (simp add: chain_disposition_def chain_action_def ne jidx_Inr) (elim conjE, hypsubst, simp)
  with c show ?thesis by blast
qed

lemma override_disposition_Inr:
  "override_disposition d h ch rv v dig = Inr (Some disp) \<Longrightarrow> jget v ''final_receipt_sha256'' = JStr h"
  by (simp add: override_disposition_def)

text \<open>An acceptance that a chain of receipts justifies: of this seal and this revision, after a review.\<close>

definition accepted_chain :: "lentry list \<Rightarrow> string \<Rightarrow> string \<Rightarrow> bool" where
  "accepted_chain chain h rv \<longleftrightarrow>
     (\<exists>front reviewed accepted. chain = front @ [reviewed, accepted]
        \<and> jget (le_receipt reviewed) ''action'' = JStr ''reviewed''
        \<and> jget (le_receipt accepted) ''action'' = JStr ''accepted''
        \<and> jget (le_receipt accepted) ''revision'' = JStr rv
        \<and> jget (le_receipt reviewed) ''final_receipt_sha256'' = JStr h
        \<and> jget (le_receipt accepted) ''final_receipt_sha256'' = JStr h
        \<and> py_eq (jget (le_receipt reviewed) ''score_receipt_sha256'') (jget (le_receipt accepted) ''score_receipt_sha256''))"

lemma chain_disposition_accepted:
  assumes "chain_disposition X d h ch rv = Inr (Some disp)"
    and "disp_action disp \<in> {JStr ''accepted'', JStr ''force-accepted''}"
  shows "\<exists>chain. lifecycle_receipts X d (Some h) = Inr chain \<and> accepted_chain chain h rv"
proof -
  from chain_disposition_Inr [OF assms(1)] obtain chain where ch: "lifecycle_receipts X d (Some h) = Inr chain"
    and k: "accepted_checks chain (JStr rv) = Inr ()" and a: "disp_action disp = chain_action chain"
    by blast
  have "chain_action chain \<noteq> JStr ''force-accepted''"
    using chain_action_cases [OF ch] by (auto simp: LIFECYCLE_ACTIONS_def)
  with assms(2) a have "chain_action chain = JStr ''accepted''" by simp
  then obtain front0 acc where f0: "chain = front0 @ [acc]" "jget (le_receipt acc) ''action'' = JStr ''accepted''"
    by (rule chain_last_reviewed)
  with k obtain front re where f1: "front0 = front @ [re]"
    by (cases front0 rule: rev_cases) (auto simp: accepted_checks_def)
  have "list_all (entry_ok d (Some h)) chain" using lifecycle_receipts_ok [OF ch] by simp
  with f0 f1 k have "accepted_chain chain h rv"
    by (simp add: accepted_chain_def accepted_checks_def nth_append entry_ok_def Let_def)
  with ch show ?thesis by blast
qed

text \<open>
  C34. Approval is justified by the seal: a run counts as approved only if its seal verifies, is
  its own and seals a completion with a revision, and either a read-only override names exactly
  this seal, or the chain of receipts ends with a review followed by an acceptance, both of
  this run and this seal, over the same score evidence, the acceptance of exactly the sealed
  revision.
\<close>

theorem approval_justified:
  assumes "is_approved X d = Inr True"
  shows "\<exists>receipt h completion ch rv.
      verify_seal_details X d None = Inr (receipt, h)
      \<and> jget receipt ''agent_run_id'' = JStr (run_name d)
      \<and> read_sealed_contract X d receipt ''completion.json'' ''agent-workflow/completion/v1'' = Inr (completion, ch)
      \<and> jget completion ''head_revision'' = JStr rv
      \<and> rv \<noteq> []
      \<and> ((\<exists>v dig. read_override X d = Inr (Some (v, dig)) \<and> jget v ''final_receipt_sha256'' = JStr h)
     \<or> (\<exists>chain. lifecycle_receipts X d (Some h) = Inr chain \<and> accepted_chain chain h rv))"
proof -
  obtain disp where ld: "lifecycle_disposition X d = Inr (Some disp)"
    and ac: "disp_action disp \<in> {JStr ''accepted'', JStr ''force-accepted''}"
    using assms by (auto simp: is_approved_def split: sum.splits option.splits if_splits)
  from lifecycle_disposition_Inr [OF ld] obtain receipt h completion ch rv override where
    v: "verify_seal_details X d None = Inr (receipt, h)" "jget receipt ''agent_run_id'' = JStr (run_name d)"
    "read_sealed_contract X d receipt ''completion.json'' ''agent-workflow/completion/v1'' = Inr (completion, ch)"
    "jget completion ''head_revision'' = JStr rv" "rv \<noteq> []"
    and o: "read_override X d = Inr override"
    and k: "(case override of Some (v, dig) \<Rightarrow> override_disposition d h ch rv v dig
             | None \<Rightarrow> chain_disposition X d h ch rv) = Inr (Some disp)"
    by blast
  show ?thesis
  proof (cases override)
    case (Some x)
    obtain w dig where w: "override = Some (w, dig)" using Some by (cases x) simp
    with k override_disposition_Inr have "jget w ''final_receipt_sha256'' = JStr h" by simp
    with o w v show ?thesis by blast
  next
    case None
    with k ac have "\<exists>chain. lifecycle_receipts X d (Some h) = Inr chain \<and> accepted_chain chain h rv"
      by (intro chain_disposition_accepted) simp_all
    with v show ?thesis by blast
  qed
qed

subsection \<open>A reviewed and an accepted run\<close>

definition demo_lr :: "string \<Rightarrow> string option \<Rightarrow> json" where
  "demo_lr action revision =
     JObj [(''action'', JStr action), (''agent_run_id'', JStr ''r1''),
           (''final_receipt_sha256'', JStr (dumps False demo_receipt)), (''reviewer_independent'', JBool True),
           (''revision'', opt_str revision), (''score_receipt_sha256'', JNull)]"

definition demo_review_files :: "(string \<times> rentry) list" where
  "demo_review_files =
     [(''receipts'', RDir), (''receipts/000001-reviewed.json'', RFile (dumps False (demo_lr ''reviewed'' None)) 1 False)]"

definition demo_accept_files :: "(string \<times> rentry) list" where
  "demo_accept_files = demo_review_files
     @ [(''receipts/000002-accepted.json'', RFile (dumps False (demo_lr ''accepted'' (Some ''abc''))) 1 False)]"

definition demo_entry_of :: "nat \<Rightarrow> string \<Rightarrow> string option \<Rightarrow> lentry" where
  "demo_entry_of n action revision =
     \<lparr>le_sequence = n, le_name = pad6 n @ ''-'' @ action @ ''.json'',
      le_sha256 = dumps False (demo_lr action revision), le_receipt = demo_lr action revision\<rparr>"

lemma demo_lr_get [simp]:
  "jget (demo_lr a r) ''action'' = JStr a" "jget (demo_lr a r) ''agent_run_id'' = JStr ''r1''"
  "jget (demo_lr a r) ''final_receipt_sha256'' = JStr (dumps False demo_receipt)"
  "jget (demo_lr a r) ''reviewer_independent'' = JBool True" "jget (demo_lr a r) ''revision'' = opt_str r"
  "jget (demo_lr a r) ''score_receipt_sha256'' = JNull" "is_obj (demo_lr a r)"
  by (simp_all add: demo_lr_def jaccess)

lemma demo_lr_text:
  assumes "list_all ascii a" "case r of None \<Rightarrow> True | Some x \<Rightarrow> list_all ascii x"
  shows "plain (demo_lr a r)" "ascii_json (demo_lr a r)" "canon (demo_lr a r) = demo_lr a r"
  using assms dumps_ascii [OF demo_receipt_text(1,2)]
  by (cases r; simp add: demo_lr_def; simp add: ascii_def)+

lemma demo_extra_entry:
  assumes "p \<notin> set demo_names" "p \<noteq> ''collections''" "p \<noteq> ''final-receipt.json''"
  shows "run_entry (demo_with extra lg) p = map_of extra p"
  using assms map_of_graph [of "\<lambda>p. RFile (demo_bytes p) 1 False" demo_names p]
  by (simp add: run_entry_def demo_with_def map_add_def split: option.split)

lemma demo_listdir:
  "listdir (demo_with extra lg) ''receipts'' = sorted_set (List.map_filter (child_name ''receipts'') (map fst extra))"
proof -
  have "list_all (\<lambda>p. child_name ''receipts'' p = None) (''collections'' # ''final-receipt.json'' # demo_names)"
    by code_simp
  then have "filter (\<lambda>p. \<exists>q. child_name ''receipts'' p = Some q) demo_names = []"
    "child_name ''receipts'' ''collections'' = None" "child_name ''receipts'' ''final-receipt.json'' = None"
    by (auto simp: filter_empty_conv list_all_iff)
  then show ?thesis
    by (simp add: listdir_def demo_with_def List.map_filter_def comp_def)
qed

lemma demo_read_entry:
  assumes "map_of extra (''receipts/'' @ pad6 n @ ''-'' @ a @ ''.json'') = Some (RFile (dumps False (demo_lr a r)) 1 False)"
    and "RECEIPT_NAME (pad6 n @ ''-'' @ a @ ''.json'') = Some (n, a)"
    and "list_all ascii a" "case r of None \<Rightarrow> True | Some x \<Rightarrow> list_all ascii x"
    and "''receipts/'' @ pad6 n @ ''-'' @ a @ ''.json'' \<notin> set demo_names"
    and "final = None \<or> final = Some (dumps False demo_receipt)"
  shows "read_chain_entry seal_ext (demo_with extra lg) final n (pad6 n @ ''-'' @ a @ ''.json'')
     = Inr (demo_entry_of n a r)"
proof -
  note t = demo_lr_text [OF assms(3,4)]
  have "run_entry (demo_with extra lg) (''receipts/'' @ pad6 n @ ''-'' @ a @ ''.json'')
      = Some (RFile (dumps False (demo_lr a r)) 1 False)"
    using demo_extra_entry [OF assms(5), of extra lg] assms(1) by simp
  moreover have "run_name (demo_with extra lg) = ''r1''" by (simp add: demo_with_def)
  ultimately show ?thesis
    using assms(2,6) t
    by (auto simp: read_chain_entry_def read_lifecycle_receipt_descriptor_def loads_utf8_def utf8_valid_dumps
        loads_dumps validate_instance_def seal_ext_def demo_entry_of_def)
qed

lemma demo_chains:
  assumes "final = None \<or> final = Some (dumps False demo_receipt)"
  shows "lifecycle_receipts seal_ext (demo_with demo_review_files lg) final = Inr [demo_entry_of 1 ''reviewed'' None]"
    and "lifecycle_receipts seal_ext (demo_with demo_accept_files lg) final
      = Inr [demo_entry_of 1 ''reviewed'' None, demo_entry_of 2 ''accepted'' (Some ''abc'')]"
proof -
  have n: "pad6 1 @ ''-'' @ ''reviewed'' @ ''.json'' = ''000001-reviewed.json''"
    "pad6 2 @ ''-'' @ ''accepted'' @ ''.json'' = ''000002-accepted.json''"
    "RECEIPT_NAME ''000001-reviewed.json'' = Some (1, ''reviewed'')"
    "RECEIPT_NAME ''000002-accepted.json'' = Some (2, ''accepted'')"
    "list_all ascii ''reviewed''" "list_all ascii ''accepted''" "list_all ascii ''abc''"
    by code_simp+
  have s: "''receipts/000001-reviewed.json'' \<notin> set demo_names" "''receipts/000002-accepted.json'' \<notin> set demo_names"
    "''receipts'' \<notin> set demo_names"
    by (simp_all add: demo_names_def SEALED_ARTIFACTS_def)
  have e1: "read_chain_entry seal_ext (demo_with ex lg) final 1 ''000001-reviewed.json'' = Inr (demo_entry_of 1 ''reviewed'' None)"
    if "ex \<in> {demo_review_files, demo_accept_files}" for ex
    using that demo_read_entry [of ex 1 "''reviewed''" None final lg, unfolded n(1)] n s assms
    by (auto simp: demo_review_files_def demo_accept_files_def)
  have e2: "read_chain_entry seal_ext (demo_with demo_accept_files lg) final 2 ''000002-accepted.json''
      = Inr (demo_entry_of 2 ''accepted'' (Some ''abc''))"
    using demo_read_entry [of demo_accept_files 2 "''accepted''" "Some ''abc''" final lg, unfolded n(2)] n s assms
    by (simp add: demo_review_files_def demo_accept_files_def)
  have l: "listdir (demo_with demo_review_files lg) ''receipts'' = [''000001-reviewed.json'']"
    "listdir (demo_with demo_accept_files lg) ''receipts'' = [''000001-reviewed.json'', ''000002-accepted.json'']"
    unfolding demo_listdir by (simp_all add: demo_review_files_def demo_accept_files_def) code_simp+
  have r: "run_entry (demo_with ex lg) ''receipts'' = Some RDir"
    if "ex \<in> {demo_review_files, demo_accept_files}" for ex
    using that demo_extra_entry [OF s(3), of ex lg] by (auto simp: demo_review_files_def demo_accept_files_def)
  show "lifecycle_receipts seal_ext (demo_with demo_review_files lg) final = Inr [demo_entry_of 1 ''reviewed'' None]"
    using r [of demo_review_files] e1 [of demo_review_files] by (simp add: lifecycle_receipts_def l)
  show "lifecycle_receipts seal_ext (demo_with demo_accept_files lg) final
      = Inr [demo_entry_of 1 ''reviewed'' None, demo_entry_of 2 ''accepted'' (Some ''abc'')]"
    using r [of demo_accept_files] e1 [of demo_accept_files] e2
    by (simp add: lifecycle_receipts_def l numeral_2_eq_2)
qed

lemma demo_contract_reads:
  "read_sealed_contract seal_ext (demo_with extra lg) demo_receipt ''final-status.json'' sc = Inr (demo_final, dumps False demo_final)"
  "read_sealed_contract seal_ext (demo_with extra lg) demo_receipt ''completion.json'' sc
     = Inr (demo_completion, dumps False demo_completion)"
  "read_sealed_contract seal_ext (demo_with extra lg) demo_receipt ''collections/completion.json'' sc
     = Inr (demo_collection, dumps False demo_collection)"
proof -
  have m: "map_of demo_table ''final-status.json'' = Some demo_final" "map_of demo_table ''completion.json'' = Some demo_completion"
    "map_of demo_table ''collections/completion.json'' = Some demo_collection"
    by (simp_all add: demo_table_def)
  have i: "''final-status.json'' \<in> set demo_names" "''completion.json'' \<in> set demo_names"
    "''collections/completion.json'' \<in> set demo_names"
    by (simp_all add: demo_names_def SEALED_ARTIFACTS_def)
  have o: "is_obj demo_final" "is_obj demo_completion" "is_obj demo_collection"
    by (simp_all add: demo_final_def demo_completion_def demo_collection_def)
  have "validate_instance seal_ext v s a = Inr ()" for v s a by (simp add: seal_ext_def)
  note all = this o demo_sealed_json [OF i(1) m(1)] demo_sealed_json [OF i(2) m(2)] demo_sealed_json [OF i(3) m(3)]
  show "read_sealed_contract seal_ext (demo_with extra lg) demo_receipt ''final-status.json'' sc = Inr (demo_final, dumps False demo_final)"
    "read_sealed_contract seal_ext (demo_with extra lg) demo_receipt ''completion.json'' sc
       = Inr (demo_completion, dumps False demo_completion)"
    "read_sealed_contract seal_ext (demo_with extra lg) demo_receipt ''collections/completion.json'' sc
       = Inr (demo_collection, dumps False demo_collection)"
    by (simp_all add: read_sealed_contract_def all)
qed

lemma demo_fields [simp]:
  "jget demo_final ''status'' = JStr ''completed''" "jget demo_final ''agent_run_id'' = JStr ''r1''"
  "jget demo_final ''executor'' = JStr ''e''" "jget demo_final ''tier'' = JStr ''high''"
  "jget demo_final ''evaluation_path'' = JNull" "jget demo_final ''result_contract'' = JNull"
  "jget demo_final ''policy_result'' = JNull" "jget demo_completion ''result'' = JStr ''completed''"
  "jget demo_completion ''head_revision'' = JStr ''abc''" "jget demo_collection ''validation_status'' = JStr ''valid''"
  "jget demo_receipt ''agent_run_id'' = JStr ''r1''"
  by (simp_all add: demo_final_def demo_completion_def demo_collection_def demo_receipt_def jaccess)

definition demo_evidence :: evidence where
  "demo_evidence = \<lparr>ev_receipt = demo_receipt, ev_sha256 = dumps False demo_receipt, ev_status = demo_final,
     ev_score = None, ev_score_sha256 = None, ev_completion = demo_completion, ev_collection = demo_collection\<rparr>"

lemma demo_gather:
  assumes "map_of extra ''seal.lock'' = None" "map_of extra ''scores/score-set.json'' = None"
  shows "gather_evidence seal_ext (demo_with extra lg) = Inr demo_evidence"
proof -
  have n: "''scores/score-set.json'' \<notin> set demo_names" "''evaluation-runtime.json'' \<notin> set demo_names"
    by (simp_all add: demo_names_def SEALED_ARTIFACTS_def)
  have "\<not> present (demo_with extra lg) ''scores/score-set.json''"
    using demo_extra_entry [OF n(1), of extra lg] assms(2) by (simp add: present_def)
  then have s: "score_of seal_ext (demo_with extra lg) h demo_receipt False = Inr (None, None)" for h
    by (simp add: score_of_def)
  have "JStr ''evaluation-runtime.json'' \<notin> set (listed_paths demo_receipt)" using n(2) by (auto simp: demo_listed)
  moreover have "run_name (demo_with extra lg) = ''r1''" by (simp add: demo_with_def)
  ultimately show ?thesis
    using demo_verified [of None extra lg] assms(1)
    by (simp add: gather_evidence_def demo_contract_reads s check_task_result_def demo_evidence_def)
qed

lemma review_files_fresh:
  "map_of demo_review_files ''seal.lock'' = None" "map_of demo_review_files ''scores/score-set.json'' = None"
  "map_of demo_accept_files ''seal.lock'' = None" "map_of demo_accept_files ''scores/score-set.json'' = None"
  "map_of demo_accept_files OVERRIDE_NAME = None"
  "map_of demo_review_files ''receipts/000002-accepted.json'' = None"
  by (simp_all add: demo_review_files_def demo_accept_files_def OVERRIDE_NAME_def)

lemma demo_no_job: "job_requires_independent_review seal_ext d demo_receipt = Inr False"
  by (auto simp: job_requires_independent_review_def demo_listed)

lemma receipt_value_get:
  "jget (receipt_value run_id action actor reason now ev revision independent) ''action'' = JStr action"
  "is_obj (receipt_value run_id action actor reason now ev revision independent)"
  by (simp_all add: receipt_value_def jaccess)

lemma demo_plan:
  "\<exists>p. plan_disposition seal_ext ''t'' ''accepted'' ''b'' ''ok'' (demo_with demo_review_files lg) = Inr p
     \<and> jget (plan_value p) ''action'' = JStr ''accepted'' \<and> is_obj (plan_value p)"
proof -
  have a: "py_strip ''b'' \<noteq> []" "py_strip ''ok'' \<noteq> []" "SAFE_ID ''r1''" by code_simp+
  have o: "\<exists>spec. operation ''accepted'' = Inr spec \<and> op_action spec = ''accepted'' \<and> set (allowed_prior spec) = {JStr ''reviewed''}"
    by (simp add: operation_def LIFECYCLE_OPERATIONS_def LIFECYCLE_ACTIONS_def)
  have g: "accept_revision seal_ext d demo_evidence (demo_lr ''reviewed'' None) True = Inr ''abc''" for d
    by (simp add: accept_revision_def demo_evidence_def demo_no_job gates_Inr [THEN iffD2] TIERS_def HIGH_TIERS_def
        acceptance_revision_def)
  have c: "lifecycle_receipts seal_ext (demo_with demo_review_files lg) (Some (ev_sha256 demo_evidence))
      = Inr [demo_entry_of 1 ''reviewed'' None]"
    by (rule demo_chains(1)) (simp add: demo_evidence_def)
  have e: "jget (ev_status demo_evidence) ''executor'' = JStr ''e''" by (simp add: demo_evidence_def)
  have r: "run_name (demo_with demo_review_files lg) = ''r1''" by (simp add: demo_with_def)
  from o obtain spec where spec: "operation ''accepted'' = Inr spec" "op_action spec = ''accepted''"
    "set (allowed_prior spec) = {JStr ''reviewed''}" by blast
  have "plan_disposition seal_ext ''t'' ''accepted'' ''b'' ''ok'' (demo_with demo_review_files lg)
      = Inr \<lparr>plan_spec = spec, plan_prior = JStr ''reviewed'', plan_revision = Some ''abc'',
             plan_value = receipt_value ''r1'' ''accepted'' ''b'' ''ok'' ''t'' demo_evidence (Some ''abc'') True\<rparr>"
    using a c
    by (simp add: plan_disposition_def demo_gather review_files_fresh r e chain_action_def demo_entry_of_def
        validate_id_def Let_def g spec)
  then show ?thesis by (simp add: receipt_value_get)
qed

lemma append_event_entry:
  "append_lifecycle_event now dim prior new actor reason refs d = (d', r) \<Longrightarrow> run_entry d' q = run_entry d q"
  by (auto simp: append_lifecycle_event_def split: prod.splits)

lemma update_entry:
  "update_projection_path now src fresh changes d = (d', r) \<Longrightarrow> q \<noteq> ''status.json'' \<Longrightarrow> run_entry d' q = run_entry d q"
  by (auto simp: update_projection_path_def update_projection_path_unchecked_def atomic_write_json_def Let_def
      split: sum.splits if_splits)

lemma record_entry:
  assumes "plan_disposition X now action actor reason d = Inr p" and "append_receipt X (plan_value p) d = (d1, Inr path)"
    and "q \<noteq> ''status.json''"
  shows "run_entry (fst (lifecycle_record X now action actor reason d)) q = run_entry d1 q"
proof -
  obtain d2 r2 where ap: "append_lifecycle_event now ''review'' (plan_prior p) (JStr (op_action (plan_spec p))) actor reason [path] d1
      = (d2, r2)" by (rule prod.exhaust)
  note e = append_event_entry [OF ap]
  show ?thesis
  proof (cases r2)
    case (Inl x)
    then show ?thesis by (simp add: lifecycle_record_def assms(1,2) ap e)
  next
    case (Inr x)
    let ?ch = "[(''disposition'', JStr (projection_disposition (plan_spec p))), (''disposition_at'', JStr now),
                (''disposition_actor'', JStr actor), (''lifecycle_receipt_path'', JStr path)]
               @ (if op_action (plan_spec p) = ''accepted'' then [(''accepted_revision'', opt_str (plan_revision p))] else [])"
    obtain d3 r3 where up: "update_projection_path now ''review-lifecycle'' ''snapshot'' ?ch d2 = (d3, r3)"
      by (rule prod.exhaust)
    from update_entry [OF up assms(3)] have "run_entry d3 q = run_entry d1 q" by (simp only: e)
    moreover have "fst (lifecycle_record X now action actor reason d) = d3"
      unfolding lifecycle_record_def assms(1,2) sum.case prod.case ap Inr up by (cases r3) simp_all
    ultimately show ?thesis by simp
  qed
qed


theorem acceptance_terminal_witness:
  "\<exists>e. lifecycle_record seal_ext ''t'' ''rejected'' ''b'' ''no'' (demo_with demo_accept_files None)
     = (demo_with demo_accept_files None, Inl e)"
  using acceptance_terminal [OF demo_verified demo_chains(2)] review_files_fresh(3)
  by (auto simp: chain_action_def demo_entry_of_def)

lemma demo_accepted:
  "\<exists>p. lifecycle_disposition seal_ext (demo_with demo_accept_files None) = Inr (Some p)
     \<and> disp_action p = JStr ''accepted''"
proof -
  let ?d = "demo_with demo_accept_files None"
  have s: "OVERRIDE_NAME \<notin> set demo_names" "OVERRIDE_NAME \<noteq> ''collections''" "OVERRIDE_NAME \<noteq> ''final-receipt.json''"
    by (simp_all add: demo_names_def SEALED_ARTIFACTS_def OVERRIDE_NAME_def)
  have "run_entry ?d OVERRIDE_NAME = None"
    using demo_extra_entry [OF s, of demo_accept_files None] review_files_fresh(5) by simp
  then have o: "read_override seal_ext ?d = Inr None" by (simp add: read_override_def)
  have r: "run_name ?d = ''r1''" by (simp add: demo_with_def)
  have "jidx (demo_lr ''accepted'' (Some ''abc'')) ''action'' = Inr (JStr ''accepted'')"
    by (simp add: demo_lr_def jaccess)
  then show ?thesis
    using demo_verified [of None demo_accept_files None] review_files_fresh(3)
      demo_chains(2) [of "Some (dumps False demo_receipt)" None]
    by (simp add: lifecycle_disposition_def demo_contract_reads o r chain_disposition_def
        accepted_checks_def demo_entry_of_def)
qed

theorem approval_justified_witness:
  "is_approved seal_ext (demo_with demo_accept_files None) = Inr True
   \<and> (\<exists>receipt h. verify_seal_details seal_ext (demo_with demo_accept_files None) None = Inr (receipt, h))"
proof -
  have a: "is_approved seal_ext (demo_with demo_accept_files None) = Inr True"
    using demo_accepted by (auto simp: is_approved_def)
  from approval_justified [OF a] a show ?thesis by blast
qed

end
