(* ===== verification/Workflow_Replay.thy ===== *)
theory Workflow_Replay
  imports Workflow_Normal
begin

text \<open>
  \<open>workflow.py\<close>, second half: the workflow event journal and the replay that reconstructs the
  status of every node from it. The journal is the authority; a status is never stored but
  computed by \<open>reconstruct_workflow_status\<close>, which rejects any history that the rules of the
  node state machine do not allow. The step relation \<open>wstep\<close> states those rules on their own;
  replay refines it, and the invariants are proved of every state it reaches.
\<close>

subsection \<open>Node states\<close>

datatype node_state = Blocked | Eligible | Running | Completed | Failed | Recoverable

fun state_str :: "node_state \<Rightarrow> string" where
  "state_str Blocked = ''blocked''"
| "state_str Eligible = ''eligible''"
| "state_str Running = ''running''"
| "state_str Completed = ''completed''"
| "state_str Failed = ''failed''"
| "state_str Recoverable = ''recoverable''"

definition NODE_STATES :: "node_state list" where
  "NODE_STATES = [Blocked, Eligible, Running, Completed, Failed, Recoverable]"

definition parse_state :: "string \<Rightarrow> node_state option" where
  "parse_state s = map_of (map (\<lambda>q. (state_str q, q)) NODE_STATES) s"

definition TERMINAL_NODE_STATES :: "node_state set" where
  "TERMINAL_NODE_STATES = {Completed, Failed}"

fun ALLOWED_TRANSITIONS :: "node_state \<Rightarrow> node_state set" where
  "ALLOWED_TRANSITIONS Blocked = {Eligible, Failed}"
| "ALLOWED_TRANSITIONS Eligible = {Running, Completed, Failed, Recoverable}"
| "ALLOWED_TRANSITIONS Running = {Completed, Failed, Recoverable}"
| "ALLOWED_TRANSITIONS Completed = {}"
| "ALLOWED_TRANSITIONS Failed = {Blocked, Eligible}"
| "ALLOWED_TRANSITIONS Recoverable = {Eligible}"

lemma parse_state_str [simp]: "parse_state (state_str q) = Some q"
  by (cases q) (simp_all add: parse_state_def NODE_STATES_def)

lemma parse_state_Some: "parse_state s = Some q \<longleftrightarrow> s = state_str q"
proof
  assume "parse_state s = Some q"
  then show "s = state_str q"
    by (auto simp: parse_state_def dest!: map_of_SomeD)
qed simp

lemma state_str_inject [simp]: "state_str a = state_str b \<longleftrightarrow> a = b"
  by (metis option.inject parse_state_str)

subsection \<open>Statuses\<close>

record node_status =
  st_id :: string
  st_kind :: string
  st_state :: node_state
  st_run :: "string option"
  st_attempt :: "int option"
  st_retry :: "string option"
  st_bound_at :: "string option"
  st_reason :: "string option"
  st_approval :: "string option"
  st_binding :: "string option"

record wstatus =
  ws_workflow :: string
  ws_digest :: string
  ws_count :: nat
  ws_state :: node_state
  ws_nodes :: "node_status list"

text \<open>
  The dict of a node status. A fresh status carries both digests as null; a replayed one has
  them only once a transition recorded them.
\<close>

definition node_status_json :: "bool \<Rightarrow> node_status \<Rightarrow> json" where
  "node_status_json fresh x =
     JObj ([(''node_id'', JStr (st_id x)), (''kind'', JStr (st_kind x)),
            (''state'', JStr (state_str (st_state x))), (''agent_run_id'', opt_str (st_run x)),
            (''attempt'', (case st_attempt x of None \<Rightarrow> JNull | Some k \<Rightarrow> JInt k)),
            (''retry_of_agent_run_id'', opt_str (st_retry x)), (''bound_at'', opt_str (st_bound_at x)),
            (''terminal_reason'', opt_str (st_reason x))]
           @ (if fresh \<or> st_approval x \<noteq> None
              then [(''approval_receipt_sha256'', opt_str (st_approval x))] else [])
           @ (if fresh \<or> st_binding x \<noteq> None
              then [(''input_binding_sha256'', opt_str (st_binding x))] else []))"

definition wstatus_json :: "bool \<Rightarrow> wstatus \<Rightarrow> json" where
  "wstatus_json fresh w =
     JObj [(''schema'', JStr WORKFLOW_STATUS_SCHEMA), (''workflow_id'', JStr (ws_workflow w)),
           (''snapshot_sha256'', JStr (ws_digest w)), (''event_count'', JInt (int (ws_count w))),
           (''workflow_state'', JStr (state_str (ws_state w))),
           (''nodes'', JList (map (node_status_json fresh) (ws_nodes w)))]"

definition initial_node :: "wnode \<Rightarrow> node_status" where
  "initial_node n =
     \<lparr>st_id = node_id n, st_kind = kind_str (kind n),
      st_state = (if dependencies n = [] then Eligible else Blocked), st_run = None,
      st_attempt = None, st_retry = None, st_bound_at = None, st_reason = None,
      st_approval = None, st_binding = None\<rparr>"

definition aggregate_workflow_state :: "node_status list \<Rightarrow> node_state" where
  "aggregate_workflow_state xs =
     (let states = map st_state xs in
      if Failed \<in> set states then Failed
      else if Running \<in> set states then Running
      else if Recoverable \<in> set states then Recoverable
      else if (\<forall>q \<in> set states. q = Completed) then Completed
      else if Eligible \<in> set states then Eligible
      else Blocked)"

definition initial_status :: "ext \<Rightarrow> json \<Rightarrow> wstatus result" where
  "initial_status X j =
     bindE (normalize_snapshot X j) (\<lambda>norm.
     bindE (snapshot_sha256 X (snapshot_json norm)) (\<lambda>digest.
     (let xs = map initial_node (nodes norm);
          status = \<lparr>ws_workflow = workflow_id norm, ws_digest = digest, ws_count = 0,
                    ws_state = aggregate_workflow_state xs, ws_nodes = xs\<rparr> in
     bindE (validate_instance X (wstatus_json True status) WORKFLOW_STATUS_SCHEMA ''workflow status'') (\<lambda>_.
     Inr status))))"

subsection \<open>Reading the fields of an event\<close>

record binding =
  b_node :: string
  b_run :: string
  b_attempt :: int
  b_retry :: "string option"
  b_bound_at :: string
  b_current :: bool

definition binding_record :: "ext \<Rightarrow> json \<Rightarrow> binding result" where
  "binding_record X event =
     (let b = jget event ''binding'' in
     bindE (raise_if (\<not> is_obj b) ''workflow binding event missing binding record'') (\<lambda>_.
     (let missing = filter (\<lambda>n. \<not> jhas b n) [''agent_run_id'', ''attempt'', ''bound_at'', ''current''] in
     bindE (raise_if (missing \<noteq> []) (''workflow binding event missing fields: '' @ py_join '', '' missing)) (\<lambda>_.
     bindE (validate_id (py_str (jget_or event ''node_id'' (JStr []))) ''workflow node ID'') (\<lambda>nid.
     bindE (validate_id (py_str (jget_or b ''agent_run_id'' (JStr []))) ''Agent Run ID'') (\<lambda>rid.
     (let retry = jget b ''retry_of_agent_run_id''; att = jget b ''attempt'';
          bound = py_str (jget b ''bound_at''); cur = jget b ''current'' in
     bindE (if retry = JNull then Inr None
            else bindE (validate_id (py_str retry) ''retry run ID'') (\<lambda>r. Inr (Some r))) (\<lambda>retry_of.
     bindE (raise_if (\<not> is_int att \<or> int_of att < 1)
             ''workflow binding attempt must be a positive integer'') (\<lambda>_.
     bindE (raise_if (bound = []) ''workflow binding bound_at is required'') (\<lambda>_.
     bindE (raise_if (\<not> is_bool cur) ''workflow binding current must be a boolean'') (\<lambda>_.
     bindE (validate_instance X
              (JObj [(''schema'', JStr WORKFLOW_NODE_BINDING_SCHEMA),
                     (''workflow_id'', JStr (py_str (jget_or event ''workflow_id'' (JStr [])))),
                     (''node_id'', JStr nid), (''agent_run_id'', JStr rid), (''attempt'', att),
                     (''retry_of_agent_run_id'', opt_str retry_of), (''bound_at'', JStr bound),
                     (''current'', cur)])
              WORKFLOW_NODE_BINDING_SCHEMA ''workflow binding'') (\<lambda>_.
     Inr \<lparr>b_node = nid, b_run = rid, b_attempt = int_of att, b_retry = retry_of,
          b_bound_at = bound, b_current = truthy cur\<rparr>))))))))))))"

definition transition_record :: "json \<Rightarrow> (node_state \<times> node_state \<times> string) result" where
  "transition_record event =
     (let reason = py_str (jget_or event ''reason'' (JStr [])) in
      case parse_state (py_str (jget_or event ''previous_state'' (JStr []))) of
        None \<Rightarrow> Inl (WorkflowError ''workflow transition has invalid previous_state'')
      | Some previous_state \<Rightarrow>
          (case parse_state (py_str (jget_or event ''next_state'' (JStr []))) of
             None \<Rightarrow> Inl (WorkflowError ''workflow transition has invalid next_state'')
           | Some next_state \<Rightarrow>
               bindE (raise_if (reason = []) ''workflow transition reason is required'') (\<lambda>_.
               bindE (raise_if (next_state \<notin> ALLOWED_TRANSITIONS previous_state)
                       (''invalid workflow transition: '' @ state_str previous_state @ '' -> ''
                        @ state_str next_state)) (\<lambda>_.
               Inr (previous_state, next_state, reason)))))"

subsection \<open>Replay\<close>

type_synonym node_map = "string \<rightharpoonup> node_status"

record replay =
  r_nodes :: node_map
  r_seen :: "string list"
  r_count :: nat

definition is_completed :: "node_map \<Rightarrow> string \<Rightarrow> bool" where
  "is_completed ns d = (case ns d of None \<Rightarrow> False | Some x \<Rightarrow> st_state x = Completed)"

definition kind_of :: "snapshot \<Rightarrow> string \<Rightarrow> string option" where
  "kind_of s nid = map_of (map (\<lambda>n. (node_id n, kind_str (kind n))) (nodes s)) nid"

definition snapshot_deps :: "snapshot \<Rightarrow> string \<Rightarrow> string list" where
  "snapshot_deps s nid = deps_of (graph_of (nodes s)) nid"

text \<open>
  Whether a transition needs a current binding: a task enters \<open>running\<close> or \<open>completed\<close>, or
  fails from any state but \<open>blocked\<close>.
\<close>

definition needs_binding :: "string option \<Rightarrow> node_state \<Rightarrow> node_state \<Rightarrow> bool" where
  "needs_binding k previous_state next_state \<longleftrightarrow>
     k = Some ''task''
     \<and> (next_state \<in> {Running, Completed} \<or> (next_state = Failed \<and> previous_state \<noteq> Blocked))"

definition transition_summary ::
  "snapshot \<Rightarrow> node_map \<Rightarrow> string \<Rightarrow> node_state \<Rightarrow> node_state \<Rightarrow> string \<Rightarrow> node_map result" where
  "transition_summary s ns nid previous_state next_state reason =
     (case ns nid of
        None \<Rightarrow> Inl (WorkflowError (''workflow event references unknown node: '' @ nid))
      | Some x \<Rightarrow>
          bindE (raise_if (st_state x \<noteq> previous_state)
                  (''workflow transition mismatch for '' @ nid @ '': expected ''
                   @ state_str (st_state x) @ '', got '' @ state_str previous_state)) (\<lambda>_.
          bindE (raise_if (next_state \<notin> ALLOWED_TRANSITIONS previous_state)
                  (''invalid workflow transition for '' @ nid @ '': '' @ state_str previous_state
                   @ '' -> '' @ state_str next_state)) (\<lambda>_.
          bindE (raise_if (needs_binding (kind_of s nid) previous_state next_state \<and> st_run x = None)
                  (''workflow node '' @ nid @ '' cannot enter '' @ state_str next_state
                   @ '' without a current binding'')) (\<lambda>_.
          (let unresolved = filter (\<lambda>d. \<not> is_completed ns d) (snapshot_deps s nid) in
          bindE (raise_if (previous_state = Blocked \<and> next_state = Eligible \<and> unresolved \<noteq> [])
                  (''workflow node '' @ nid @ '' cannot become eligible before dependencies complete: ''
                   @ py_join '', '' unresolved)) (\<lambda>_.
          bindE (raise_if (previous_state \<in> {Failed, Recoverable} \<and> next_state = Eligible
                           \<and> (case st_attempt x of None \<Rightarrow> True | Some k \<Rightarrow> k < 2))
                  (''workflow node '' @ nid @ '' cannot retry before a newer current binding'')) (\<lambda>_.
          Inr (ns(nid \<mapsto> x\<lparr>st_state := next_state,
                           st_reason := (if next_state \<in> TERMINAL_NODE_STATES then Some reason
                                         else None)\<rparr>)))))))))"

text \<open>The checks on a \<open>node-bound\<close> event and the status it produces.\<close>

definition apply_binding :: "replay \<Rightarrow> string \<Rightarrow> node_status \<Rightarrow> binding \<Rightarrow> replay result" where
  "apply_binding r nid x b =
     bindE (raise_if (b_node b \<noteq> nid) ''workflow binding node mismatch'') (\<lambda>_.
     bindE (raise_if (\<not> b_current b) ''workflow binding record must be current'') (\<lambda>_.
     bindE (raise_if (st_state x \<in> {Blocked, Running, Completed})
             (''workflow node '' @ nid @ '' cannot be bound while '' @ state_str (st_state x))) (\<lambda>_.
     bindE (case st_run x of
              None \<Rightarrow>
                bindE (raise_if (st_state x \<noteq> Eligible)
                        (''workflow node '' @ nid @ '' must be eligible before first binding'')) (\<lambda>_.
                bindE (raise_if (b_attempt b \<noteq> 1)
                        (''workflow node '' @ nid @ '' first binding must use attempt 1'')) (\<lambda>_.
                raise_if (b_retry b \<noteq> None)
                        (''workflow node '' @ nid @ '' first binding cannot have retry lineage'')))
            | Some prior_run \<Rightarrow>
                bindE (raise_if (st_state x \<notin> {Failed, Recoverable})
                        (''workflow node '' @ nid @ '' retry requires failed or recoverable state'')) (\<lambda>_.
                bindE (raise_if (case st_attempt x of None \<Rightarrow> True | Some k \<Rightarrow> b_attempt b \<noteq> k + 1)
                        (''workflow node '' @ nid @ '' retry attempt must be the next attempt'')) (\<lambda>_.
                raise_if (b_retry b \<noteq> Some prior_run)
                        (''workflow node '' @ nid @ '' retry must reference the current run'')))) (\<lambda>_.
     bindE (raise_if (b_run b \<in> set (r_seen r)) (''Agent Run ID reused: '' @ b_run b)) (\<lambda>_.
     Inr (r\<lparr>r_seen := r_seen r @ [b_run b],
            r_nodes := (r_nodes r)(nid \<mapsto> x\<lparr>st_run := Some (b_run b), st_attempt := Some (b_attempt b),
                                            st_retry := b_retry b, st_bound_at := Some (b_bound_at b)\<rparr>)\<rparr>))))))"

definition record_digests :: "json \<Rightarrow> node_status \<Rightarrow> node_status" where
  "record_digests details x =
     (let a = jget details ''approval_receipt_sha256''; b = jget details ''input_binding_sha256'' in
      x\<lparr>st_approval := (if is_obj details \<and> is_str a then Some (str_of a) else st_approval x),
        st_binding := (if is_obj details \<and> is_str b then Some (str_of b) else st_binding x)\<rparr>)"

definition replay_event :: "ext \<Rightarrow> snapshot \<Rightarrow> replay \<Rightarrow> json \<Rightarrow> replay result" where
  "replay_event X s r0 event =
     (let r = r0\<lparr>r_count := Suc (r_count r0)\<rparr> in
     bindE (jidx event ''workflow_id'') (\<lambda>wid.
     bindE (raise_if (wid \<noteq> JStr (workflow_id s)) ''workflow event references a different workflow'') (\<lambda>_.
     bindE (jidx event ''snapshot_sha256'') (\<lambda>dig.
     bindE (snapshot_sha256 X (snapshot_json s)) (\<lambda>digest.
     bindE (raise_if (dig \<noteq> JStr digest) ''workflow event snapshot digest mismatch'') (\<lambda>_.
     bindE (jidx event ''kind'') (\<lambda>k.
     bindE (jidx event ''node_id'') (\<lambda>nid_json.
     (let nid = py_str nid_json in
      if k = JStr ''node-bound'' then
        (case r_nodes r nid of
           None \<Rightarrow> Inl (WorkflowError (''workflow event references unknown node: '' @ nid))
         | Some x \<Rightarrow> bindE (binding_record X event) (apply_binding r nid x))
      else if k = JStr ''node-transition'' then
        bindE (transition_record event) (\<lambda>(p, q, reason).
        bindE (transition_summary s (r_nodes r) nid p q reason) (\<lambda>ns.
        Inr (r\<lparr>r_nodes := ns(nid := map_option (record_digests (jget event ''details'')) (ns nid))\<rparr>)))
      else Inl (WorkflowError (''unknown workflow event kind: '' @ py_str k)))))))))))"

definition initial_replay :: "snapshot \<Rightarrow> replay" where
  "initial_replay s =
     \<lparr>r_nodes = map_of (map (\<lambda>n. (node_id n, initial_node n)) (nodes s)), r_seen = [], r_count = 0\<rparr>"

definition node_list :: "snapshot \<Rightarrow> node_map \<Rightarrow> node_status list" where
  "node_list s ns = List.map_filter ns (sort (map node_id (nodes s)))"

definition reconstruct_workflow_status :: "ext \<Rightarrow> json \<Rightarrow> json list \<Rightarrow> wstatus result" where
  "reconstruct_workflow_status X j events =
     bindE (normalize_snapshot X j) (\<lambda>norm.
     bindE (foldE (replay_event X norm) (initial_replay norm) events) (\<lambda>r.
     bindE (snapshot_sha256 X (snapshot_json norm)) (\<lambda>digest.
     (let xs = node_list norm (r_nodes r);
          status = \<lparr>ws_workflow = workflow_id norm, ws_digest = digest, ws_count = r_count r,
                    ws_state = aggregate_workflow_state xs, ws_nodes = xs\<rparr> in
     bindE (validate_instance X (wstatus_json False status) WORKFLOW_STATUS_SCHEMA ''workflow status'') (\<lambda>_.
     Inr status)))))"

subsection \<open>The rules of the state machine\<close>

text \<open>
  The abstract machine: \<open>bind_first\<close> gives an eligible node its first run, \<open>bind_retry\<close> a failed
  or recoverable node a new run that supersedes the current one, \<open>move\<close> changes a node's state.
  \<open>same_lineage\<close> says that a move touches neither identity nor lineage.
\<close>

definition same_lineage :: "node_status \<Rightarrow> node_status \<Rightarrow> bool" where
  "same_lineage x y \<longleftrightarrow>
     st_id y = st_id x \<and> st_kind y = st_kind x \<and> st_run y = st_run x \<and> st_attempt y = st_attempt x
     \<and> st_retry y = st_retry x \<and> st_bound_at y = st_bound_at x"

inductive wstep :: "snapshot \<Rightarrow> node_map \<times> string list \<Rightarrow> node_map \<times> string list \<Rightarrow> bool"
  for s :: snapshot where
  bind_first:
    "ns nid = Some x \<Longrightarrow> st_state x = Eligible \<Longrightarrow> st_run x = None \<Longrightarrow> run \<notin> set seen \<Longrightarrow>
     wstep s (ns, seen)
       (ns(nid \<mapsto> x\<lparr>st_run := Some run, st_attempt := Some 1, st_retry := None, st_bound_at := Some t\<rparr>),
        seen @ [run])"
| bind_retry:
    "ns nid = Some x \<Longrightarrow> st_state x \<in> {Failed, Recoverable} \<Longrightarrow> st_run x = Some p \<Longrightarrow>
     st_attempt x = Some k \<Longrightarrow> run \<notin> set seen \<Longrightarrow>
     wstep s (ns, seen)
       (ns(nid \<mapsto> x\<lparr>st_run := Some run, st_attempt := Some (k + 1), st_retry := Some p, st_bound_at := Some t\<rparr>),
        seen @ [run])"
| move:
    "ns nid = Some x \<Longrightarrow> same_lineage x y \<Longrightarrow> st_state y \<in> ALLOWED_TRANSITIONS (st_state x) \<Longrightarrow>
     (needs_binding (kind_of s nid) (st_state x) (st_state y) \<Longrightarrow> st_run x \<noteq> None) \<Longrightarrow>
     (st_state x = Blocked \<Longrightarrow> st_state y = Eligible \<Longrightarrow>
        \<forall>d \<in> set (snapshot_deps s nid). is_completed ns d) \<Longrightarrow>
     (st_state x \<in> {Failed, Recoverable} \<Longrightarrow> st_state y = Eligible \<Longrightarrow>
        \<exists>k. st_attempt x = Some k \<and> 2 \<le> k) \<Longrightarrow>
     wstep s (ns, seen) (ns(nid \<mapsto> y), seen)"

inductive_cases wstepE: "wstep s (ns, seen) (ns', seen')"

lemma apply_binding_step:
  assumes "apply_binding r nid x b = Inr r'" and "r_nodes r nid = Some x"
  shows "wstep s (r_nodes r, r_seen r) (r_nodes r', r_seen r') \<and> r_count r' = r_count r"
proof (cases "st_run x")
  case None
  with assms have "st_state x = Eligible" "b_attempt b = 1" "b_retry b = None" "b_run b \<notin> set (r_seen r)"
    "r' = r\<lparr>r_seen := r_seen r @ [b_run b], r_nodes := (r_nodes r)(nid \<mapsto>
        x\<lparr>st_run := Some (b_run b), st_attempt := Some 1, st_retry := None, st_bound_at := Some (b_bound_at b)\<rparr>)\<rparr>"
    by (auto simp: apply_binding_def)
  with None bind_first [of "r_nodes r" nid x "b_run b" "r_seen r" s "b_bound_at b"] assms(2)
  show ?thesis by simp
next
  case (Some p)
  with assms obtain k where "st_state x \<in> {Failed, Recoverable}" "st_attempt x = Some k" "b_attempt b = k + 1"
    "b_retry b = Some p" "b_run b \<notin> set (r_seen r)"
    "r' = r\<lparr>r_seen := r_seen r @ [b_run b], r_nodes := (r_nodes r)(nid \<mapsto>
        x\<lparr>st_run := Some (b_run b), st_attempt := Some (k + 1), st_retry := Some p, st_bound_at := Some (b_bound_at b)\<rparr>)\<rparr>"
    by (auto simp: apply_binding_def split: option.splits)
  with Some bind_retry [of "r_nodes r" nid x p k "b_run b" "r_seen r" s "b_bound_at b"] assms(2)
  show ?thesis by simp
qed

lemma record_digests_simps [simp]:
  "st_state (record_digests d x) = st_state x" "same_lineage x (record_digests d y) = same_lineage x y"
  "st_reason (record_digests d x) = st_reason x"
  by (simp_all add: record_digests_def same_lineage_def Let_def)

lemma transition_step:
  assumes "transition_summary s ns nid p q reason = Inr ns'"
  shows "wstep s (ns, seen) (ns'(nid := map_option (record_digests d) (ns' nid)), seen)"
proof -
  from assms obtain x where x: "ns nid = Some x" by (auto simp: transition_summary_def split: option.splits)
  let ?y = "x\<lparr>st_state := q, st_reason := (if q \<in> TERMINAL_NODE_STATES then Some reason else None)\<rparr>"
  from assms x have g: "st_state x = p" "q \<in> ALLOWED_TRANSITIONS p"
    "needs_binding (kind_of s nid) p q \<Longrightarrow> st_run x \<noteq> None"
    "p = Blocked \<Longrightarrow> q = Eligible \<Longrightarrow> \<forall>d \<in> set (snapshot_deps s nid). is_completed ns d"
    "p \<in> {Failed, Recoverable} \<Longrightarrow> q = Eligible \<Longrightarrow> \<exists>k. st_attempt x = Some k \<and> 2 \<le> k"
    and ns': "ns' = ns(nid \<mapsto> ?y)"
    by (auto simp: transition_summary_def Let_def filter_empty_conv split: option.splits)
  have "same_lineage x (record_digests d ?y)"
    by (simp add: same_lineage_def record_digests_def Let_def)
  with move [of ns nid x "record_digests d ?y" s seen] x g show ?thesis by (simp add: ns')
qed

text \<open>Replay refines the abstract machine: every accepted event is one of its steps.\<close>

lemma replay_event_step:
  assumes "replay_event X s r event = Inr r'"
  shows "wstep s (r_nodes r, r_seen r) (r_nodes r', r_seen r') \<and> r_count r' = Suc (r_count r)"
  using assms apply_binding_step [of "r\<lparr>r_count := Suc (r_count r)\<rparr>" _ _ _ r' s] transition_step [of s]
  by (auto simp: replay_event_def Let_def split: if_splits option.splits prod.splits)

subsection \<open>Invariants of the machine\<close>

lemma wstep_completed:
  assumes "wstep s (ns, seen) (ns', seen')" and "ns d = Some x" and "st_state x = Completed"
  shows "ns' d = Some x"
  using assms by (elim wstepE) (auto split: if_splits)

lemma wstep_is_completed:
  "wstep s (ns, seen) (ns', seen') \<Longrightarrow> is_completed ns d \<Longrightarrow> is_completed ns' d"
  by (auto simp: is_completed_def wstep_completed split: option.splits)

definition lineage_ok :: "string list \<Rightarrow> node_status \<Rightarrow> bool" where
  "lineage_ok seen x \<longleftrightarrow>
     (case st_run x of
        None \<Rightarrow> st_attempt x = None \<and> st_retry x = None
      | Some r \<Rightarrow> r \<in> set seen \<and>
          (case st_attempt x of
             None \<Rightarrow> False
           | Some k \<Rightarrow> 1 \<le> k \<and> (case st_retry x of None \<Rightarrow> k = 1
                             | Some p \<Rightarrow> 2 \<le> k \<and> p \<in> set seen \<and> p \<noteq> r)))"

definition started :: "node_status \<Rightarrow> bool" where
  "started x \<longleftrightarrow> st_state x \<in> {Eligible, Running, Completed, Recoverable} \<or> st_run x \<noteq> None"

definition node_ok :: "snapshot \<Rightarrow> node_map \<Rightarrow> string list \<Rightarrow> string \<Rightarrow> node_status \<Rightarrow> bool" where
  "node_ok s ns seen nid x \<longleftrightarrow>
     st_id x = nid \<and> kind_of s nid = Some (st_kind x) \<and> lineage_ok seen x
     \<and> (kind_of s nid = Some ''task'' \<longrightarrow> st_state x \<in> {Running, Completed} \<longrightarrow> st_run x \<noteq> None)
     \<and> (started x \<longrightarrow> (\<forall>d \<in> set (snapshot_deps s nid). is_completed ns d))"

definition replay_ok :: "snapshot \<Rightarrow> node_map \<times> string list \<Rightarrow> bool" where
  "replay_ok s c \<longleftrightarrow>
     dom (fst c) = node_id ` set (nodes s) \<and> distinct (snd c)
     \<and> (\<forall>nid x. fst c nid = Some x \<longrightarrow> node_ok s (fst c) (snd c) nid x)
     \<and> (\<forall>m n x y r. fst c m = Some x \<longrightarrow> fst c n = Some y \<longrightarrow>
          st_run x = Some r \<longrightarrow> st_run y = Some r \<longrightarrow> m = n)"

lemma replay_okD: "replay_ok s (ns, seen) \<Longrightarrow> ns nid = Some x \<Longrightarrow> node_ok s ns seen nid x"
  by (simp add: replay_ok_def)

lemma replay_ok_distinct: "replay_ok s (ns, seen) \<Longrightarrow> distinct seen"
  by (simp add: replay_ok_def)

lemma lineage_ok_mono: "lineage_ok seen x \<Longrightarrow> lineage_ok (seen @ ys) x"
  by (auto simp: lineage_ok_def split: option.splits)

lemma lineage_ok_same: "same_lineage x y \<Longrightarrow> lineage_ok seen y = lineage_ok seen x"
  by (auto simp: lineage_ok_def same_lineage_def split: option.splits)

lemma lineage_ok_run: "lineage_ok seen x \<Longrightarrow> st_run x = Some r \<Longrightarrow> r \<in> set seen"
  by (simp add: lineage_ok_def)

lemma lineage_ok_attempt: "lineage_ok seen x \<Longrightarrow> st_attempt x = Some k \<Longrightarrow> st_run x \<noteq> None"
  by (cases "st_run x") (simp_all add: lineage_ok_def)

lemma move_started:
  assumes "started y" and "st_run y = st_run x" and "st_state y \<in> ALLOWED_TRANSITIONS (st_state x)"
    and "st_state x = Failed \<Longrightarrow> st_state y = Eligible \<Longrightarrow> st_run x \<noteq> None"
  shows "started x \<or> st_state x = Blocked \<and> st_state y = Eligible"
  using assms by (cases "st_state x") (auto simp: started_def)

lemma node_ok_mono:
  assumes "wstep s (ns, seen) (ns', seen @ ys)" and "node_ok s ns seen nid x"
  shows "node_ok s ns' (seen @ ys) nid x"
  using assms(2) wstep_is_completed [OF assms(1)] lineage_ok_mono by (auto simp: node_ok_def)

lemma replay_ok_update:
  assumes ok: "replay_ok s (ns, seen)" and step: "wstep s (ns, seen) (ns(nid \<mapsto> y), seen @ ys)"
    and x: "ns nid = Some x" and y: "node_ok s (ns(nid \<mapsto> y)) (seen @ ys) nid y"
    and ys: "distinct (seen @ ys)" and run: "st_run y = st_run x \<or> (\<exists>r. st_run y = Some r \<and> r \<notin> set seen)"
  shows "replay_ok s (ns(nid \<mapsto> y), seen @ ys)"
proof -
  have dom: "dom (ns(nid \<mapsto> y)) = node_id ` set (nodes s)"
    using ok x by (auto simp: replay_ok_def)
  have others: "node_ok s ns seen m z" if "ns m = Some z" for m z
    using ok that by (simp add: replay_ok_def)
  have uniq: "m = n" if "ns m = Some z" "ns n = Some w" "st_run z = Some r" "st_run w = Some r" for m n z w r
    using ok that unfolding replay_ok_def by (metis fst_conv)
  have seen: "r \<in> set seen" if "ns m = Some z" "st_run z = Some r" for m z r
    using others [OF that(1)] that(2) by (auto simp: node_ok_def dest: lineage_ok_run)
  have collide: "n = nid" if "ns n = Some w" "st_run w = Some r" "st_run y = Some r" for n w r
    using run seen [OF that(1,2)] uniq [OF that(1) x that(2)] that(3) by auto
  have "node_ok s (ns(nid \<mapsto> y)) (seen @ ys) m z" if "(ns(nid \<mapsto> y)) m = Some z" for m z
    using that y node_ok_mono [OF step others] by (cases "m = nid") auto
  moreover have "m = n" if p: "(ns(nid \<mapsto> y)) m = Some z" "(ns(nid \<mapsto> y)) n = Some w"
      "st_run z = Some r" "st_run w = Some r" for m n z w r
  proof -
    consider "m = nid" "n = nid" | "m = nid" "z = y" "ns n = Some w" | "n = nid" "w = y" "ns m = Some z"
      | "ns m = Some z" "ns n = Some w"
      using p(1,2) by (cases "m = nid"; cases "n = nid") (simp_all split: if_splits)
    then show ?thesis
    proof cases
      case 1
      then show ?thesis by simp
    next
      case 2
      with collide [of n w r] p(3,4) show ?thesis by blast
    next
      case 3
      with collide [of m z r] p(3,4) show ?thesis by blast
    next
      case 4
      with uniq [of m z n w r] p(3,4) show ?thesis by blast
    qed
  qed
  ultimately show ?thesis using dom ys unfolding replay_ok_def fst_conv snd_conv by blast
qed

lemma wstep_replay_ok:
  assumes "wstep s c c'" and "replay_ok s c"
  shows "replay_ok s c'"
  using assms
proof (induction rule: wstep.induct)
  case (bind_first ns nid x run seen t)
  let ?y = "x\<lparr>st_run := Some run, st_attempt := Some 1, st_retry := None, st_bound_at := Some t\<rparr>"
  have step: "wstep s (ns, seen) (ns(nid \<mapsto> ?y), seen @ [run])" using bind_first wstep.bind_first by blast
  have "node_ok s ns seen nid x" using replay_okD [OF bind_first.prems bind_first(1)] .
  then have "node_ok s (ns(nid \<mapsto> ?y)) (seen @ [run]) nid ?y"
    using bind_first wstep_is_completed [OF step]
    by (auto simp: node_ok_def lineage_ok_def started_def)
  then show ?case using bind_first
    by (intro replay_ok_update [OF _ step]) (auto dest: replay_ok_distinct)
next
  case (bind_retry ns nid x p k run seen t)
  let ?y = "x\<lparr>st_run := Some run, st_attempt := Some (k + 1), st_retry := Some p, st_bound_at := Some t\<rparr>"
  have step: "wstep s (ns, seen) (ns(nid \<mapsto> ?y), seen @ [run])" using bind_retry wstep.bind_retry by blast
  have "node_ok s ns seen nid x" using replay_okD [OF bind_retry.prems bind_retry(1)] .
  then have "node_ok s (ns(nid \<mapsto> ?y)) (seen @ [run]) nid ?y"
    using bind_retry wstep_is_completed [OF step]
    by (auto simp: node_ok_def lineage_ok_def started_def)
  then show ?case using bind_retry
    by (intro replay_ok_update [OF _ step]) (auto dest: replay_ok_distinct)
next
  case (move ns nid x y seen)
  have step: "wstep s (ns, seen) (ns(nid \<mapsto> y), seen @ [])"
    unfolding append_Nil2 using move(1-6) by (rule wstep.move)
  have x: "node_ok s ns seen nid x" using replay_okD [OF move.prems move(1)] .
  have run: "st_run y = st_run x" using \<open>same_lineage x y\<close> by (simp add: same_lineage_def)
  have dx: "started x \<Longrightarrow> \<forall>d \<in> set (snapshot_deps s nid). is_completed ns d"
    and att: "st_attempt x = Some k \<Longrightarrow> st_run x \<noteq> None" for k
    using x lineage_ok_attempt by (auto simp: node_ok_def)
  have "started y \<Longrightarrow> \<forall>d \<in> set (snapshot_deps s nid). is_completed ns d"
    using move_started [OF _ run move(3)] att move(6) dx move(5) by blast
  moreover have "kind_of s nid = Some ''task'' \<Longrightarrow> st_state y \<in> {Running, Completed} \<Longrightarrow> st_run y \<noteq> None"
    using move(4) run by (auto simp: needs_binding_def)
  ultimately have "node_ok s (ns(nid \<mapsto> y)) (seen @ []) nid y"
    using x lineage_ok_same [OF move(2)] wstep_is_completed [OF step] move(2)
    by (auto simp: node_ok_def same_lineage_def)
  from replay_ok_update [OF move.prems step move(1) this] run replay_ok_distinct [OF move.prems]
  show ?case by simp
qed

lemma initial_replay_ok:
  assumes "wf_snapshot s"
  shows "replay_ok s (r_nodes (initial_replay s), r_seen (initial_replay s))"
proof -
  let ?m = "map_of (map (\<lambda>n. (node_id n, initial_node n)) (nodes s))"
  have look: "\<exists>n \<in> set (nodes s). node_id n = nid \<and> x = initial_node n" if "?m nid = Some x" for nid x
    using that by (auto dest!: map_of_SomeD)
  have deps: "snapshot_deps s (node_id n) = dependencies n" if "n \<in> set (nodes s)" for n
    using assms that distinct_map_of_zip_eq [of node_id "nodes s" n dependencies]
    by (simp add: snapshot_deps_def deps_of_def graph_of_def wf_snapshot_def)
  have kinds: "kind_of s (node_id n) = Some (kind_str (kind n))" if "n \<in> set (nodes s)" for n
    using assms that distinct_map_of_zip_eq [of node_id "nodes s" n "\<lambda>n. kind_str (kind n)"]
    by (simp add: kind_of_def wf_snapshot_def)
  have "dom ?m = node_id ` set (nodes s)" by (simp add: dom_map_of_conv_image_fst image_image)
  moreover have "node_ok s ?m [] nid x" if "?m nid = Some x" for nid x
    using look [OF that] deps kinds
    by (auto simp: node_ok_def lineage_ok_def started_def initial_node_def split: if_splits)
  moreover have "st_run x = None" if "?m nid = Some x" for nid x
    using look [OF that] by (auto simp: initial_node_def)
  ultimately show ?thesis by (auto simp: replay_ok_def initial_replay_def)
qed

definition replay_steps :: "snapshot \<Rightarrow> replay \<Rightarrow> replay \<Rightarrow> bool" where
  "replay_steps s r r' \<longleftrightarrow> (wstep s)\<^sup>*\<^sup>* (r_nodes r, r_seen r) (r_nodes r', r_seen r')"

lemma foldE_steps:
  "foldE (replay_event X s) r events = Inr r' \<Longrightarrow>
     replay_steps s r r' \<and> r_count r' = r_count r + length events"
proof (induction events arbitrary: r)
  case Nil
  then show ?case by (simp add: replay_steps_def)
next
  case (Cons e events)
  then obtain q where q: "replay_event X s r e = Inr q" and rest: "foldE (replay_event X s) q events = Inr r'"
    by auto
  from replay_event_step [OF q] Cons.IH [OF rest] show ?case
    by (auto simp: replay_steps_def intro: converse_rtranclp_into_rtranclp)
qed

lemma steps_replay_ok: "replay_steps s r r' \<Longrightarrow> replay_ok s (r_nodes r, r_seen r) \<Longrightarrow> replay_ok s (r_nodes r', r_seen r')"
  unfolding replay_steps_def by (induction rule: rtranclp_induct) (auto intro: wstep_replay_ok)

lemma steps_completed:
  assumes "replay_steps s r r'" and "r_nodes r d = Some x" and "st_state x = Completed"
  shows "r_nodes r' d = Some x"
  using assms unfolding replay_steps_def
proof (induction "(r_nodes r', r_seen r')" arbitrary: r' rule: rtranclp_induct)
  case base
  then show ?case by simp
next
  case (step c)
  obtain ns seen where c: "c = (ns, seen)" by (cases c)
  from step.hyps(3) [of "\<lparr>r_nodes = ns, r_seen = seen, r_count = 0\<rparr>"] step.prems c
  have "ns d = Some x" by simp
  with wstep_completed step.hyps(2) step.prems(2) c show ?case by blast
qed

lemma reconstruct_Inr:
  assumes "reconstruct_workflow_status X j events = Inr w"
  obtains s r where "normalize_snapshot X j = Inr s" "wf_snapshot s"
    "foldE (replay_event X s) (initial_replay s) events = Inr r"
    "replay_ok s (r_nodes r, r_seen r)" "ws_nodes w = node_list s (r_nodes r)"
    "ws_workflow w = workflow_id s" "ws_count w = length events"
    "ws_state w = aggregate_workflow_state (ws_nodes w)"
    "Inr (ws_digest w) = snapshot_sha256 X (snapshot_json s)"
proof -
  from assms obtain s and r :: replay where n: "normalize_snapshot X j = Inr s"
    and f: "foldE (replay_event X s) (initial_replay s) events = Inr r"
    and w: "ws_nodes w = node_list s (r_nodes r)" "ws_workflow w = workflow_id s" "ws_count w = r_count r"
      "ws_state w = aggregate_workflow_state (ws_nodes w)"
      "Inr (ws_digest w) = snapshot_sha256 X (snapshot_json s)"
    by (auto simp: reconstruct_workflow_status_def Let_def)
  from normalize_snapshot_Inr [OF n] have wf: "wf_snapshot s" by simp
  from foldE_steps [OF f] have st: "replay_steps s (initial_replay s) r"
    and cnt: "r_count r = length events" by (simp_all add: initial_replay_def)
  from steps_replay_ok [OF st initial_replay_ok [OF wf]]
  show thesis using that [OF n wf f] w cnt by simp
qed

lemma reconstruct_replay:
  assumes "normalize_snapshot X j = Inr s" and "reconstruct_workflow_status X j events = Inr w"
  obtains r where "wf_snapshot s" "foldE (replay_event X s) (initial_replay s) events = Inr r"
    "replay_ok s (r_nodes r, r_seen r)" "ws_nodes w = node_list s (r_nodes r)"
    "ws_count w = length events" "ws_state w = aggregate_workflow_state (ws_nodes w)"
proof -
  from reconstruct_Inr [OF assms(2)] obtain s' r where "normalize_snapshot X j = Inr s'" "wf_snapshot s'"
    "foldE (replay_event X s') (initial_replay s') events = Inr r"
    "replay_ok s' (r_nodes r, r_seen r)" "ws_nodes w = node_list s' (r_nodes r)"
    "ws_count w = length events" "ws_state w = aggregate_workflow_state (ws_nodes w)"
    by metis
  with assms(1) that show thesis by simp
qed

lemma node_list_nodes:
  assumes "wf_snapshot s" and "dom ns = node_id ` set (nodes s)"
  shows "map Some (node_list s ns) = map ns (map node_id (nodes s))"
proof -
  have "sort (map node_id (nodes s)) = map node_id (nodes s)"
    using assms(1) by (simp add: wf_snapshot_def sorted_sort_id)
  moreover have "map Some (List.map_filter ns ks) = map ns ks" if "set ks \<subseteq> dom ns" for ks
    using that by (induction ks) (auto simp: map_filter_simps)
  ultimately show ?thesis using assms(2) by (simp add: node_list_def)
qed

lemma node_list_iff:
  assumes "wf_snapshot s" and "dom ns = node_id ` set (nodes s)"
  shows "x \<in> set (node_list s ns) \<longleftrightarrow> (\<exists>nid. ns nid = Some x)"
proof -
  have "x \<in> set (node_list s ns) \<longleftrightarrow> Some x \<in> set (map Some (node_list s ns))" by auto
  also have "\<dots> \<longleftrightarrow> (\<exists>nid \<in> node_id ` set (nodes s). ns nid = Some x)"
    unfolding node_list_nodes [OF assms] by (auto simp: image_iff eq_commute)
  also have "\<dots> \<longleftrightarrow> (\<exists>nid. ns nid = Some x)" unfolding assms(2) [symmetric] by auto
  finally show ?thesis .
qed

subsection \<open>What a reconstructed status guarantees\<close>

text \<open>
  C1. No node is started before its prerequisites are done: in every status that replay
  accepts, a node that is eligible, running, completed or recoverable, or was ever bound to a
  run, has only completed dependencies.
\<close>

theorem status_respects_dependencies:
  assumes "normalize_snapshot X j = Inr s" and "reconstruct_workflow_status X j events = Inr w"
    and "x \<in> set (ws_nodes w)" and "started x" and "d \<in> set (snapshot_deps s (st_id x))"
  shows "\<exists>y \<in> set (ws_nodes w). st_id y = d \<and> st_state y = Completed"
proof -
  from assms(1,2) obtain r :: replay where wf: "wf_snapshot s" and ok: "replay_ok s (r_nodes r, r_seen r)"
    and w: "ws_nodes w = node_list s (r_nodes r)"
    by (rule reconstruct_replay) blast
  have dom: "dom (r_nodes r) = node_id ` set (nodes s)" using ok by (simp add: replay_ok_def)
  note mem = node_list_iff [OF wf dom]
  from assms(3) obtain nid where "r_nodes r nid = Some x" by (auto simp: w mem)
  with replay_okD [OF ok this] assms(4,5) have "is_completed (r_nodes r) d" by (auto simp: node_ok_def)
  then obtain y where y: "r_nodes r d = Some y" "st_state y = Completed"
    by (auto simp: is_completed_def split: option.splits)
  then have "st_id y = d" "y \<in> set (ws_nodes w)"
    using replay_okD [OF ok y(1)] by (auto simp: w mem node_ok_def)
  with y(2) show ?thesis by blast
qed


text \<open>
  C27. Completion is final: whatever events a longer history adds, a node that was completed
  keeps its status, unchanged in every field.
\<close>

theorem completed_node_final:
  assumes "reconstruct_workflow_status X j events = Inr w"
    and "reconstruct_workflow_status X j (events @ later) = Inr w'"
    and "x \<in> set (ws_nodes w)" and "st_state x = Completed"
  shows "x \<in> set (ws_nodes w')"
proof -
  from assms(1) obtain s and r :: replay where n: "normalize_snapshot X j = Inr s" "wf_snapshot s"
    and f: "foldE (replay_event X s) (initial_replay s) events = Inr r"
    and ok: "replay_ok s (r_nodes r, r_seen r)" and w: "ws_nodes w = node_list s (r_nodes r)"
    by (rule reconstruct_Inr) blast
  from n(1) assms(2) obtain r' :: replay where f': "foldE (replay_event X s) (initial_replay s) (events @ later) = Inr r'"
    and ok': "replay_ok s (r_nodes r', r_seen r')" and w': "ws_nodes w' = node_list s (r_nodes r')"
    by (rule reconstruct_replay) blast
  have "dom (r_nodes r) = node_id ` set (nodes s)" "dom (r_nodes r') = node_id ` set (nodes s)"
    using ok ok' by (simp_all add: replay_ok_def)
  note mem = this [THEN node_list_iff [OF n(2)]]
  from assms(3) obtain nid where x: "r_nodes r nid = Some x" by (auto simp: w mem)
  from f f' have "foldE (replay_event X s) r later = Inr r'" by (simp add: foldE_append)
  from foldE_steps [OF this] have "replay_steps s r r'" by simp
  from steps_completed [OF this x assms(4)] show ?thesis by (auto simp: w' mem)
qed

lemma aggregate_Completed:
  "aggregate_workflow_state xs = Completed \<longleftrightarrow> (\<forall>x \<in> set xs. st_state x = Completed)"
  by (auto simp: aggregate_workflow_state_def Let_def split: if_splits)

lemma wstep_not_all_completed:
  "wstep s (ns, seen) c \<Longrightarrow> \<exists>nid x. ns nid = Some x \<and> st_state x \<noteq> Completed"
  by (induction "(ns, seen)" c rule: wstep.induct) fastforce+

text \<open>
  A completed workflow is closed: once every node is completed, replay rejects any further
  event, so no later record can reopen or extend the workflow.
\<close>

theorem completed_workflow_closed:
  assumes "reconstruct_workflow_status X j events = Inr w" and "ws_state w = Completed" and "later \<noteq> []"
  shows "\<exists>e. reconstruct_workflow_status X j (events @ later) = Inl e"
proof (rule ccontr)
  assume "\<not> ?thesis"
  then obtain w' where "reconstruct_workflow_status X j (events @ later) = Inr w'"
    by (metis sumE)
  moreover from assms(1) obtain s and r :: replay where n: "normalize_snapshot X j = Inr s" "wf_snapshot s"
    and f: "foldE (replay_event X s) (initial_replay s) events = Inr r"
    and ok: "replay_ok s (r_nodes r, r_seen r)" and w: "ws_nodes w = node_list s (r_nodes r)"
    and agg: "ws_state w = aggregate_workflow_state (ws_nodes w)"
    by (rule reconstruct_Inr) blast
  moreover obtain e es where "later = e # es" using assms(3) by (cases later) auto
  ultimately obtain r' :: replay where "replay_event X s r e = Inr r'"
    by (auto simp: reconstruct_workflow_status_def foldE_append)
  from replay_event_step [OF this] wstep_not_all_completed
  obtain nid x where "r_nodes r nid = Some x" "st_state x \<noteq> Completed" by blast
  moreover have "\<forall>y \<in> set (node_list s (r_nodes r)). st_state y = Completed"
    using agg assms(2) by (simp add: w flip: aggregate_Completed)
  moreover have "dom (r_nodes r) = node_id ` set (nodes s)" using ok by (simp add: replay_ok_def)
  ultimately show False using node_list_iff [OF n(2), of "r_nodes r"] by blast
qed

subsection \<open>A concrete history\<close>

definition demo_bind :: "string \<Rightarrow> string \<Rightarrow> json" where
  "demo_bind nid run =
     JObj [(''workflow_id'', JStr ''w''), (''snapshot_sha256'', JStr ''d''), (''kind'', JStr ''node-bound''),
           (''node_id'', JStr nid),
           (''binding'', JObj [(''agent_run_id'', JStr run), (''attempt'', JInt 1),
                               (''bound_at'', JStr ''t''), (''current'', JBool True)])]"

definition demo_move :: "string \<Rightarrow> node_state \<Rightarrow> node_state \<Rightarrow> json" where
  "demo_move nid p q =
     JObj [(''workflow_id'', JStr ''w''), (''snapshot_sha256'', JStr ''d''), (''kind'', JStr ''node-transition''),
           (''node_id'', JStr nid), (''reason'', JStr ''r''), (''previous_state'', JStr (state_str p)),
           (''next_state'', JStr (state_str q))]"

definition demo_built :: "json list" where
  "demo_built = [demo_bind ''build'' ''r1'', demo_move ''build'' Eligible Running,
                 demo_move ''build'' Running Completed, demo_move ''gate'' Blocked Eligible]"

definition demo_shipped :: "json list" where
  "demo_shipped = [demo_move ''gate'' Eligible Completed, demo_move ''ship'' Blocked Eligible,
                   demo_bind ''ship'' ''r2'', demo_move ''ship'' Eligible Running,
                   demo_move ''ship'' Running Completed]"

definition shows_state :: "wstatus result \<Rightarrow> node_state \<Rightarrow> string \<Rightarrow> node_state \<Rightarrow> bool" where
  "shows_state r q nid p =
     (case r of Inl _ \<Rightarrow> False
      | Inr w \<Rightarrow> ws_state w = q \<and> (\<exists>x \<in> set (ws_nodes w). st_id x = nid \<and> st_state x = p))"

lemma demo_history:
  "shows_state (reconstruct_workflow_status demo_ext demo_json demo_built) Eligible ''gate'' Eligible"
  "shows_state (reconstruct_workflow_status demo_ext demo_json demo_built) Eligible ''build'' Completed"
  "shows_state (reconstruct_workflow_status demo_ext demo_json (demo_built @ demo_shipped)) Completed ''ship'' Completed"
  "snapshot_deps demo_snapshot ''gate'' = [''build'']"
  by code_simp+

lemma demo_built_status:
  obtains w x y where "reconstruct_workflow_status demo_ext demo_json demo_built = Inr w"
    "x \<in> set (ws_nodes w)" "st_id x = ''gate''" "st_state x = Eligible"
    "y \<in> set (ws_nodes w)" "st_id y = ''build''" "st_state y = Completed"
  using demo_history(1,2) by (auto simp: shows_state_def split: sum.splits)

lemma demo_shipped_status:
  obtains w where "reconstruct_workflow_status demo_ext demo_json (demo_built @ demo_shipped) = Inr w"
    "ws_state w = Completed"
  using demo_history(3) by (auto simp: shows_state_def split: sum.splits)

theorem status_respects_dependencies_witness:
  "\<exists>w. reconstruct_workflow_status demo_ext demo_json demo_built = Inr w
     \<and> (\<exists>y \<in> set (ws_nodes w). st_id y = ''build'' \<and> st_state y = Completed)"
proof -
  obtain w x where w: "reconstruct_workflow_status demo_ext demo_json demo_built = Inr w"
    "x \<in> set (ws_nodes w)" "st_id x = ''gate''" "st_state x = Eligible"
    by (rule demo_built_status)
  from status_respects_dependencies [OF demo_normal w(1,2), of "''build''"] w demo_history(4)
  show ?thesis by (simp add: started_def)
qed


theorem completed_node_final_witness:
  "\<exists>w w' x. reconstruct_workflow_status demo_ext demo_json demo_built = Inr w
     \<and> reconstruct_workflow_status demo_ext demo_json (demo_built @ demo_shipped) = Inr w'
     \<and> x \<in> set (ws_nodes w) \<and> st_id x = ''build'' \<and> x \<in> set (ws_nodes w')"
proof -
  obtain w x where w: "reconstruct_workflow_status demo_ext demo_json demo_built = Inr w"
    "x \<in> set (ws_nodes w)" "st_id x = ''build''" "st_state x = Completed"
    by (rule demo_built_status)
  obtain w' where w': "reconstruct_workflow_status demo_ext demo_json (demo_built @ demo_shipped) = Inr w'"
    by (rule demo_shipped_status)
  from completed_node_final [OF w(1) w' w(2,4)] w w' show ?thesis by blast
qed

theorem completed_workflow_closed_witness:
  "\<exists>e. reconstruct_workflow_status demo_ext demo_json
         ((demo_built @ demo_shipped) @ [demo_move ''build'' Completed Blocked]) = Inl e"
proof -
  obtain w' where w': "reconstruct_workflow_status demo_ext demo_json (demo_built @ demo_shipped) = Inr w'"
    "ws_state w' = Completed"
    by (rule demo_shipped_status)
  from completed_workflow_closed [OF w', of "[demo_move ''build'' Completed Blocked]"] show ?thesis by simp
qed

end
