(* ===== verification/Workflow_Journal.thy ===== *)
theory Workflow_Journal
  imports Workflow_Replay
begin

text \<open>
  The workflow event journal on disk: the functions of \<open>workflow.py\<close> that append to and read
  \<open>workflow-events.jsonl\<close>, on top of the journal primitives. The theorems connect the file to
  the replay: what was appended is what a later reconstruction replays, after everything that
  was there before.
\<close>

subsection \<open>The event journal\<close>

text \<open>
  \<open>workflow-events.jsonl\<close>: records are validated against the event schema and numbered from 1.
  \<open>now\<close> is the reading of the clock in the call.
\<close>

definition validate_workflow_event_record :: "ext \<Rightarrow> json \<Rightarrow> nat \<Rightarrow> json result" where
  "validate_workflow_event_record X v line_number =
     bindE (raise_if (\<not> is_obj v)
             (''workflow event at line '' @ int_str (int line_number) @ '' must be an object'')) (\<lambda>_.
     bindE (validate_instance X v WORKFLOW_EVENT_SCHEMA
             (''workflow event:'' @ int_str (int line_number))) (\<lambda>_.
     bindE (raise_if (\<not> py_eq (jget v ''sequence'') (JInt (int line_number)))
             (''workflow event sequence mismatch at line '' @ int_str (int line_number)
              @ '': expected '' @ int_str (int line_number))) (\<lambda>_.
     Inr v)))"

definition workflow_cfg :: "string \<Rightarrow> jcfg" where
  "workflow_cfg path = default_cfg path (Some ''sequence'')"

definition ensure_workflow_events_file :: "string \<Rightarrow> slot \<Rightarrow> slot \<times> unit result" where
  "ensure_workflow_events_file path f =
     (case locked_file True path f of (f', r) \<Rightarrow> (f', bindE r (\<lambda>_. Inr ())))"

definition stamp_event :: "string \<Rightarrow> nat \<Rightarrow> json \<Rightarrow> json" where
  "stamp_event now sequence event =
     (let e1 = jset ''schema'' (JStr WORKFLOW_EVENT_SCHEMA) event;
          e2 = jset ''sequence'' (JInt (int sequence)) e1 in
      if jhas e2 ''timestamp'' then e2 else jset ''timestamp'' (JStr now) e2)"

definition append_workflow_event ::
  "ext \<Rightarrow> string \<Rightarrow> string \<Rightarrow> json \<Rightarrow> slot \<Rightarrow> slot \<times> json result" where
  "append_workflow_event X path now event f =
     (case ensure_workflow_events_file path f of
        (f', Inl e) \<Rightarrow> (f', Inl e)
      | (f', Inr _) \<Rightarrow>
          transact_jsonl (workflow_cfg path) (validate_workflow_event_record X)
            (stamped (validate_workflow_event_record X) (\<lambda>n. stamp_event now n event)) f')"

definition read_workflow_events :: "ext \<Rightarrow> string \<Rightarrow> slot \<Rightarrow> json list result" where
  "read_workflow_events X path f =
     read_jsonl (workflow_cfg path) False (validate_workflow_event_record X) f"

definition binding_event ::
  "string \<Rightarrow> string \<Rightarrow> string \<Rightarrow> string \<Rightarrow> int \<Rightarrow> string \<Rightarrow> string \<Rightarrow> string \<Rightarrow> string option \<Rightarrow> bool \<Rightarrow> json result" where
  "binding_event now wid nid rid att actor reason digest retry cur =
     bindE (validate_id wid ''workflow ID'') (\<lambda>wid'.
     bindE (validate_id nid ''workflow node ID'') (\<lambda>nid'.
     bindE (validate_id rid ''Agent Run ID'') (\<lambda>rid'.
     bindE (case retry of None \<Rightarrow> Inr None
            | Some p \<Rightarrow> bindE (validate_id p ''retry run ID'') (\<lambda>p'. Inr (Some p'))) (\<lambda>retry'.
     Inr (JObj [(''workflow_id'', JStr wid'), (''snapshot_sha256'', JStr digest),
                (''kind'', JStr ''node-bound''), (''node_id'', JStr nid'), (''actor'', JStr actor),
                (''reason'', JStr reason),
                (''binding'', JObj [(''agent_run_id'', JStr rid'), (''attempt'', JInt att),
                                    (''retry_of_agent_run_id'', opt_str retry'),
                                    (''bound_at'', JStr now), (''current'', JBool cur)])])))))"

definition transition_event ::
  "string \<Rightarrow> string \<Rightarrow> string \<Rightarrow> string \<Rightarrow> string \<Rightarrow> node_state \<Rightarrow> node_state \<Rightarrow> json option \<Rightarrow> json result" where
  "transition_event wid nid actor reason digest previous_state next_state details =
     bindE (validate_id wid ''workflow ID'') (\<lambda>wid'.
     bindE (validate_id nid ''workflow node ID'') (\<lambda>nid'.
     Inr (JObj [(''workflow_id'', JStr wid'), (''snapshot_sha256'', JStr digest),
                (''kind'', JStr ''node-transition''), (''node_id'', JStr nid'), (''actor'', JStr actor),
                (''reason'', JStr reason), (''previous_state'', JStr (state_str previous_state)),
                (''next_state'', JStr (state_str next_state)),
                (''details'', (case details of None \<Rightarrow> JNull | Some d \<Rightarrow> d))])))"

text \<open>The two recorders: build the event, then append it.\<close>

definition record_event :: "ext \<Rightarrow> string \<Rightarrow> string \<Rightarrow> json result \<Rightarrow> slot \<Rightarrow> slot \<times> json result" where
  "record_event X path now event f =
     (case event of Inl e \<Rightarrow> (f, Inl e) | Inr ev \<Rightarrow> append_workflow_event X path now ev f)"

definition record_workflow_binding where
  "record_workflow_binding X path now wid nid rid att actor reason digest retry cur f =
     record_event X path now (binding_event now wid nid rid att actor reason digest retry cur) f"

definition record_workflow_transition where
  "record_workflow_transition X path now wid nid actor reason digest previous_state next_state details f =
     record_event X path now (transition_event wid nid actor reason digest previous_state next_state details) f"

definition reconstruct_from_file :: "ext \<Rightarrow> json \<Rightarrow> string \<Rightarrow> slot \<Rightarrow> wstatus result" where
  "reconstruct_from_file X j path f =
     bindE (normalize_snapshot X j) (\<lambda>norm.
     bindE (read_workflow_events X path f) (\<lambda>events.
     reconstruct_workflow_status X (snapshot_json norm) events))"

subsection \<open>The file only grows\<close>

lemma ensure_keeps:
  "slot_bytes (fst (ensure_workflow_events_file path f)) = slot_bytes f"
  by (cases f rule: slot_cases)
    (simp_all add: ensure_workflow_events_file_def locked_file_def slot_bytes_def)

lemma append_workflow_event_cases:
  obtains (unopened) e where "append_workflow_event X path now event f
      = (fst (ensure_workflow_events_file path f), Inl e)"
  | (opened) T where "append_workflow_event X path now event f
      = transact_jsonl (workflow_cfg path) (validate_workflow_event_record X) T
          (fst (ensure_workflow_events_file path f))"
  by (cases "ensure_workflow_events_file path f"; cases "snd (ensure_workflow_events_file path f)")
    (auto simp: append_workflow_event_def)

interpretation wj: append_only_log slot_bytes
  "\<lambda>(now, event) f. append_workflow_event X path now event f" for X path
proof (unfold_locales, goal_cases)
  case (1 op f e)
  obtain now event where op: "op = (now, event)" by (cases op)
  let ?f = "fst (ensure_workflow_events_file path f)"
  show ?case
  proof (cases rule: append_workflow_event_cases [of X path now event f])
    case (unopened e)
    then show ?thesis by (simp add: op ensure_keeps)
  next
    case (opened T)
    with 1 jb.step_err [of "validate_workflow_event_record X" "(workflow_cfg path, T)" ?f e]
    show ?thesis by (simp add: op ensure_keeps)
  qed
next
  case (2 op f b)
  obtain now event where op: "op = (now, event)" by (cases op)
  let ?f = "fst (ensure_workflow_events_file path f)"
  show ?case
  proof (cases rule: append_workflow_event_cases [of X path now event f])
    case (unopened e)
    with 2 show ?thesis by (simp add: op)
  next
    case (opened T)
    with 2 jb.step_ok [of "validate_workflow_event_record X" "(workflow_cfg path, T)" ?f b]
    show ?thesis by (simp add: op ensure_keeps)
  qed
qed

subsection \<open>Reading back an appended event\<close>

text \<open>The schema validator looks keys up; the order in which a dict holds them is irrelevant to it.\<close>

definition order_blind :: "ext \<Rightarrow> string \<Rightarrow> bool" where
  "order_blind X schema \<longleftrightarrow> (\<forall>v. plain v \<longrightarrow> schema_errors X schema (canon v) = schema_errors X schema v)"

lemma validate_workflow_event_record_Inr:
  "validate_workflow_event_record X v n = Inr u \<longleftrightarrow>
     u = v \<and> is_obj v \<and> schema_errors X WORKFLOW_EVENT_SCHEMA v = [] \<and> py_eq (jget v ''sequence'') (JInt (int n))"
  by (auto simp: validate_workflow_event_record_def)

interpretation wn: numbered_journal "workflow_cfg path" "validate_workflow_event_record X" for path X
  by unfold_locales (auto simp: workflow_cfg_def default_cfg_def validate_workflow_event_record_Inr)

lemma stamp_event_simps [simp]:
  "is_obj (stamp_event now n e)" "jget (stamp_event now n e) ''sequence'' = JInt (int n)"
  "jget (stamp_event now n e) ''schema'' = JStr WORKFLOW_EVENT_SCHEMA"
  by (simp_all add: stamp_event_def Let_def)

lemma stamp_event_other:
  "k \<notin> {''schema'', ''sequence'', ''timestamp''} \<Longrightarrow> jget (stamp_event now n e) k = jget e k"
  by (simp add: stamp_event_def Let_def)

lemma read_workflow_events_Inr:
  assumes "read_workflow_events X path f = Inr events"
  shows "read_jsonl (workflow_cfg path) True (validate_workflow_event_record X) f = Inr events"
    and "f = Some (Regular (slot_bytes f) 1)"
  using assms
  by (cases f rule: slot_cases;
      auto simp: read_workflow_events_def read_jsonl_def read_bytes_def locked_file_def slot_bytes_def
        split: if_splits)+

lemma append_workflow_event_open:
  assumes "f = Some (Regular (slot_bytes f) 1)"
  shows "append_workflow_event X path now event f =
     transact_jsonl (workflow_cfg path) (validate_workflow_event_record X)
       (stamped (validate_workflow_event_record X) (\<lambda>n. stamp_event now n event)) f"
proof -
  have "ensure_workflow_events_file path f = (f, Inr ())"
    by (subst (1 2) assms) (simp add: ensure_workflow_events_file_def locked_file_def)
  then show ?thesis by (simp add: append_workflow_event_def)
qed

lemma append_workflow_event_Inr:
  assumes "read_workflow_events X path f = Inr events"
    and "append_workflow_event X path now event f = (f', Inr v)"
    and "plain v" and "utf8_valid (dumps False v)" and "order_blind X WORKFLOW_EVENT_SCHEMA"
  shows "v = stamp_event now (length events + 1) event"
    and "read_workflow_events X path f' = Inr (events @ [canon v])"
proof -
  let ?V = "validate_workflow_event_record X"
  note rd = read_workflow_events_Inr [OF assms(1)]
  have tr: "transact_jsonl (workflow_cfg path) ?V (stamped ?V (\<lambda>n. stamp_event now n event)) f = (f', Inr v)"
    using assms(2) append_workflow_event_open [OF rd(2)] by simp
  note dec = wn.stamped_decision [OF rd(1) tr]
  show v: "v = stamp_event now (length events + 1) event" by (rule dec(1))
  have "?V (canon v) (length events + 1) = Inr (canon v)"
    using dec(2) assms(3,5) v
    by (simp add: validate_workflow_event_record_Inr jget_canon order_blind_def)
  moreover have "jget v ''sequence'' = JInt (int (length events + 1))" unfolding v by simp
  ultimately have "read_jsonl (workflow_cfg path) True ?V f' = Inr (events @ [canon v])"
    using wn.stamped_read_back [OF rd(1) tr assms(3,4)] by blast
  moreover have "f' \<noteq> None" using dec(4) by (metis option.distinct(1))
  ultimately show "read_workflow_events X path f' = Inr (events @ [canon v])"
    by (simp add: read_workflow_events_def read_jsonl_exists)
qed

text \<open>
  C28. An appended workflow event is replayed last and changes nothing before it: after a
  successful append to a readable journal, reconstruction from the file replays the earlier
  events in order and then the new one, numbered next.
\<close>

theorem append_then_reconstruct:
  assumes "read_workflow_events X path f = Inr events"
    and "append_workflow_event X path now event f = (f', Inr v)"
    and "plain v" and "utf8_valid (dumps False v)" and "order_blind X WORKFLOW_EVENT_SCHEMA"
    and "normalize_snapshot X j = Inr s"
  shows "jget v ''sequence'' = JInt (int (length events) + 1)
    \<and> reconstruct_from_file X j path f' =
        reconstruct_workflow_status X (snapshot_json s) (events @ [canon v])"
  using append_workflow_event_Inr [OF assms(1-5)] assms(6)
  by (simp add: reconstruct_from_file_def)

text \<open>
  The event file is append-only: whatever sequence of appends is attempted, and however many
  of them are rejected, the bytes the file held before stay its first bytes.
\<close>

theorem workflow_events_append_only:
  "take (length (slot_bytes f))
     (slot_bytes (run_ops (\<lambda>(now, event). append_workflow_event X path now event) ops f)) = slot_bytes f"
  by (rule wj.run_take)

theorem append_then_reconstruct_witness:
  "\<exists>f' v. append_workflow_event demo_ext ''e'' ''t'' (demo_bind ''build'' ''r1'') (Some (Regular [] 1)) = (f', Inr v)
     \<and> reconstruct_from_file demo_ext demo_json ''e'' f' =
         reconstruct_workflow_status demo_ext (snapshot_json demo_snapshot) ([] @ [canon v])"
proof -
  let ?f = "Some (Regular [] 1)" and ?ev = "demo_bind ''build'' ''r1''"
  let ?v = "stamp_event ''t'' 1 ?ev"
  have t: "plain ?v" "ascii_json ?v" "length (canonical_json_line ?v) \<le> 400"
    "validate_workflow_event_record demo_ext ?v 1 = Inr ?v" by code_simp+
  have sb: "slot_bytes ?f = []" "?f = Some (Regular (slot_bytes ?f) 1)" by (simp_all add: slot_bytes_def)
  have cfg: "max_record_bytes (workflow_cfg ''e'') = 131072" "max_bytes (workflow_cfg ''e'') = 33554432"
    "max_records (workflow_cfg ''e'') = None"
    by (simp_all add: workflow_cfg_def default_cfg_def DEFAULT_MAX_RECORD_BYTES_def DEFAULT_MAX_JOURNAL_BYTES_def)
  have "decode_jsonl (workflow_cfg ''e'') (validate_workflow_event_record demo_ext) [] = Inr []"
    by (simp add: decode_jsonl_def splitlines_def)
  then have rT: "read_jsonl (workflow_cfg ''e'') True (validate_workflow_event_record demo_ext) ?f = Inr []"
    using read_regular [of "[]" "workflow_cfg ''e''" True "validate_workflow_event_record demo_ext"] by simp
  then have rd: "read_workflow_events demo_ext ''e'' ?f = Inr []"
    by (simp add: read_workflow_events_def read_jsonl_exists)
  from wn.stamped_returns [OF rT, of "\<lambda>n. stamp_event ''t'' n ?ev" ?v] t(3,4)
  obtain f' where ap: "append_workflow_event demo_ext ''e'' ''t'' ?ev ?f = (f', Inr ?v)"
    by (simp add: append_workflow_event_open [OF sb(2)] cfg sb(1) One_nat_def [symmetric] del: One_nat_def)
  have "order_blind demo_ext WORKFLOW_EVENT_SCHEMA" by (simp add: order_blind_def demo_ext_def)
  from append_then_reconstruct [OF rd ap t(1) utf8_valid_dumps [OF t(1,2)] this demo_normal] ap
  show ?thesis by auto
qed

end
