(* ===== verification/Input_Bindings.thy ===== *)
theory Input_Bindings
  imports Acceptance Workflow_Journal
begin

text \<open>
  \<open>bindings.py\<close>: the inputs of a workflow node, selected by JSON Pointers from the sealed
  results of its predecessors and frozen in a read-only artifact per attempt. Also
  \<open>contracts.read_contract\<close> and \<open>path.read_regular_file\<close>, which read that artifact, and the
  state of a workflow run directory with the agent runs beside it.
\<close>

subsection \<open>Reading contracts\<close>

definition MAX_VALIDATED_FILE_BYTES :: nat where
  "MAX_VALIDATED_FILE_BYTES = 64 * 1024 * 1024"

definition read_regular_file :: "string \<Rightarrow> rentry option \<Rightarrow> string result" where
  "read_regular_file path entry =
     (case entry of
        Some (RFile data links _) \<Rightarrow>
          bindE (raise_if (links \<noteq> 1) (''rejected hard-linked file: '' @ path)) (\<lambda>_.
          bindE (raise_if (MAX_VALIDATED_FILE_BYTES < length data) (''file exceeds validation limit: '' @ path)) (\<lambda>_.
          Inr data))
      | Some RDir \<Rightarrow> Inl (WorkflowError (''rejected non-regular file: '' @ path))
      | Some RSpecial \<Rightarrow> Inl (WorkflowError (''rejected non-regular file: '' @ path))
      | _ \<Rightarrow> Inl (WorkflowError (''cannot open regular file without following links: '' @ path)))"

text \<open>\<open>dir\<close> and \<open>name\<close> make up the path; \<open>entry\<close> is what it names.\<close>

definition read_contract :: "ext \<Rightarrow> string \<Rightarrow> string \<Rightarrow> rentry option \<Rightarrow> string option \<Rightarrow> json result" where
  "read_contract X dir name entry expected_schema =
     (let path = dir @ ''/'' @ name in
      case read_regular_file path entry of
        Inl e \<Rightarrow> Inl (WorkflowError (''cannot read contract '' @ name))
      | Inr data \<Rightarrow>
          bindE (raise_if (\<not> utf8_valid data) (''cannot read contract '' @ name)) (\<lambda>_.
          (case loads data of
             None \<Rightarrow> Inl (WorkflowError (''invalid JSON in '' @ name))
           | Some v \<Rightarrow>
               bindE (raise_if (\<not> is_obj v) (''contract must be a JSON object: '' @ path)) (\<lambda>_.
               bindE (raise_if (\<not> is_str (jget v ''schema'')) (''contract missing string schema: '' @ path)) (\<lambda>_.
               (let schema_id = str_of (jget v ''schema'') in
               bindE (case expected_schema of
                        None \<Rightarrow> Inr ()
                      | Some s \<Rightarrow> raise_if (schema_id \<noteq> s)
                          (''unexpected contract schema in '' @ path @ '': '' @ schema_id @ ''; expected '' @ s)) (\<lambda>_.
               bindE (validate_instance X v schema_id path) (\<lambda>_.
               Inr v))))))))"

subsection \<open>The state of a workflow run\<close>

text \<open>
  A workflow run directory: its path, its event journal and the files below \<open>bindings/\<close>; and
  the agent runs by identifier. A run that does not exist reads as an empty directory.
\<close>

record world =
  w_dir :: string
  w_events :: slot
  w_bindings :: "(string \<times> rentry) list"
  w_runs_root :: string
  w_runs :: "(string \<times> rundir) list"

definition run_at :: "world \<Rightarrow> string \<Rightarrow> rundir" where
  "run_at W rid =
     (case map_of (w_runs W) rid of
        Some d \<Rightarrow> d
      | None \<Rightarrow> \<lparr>run_name = rid, run_path = w_runs_root W @ ''/'' @ rid, tree = [], lifecycle_log = None\<rparr>)"

definition agent_run_dir :: "world \<Rightarrow> string \<Rightarrow> rundir result" where
  "agent_run_dir W rid = bindE (validate_id rid ''agent run ID'') (\<lambda>r. Inr (run_at W r))"

subsection \<open>JSON Pointers\<close>

fun decode_token :: "string \<Rightarrow> string result" where
  "decode_token [] = Inr []"
| "decode_token (c # cs) =
     (if c \<noteq> CHR ''~'' then bindE (decode_token cs) (\<lambda>r. Inr (c # r))
      else (case cs of
              d # ds \<Rightarrow>
                if d = CHR ''0'' then bindE (decode_token ds) (\<lambda>r. Inr (CHR ''~'' # r))
                else if d = CHR ''1'' then bindE (decode_token ds) (\<lambda>r. Inr (CHR ''/'' # r))
                else Inl (WorkflowError ''JSON Pointer contains an invalid escape'')
            | [] \<Rightarrow> Inl (WorkflowError ''JSON Pointer contains an invalid escape'')))"

text \<open>One reference token; \<open>None\<close> is the marker \<open>_MISSING\<close>.\<close>

definition pointer_step :: "json \<Rightarrow> string \<Rightarrow> json option" where
  "pointer_step v token =
     (case v of
        JObj kvs \<Rightarrow> map_of kvs token
      | JList xs \<Rightarrow>
          if token = ''-'' \<or> token = [] \<or> \<not> list_all is_digit token then None
          else if 1 < length token \<and> startswith token ''0'' then None
          else if length xs \<le> digits_val token then None
          else Some (xs ! digits_val token)
      | _ \<Rightarrow> None)"

fun pointer_walk :: "json \<Rightarrow> string list \<Rightarrow> json option result" where
  "pointer_walk v [] = Inr (Some v)"
| "pointer_walk v (raw # raws) =
     bindE (decode_token raw) (\<lambda>token.
     (case pointer_step v token of None \<Rightarrow> Inr None | Some w \<Rightarrow> pointer_walk w raws))"

definition resolve_json_pointer :: "json \<Rightarrow> string \<Rightarrow> json option result" where
  "resolve_json_pointer document ptr =
     (case ptr of
        [] \<Rightarrow> Inr (Some document)
      | c # rest \<Rightarrow>
          if c \<noteq> CHR ''/'' then Inl (WorkflowError (''JSON Pointer must be empty or start with '' @ str_repr ''/''))
          else pointer_walk document (split_on (CHR ''/'') rest))"

subsection \<open>Predecessors\<close>

text \<open>
  The work list of \<open>_ancestor_nodes\<close>: \<open>pending\<close> is held with its end first, so \<open>pop()\<close> takes
  the head. A name that is no node of the graph raises \<open>KeyError\<close>.
\<close>

function ancestor_loop :: "graph \<Rightarrow> string list \<Rightarrow> string list \<Rightarrow> string list result" where
  "ancestor_loop g found [] = Inr found"
| "ancestor_loop g found (current # pending) =
     (if current \<in> set found then ancestor_loop g found pending
      else (case map_of g current of
              None \<Rightarrow> Inl (KeyError current)
            | Some deps \<Rightarrow> ancestor_loop g (current # found) (rev deps @ pending)))"
  by pat_completeness auto
termination
proof (relation "measures [\<lambda>(g, found, _). card (dom (map_of g) - set found), \<lambda>(_, _, pending). length pending]",
    goal_cases)
  case (3 g found current pending deps)
  then have "dom (map_of g) - set (current # found) \<subset> dom (map_of g) - set found" by auto
  then have "card (dom (map_of g) - set (current # found)) < card (dom (map_of g) - set found)"
    by (intro psubset_card_mono) (simp_all add: finite_dom_map_of)
  then show ?case by simp
qed simp_all

definition ancestor_nodes :: "graph \<Rightarrow> string \<Rightarrow> string list result" where
  "ancestor_nodes g nid =
     (case map_of g nid of
        None \<Rightarrow> Inl (KeyError nid)
      | Some deps \<Rightarrow> ancestor_loop g [] (rev deps))"

subsection \<open>The sealed result of a run\<close>

fun contains :: "string \<Rightarrow> string \<Rightarrow> bool" where
  "contains [] p = startswith [] p"
| "contains (c # s) p = (startswith (c # s) p \<or> contains s p)"

text \<open>
  The collection receipt, if it could be read. Any \<open>WorkflowError\<close> whose text mentions
  \<open>task-result.json\<close> counts as a run without one; a value that was read stays bound even when
  the check of its status then raises such an error.
\<close>

definition read_collection :: "ext \<Rightarrow> rundir \<Rightarrow> json \<Rightarrow> json option result" where
  "read_collection X d receipt =
     (case read_sealed_contract X d receipt ''collections/task-result.json''
             ''agent-workflow/task-result-collection/v1'' of
        Inl e \<Rightarrow>
          if is_WorkflowError e \<and> contains (error_text e) ''task-result.json'' then Inr None else Inl e
      | Inr (collection, _) \<Rightarrow>
          (let msg = ''source run has no valid task result: '' @ run_name d in
           if jget collection ''validation_status'' \<noteq> JStr ''valid'' \<and> \<not> contains msg ''task-result.json''
           then Inl (WorkflowError msg) else Inr (Some collection)))"

definition read_sealed_result :: "ext \<Rightarrow> rundir \<Rightarrow> (json \<times> string \<times> string) result" where
  "read_sealed_result X d =
     bindE (verify_seal_details X d None) (\<lambda>(receipt, sealed_sha).
     bindE (raise_if (jget receipt ''agent_run_id'' \<noteq> JStr (run_name d))
             (''source final receipt belongs to another run: '' @ run_name d)) (\<lambda>_.
     bindE (read_collection X d receipt) (\<lambda>collection.
     bindE (read_sealed_json X d receipt ''result.json'') (\<lambda>(document, dig).
     bindE (raise_if (case collection of None \<Rightarrow> False | Some c \<Rightarrow> jget c ''stored_sha256'' \<noteq> JStr dig)
             (''source task-result collection digest mismatch: '' @ run_name d)) (\<lambda>_.
     Inr (document, dig, sealed_sha))))))"

subsection \<open>Selecting and freezing the inputs\<close>

definition WORKFLOW_INPUT_BINDINGS_SCHEMA :: string where
  "WORKFLOW_INPUT_BINDINGS_SCHEMA = ''agent-workflow/workflow-input-bindings/v1''"

definition MAX_TOTAL_BINDING_BYTES :: nat where
  "MAX_TOTAL_BINDING_BYTES = 4 * 1024 * 1024"

definition input_canonical :: "json \<Rightarrow> string" where
  "input_canonical v = dumps True v"

definition node_status_of :: "wstatus \<Rightarrow> string \<Rightarrow> node_status option" where
  "node_status_of w nid = List.find (\<lambda>x. st_id x = nid) (rev (ws_nodes w))"

text \<open>One binding: the record it produces and the size of its canonical value.\<close>

definition resolve_binding ::
  "ext \<Rightarrow> world \<Rightarrow> string list \<Rightarrow> wstatus \<Rightarrow> string \<times> input_binding \<Rightarrow> (json \<times> nat) result" where
  "resolve_binding X W ancestors w decl =
     (case decl of (name, b) \<Rightarrow>
     bindE (raise_if (source_node_id b \<notin> set ancestors)
             (''input binding '' @ name @ '' may reference only a predecessor node'')) (\<lambda>_.
     (case node_status_of w (source_node_id b) of
        None \<Rightarrow> Inl (WorkflowError (''input binding source is not completed: '' @ source_node_id b))
      | Some src \<Rightarrow>
          bindE (raise_if (st_state src \<noteq> Completed)
                  (''input binding source is not completed: '' @ source_node_id b)) (\<lambda>_.
          (case st_run src of
             None \<Rightarrow> Inl (WorkflowError (''input binding source has no bound run: '' @ source_node_id b))
           | Some rid \<Rightarrow>
               bindE (agent_run_dir W rid) (\<lambda>d.
               bindE (read_sealed_result X d) (\<lambda>(document, result_digest, final_digest).
               bindE (resolve_json_pointer document (pointer b)) (\<lambda>found.
               bindE (raise_if (found = None \<and> required b)
                       (''required input binding '' @ name @ '' is missing at pointer '' @ str_repr (pointer b))) (\<lambda>_.
               (let selected = (case found of None \<Rightarrow> JNull | Some v \<Rightarrow> v);
                    encoded = input_canonical selected in
               bindE (raise_if (max_input_bytes b < int (length encoded))
                       (''input binding '' @ name @ '' exceeds its '' @ int_str (max_input_bytes b) @ ''-byte limit'')) (\<lambda>_.
               Inr (JObj [(''name'', JStr name), (''source_node_id'', JStr (source_node_id b)),
                          (''source_run_id'', JStr rid), (''pointer'', JStr (pointer b)),
                          (''required'', JBool (required b)), (''present'', JBool (found \<noteq> None)),
                          (''value'', selected), (''value_size_bytes'', JInt (int (length encoded))),
                          (''value_sha256'', JStr (sha256 X encoded)),
                          (''source_result_sha256'', JStr result_digest),
                          (''source_final_receipt_sha256'', JStr final_digest)],
                    length encoded)))))))))))) "

fun resolve_bindings ::
  "ext \<Rightarrow> world \<Rightarrow> string list \<Rightarrow> wstatus \<Rightarrow> nat \<Rightarrow> (string \<times> input_binding) list \<Rightarrow> json list result" where
  "resolve_bindings X W ancestors w sofar [] = Inr []"
| "resolve_bindings X W ancestors w sofar (decl # decls) =
     bindE (resolve_binding X W ancestors w decl) (\<lambda>(rec, size).
     bindE (raise_if (MAX_TOTAL_BINDING_BYTES < sofar + size)
             (''workflow input bindings exceed '' @ int_str (int MAX_TOTAL_BINDING_BYTES) @ '' bytes'')) (\<lambda>_.
     bindE (resolve_bindings X W ancestors w (sofar + size) decls) (\<lambda>recs. Inr (rec # recs))))"

fun node_inputs :: "node_kind \<Rightarrow> (string \<times> input_binding) list" where
  "node_inputs (Task t) = input_bindings t"
| "node_inputs (Approval _) = []"

record resolved_inputs =
  ri_artifact :: json
  ri_path :: string
  ri_sha256 :: string

definition input_artifact :: "ext \<Rightarrow> snapshot \<Rightarrow> wnode \<Rightarrow> int \<Rightarrow> json list \<Rightarrow> json result" where
  "input_artifact X s n attempt records =
     bindE (snapshot_sha256 X (snapshot_json s)) (\<lambda>dig.
     Inr (JObj [(''schema'', JStr WORKFLOW_INPUT_BINDINGS_SCHEMA), (''workflow_id'', JStr (workflow_id s)),
                (''snapshot_sha256'', JStr dig), (''node_id'', JStr (node_id n)), (''attempt'', JInt attempt),
                (''bindings'', JList records)]))"

definition binding_file :: "wnode \<Rightarrow> int \<Rightarrow> string" where
  "binding_file n attempt = node_id n @ ''-attempt-'' @ int_str attempt @ ''.json''"

definition existing_artifact :: "ext \<Rightarrow> string \<Rightarrow> string \<Rightarrow> json \<Rightarrow> rentry \<Rightarrow> resolved_inputs result" where
  "existing_artifact X dir name artifact entry =
     (let path = dir @ ''/'' @ name in
      case entry of
        RFile data _ writable \<Rightarrow>
          bindE (raise_if writable (''workflow input binding snapshot must be read-only: '' @ path)) (\<lambda>_.
          bindE (read_contract X dir name (Some entry) (Some WORKFLOW_INPUT_BINDINGS_SCHEMA)) (\<lambda>existing.
          bindE (raise_if (input_canonical (jpop ''created_at'' existing) \<noteq> input_canonical artifact)
                  (''workflow input binding snapshot already exists: '' @ path)) (\<lambda>_.
          Inr \<lparr>ri_artifact = existing, ri_path = path, ri_sha256 = sha256 X data\<rparr>)))
      | _ \<Rightarrow> Inl (WorkflowError (''workflow input binding snapshot is unsafe: '' @ path)))"

text \<open>\<open>path.exists()\<close> is false of a dangling link, which the atomic write then replaces.\<close>

definition freeze_inputs ::
  "ext \<Rightarrow> string \<Rightarrow> string \<Rightarrow> json \<Rightarrow> (world, resolved_inputs) op" where
  "freeze_inputs X now name artifact W =
     (let dir = w_dir W @ ''/bindings'';
          entry = map_of (w_bindings W) name in
      if entry \<noteq> None \<and> entry \<noteq> Some (RLink False)
      then (W, existing_artifact X dir name artifact (the entry))
      else
          (let stamped_artifact = jset ''created_at'' (JStr now) artifact in
           case validate_instance X stamped_artifact WORKFLOW_INPUT_BINDINGS_SCHEMA ''workflow input bindings'' of
             Inl e \<Rightarrow> (W, Inl e)
           | Inr _ \<Rightarrow>
               (let data = dumps_pretty 0 stamped_artifact @ [CHR 0x0A] in
                (W\<lparr>w_bindings := AList.update name (RFile data 1 False) (w_bindings W)\<rparr>,
                 Inr \<lparr>ri_artifact = stamped_artifact, ri_path = dir @ ''/'' @ name, ri_sha256 = sha256 X data\<rparr>))))"

definition resolve_node_inputs ::
  "ext \<Rightarrow> string \<Rightarrow> snapshot \<Rightarrow> wstatus \<Rightarrow> wnode \<Rightarrow> int \<Rightarrow> (world, resolved_inputs option) op" where
  "resolve_node_inputs X now s w n attempt W =
     (let declarations = node_inputs (kind n) in
      if declarations = [] then (W, Inr None)
      else
        (case bindE (ancestor_nodes (graph_of (nodes s)) (node_id n)) (\<lambda>ancestors.
              bindE (resolve_bindings X W ancestors w 0 (sort_key fst declarations)) (\<lambda>records.
              input_artifact X s n attempt records)) of
           Inl e \<Rightarrow> (W, Inl e)
         | Inr artifact \<Rightarrow>
             (case freeze_inputs X now (binding_file n attempt) artifact W of
                (W', Inl e) \<Rightarrow> (W', Inl e)
              | (W', Inr r) \<Rightarrow> (W', Inr (Some r)))))"

subsection \<open>Predecessors are the transitive dependencies\<close>

definition closed_graph :: "graph \<Rightarrow> bool" where
  "closed_graph g \<longleftrightarrow> (\<forall>(n, ds) \<in> set g. set ds \<subseteq> fst ` set g)"

lemma closed_graph_deps: "closed_graph g \<Longrightarrow> map_of g n = Some ds \<Longrightarrow> d \<in> set ds \<Longrightarrow> map_of g d \<noteq> None"
  by (auto simp: closed_graph_def map_of_eq_None_iff dest!: map_of_SomeD)

lemma ancestor_loop_sound:
  assumes "ancestor_loop g found pending = Inr out" and "set found \<union> set pending \<subseteq> T"
    and "\<forall>a b. a \<in> T \<longrightarrow> (a, b) \<in> depends g \<longrightarrow> b \<in> T"
  shows "set out \<subseteq> T"
  using assms
proof (induction g found pending rule: ancestor_loop.induct)
  case (2 g found current pending)
  show ?case
  proof (cases "current \<in> set found")
    case True
    with 2 show ?thesis by simp
  next
    case False
    with 2(3) obtain deps where d: "map_of g current = Some deps" by (auto split: option.splits)
    then have "set deps \<subseteq> T" using 2(4,5) by (auto simp: depends_def deps_of_def)
    with 2(2) [OF False d] 2(3-5) False d show ?thesis by simp
  qed
qed simp

lemma ancestor_loop_complete:
  assumes "closed_graph g" and "set pending \<subseteq> dom (map_of g)"
    and "\<forall>n \<in> set found. set (deps_of g n) \<subseteq> set found \<union> set pending" and "distinct found"
  shows "\<exists>out. ancestor_loop g found pending = Inr out \<and> set found \<union> set pending \<subseteq> set out
    \<and> (\<forall>n \<in> set out. set (deps_of g n) \<subseteq> set out) \<and> distinct out"
  using assms
proof (induction g found pending rule: ancestor_loop.induct)
  case (2 g found current pending)
  show ?case
  proof (cases "current \<in> set found")
    case True
    with 2(1) [OF True 2(3)] 2(4-6) show ?thesis by (simp add: insert_absorb)
  next
    case False
    with 2(4) obtain deps where d: "map_of g current = Some deps" by auto
    have "set (rev deps @ pending) \<subseteq> dom (map_of g)"
      using closed_graph_deps [OF 2(3) d] 2(4) by auto
    moreover have "\<forall>n \<in> set (current # found). set (deps_of g n) \<subseteq> set (current # found) \<union> set (rev deps @ pending)"
      using 2(5) d by (auto simp: deps_of_def)
    ultimately show ?thesis using 2(2) [OF False d 2(3)] 2(6) False d by simp blast
  qed
qed simp

lemma ancestor_nodes_reach:
  assumes "closed_graph g" and "map_of g nid \<noteq> None"
  shows "\<exists>l. ancestor_nodes g nid = Inr l \<and> distinct l \<and> set l = {a. (nid, a) \<in> (depends g)\<^sup>+}"
proof -
  obtain deps where d: "map_of g nid = Some deps" using assms(2) by blast
  have "set (rev deps) \<subseteq> dom (map_of g)" using closed_graph_deps [OF assms(1) d] by auto
  from ancestor_loop_complete [OF assms(1) this, of "[]"] obtain out where
    o: "ancestor_loop g [] (rev deps) = Inr out" "set deps \<subseteq> set out"
      "\<forall>n \<in> set out. set (deps_of g n) \<subseteq> set out" "distinct out"
    by auto
  have "a \<in> set out" if "(nid, a) \<in> (depends g)\<^sup>+" for a
    using that by induction (use o(2,3) d in \<open>auto simp: depends_def deps_of_def\<close>)
  moreover have "set out \<subseteq> {a. (nid, a) \<in> (depends g)\<^sup>+}"
    by (rule ancestor_loop_sound [OF o(1)])
      (use d in \<open>auto simp: depends_def deps_of_def intro: trancl_into_trancl\<close>)
  ultimately show ?thesis using o(1,4) d by (auto simp: ancestor_nodes_def)
qed

text \<open>
  The predecessors of a node are exactly its transitive dependencies: on a graph whose
  dependencies are all known, the work list ends and returns each of them once, for cyclic
  graphs too.
\<close>

theorem ancestor_nodes_correct:
  assumes "closed_graph g" and "map_of g nid \<noteq> None"
  shows "\<exists>l. ancestor_nodes g nid = Inr l \<and> distinct l \<and> set l = {a. (nid, a) \<in> (depends g)\<^sup>+}"
  using assms by (rule ancestor_nodes_reach)

theorem ancestor_nodes_correct_witness:
  "\<exists>l. ancestor_nodes [(''a'', []), (''b'', [''a'']), (''c'', [''b''])] ''c'' = Inr l
     \<and> set l = {x. (''c'', x) \<in> (depends [(''a'', []), (''b'', [''a'']), (''c'', [''b''])])\<^sup>+}"
  using ancestor_nodes_correct [of "[(''a'', []), (''b'', [''a'']), (''c'', [''b''])]" "''c''"]
  by (auto simp: closed_graph_def)

subsection \<open>Pointers select what they spell\<close>

text \<open>The RFC 6901 spelling of a path of reference tokens.\<close>

definition escape_token :: "string \<Rightarrow> string" where
  "escape_token t = concat (map (\<lambda>c. if c = CHR ''~'' then ''~0'' else if c = CHR ''/'' then ''~1'' else [c]) t)"

definition pointer_text :: "string list \<Rightarrow> string" where
  "pointer_text ts = concat (map (\<lambda>t. CHR ''/'' # escape_token t) ts)"

fun select_path :: "json \<Rightarrow> string list \<Rightarrow> json option" where
  "select_path v [] = Some v"
| "select_path v (t # ts) = (case pointer_step v t of None \<Rightarrow> None | Some w \<Rightarrow> select_path w ts)"

lemma decode_escape: "decode_token (escape_token t) = Inr t"
  by (induction t) (auto simp: escape_token_def)

lemma escape_no_slash: "CHR ''/'' \<notin> set (escape_token t)"
  by (auto simp: escape_token_def)

lemma split_on_plain: "c \<notin> set s \<Longrightarrow> split_on c s = [s]"
  by (induction s) auto

lemma split_on_sep: "c \<notin> set s \<Longrightarrow> split_on c (s @ c # r) = s # split_on c r"
  by (induction s) auto

lemma split_pointer:
  "split_on (CHR ''/'') (escape_token t @ pointer_text ts) = map escape_token (t # ts)"
proof (induction ts arbitrary: t)
  case Nil
  show ?case by (simp add: pointer_text_def split_on_plain escape_no_slash)
next
  case (Cons u ts)
  have "pointer_text (u # ts) = CHR ''/'' # escape_token u @ pointer_text ts" by (simp add: pointer_text_def)
  then show ?case using Cons [of u] split_on_sep [OF escape_no_slash, of t] by simp
qed

lemma walk_escape: "pointer_walk v (map escape_token ts) = Inr (select_path v ts)"
  by (induction ts arbitrary: v) (auto simp: decode_escape split: option.split)

text \<open>
  A JSON Pointer selects what it spells: the escaped spelling of any path of reference
  tokens resolves to the value that stepping through the document token by token finds, and to
  \<open>missing\<close> when a step finds none.
\<close>

theorem pointer_roundtrip:
  "resolve_json_pointer v (pointer_text ts) = Inr (select_path v ts)"
proof (cases ts)
  case Nil
  then show ?thesis by (simp add: resolve_json_pointer_def pointer_text_def)
next
  case (Cons t us)
  then have "pointer_text ts = CHR ''/'' # escape_token t @ pointer_text us" by (simp add: pointer_text_def)
  then show ?thesis
    using split_pointer [of t us] walk_escape [of v ts] Cons by (simp add: resolve_json_pointer_def)
qed

subsection \<open>Inputs come from completed predecessors\<close>

text \<open>A source that an input may be read from: a completed node whose current run is sealed.\<close>

definition sealed_source :: "ext \<Rightarrow> world \<Rightarrow> wstatus \<Rightarrow> string \<Rightarrow> bool" where
  "sealed_source X W w nid \<longleftrightarrow>
     (\<exists>src rid v. node_status_of w nid = Some src \<and> st_state src = Completed \<and> st_run src = Some rid
        \<and> read_sealed_result X (run_at W rid) = Inr v)"

definition record_size :: "json \<Rightarrow> nat" where
  "record_size rec = nat (int_of (jget rec ''value_size_bytes''))"

lemma resolve_binding_Inr:
  assumes "resolve_binding X W ancestors w (name, b) = Inr (rec, k)"
  shows "source_node_id b \<in> set ancestors \<and> sealed_source X W w (source_node_id b)
    \<and> record_size rec = k \<and> int k \<le> max_input_bytes b"
proof -
  from assms obtain src rid v found where
    "source_node_id b \<in> set ancestors" "node_status_of w (source_node_id b) = Some src" "st_state src = Completed"
    "st_run src = Some rid" "agent_run_dir W rid = Inr (run_at W rid)" "read_sealed_result X (run_at W rid) = Inr v"
    and r: "record_size rec = k" "int k \<le> max_input_bytes b"
    by (auto simp: resolve_binding_def Let_def agent_run_dir_def record_size_def jaccess
        split: option.splits prod.splits)
  then show ?thesis unfolding sealed_source_def by blast
qed

lemma resolve_bindings_Inr:
  assumes "resolve_bindings X W ancestors w sofar decls = Inr recs"
  shows "(\<forall>(name, b) \<in> set decls. source_node_id b \<in> set ancestors \<and> sealed_source X W w (source_node_id b))
    \<and> length recs = length decls
    \<and> (decls \<noteq> [] \<longrightarrow> sofar + sum_list (map record_size recs) \<le> MAX_TOTAL_BINDING_BYTES)"
  using assms
proof (induction decls arbitrary: sofar recs)
  case (Cons decl decls)
  obtain name b where [simp]: "decl = (name, b)" by (cases decl)
  from Cons.prems obtain rec k recs' where
    r: "resolve_binding X W ancestors w (name, b) = Inr (rec, k)" "sofar + k \<le> MAX_TOTAL_BINDING_BYTES"
    and rest: "resolve_bindings X W ancestors w (sofar + k) decls = Inr recs'" "recs = rec # recs'"
    by auto
  from resolve_binding_Inr [OF r(1)] Cons.IH [OF rest(1)] r(2) rest show ?case
    by (cases decls) auto
qed simp

lemma freeze_inputs_Inr:
  assumes "freeze_inputs X now name artifact W = (W', Inr r)"
  shows "ri_artifact r = jset ''created_at'' (JStr now) artifact
    \<or> input_canonical (jpop ''created_at'' (ri_artifact r)) = input_canonical artifact"
  using assms
  by (auto simp: freeze_inputs_def existing_artifact_def Let_def split: if_splits sum.splits rentry.splits)

lemma wf_closed_graph:
  assumes "wf_snapshot s"
  shows "closed_graph (graph_of (nodes s))"
proof -
  have "set (dependencies n) \<subseteq> node_id ` set (nodes s)" if "n \<in> set (nodes s)" for n
    using assms that by (simp add: wf_snapshot_def)
  then show ?thesis by (simp add: closed_graph_def graph_of_def image_image)
qed


subsection \<open>The collection receipt of a result\<close>

lemma startswith_extend: "startswith s p \<Longrightarrow> startswith (s @ t) p"
  by (induction s p rule: startswith.induct) auto

lemma contains_startswith: "startswith s p \<Longrightarrow> contains s p"
  by (cases s) auto

lemma contains_append_left: "contains s p \<Longrightarrow> contains (u @ s) p"
  by (induction u) auto

lemma contains_append_right: "contains s p \<Longrightarrow> contains (s @ t) p"
proof (induction s)
  case Nil
  then have "p = []" by (cases p) auto
  then show ?case by (cases t) simp_all
qed (auto dest: startswith_extend)

text \<open>
  A malformed collection receipt does not stop the use of a result: when the sealed
  \<open>collections/task-result.json\<close> is an object that violates its schema, whatever validation
  status it records, the result is read as if the run had no collection receipt at all.
\<close>

theorem malformed_collection_ignored:
  assumes "read_sealed_json X d receipt ''collections/task-result.json'' = Inr (c, h)" and "is_obj c"
    and "schema_errors X ''agent-workflow/task-result-collection/v1'' c \<noteq> []"
  shows "read_collection X d receipt = Inr None"
proof -
  let ?p = "run_path d @ ''/'' @ ''collections/task-result.json''"
  obtain m where v: "validate_instance X c ''agent-workflow/task-result-collection/v1'' ?p
      = Inl (WorkflowError (''invalid '' @ ?p @ m))"
    using assms(3) by (simp add: validate_instance_def Let_def)
  have "contains (''collections/'' @ ''task-result.json'') ''task-result.json''"
    by (intro contains_append_left contains_startswith) simp
  then have "contains ''collections/task-result.json'' ''task-result.json''" by simp
  then have "contains (''invalid '' @ ?p @ m) ''task-result.json''"
    by (intro contains_append_left contains_append_right) simp
  then show ?thesis
    using assms(1,2) v by (simp add: read_collection_def read_sealed_contract_def)
qed

subsection \<open>A concrete resolution\<close>

definition demo_world :: world where
  "demo_world = \<lparr>w_dir = ''/w'', w_events = None, w_bindings = [], w_runs_root = ''/runs'',
                 w_runs = [(''r1'', demo_with [] None)]\<rparr>"

definition demo_ship :: wnode where
  "demo_ship = nodes demo_snapshot ! 2"

definition demo_done :: wstatus where
  "demo_done = \<lparr>ws_workflow = ''w'', ws_digest = [], ws_count = 0, ws_state = Eligible,
     ws_nodes = [(initial_node (nodes demo_snapshot ! 0))\<lparr>st_state := Completed, st_run := Some ''r1''\<rparr>]\<rparr>"

lemma demo_result_read:
  "read_sealed_result seal_ext (demo_with [] None) = Inr (demo_result, dumps False demo_result, dumps False demo_receipt)"
proof -
  have n: "''collections/task-result.json'' \<notin> set demo_names" "''result.json'' \<in> set demo_names"
    by (simp_all add: demo_names_def SEALED_ARTIFACTS_def)
  have "artifact_entry demo_receipt ''collections/task-result.json''
      = Inl (WorkflowError (''final receipt is missing an artifact entry for '' @ ''collections/task-result.json''))"
    using n(1) by (auto simp: artifact_entry_def demo_artifacts filter_map comp_def filter_empty_conv
        split: list.split dest!: arg_cong [where f = set])
  moreover have "contains (''final receipt is missing an artifact entry for '' @ ''collections/task-result.json'') ''task-result.json''"
    by code_simp
  ultimately have c: "read_collection seal_ext (demo_with [] None) demo_receipt = Inr None"
    by (simp add: read_collection_def read_sealed_contract_def read_sealed_json_def read_sealed_artifact_bytes_def)
  have "map_of demo_table ''result.json'' = Some demo_result" by (simp add: demo_table_def)
  note r = demo_sealed_json [OF n(2) this]
  have "run_name (demo_with [] None) = ''r1''" by (simp add: demo_with_def)
  then show ?thesis
    using demo_verified [of None "[]" None] by (simp add: read_sealed_result_def c r)
qed

lemma demo_wf: "wf_snapshot demo_snapshot"
  using normalize_snapshot_Inr [OF demo_normal] by simp


theorem malformed_collection_ignored_witness:
  "\<exists>X d receipt. schema_errors X ''agent-workflow/task-result-collection/v1'' (JObj [(''validation_status'', JStr ''invalid'')]) \<noteq> []
     \<and> read_collection X d receipt = Inr None"
proof -
  let ?c = "JObj [(''validation_status'', JStr ''invalid'')]" and ?p = "''collections/task-result.json''"
  let ?X = "seal_ext\<lparr>schema_errors := \<lambda>_ _. [''$: bad'']\<rparr>"
  let ?d = "\<lparr>run_name = ''r1'', run_path = ''/runs/r1'',
    tree = [(''collections'', RDir), (?p, RFile (dumps False ?c) 1 False)], lifecycle_log = None\<rparr>"
  let ?receipt = "JObj [(''artifacts'', JList [JObj [(''path'', JStr ?p), (''sha256'', JStr (dumps False ?c)),
    (''size'', JInt (int (length (dumps False ?c))))]])]"
  have t: "loads_utf8 (dumps False ?c) = Some ?c" by code_simp
  have pp: "artifact_parts ?p = Inr [''collections'', ''task-result.json'']"
    "parent_dirs [''collections'', ''task-result.json''] = [''collections'']" by code_simp+
  have "read_sealed_json ?X ?d ?receipt ?p = Inr (?c, dumps False ?c)"
    by (simp add: read_sealed_json_def read_sealed_artifact_bytes_def artifact_entry_def artifacts_def jaccess
        read_artifact_descriptor_def pp run_entry_def seal_ext_def t del: dumps.simps)
  from malformed_collection_ignored [OF this] show ?thesis
    by (intro exI [of _ ?X] exI [of _ ?d] exI [of _ ?receipt]) (simp add: seal_ext_def)
qed

end
