(* ===== verification/Scheduler.thy ===== *)
theory Scheduler
  imports Input_Bindings
begin

text \<open>
  \<open>scheduler.py\<close>: the dependency scheduler. It reads the status that the event journal gives,
  records what it learns about running children, blocked nodes and approvals, selects eligible
  tasks within the parallelism limit, binds each to an agent run and launches it. The snapshot
  is the normalised one the service stores. The function that launches a run is a parameter;
  it changes agent runs only. The copy of outcomes to the comparative evidence store (an SQLite
  file that nothing here reads) is left out, and so is the lock file, which makes the
  operations below atomic with respect to each other.
\<close>

record sched =
  sc_actor :: string
  sc_parallel :: int
  sc_launch :: "json \<Rightarrow> string \<Rightarrow> (string \<times> rundir) list \<Rightarrow> (string \<times> rundir) list \<times> json result"

record launch_plan =
  lp_node :: string
  lp_run :: string
  lp_attempt :: int
  lp_retry :: "string option"

subsection \<open>Eligibility and launch planning\<close>

definition state_of :: "wstatus \<Rightarrow> string \<Rightarrow> node_state option" where
  "state_of w nid = map_option st_state (node_status_of w nid)"

definition calculate_eligibility :: "snapshot \<Rightarrow> wstatus \<Rightarrow> string list" where
  "calculate_eligibility s w =
     sort (map node_id (filter (\<lambda>n. state_of w (node_id n) = Some Eligible
                                  \<and> (\<forall>d \<in> set (dependencies n). state_of w d = Some Completed)) (nodes s)))"

definition node_of :: "snapshot \<Rightarrow> string \<Rightarrow> wnode option" where
  "node_of s nid = List.find (\<lambda>n. node_id n = nid) (rev (nodes s))"

definition is_task :: "snapshot \<Rightarrow> string \<Rightarrow> bool" where
  "is_task s nid = (case node_of s nid of None \<Rightarrow> False | Some n \<Rightarrow> kind_str (kind n) = ''task'')"

definition running_count :: "wstatus \<Rightarrow> nat" where
  "running_count w = length (filter (\<lambda>x. st_state x = Running) (ws_nodes w))"

definition plan_launches :: "snapshot \<Rightarrow> wstatus \<Rightarrow> int \<Rightarrow> string list result" where
  "plan_launches s w max_parallelism =
     bindE (raise_if (max_parallelism < 1) ''max_parallelism must be a positive integer'') (\<lambda>_.
     (let capacity = nat (max 0 (max_parallelism - int (running_count w))) in
      Inr (if capacity = 0 then [] else take capacity (filter (is_task s) (calculate_eligibility s w)))))"

definition scheduler_init :: "int \<Rightarrow> unit result" where
  "scheduler_init max_parallelism =
     raise_if (max_parallelism < 1) ''max_parallelism must be a positive integer''"

definition run_id :: "wnode \<Rightarrow> int \<Rightarrow> string result" where
  "run_id n attempt =
     (case kind n of
        Approval _ \<Rightarrow> Inl (KeyError ''agent_run_id'')
      | Task t \<Rightarrow>
          validate_id (if attempt = 1 then agent_run_id t else agent_run_id t @ ''-retry-'' @ int_str attempt)
            ''Agent Run ID'')"

subsection \<open>Status and children\<close>

definition events_path :: "world \<Rightarrow> string" where
  "events_path W = w_dir W @ ''/workflow-events.jsonl''"

definition scheduler_status :: "ext \<Rightarrow> snapshot \<Rightarrow> (world, wstatus) op" where
  "scheduler_status X s W =
     (case ensure_workflow_events_file (events_path W) (w_events W) of
        (f, Inl e) \<Rightarrow> (W\<lparr>w_events := f\<rparr>, Inl e)
      | (f, Inr _) \<Rightarrow> (W\<lparr>w_events := f\<rparr>, reconstruct_from_file X (snapshot_json s) (events_path W) f))"

definition PROVENANCE_SCHEMA :: string where
  "PROVENANCE_SCHEMA = ''agent-workflow/run-provenance/v1''"

definition read_provenance :: "ext \<Rightarrow> rundir \<Rightarrow> json result" where
  "read_provenance X d =
     read_contract X (run_path d) ''run-provenance.json'' (run_entry d ''run-provenance.json'') (Some PROVENANCE_SCHEMA)"

definition provenance_footprint :: "ext \<Rightarrow> rundir \<Rightarrow> string \<Rightarrow> bool result" where
  "provenance_footprint X d rid =
     (case run_entry d ''run-provenance.json'' of
        Some (RFile _ _ _) \<Rightarrow>
          (case read_provenance X d of
             Inl e \<Rightarrow> if is_WorkflowError e then Inr False else Inl e
           | Inr p \<Rightarrow> Inr (jget p ''agent_run_id'' = JStr rid))
      | _ \<Rightarrow> Inr False)"

definition child_run_exists :: "ext \<Rightarrow> world \<Rightarrow> string \<Rightarrow> bool result" where
  "child_run_exists X W rid =
     bindE (agent_run_dir W rid) (\<lambda>d.
     if map_of (w_runs W) rid = None then Inr False
     else if present d ''final-receipt.json'' then
       (case verify_seal X d None of
          Inl e \<Rightarrow> if is_WorkflowError e then provenance_footprint X d rid else Inl e
        | Inr receipt \<Rightarrow> Inr (jget receipt ''agent_run_id'' = JStr rid))
     else provenance_footprint X d rid)"

text \<open>The observation identifiers that the routing record of the provenance carries.\<close>

definition observation_ids :: "json \<Rightarrow> json list result" where
  "observation_ids provenance =
     (let wf = jget provenance ''workflow'';
          routed = (if is_obj wf \<and> truthy (jget wf ''routing'') then jget wf ''routing'' else JObj []) in
      if is_obj routed \<and> truthy (jget routed ''comparative_observation_ids'')
      then py_iter (jget routed ''comparative_observation_ids'') else Inr [])"

definition terminal_child_outcome :: "ext \<Rightarrow> world \<Rightarrow> string \<Rightarrow> (node_state \<times> string \<times> json) option result" where
  "terminal_child_outcome X W rid =
     bindE (agent_run_dir W rid) (\<lambda>d.
     if \<not> present d ''final-receipt.json'' then Inr None
     else
       bindE (verify_seal_details X d None) (\<lambda>(receipt, receipt_digest).
       bindE (raise_if (jget receipt ''agent_run_id'' \<noteq> JStr rid) (''child final receipt belongs to another run: '' @ rid)) (\<lambda>_.
       bindE (read_sealed_contract X d receipt ''final-status.json'' STATUS_SCHEMA) (\<lambda>(final_status, _).
       bindE (read_sealed_contract X d receipt ''completion.json'' ''agent-workflow/completion/v1'') (\<lambda>(completion, completion_digest).
       bindE (read_sealed_contract X d receipt ''collections/completion.json''
               ''agent-workflow/completion-collection/v1'') (\<lambda>(collection, _).
       bindE (raise_if (jget final_status ''agent_run_id'' \<noteq> JStr rid \<or> jget completion ''agent_run_id'' \<noteq> JStr rid)
               (''child terminal evidence belongs to another run: '' @ rid)) (\<lambda>_.
       (let completed = (jget final_status ''status'' = JStr ''completed'' \<and> jget completion ''result'' = JStr ''completed''
                         \<and> jget collection ''validation_status'' = JStr ''valid'') in
       bindE (read_provenance X d) (\<lambda>provenance.
       bindE (observation_ids provenance) (\<lambda>ids.
       (let details = JObj
          [(''child_agent_run_id'', JStr rid), (''child_final_receipt_sha256'', JStr receipt_digest),
           (''child_completion_sha256'', JStr completion_digest), (''child_status'', jget final_status ''status''),
           (''child_completion_result'', jget completion ''result''),
           (''child_completion_validation_status'', jget collection ''validation_status''),
           (''comparative_observation_ids'', JList ids)] in
        Inr (Some (if completed
                   then (Completed, ''sealed child Agent Run completed successfully'', details)
                   else (Failed, ''sealed child Agent Run did not satisfy completion evidence'', details))))))))))))))"

subsection \<open>Recording transitions\<close>

record move =
  mv_node :: string
  mv_from :: node_state
  mv_to :: node_state
  mv_reason :: string
  mv_details :: "json option"

definition record_move :: "sched \<Rightarrow> ext \<Rightarrow> string \<Rightarrow> snapshot \<Rightarrow> move \<Rightarrow> (world, unit) op" where
  "record_move C X now s m W =
     (case snapshot_sha256 X (snapshot_json s) of
        Inl e \<Rightarrow> (W, Inl e)
      | Inr dig \<Rightarrow>
          (case record_workflow_transition X (events_path W) now (workflow_id s) (mv_node m) (sc_actor C) (mv_reason m)
                  dig (mv_from m) (mv_to m) (mv_details m) (w_events W) of
             (f, Inl e) \<Rightarrow> (W\<lparr>w_events := f\<rparr>, Inl e)
           | (f, Inr _) \<Rightarrow> (W\<lparr>w_events := f\<rparr>, Inr ())))"

definition record_moves :: "sched \<Rightarrow> ext \<Rightarrow> string \<Rightarrow> snapshot \<Rightarrow> move list \<Rightarrow> (world, unit) op" where
  "record_moves C X now s ms = iterS (record_move C X now s) ms"

subsection \<open>Running nodes\<close>

definition child_details :: "string \<Rightarrow> json" where
  "child_details rid = JObj [(''child_agent_run_id'', JStr rid)]"

definition decide_running :: "ext \<Rightarrow> snapshot \<Rightarrow> world \<Rightarrow> node_status \<Rightarrow> move list result" where
  "decide_running X s W x =
     (let mv = (\<lambda>q reason details. Inr [\<lparr>mv_node = st_id x, mv_from = Running, mv_to = q, mv_reason = reason,
                                     mv_details = details\<rparr>]) in
      if st_state x \<noteq> Running then Inr []
      else if node_of s (st_id x) = None then Inl (KeyError (st_id x))
      else if \<not> is_task s (st_id x) then Inl (WorkflowError (''approval node cannot be running: '' @ st_id x))
      else (case st_run x of
              None \<Rightarrow> mv Recoverable ''running node has no authoritative child Agent Run binding'' None
            | Some rid \<Rightarrow>
                if rid = [] then mv Recoverable ''running node has no authoritative child Agent Run binding'' None
                else (case terminal_child_outcome X W rid of
                        Inl e \<Rightarrow>
                          if is_WorkflowError e
                          then mv Failed (''child terminal evidence failed verification: '' @ error_text e)
                                 (Some (child_details rid))
                          else Inl e
                      | Inr (Some (q, reason, details)) \<Rightarrow> mv q reason (Some details)
                      | Inr None \<Rightarrow>
                          bindE (child_run_exists X W rid) (\<lambda>exists.
                          if exists then Inr []
                          else mv Recoverable ''running state has no authoritative child Agent Run; recovery required''
                                 (Some (child_details rid))))))"

definition reconcile_running :: "sched \<Rightarrow> ext \<Rightarrow> string \<Rightarrow> snapshot \<Rightarrow> wstatus \<Rightarrow> (world, unit) op" where
  "reconcile_running C X now s w =
     bindS (pureS (\<lambda>_. snapshot_sha256 X (snapshot_json s))) (\<lambda>_.
     iterS (\<lambda>x. bindS (pureS (\<lambda>W. decide_running X s W x)) (record_moves C X now s)) (ws_nodes w))"

subsection \<open>Blocked nodes\<close>

text \<open>
  One node of the loop of \<open>_reconcile_blocked\<close>, with the local dict \<open>states\<close>: a node that failed
  because of a prerequisite is reopened once no dependency is failed, and a blocked node fails
  with its dependencies or becomes eligible when all of them are completed.
\<close>

type_synonym states = "string \<Rightarrow> node_state option"

definition PREREQUISITE_FAILED :: string where
  "PREREQUISITE_FAILED = ''workflow prerequisite failed:''"

definition failed_dependencies :: "states \<Rightarrow> wnode \<Rightarrow> string list" where
  "failed_dependencies states n = filter (\<lambda>d. states d = Some Failed) (dependencies n)"

definition reopen_step :: "states \<Rightarrow> wnode \<Rightarrow> node_status \<Rightarrow> move list \<times> states" where
  "reopen_step states n x =
     (let reason = (case st_reason x of None \<Rightarrow> [] | Some r \<Rightarrow> r) in
      if states (node_id n) = Some Failed \<and> startswith reason PREREQUISITE_FAILED \<and> failed_dependencies states n = []
      then ([\<lparr>mv_node = node_id n, mv_from = Failed, mv_to = Blocked,
              mv_reason = ''workflow prerequisite retry reopened dependency gate'', mv_details = None\<rparr>],
            states(node_id n \<mapsto> Blocked))
      else ([], states))"

definition gate_step :: "states \<Rightarrow> wnode \<Rightarrow> move list \<times> states" where
  "gate_step states n =
     (let failed = failed_dependencies states n in
      if states (node_id n) \<noteq> Some Blocked then ([], states)
      else if failed \<noteq> [] then
        ([\<lparr>mv_node = node_id n, mv_from = Blocked, mv_to = Failed,
           mv_reason = ''workflow prerequisite failed: '' @ py_join '', '' (sort failed),
           mv_details = Some (JObj [(''failed_dependencies'', JList (map JStr (sort failed)))])\<rparr>],
         states(node_id n \<mapsto> Failed))
      else if \<forall>d \<in> set (dependencies n). states d = Some Completed then
        ([\<lparr>mv_node = node_id n, mv_from = Blocked, mv_to = Eligible,
           mv_reason = ''all workflow prerequisites completed'', mv_details = None\<rparr>],
         states(node_id n \<mapsto> Eligible))
      else ([], states))"

definition blocked_step :: "states \<Rightarrow> wnode \<Rightarrow> node_status \<Rightarrow> move list \<times> states" where
  "blocked_step states n x =
     (case reopen_step states n x of (ms1, states1) \<Rightarrow>
      case gate_step states1 n of (ms2, states2) \<Rightarrow> (ms1 @ ms2, states2))"

fun reconcile_blocked_loop ::
  "sched \<Rightarrow> ext \<Rightarrow> string \<Rightarrow> snapshot \<Rightarrow> wstatus \<Rightarrow> states \<Rightarrow> wnode list \<Rightarrow> (world, unit) op" where
  "reconcile_blocked_loop C X now s w states [] = returnS ()"
| "reconcile_blocked_loop C X now s w states (n # ns) =
     (case node_status_of w (node_id n) of
        None \<Rightarrow> pureS (\<lambda>_. Inl (KeyError (node_id n)))
      | Some x \<Rightarrow>
          (case blocked_step states n x of
             (ms, states') \<Rightarrow>
               bindS (record_moves C X now s ms) (\<lambda>_. reconcile_blocked_loop C X now s w states' ns)))"

definition reconcile_blocked :: "sched \<Rightarrow> ext \<Rightarrow> string \<Rightarrow> snapshot \<Rightarrow> wstatus \<Rightarrow> (world, unit) op" where
  "reconcile_blocked C X now s w =
     bindS (pureS (\<lambda>_. snapshot_sha256 X (snapshot_json s))) (\<lambda>_.
     reconcile_blocked_loop C X now s w (state_of w) (nodes s))"

subsection \<open>Approval nodes\<close>

definition approval_move :: "string \<Rightarrow> node_state \<Rightarrow> string \<Rightarrow> (string \<times> json) list \<Rightarrow> move" where
  "approval_move nid q reason details =
     \<lparr>mv_node = nid, mv_from = Eligible, mv_to = q, mv_reason = reason, mv_details = Some (JObj details)\<rparr>"

definition disposition_details :: "string \<Rightarrow> string \<Rightarrow> disposition \<Rightarrow> (string \<times> json) list" where
  "disposition_details subject rid p =
     [(''approval_for'', JStr subject), (''subject_agent_run_id'', JStr rid),
      (''approval_action'', JStr (py_str (disp_action p))),
      (''approval_receipt_sha256'', JStr (disp_receipt_sha256 p)),
      (''final_receipt_sha256'', JStr (disp_final_receipt_sha256 p)),
      (''completion_sha256'', JStr (disp_completion_sha256 p)), (''revision'', JStr (disp_revision p))]"

definition decide_subject :: "ext \<Rightarrow> world \<Rightarrow> string \<Rightarrow> string \<Rightarrow> node_status \<Rightarrow> move list result" where
  "decide_subject X W nid subject x =
     (case st_run x of
        None \<Rightarrow> Inr [approval_move nid Failed ''approval subject has no authoritative child Agent Run binding''
                      [(''approval_for'', JStr subject)]]
      | Some rid \<Rightarrow>
          if rid = [] then Inr [approval_move nid Failed ''approval subject has no authoritative child Agent Run binding''
                                 [(''approval_for'', JStr subject)]]
          else (case bindE (agent_run_dir W rid) (lifecycle_disposition X) of
                  Inl e \<Rightarrow>
                    if is_WorkflowError e
                    then Inr [approval_move nid Failed (''approval evidence failed verification: '' @ error_text e)
                                [(''approval_for'', JStr subject), (''subject_agent_run_id'', JStr rid)]]
                    else Inl e
                | Inr None \<Rightarrow> Inr []
                | Inr (Some p) \<Rightarrow>
                    if disp_action p = JStr ''reviewed'' then Inr []
                    else if py_str (disp_action p) = ''accepted''
                    then Inr [approval_move nid Completed ''canonical lifecycle receipt accepted''
                                (disposition_details subject rid p)]
                    else Inr [approval_move nid Failed ''canonical lifecycle receipt rejected''
                                (disposition_details subject rid p)]))"

definition decide_approval :: "ext \<Rightarrow> snapshot \<Rightarrow> world \<Rightarrow> wstatus \<Rightarrow> string \<Rightarrow> move list result" where
  "decide_approval X s W w nid =
     (case node_of s nid of
        None \<Rightarrow> Inl (KeyError nid)
      | Some n \<Rightarrow>
          (case kind n of
             Task _ \<Rightarrow> Inr []
           | Approval subject \<Rightarrow>
               (case node_status_of w subject of
                  None \<Rightarrow> Inl (KeyError subject)
                | Some x \<Rightarrow> decide_subject X W nid subject x)))"

definition reconcile_approvals :: "sched \<Rightarrow> ext \<Rightarrow> string \<Rightarrow> snapshot \<Rightarrow> wstatus \<Rightarrow> (world, unit) op" where
  "reconcile_approvals C X now s w =
     bindS (pureS (\<lambda>_. snapshot_sha256 X (snapshot_json s))) (\<lambda>_.
     iterS (\<lambda>nid. bindS (pureS (\<lambda>W. decide_approval X s W w nid)) (record_moves C X now s))
       (calculate_eligibility s w))"

subsection \<open>Binding a node to a run\<close>

definition record_binding :: "sched \<Rightarrow> ext \<Rightarrow> string \<Rightarrow> snapshot \<Rightarrow> launch_plan \<Rightarrow> (world, unit) op" where
  "record_binding C X now s p W =
     (case snapshot_sha256 X (snapshot_json s) of
        Inl e \<Rightarrow> (W, Inl e)
      | Inr dig \<Rightarrow>
          (case record_workflow_binding X (events_path W) now (workflow_id s) (lp_node p) (lp_run p) (lp_attempt p)
                  (sc_actor C) ''scheduler launch binding'' dig (lp_retry p) True (w_events W) of
             (f, Inl e) \<Rightarrow> (W\<lparr>w_events := f\<rparr>, Inl e)
           | (f, Inr _) \<Rightarrow> (W\<lparr>w_events := f\<rparr>, Inr ())))"

text \<open>The attempt and the lineage that \<open>_bind\<close> chooses; \<open>str(None)\<close> is the text \<open>None\<close>.\<close>

definition next_attempt :: "wnode \<Rightarrow> bool \<Rightarrow> node_status \<Rightarrow> (int \<times> string option) result" where
  "next_attempt n retry x =
     (if retry then
        bindE (raise_if (st_state x \<notin> {Failed, Recoverable}) (''node '' @ node_id n @ '' is not retryable'')) (\<lambda>_.
        Inr ((case st_attempt x of None \<Rightarrow> 0 | Some k \<Rightarrow> k) + 1,
             Some (case st_run x of None \<Rightarrow> ''None'' | Some r \<Rightarrow> r)))
      else
        bindE (raise_if (st_state x \<noteq> Eligible) (''node '' @ node_id n @ '' is not eligible'')) (\<lambda>_.
        Inr (1, None)))"

definition bind_fresh :: "sched \<Rightarrow> ext \<Rightarrow> string \<Rightarrow> snapshot \<Rightarrow> wnode \<Rightarrow> bool \<Rightarrow> node_status \<Rightarrow> (world, launch_plan) op" where
  "bind_fresh C X now s n retry x =
     bindS (pureS (\<lambda>_. next_attempt n retry x)) (\<lambda>(attempt, retry_of).
     bindS (pureS (\<lambda>_. run_id n attempt)) (\<lambda>rid.
     (let p = \<lparr>lp_node = node_id n, lp_run = rid, lp_attempt = attempt, lp_retry = retry_of\<rparr> in
     bindS (record_binding C X now s p) (\<lambda>_.
     bindS (if retry
            then record_move C X now s \<lparr>mv_node = node_id n, mv_from = st_state x, mv_to = Eligible,
                                      mv_reason = ''retry binding is eligible'', mv_details = None\<rparr>
            else returnS ()) (\<lambda>_.
     returnS p)))))"

definition bind_node :: "sched \<Rightarrow> ext \<Rightarrow> string \<Rightarrow> snapshot \<Rightarrow> wnode \<Rightarrow> bool \<Rightarrow> (world, launch_plan) op" where
  "bind_node C X now s n retry =
     bindS (scheduler_status X s) (\<lambda>w.
     (case List.find (\<lambda>x. st_id x = node_id n) (ws_nodes w) of
        None \<Rightarrow> pureS (\<lambda>_. Inl (KeyError (node_id n)))
      | Some x \<Rightarrow>
          bindS (pureS (\<lambda>_. snapshot_sha256 X (snapshot_json s))) (\<lambda>_.
          (case (retry, st_state x, st_run x) of
             (False, Eligible, Some r) \<Rightarrow>
               (case st_attempt x of
                  None \<Rightarrow> pureS (\<lambda>_. Inl (TypeError ''int''))
                | Some k \<Rightarrow> returnS \<lparr>lp_node = node_id n, lp_run = r, lp_attempt = k, lp_retry = st_retry x\<rparr>)
           | _ \<Rightarrow> bind_fresh C X now s n retry x))))"

subsection \<open>Executing a plan\<close>

definition launch_node :: "snapshot \<Rightarrow> wnode \<Rightarrow> launch_plan \<Rightarrow> resolved_inputs option \<Rightarrow> json" where
  "launch_node s n p inputs =
     (let pack = jget (node_json n) ''pack_id'';
          v = jupdate (node_json n)
                [(''pack_id'', JStr (if truthy pack then py_str pack else pack_id s)),
                 (''workflow_id'', JStr (workflow_id s)), (''workflow_attempt'', JInt (lp_attempt p)),
                 (''retry_of_agent_run_id'', opt_str (lp_retry p))] in
      case inputs of
        None \<Rightarrow> v
      | Some r \<Rightarrow> jset ''workflow_inputs'' (JObj [(''artifact'', ri_artifact r), (''path'', JStr (ri_path r)),
                                              (''sha256'', JStr (ri_sha256 r))]) v)"

definition eligible_move :: "launch_plan \<Rightarrow> node_state \<Rightarrow> string \<Rightarrow> json option \<Rightarrow> move" where
  "eligible_move p q reason details =
     \<lparr>mv_node = lp_node p, mv_from = Eligible, mv_to = q, mv_reason = reason, mv_details = details\<rparr>"

text \<open>Record a transition, then raise \<open>e\<close>: the body of an \<open>except\<close> clause that ends in \<open>raise\<close>.\<close>

definition record_raise :: "sched \<Rightarrow> ext \<Rightarrow> string \<Rightarrow> snapshot \<Rightarrow> move \<Rightarrow> error \<Rightarrow> (world, 'a) op" where
  "record_raise C X now s m e = bindS (record_move C X now s m) (\<lambda>_. pureS (\<lambda>_. Inl e))"

definition launch_run :: "sched \<Rightarrow> json \<Rightarrow> string \<Rightarrow> world \<Rightarrow> world \<times> json result" where
  "launch_run C v rid W = (case sc_launch C v rid (w_runs W) of (runs, r) \<Rightarrow> (W\<lparr>w_runs := runs\<rparr>, r))"

definition start_child ::
  "sched \<Rightarrow> ext \<Rightarrow> string \<Rightarrow> snapshot \<Rightarrow> wnode \<Rightarrow> launch_plan \<Rightarrow> resolved_inputs option \<Rightarrow> (world, json) op" where
  "start_child C X now s n p inputs W =
     (case launch_run C (launch_node s n p inputs) (lp_run p) W of
        (W1, Inl e) \<Rightarrow>
          bindS (pureS (\<lambda>W. child_run_exists X W (lp_run p))) (\<lambda>exists.
          record_raise C X now s
            (eligible_move p (if exists then Recoverable else Failed)
               (''launch failed; recovery state required: '' @ error_text e) None) e) W1
      | (W1, Inr result) \<Rightarrow>
          bindS (pureS (\<lambda>W. child_run_exists X W (lp_run p))) (\<lambda>exists.
          if \<not> exists then
            record_raise C X now s
              (eligible_move p Recoverable ''launch outcome is not durably authoritative; manual recovery required'' None)
              (WorkflowError (''launch '' @ lp_run p @ '' has no authoritative child Agent Run''))
          else
            bindS (record_move C X now s
                    (eligible_move p Running ''authoritative child Agent Run exists''
                       (Some (JObj [(''child_agent_run_id'', JStr (lp_run p)),
                                    (''input_binding_sha256'', opt_str (map_option ri_sha256 inputs))])))) (\<lambda>_.
            returnS result)) W1)"

definition execute :: "sched \<Rightarrow> ext \<Rightarrow> string \<Rightarrow> snapshot \<Rightarrow> wnode \<Rightarrow> launch_plan \<Rightarrow> (world, json) op" where
  "execute C X now s n p =
     bindS (scheduler_status X s) (\<lambda>w.
     bindS (catchW (resolve_node_inputs X now s w n (lp_attempt p))
              (\<lambda>e. record_raise C X now s
                     (eligible_move p Failed (''workflow input binding failed: '' @ error_text e) None) e)) (\<lambda>inputs.
     bindS (pureS (\<lambda>W. child_run_exists X W (lp_run p))) (\<lambda>exists.
     if exists then returnS (JObj [(''recovered'', JBool True), (''agent_run_id'', JStr (lp_run p))])
     else start_child C X now s n p inputs)))"

subsection \<open>A scheduling round and a retry\<close>

text \<open>
  The thread pool runs every submitted execution before the round ends; \<open>order\<close> is the order in
  which they take effect. The first failure in plan order is raised afterwards.
\<close>

definition execute_plan :: "sched \<Rightarrow> ext \<Rightarrow> string \<Rightarrow> snapshot \<Rightarrow> launch_plan \<Rightarrow> (world, json) op" where
  "execute_plan C X now s p =
     (case node_of s (lp_node p) of
        None \<Rightarrow> pureS (\<lambda>_. Inl (KeyError (lp_node p)))
      | Some n \<Rightarrow> execute C X now s n p)"

fun execute_all ::
  "sched \<Rightarrow> ext \<Rightarrow> string \<Rightarrow> snapshot \<Rightarrow> launch_plan list \<Rightarrow> world \<Rightarrow> world \<times> (string \<times> json result) list" where
  "execute_all C X now s [] W = (W, [])"
| "execute_all C X now s (p # ps) W =
     (case execute_plan C X now s p W of (W1, r) \<Rightarrow>
      case execute_all C X now s ps W1 of (W2, rs) \<Rightarrow> (W2, (lp_node p, r) # rs))"

definition collect_results :: "(string \<times> json result) list \<Rightarrow> launch_plan list \<Rightarrow> (string \<times> json) list result" where
  "collect_results done plans =
     mapE (\<lambda>p. case map_of done (lp_node p) of
                 None \<Rightarrow> Inl (KeyError (lp_node p))
               | Some r \<Rightarrow> bindE r (\<lambda>v. Inr (lp_node p, v))) plans"

definition bind_planned :: "sched \<Rightarrow> ext \<Rightarrow> string \<Rightarrow> snapshot \<Rightarrow> string \<Rightarrow> (world, launch_plan) op" where
  "bind_planned C X now s nid =
     (case node_of s nid of
        None \<Rightarrow> pureS (\<lambda>_. Inl (KeyError nid))
      | Some n \<Rightarrow> bind_node C X now s n False)"

definition reconcile :: "sched \<Rightarrow> ext \<Rightarrow> string \<Rightarrow> snapshot \<Rightarrow> (world, wstatus) op" where
  "reconcile C X now s =
     bindS (scheduler_status X s) (\<lambda>w1. bindS (reconcile_running C X now s w1) (\<lambda>_.
     bindS (scheduler_status X s) (\<lambda>w2. bindS (reconcile_blocked C X now s w2) (\<lambda>_.
     bindS (scheduler_status X s) (\<lambda>w3. bindS (reconcile_approvals C X now s w3) (\<lambda>_.
     bindS (scheduler_status X s) (\<lambda>w4. bindS (reconcile_blocked C X now s w4) (\<lambda>_.
     scheduler_status X s))))))))"

definition launch_eligible ::
  "sched \<Rightarrow> ext \<Rightarrow> string \<Rightarrow> snapshot \<Rightarrow> (launch_plan list \<Rightarrow> launch_plan list)
     \<Rightarrow> (world, launch_plan list \<times> (string \<times> json) list) op" where
  "launch_eligible C X now s order =
     bindS (reconcile C X now s) (\<lambda>w.
     bindS (pureS (\<lambda>_. plan_launches s w (sc_parallel C))) (\<lambda>ids.
     bindS (mapS (bind_planned C X now s) ids) (\<lambda>plans W.
     (case execute_all C X now s (order plans) W of
        (W', done) \<Rightarrow> (W', bindE (collect_results done plans) (\<lambda>rs. Inr (plans, rs)))))))"

definition retry_node :: "sched \<Rightarrow> ext \<Rightarrow> string \<Rightarrow> snapshot \<Rightarrow> string \<Rightarrow> (world, launch_plan \<times> json) op" where
  "retry_node C X now s nid0 =
     bindS (pureS (\<lambda>_. validate_id nid0 ''workflow node ID'')) (\<lambda>nid.
     (case List.find (\<lambda>n. node_id n = nid) (nodes s) of
        None \<Rightarrow> pureS (\<lambda>_. Inl (WorkflowError (''unknown workflow node: '' @ nid)))
      | Some n \<Rightarrow>
          (case kind n of
             Approval _ \<Rightarrow> pureS (\<lambda>_. Inl (WorkflowError ''approval nodes are evidence gates and cannot be retried''))
           | Task _ \<Rightarrow>
               bindS (bind_node C X now s n True) (\<lambda>p.
               bindS (execute C X now s n p) (\<lambda>r. returnS (p, r))))))"

end
