(* ===== verification/Scheduler_Safety.thy ===== *)
theory Scheduler_Safety
  imports Scheduler
begin

text \<open>
  What the scheduler guarantees: launches stay within the parallelism limit and are never early,
  the event journal only grows, every transition it decides on is one that replay accepts,
  completion and approval rest on sealed evidence. The last section shows three behaviours that
  contradict the intent of the code.
\<close>

subsection \<open>Planning\<close>

lemma find_distinct:
  assumes "distinct (map f xs)" and "x \<in> set xs"
  shows "List.find (\<lambda>y. f y = f x) xs = Some x"
  using assms by (induction xs) (auto simp: image_iff)

lemma node_of_wf:
  assumes "wf_snapshot s" and "n \<in> set (nodes s)"
  shows "node_of s (node_id n) = Some n"
proof -
  have "distinct (map node_id (rev (nodes s)))" using assms(1) by (simp add: wf_snapshot_def rev_map [symmetric])
  from find_distinct [OF this, of n] assms(2) show ?thesis by (simp add: node_of_def)
qed

definition launchable :: "wstatus \<Rightarrow> wnode \<Rightarrow> bool" where
  "launchable w n \<longleftrightarrow> kind_str (kind n) = ''task'' \<and> state_of w (node_id n) = Some Eligible
     \<and> (\<forall>d \<in> set (dependencies n). state_of w d = Some Completed)"

lemma eligible_tasks:
  assumes "wf_snapshot s"
  shows "set (filter (is_task s) (calculate_eligibility s w)) = node_id ` {n \<in> set (nodes s). launchable w n}"
    and "distinct (calculate_eligibility s w)"
proof -
  have "is_task s (node_id n) \<longleftrightarrow> kind_str (kind n) = ''task''" if "n \<in> set (nodes s)" for n
    using node_of_wf [OF assms that] by (simp add: is_task_def)
  then show "set (filter (is_task s) (calculate_eligibility s w)) = node_id ` {n \<in> set (nodes s). launchable w n}"
    by (auto simp: calculate_eligibility_def launchable_def)
  show "distinct (calculate_eligibility s w)"
    using assms by (simp add: calculate_eligibility_def wf_snapshot_def distinct_map_filter)
qed

text \<open>
  C6. Launch planning is safe and work conserving: what \<open>plan_launches\<close> selects are distinct
  eligible tasks of the snapshot with all dependencies completed, in order; together with the
  running nodes they never exceed the limit; and as long as the limit is not reached, no
  launchable task is left out.
\<close>

theorem plan_launches_correct:
  assumes "wf_snapshot s" and "plan_launches s w m = Inr ids"
  shows "distinct ids \<and> sorted ids
    \<and> (\<forall>nid \<in> set ids. \<exists>n \<in> set (nodes s). node_id n = nid \<and> launchable w n)
    \<and> (ids \<noteq> [] \<longrightarrow> int (running_count w + length ids) \<le> m)
    \<and> (int (running_count w + length ids) < m \<longrightarrow>
         (\<forall>n \<in> set (nodes s). launchable w n \<longrightarrow> node_id n \<in> set ids))"
proof -
  let ?all = "filter (is_task s) (calculate_eligibility s w)"
  let ?cap = "nat (max 0 (m - int (running_count w)))"
  from assms(2) have ids: "ids = take ?cap ?all"
    by (auto simp: plan_launches_def Let_def split: if_splits)
  note el = eligible_tasks [OF assms(1), of w]
  have "distinct ids" using el(2) by (simp add: ids)
  moreover have "sorted ids" by (simp add: ids calculate_eligibility_def sorted_wrt_take sorted_wrt_filter)
  moreover have "\<forall>nid \<in> set ids. \<exists>n \<in> set (nodes s). node_id n = nid \<and> launchable w n"
    using el(1) set_take_subset [of ?cap ?all] by (auto simp: ids)
  moreover have "length ids \<le> ?cap" by (simp add: ids)
  then have "ids \<noteq> [] \<longrightarrow> int (running_count w + length ids) \<le> m"
    by (cases "m \<le> int (running_count w)") auto
  moreover have "ids = ?all" if "int (running_count w + length ids) < m"
  proof -
    have "length ids < ?cap" using that by linarith
    then show ?thesis by (simp add: ids min_def split: if_splits)
  qed
  then have "int (running_count w + length ids) < m \<longrightarrow>
      (\<forall>n \<in> set (nodes s). launchable w n \<longrightarrow> node_id n \<in> set ids)"
    using el(1) by blast
  ultimately show ?thesis by blast
qed

definition demo_fresh :: wstatus where
  "demo_fresh = \<lparr>ws_workflow = ''w'', ws_digest = [], ws_count = 0, ws_state = Eligible,
     ws_nodes = map initial_node (nodes demo_snapshot)\<rparr>"

theorem plan_launches_correct_witness:
  "plan_launches demo_snapshot demo_fresh 2 = Inr [''build'']
   \<and> (\<exists>n \<in> set (nodes demo_snapshot). node_id n = ''build'' \<and> launchable demo_fresh n)"
proof -
  have "plan_launches demo_snapshot demo_fresh 2 = Inr [''build'']" by code_simp
  from plan_launches_correct [OF demo_wf this] this show ?thesis by simp
qed

subsection \<open>The journal only grows\<close>

definition journal_grows :: "world \<Rightarrow> world \<Rightarrow> bool" where
  "journal_grows W W' \<longleftrightarrow>
     take (length (slot_bytes (w_events W))) (slot_bytes (w_events W')) = slot_bytes (w_events W)"

lemma journal_grows_refl [simp]: "journal_grows W W"
  by (simp add: journal_grows_def)

lemma journal_grows_same: "w_events W' = w_events W \<Longrightarrow> journal_grows W W'"
  by (simp add: journal_grows_def)

lemma journal_grows_trans: "journal_grows A B \<Longrightarrow> journal_grows B C \<Longrightarrow> journal_grows A C"
  unfolding journal_grows_def by (metis length_take min.absorb_iff1 take_take take_all_iff nat_le_linear)

lemma record_event_grows:
  "take (length (slot_bytes f)) (slot_bytes (fst (record_event X path now ev f))) = slot_bytes f"
proof (cases ev)
  case (Inr e)
  with wj.run_take [of f X path "[(now, e)]"] show ?thesis by (simp add: record_event_def)
qed (simp add: record_event_def)

lemmas grows_bindS = fst_bindS [where R = journal_grows, OF _ _ journal_grows_trans]
lemmas grows_catchW = fst_catchW [where R = journal_grows, OF _ _ journal_grows_trans]
lemmas grows_iterS = fst_iterS [where R = journal_grows, OF _ journal_grows_refl journal_grows_trans]
lemmas grows_mapS = fst_mapS [where R = journal_grows, OF _ journal_grows_refl journal_grows_trans]

lemma record_move_grows: "journal_grows W (fst (record_move C X now s m W))"
  using record_event_grows [of "w_events W"]
  by (auto simp: record_move_def record_workflow_transition_def journal_grows_def split: sum.splits prod.splits)
    (metis fst_conv)+

lemma record_binding_grows: "journal_grows W (fst (record_binding C X now s p W))"
  using record_event_grows [of "w_events W"]
  by (auto simp: record_binding_def record_workflow_binding_def journal_grows_def split: sum.splits prod.splits)
    (metis fst_conv)+

lemma scheduler_status_grows: "journal_grows W (fst (scheduler_status X s W))"
  using ensure_keeps [of "events_path W" "w_events W"]
  by (auto simp: scheduler_status_def journal_grows_def split: sum.splits prod.splits)

lemma resolve_node_inputs_events: "w_events (fst (resolve_node_inputs X now s w n att W)) = w_events W"
  by (auto simp: resolve_node_inputs_def freeze_inputs_def Let_def split: sum.splits prod.splits)

lemma pureS_grows: "journal_grows W (fst (pureS f W))"
  by simp

lemma returnS_grows: "journal_grows W (fst (returnS x W))"
  by simp

lemma record_moves_grows: "journal_grows W (fst (record_moves C X now s ms W))"
  unfolding record_moves_def by (intro grows_iterS record_move_grows)

lemma record_raise_grows: "journal_grows W (fst (record_raise C X now s m e W))"
  unfolding record_raise_def by (intro grows_bindS record_move_grows pureS_grows)

lemmas grows_basic = record_move_grows record_binding_grows scheduler_status_grows pureS_grows returnS_grows
  record_moves_grows record_raise_grows

lemma reconcile_running_grows: "journal_grows W (fst (reconcile_running C X now s w W))"
  unfolding reconcile_running_def by (intro grows_bindS grows_iterS grows_basic)

lemma reconcile_blocked_loop_grows: "journal_grows W (fst (reconcile_blocked_loop C X now s w st ns W))"
proof (induction ns arbitrary: st W)
  case (Cons n ns)
  show ?case
    by (auto split: option.split prod.split intro: grows_bindS grows_basic Cons)
qed simp

lemma reconcile_blocked_grows: "journal_grows W (fst (reconcile_blocked C X now s w W))"
  unfolding reconcile_blocked_def by (intro grows_bindS grows_basic reconcile_blocked_loop_grows)

lemma reconcile_approvals_grows: "journal_grows W (fst (reconcile_approvals C X now s w W))"
  unfolding reconcile_approvals_def by (intro grows_bindS grows_iterS grows_basic)

lemma reconcile_grows: "journal_grows W (fst (reconcile C X now s W))"
  unfolding reconcile_def
  by (intro grows_bindS grows_basic reconcile_running_grows reconcile_blocked_grows reconcile_approvals_grows)

lemma bind_fresh_grows: "journal_grows W (fst (bind_fresh C X now s n retry x W))"
  unfolding bind_fresh_def Let_def
  by (intro grows_bindS grows_basic) (auto intro!: grows_bindS grows_basic split: prod.split)

lemma bind_node_grows: "journal_grows W (fst (bind_node C X now s n retry W))"
  unfolding bind_node_def
  by (intro grows_bindS grows_basic)
    (auto intro!: grows_bindS grows_basic bind_fresh_grows split: option.split prod.split bool.split node_state.split)

lemma start_child_grows: "journal_grows W (fst (start_child C X now s n p inp W))"
proof -
  obtain W1 r where l: "launch_run C (launch_node s n p inp) (lp_run p) W = (W1, r)" by (rule prod.exhaust)
  then have "journal_grows W W1" by (auto simp: launch_run_def split: prod.splits intro: journal_grows_same)
  moreover have "journal_grows W1 (fst (start_child C X now s n p inp W))"
    by (cases r) (auto simp: start_child_def l intro!: grows_bindS grows_basic)
  ultimately show ?thesis by (rule journal_grows_trans)
qed

lemma execute_grows: "journal_grows W (fst (execute C X now s n p W))"
  unfolding execute_def
  by (intro grows_bindS grows_catchW grows_basic)
    (auto intro!: start_child_grows journal_grows_same resolve_node_inputs_events)

lemma execute_all_grows: "journal_grows W (fst (execute_all C X now s ps W))"
proof (induction ps arbitrary: W)
  case (Cons p ps)
  have "journal_grows W (fst (execute_plan C X now s p W))"
    by (auto simp: execute_plan_def intro: execute_grows split: option.split)
  with Cons [of "fst (execute_plan C X now s p W)"] show ?case
    by (auto split: prod.split intro: journal_grows_trans)
qed simp

lemma bind_planned_grows: "journal_grows W (fst (bind_planned C X now s nid W))"
  by (auto simp: bind_planned_def intro: bind_node_grows split: option.split)

lemma launch_eligible_grows: "journal_grows W (fst (launch_eligible C X now s order W))"
proof -
  have "journal_grows W (fst (case execute_all C X now s (order plans) W of
      (W', done) \<Rightarrow> (W', bindE (collect_results done plans) (\<lambda>rs. Inr (plans, rs)))))" for plans W
    using execute_all_grows [of W C X now s "order plans"] by (auto split: prod.split)
  then show ?thesis
    unfolding launch_eligible_def by (intro grows_bindS grows_mapS grows_basic reconcile_grows bind_planned_grows)
qed

lemma retry_node_grows: "journal_grows W (fst (retry_node C X now s nid W))"
  unfolding retry_node_def
  by (intro grows_bindS grows_basic)
    (auto intro!: grows_bindS grows_basic bind_node_grows execute_grows split: option.split node_kind.split)

text \<open>The commands an operator gives to the scheduler.\<close>

datatype command = Round string "launch_plan list \<Rightarrow> launch_plan list" | Retry string string

fun run_command :: "sched \<Rightarrow> ext \<Rightarrow> snapshot \<Rightarrow> command \<Rightarrow> (world, unit) op" where
  "run_command C X s (Round now order) = bindS (launch_eligible C X now s order) (\<lambda>_. returnS ())"
| "run_command C X s (Retry now nid) = bindS (retry_node C X now s nid) (\<lambda>_. returnS ())"

text \<open>
  The scheduler never rewrites history: whatever rounds and retries are run, in whatever
  order, whatever the launcher does to the agent runs and however many of the commands raise,
  the bytes the event journal held before stay its first bytes.
\<close>

theorem scheduler_append_only:
  "journal_grows W (run_ops (run_command C X s) commands W)"
proof (induction commands arbitrary: W)
  case (Cons c cs)
  have "journal_grows W (fst (run_command C X s c W))"
    by (cases c) (auto intro!: grows_bindS launch_eligible_grows retry_node_grows returnS_grows)
  with Cons show ?case by (auto intro: journal_grows_trans)
qed simp

subsection \<open>Decided transitions are accepted by replay\<close>

definition apply_move :: "snapshot \<Rightarrow> node_map \<Rightarrow> move \<Rightarrow> node_map result" where
  "apply_move s ns m = transition_summary s ns (mv_node m) (mv_from m) (mv_to m) (mv_reason m)"

text \<open>The transitions of one pass of \<open>_reconcile_blocked\<close>, in the order they are recorded.\<close>

fun blocked_moves :: "wstatus \<Rightarrow> states \<Rightarrow> wnode list \<Rightarrow> move list" where
  "blocked_moves w st [] = []"
| "blocked_moves w st (n # ns) =
     (case node_status_of w (node_id n) of
        None \<Rightarrow> []
      | Some x \<Rightarrow> (case blocked_step st n x of (ms, st') \<Rightarrow> ms @ blocked_moves w st' ns))"

lemma bindS_assoc: "bindS (bindS m f) g = bindS m (\<lambda>x. bindS (f x) g)"
  by (rule ext) (auto simp: bindS_def split: prod.split sum.split)

lemma bindS_return: "bindS (returnS x) f = f x"
  by (rule ext) (simp add: bindS_def)

lemma iterS_append: "iterS f (xs @ ys) = bindS (iterS f xs) (\<lambda>_. iterS f ys)"
proof (induction xs)
  case Nil
  show ?case by (simp only: iterS.simps append_Nil bindS_return)
next
  case (Cons x xs)
  then show ?case by (simp only: iterS.simps append_Cons bindS_assoc)
qed

lemma reconcile_blocked_loop_moves:
  assumes "\<forall>n \<in> set ns. node_status_of w (node_id n) \<noteq> None"
  shows "reconcile_blocked_loop C X now s w st ns = record_moves C X now s (blocked_moves w st ns)"
  using assms
  by (induction ns arbitrary: st) (auto simp: record_moves_def iterS_append split: option.split prod.split)

text \<open>A status reconstructed from a journal, and the replay it comes from.\<close>

definition status_of_replay :: "snapshot \<Rightarrow> wstatus \<Rightarrow> replay \<Rightarrow> bool" where
  "status_of_replay s w r \<longleftrightarrow>
     wf_snapshot s \<and> replay_ok s (r_nodes r, r_seen r) \<and> ws_nodes w = node_list s (r_nodes r)"

lemma status_of_replayI:
  assumes "normalize_snapshot X j = Inr s" and "reconstruct_workflow_status X j events = Inr w"
    and "foldE (replay_event X s) (initial_replay s) events = Inr r"
  shows "status_of_replay s w r"
proof -
  from assms(1,2) obtain r' :: replay where "wf_snapshot s" "foldE (replay_event X s) (initial_replay s) events = Inr r'"
    "replay_ok s (r_nodes r', r_seen r')" "ws_nodes w = node_list s (r_nodes r')"
    by (rule reconstruct_replay) blast
  with assms(3) show ?thesis by (simp add: status_of_replay_def)
qed

lemma replay_lookup:
  assumes "status_of_replay s w r"
  shows "node_status_of w nid = r_nodes r nid"
proof -
  have wf: "wf_snapshot s" and ok: "replay_ok s (r_nodes r, r_seen r)" and w: "ws_nodes w = node_list s (r_nodes r)"
    using assms by (auto simp: status_of_replay_def)
  have dom: "dom (r_nodes r) = node_id ` set (nodes s)" using ok by (simp add: replay_ok_def)
  have id: "r_nodes r m = Some x \<Longrightarrow> st_id x = m" for m x using replay_okD [OF ok] by (auto simp: node_ok_def)
  note mem = node_list_iff [OF wf dom]
  show ?thesis
  proof (cases "r_nodes r nid")
    case None
    have "\<forall>x \<in> set (rev (ws_nodes w)). st_id x \<noteq> nid" using mem id None by (auto simp: w)
    with None show ?thesis by (simp add: node_status_of_def find_None_iff)
  next
    case (Some x)
    then have "\<exists>y. node_status_of w nid = Some y"
      using mem id by (fastforce simp: node_status_of_def w find_None_iff simp flip: not_None_eq)
    then obtain y where y: "node_status_of w nid = Some y" by blast
    then have "y \<in> set (ws_nodes w)" "st_id y = nid"
      by (auto simp: node_status_of_def find_Some_iff) (metis length_rev nth_mem set_rev)
    then have "r_nodes r nid = Some y" using mem id by (auto simp: w)
    with y show ?thesis by simp
  qed
qed

lemma replay_member:
  assumes "x \<in> set (ws_nodes w)" and "status_of_replay s w r"
  shows "r_nodes r (st_id x) = Some x"
proof -
  have wf: "wf_snapshot s" and ok: "replay_ok s (r_nodes r, r_seen r)" and w: "ws_nodes w = node_list s (r_nodes r)"
    using assms(2) by (auto simp: status_of_replay_def)
  have "dom (r_nodes r) = node_id ` set (nodes s)" using ok by (simp add: replay_ok_def)
  from node_list_iff [OF wf this] assms(1) obtain m where "r_nodes r m = Some x" by (auto simp: w)
  with replay_okD [OF ok this] show ?thesis by (auto simp: node_ok_def)
qed

lemma replay_deps:
  assumes "wf_snapshot s" and "n \<in> set (nodes s)"
  shows "snapshot_deps s (node_id n) = dependencies n" and "kind_of s (node_id n) = Some (kind_str (kind n))"
  using assms distinct_map_of_zip_eq [of node_id "nodes s" n dependencies]
    distinct_map_of_zip_eq [of node_id "nodes s" n "\<lambda>n. kind_str (kind n)"]
  by (simp_all add: snapshot_deps_def deps_of_def graph_of_def kind_of_def wf_snapshot_def)

text \<open>A move that passes the checks of replay changes the state of its node only.\<close>

definition states_of :: "node_map \<Rightarrow> states" where
  "states_of ns = (\<lambda>m. map_option st_state (ns m))"

lemma is_completed_states: "is_completed ns d \<longleftrightarrow> states_of ns d = Some Completed"
  by (simp add: is_completed_def states_of_def split: option.split)

lemma apply_move_ok:
  assumes "ns (mv_node m) = Some x" and "st_state x = mv_from m" and "mv_to m \<in> ALLOWED_TRANSITIONS (mv_from m)"
    and "needs_binding (kind_of s (mv_node m)) (mv_from m) (mv_to m) \<Longrightarrow> st_run x \<noteq> None"
    and "mv_from m = Blocked \<Longrightarrow> mv_to m = Eligible \<Longrightarrow> \<forall>d \<in> set (snapshot_deps s (mv_node m)). is_completed ns d"
    and "mv_from m \<notin> {Failed, Recoverable} \<or> mv_to m \<noteq> Eligible"
  shows "\<exists>ns'. apply_move s ns m = Inr ns' \<and> states_of ns' = (states_of ns)(mv_node m \<mapsto> mv_to m)"
proof -
  let ?y = "x\<lparr>st_state := mv_to m, st_reason := (if mv_to m \<in> TERMINAL_NODE_STATES then Some (mv_reason m) else None)\<rparr>"
  have "apply_move s ns m = Inr (ns(mv_node m \<mapsto> ?y))"
    using assms by (auto simp: apply_move_def transition_summary_def Let_def filter_empty_conv)
  moreover have "states_of (ns(mv_node m \<mapsto> ?y)) = (states_of ns)(mv_node m \<mapsto> mv_to m)"
    by (simp add: states_of_def fun_eq_iff)
  ultimately show ?thesis by blast
qed

lemma states_of_Some: "states_of ns m = Some q \<longleftrightarrow> (\<exists>x. ns m = Some x \<and> st_state x = q)"
  by (simp add: states_of_def)

lemma gate_step_legal:
  assumes "wf_snapshot s" and "n \<in> set (nodes s)" and "gate_step (states_of ns) n = (ms, st')"
  shows "\<exists>ns'. foldE (apply_move s) ns ms = Inr ns' \<and> states_of ns' = st'"
proof (cases ms)
  case Nil
  with assms(3) show ?thesis by (auto simp: gate_step_def Let_def split: if_splits)
next
  case (Cons m ms')
  with assms(3) have m: "mv_node m = node_id n" "mv_from m = Blocked" "mv_to m \<in> {Failed, Eligible}" "ms' = []"
      "states_of ns (node_id n) = Some Blocked" "st' = (states_of ns)(node_id n \<mapsto> mv_to m)"
      "mv_to m = Eligible \<longrightarrow> (\<forall>d \<in> set (dependencies n). states_of ns d = Some Completed)"
    by (auto simp: gate_step_def Let_def split: if_splits)
  then obtain x where "ns (node_id n) = Some x" "st_state x = Blocked" by (auto simp: states_of_Some)
  with m replay_deps [OF assms(1,2)] have "\<exists>ns'. apply_move s ns m = Inr ns' \<and> states_of ns' = st'"
    using apply_move_ok [of ns m x s] by (auto simp: needs_binding_def is_completed_states)
  with Cons m(4) show ?thesis by auto
qed

lemma reopen_step_legal:
  assumes "reopen_step (states_of ns) n x = (ms, st')"
  shows "\<exists>ns'. foldE (apply_move s) ns ms = Inr ns' \<and> states_of ns' = st'"
proof (cases ms)
  case Nil
  with assms show ?thesis by (auto simp: reopen_step_def Let_def split: if_splits)
next
  case (Cons m ms')
  with assms have m: "mv_node m = node_id n" "mv_from m = Failed" "mv_to m = Blocked" "ms' = []"
      "states_of ns (node_id n) = Some Failed" "st' = (states_of ns)(node_id n \<mapsto> Blocked)"
    by (auto simp: reopen_step_def Let_def split: if_splits)
  then obtain y where "ns (node_id n) = Some y" "st_state y = Failed" by (auto simp: states_of_Some)
  with m have "\<exists>ns'. apply_move s ns m = Inr ns' \<and> states_of ns' = st'"
    using apply_move_ok [of ns m y s] by (auto simp: needs_binding_def)
  with Cons m(4) show ?thesis by auto
qed

lemma blocked_moves_legal:
  assumes "wf_snapshot s" and "set rest \<subseteq> set (nodes s)"
  shows "\<exists>ns'. foldE (apply_move s) ns (blocked_moves w (states_of ns) rest) = Inr ns'"
  using assms(2)
proof (induction rest arbitrary: ns)
  case (Cons n rest)
  show ?case
  proof (cases "node_status_of w (node_id n)")
    case (Some x)
    obtain ms1 st1 where r: "reopen_step (states_of ns) n x = (ms1, st1)" by (rule prod.exhaust)
    from reopen_step_legal [OF r, of s] obtain ns1 where 1: "foldE (apply_move s) ns ms1 = Inr ns1" "states_of ns1 = st1"
      by blast
    obtain ms2 st2 where g: "gate_step (states_of ns1) n = (ms2, st2)" by (rule prod.exhaust)
    from gate_step_legal [OF assms(1) _ g] Cons.prems obtain ns2 where
      2: "foldE (apply_move s) ns1 ms2 = Inr ns2" "states_of ns2 = st2" by auto
    from Cons.IH [of ns2] Cons.prems obtain ns3 where
      "foldE (apply_move s) ns2 (blocked_moves w st2 rest) = Inr ns3" by (auto simp: 2(2))
    with 1 2 show ?thesis using r g by (simp add: Some blocked_step_def foldE_append)
  qed simp
qed simp

lemma decide_running_legal:
  assumes "decide_running X s W x = Inr ms" and "ns (st_id x) = Some x"
  shows "\<exists>ns'. foldE (apply_move s) ns ms = Inr ns'"
proof (cases ms)
  case (Cons m ms')
  with assms(1) have m: "mv_node m = st_id x" "mv_from m = Running" "mv_to m \<in> {Recoverable, Failed, Completed}"
      "st_state x = Running" "ms' = []" "mv_to m \<noteq> Recoverable \<longrightarrow> st_run x \<noteq> None"
    by (auto simp: decide_running_def Let_def terminal_child_outcome_def split: if_splits option.splits sum.splits prod.splits)
  with assms(2) have "\<exists>ns'. apply_move s ns m = Inr ns' \<and> states_of ns' = (states_of ns)(mv_node m \<mapsto> mv_to m)"
    by (intro apply_move_ok [of ns m x s]) (auto simp: needs_binding_def)
  with Cons m(5) show ?thesis by auto
qed simp

lemma node_of_Some: "node_of s nid = Some n \<Longrightarrow> n \<in> set (nodes s) \<and> node_id n = nid"
  by (auto simp: node_of_def find_Some_iff) (metis length_rev nth_mem set_rev)

lemma decide_approval_shape:
  assumes "decide_approval X s W w nid = Inr (m # ms)"
  shows "ms = [] \<and> mv_node m = nid \<and> mv_from m = Eligible \<and> mv_to m \<in> {Completed, Failed}
    \<and> (\<exists>n \<in> set (nodes s). node_id n = nid \<and> (\<exists>p. kind n = Approval p))"
proof -
  from assms obtain n subject where n: "node_of s nid = Some n" "kind n = Approval subject"
    by (auto simp: decide_approval_def split: option.splits node_kind.splits)
  with assms obtain x where "decide_subject X W nid subject x = Inr (m # ms)"
    by (auto simp: decide_approval_def split: option.splits)
  then have "ms = [] \<and> mv_node m = nid \<and> mv_from m = Eligible \<and> mv_to m \<in> {Completed, Failed}"
    by (auto simp: decide_subject_def approval_move_def split: option.splits sum.splits if_splits)
  with n node_of_Some [OF n(1)] show ?thesis by auto
qed

lemma decide_approval_legal:
  assumes "wf_snapshot s" and "decide_approval X s W w nid = Inr ms" and "states_of ns nid = Some Eligible"
  shows "\<exists>ns'. foldE (apply_move s) ns ms = Inr ns'"
proof (cases ms)
  case (Cons m ms')
  from assms(2) have d: "decide_approval X s W w nid = Inr (m # ms')" by (simp add: Cons)
  note m = decide_approval_shape [OF d]
  then obtain n p where "n \<in> set (nodes s)" "node_id n = nid" "kind n = Approval p" by blast
  then have "kind_of s nid \<noteq> Some ''task''" using replay_deps(2) [OF assms(1), of n] by simp
  moreover obtain x where "ns nid = Some x" "st_state x = Eligible" using assms(3) by (auto simp: states_of_Some)
  ultimately have "\<exists>ns'. apply_move s ns m = Inr ns' \<and> states_of ns' = (states_of ns)(mv_node m \<mapsto> mv_to m)"
    using m by (intro apply_move_ok [of ns m x s]) (auto simp: needs_binding_def)
  with Cons m show ?thesis by auto
qed simp

lemma replay_states: "status_of_replay s w r \<Longrightarrow> state_of w = states_of (r_nodes r)"
  by (simp add: fun_eq_iff state_of_def states_of_def replay_lookup)



subsection \<open>Completion rests on sealed evidence\<close>

lemma terminal_child_completed:
  assumes "terminal_child_outcome X W rid = Inr (Some (Completed, reason, details))"
  shows "\<exists>d receipt h final g completion ch collection k. agent_run_dir W rid = Inr d
    \<and> verify_seal_details X d None = Inr (receipt, h) \<and> jget receipt ''agent_run_id'' = JStr rid
    \<and> read_sealed_contract X d receipt ''final-status.json'' STATUS_SCHEMA = Inr (final, g)
    \<and> read_sealed_contract X d receipt ''completion.json'' ''agent-workflow/completion/v1'' = Inr (completion, ch)
    \<and> read_sealed_contract X d receipt ''collections/completion.json'' ''agent-workflow/completion-collection/v1''
        = Inr (collection, k)
    \<and> jget final ''agent_run_id'' = JStr rid \<and> jget final ''status'' = JStr ''completed''
    \<and> jget completion ''agent_run_id'' = JStr rid \<and> jget completion ''result'' = JStr ''completed''
    \<and> jget collection ''validation_status'' = JStr ''valid''"
  using assms unfolding terminal_child_outcome_def Let_def by (clarsimp split: if_splits)

lemma decide_running_completed:
  assumes "decide_running X s W x = Inr ms" and "m \<in> set ms" and "mv_to m = Completed"
  shows "is_task s (st_id x) \<and> (\<exists>rid reason details. st_run x = Some rid
    \<and> terminal_child_outcome X W rid = Inr (Some (Completed, reason, details)))"
  using assms by (auto simp: decide_running_def Let_def split: if_splits option.splits sum.splits)

text \<open>
  C3. A task is completed only on sealed evidence: when reconciliation decides that a running
  node is completed, the node is a task bound to an agent run whose seal verifies, whose final
  receipt, status and completion are of that very run, whose sealed status and completion both
  say completed, and whose completion was collected as valid.
\<close>

theorem completion_needs_seal:
  assumes "decide_running X s W x = Inr ms" and "m \<in> set ms" and "mv_to m = Completed"
  shows "is_task s (st_id x) \<and> (\<exists>rid d receipt h final g completion ch collection k.
    st_run x = Some rid \<and> agent_run_dir W rid = Inr d
    \<and> verify_seal_details X d None = Inr (receipt, h) \<and> jget receipt ''agent_run_id'' = JStr rid
    \<and> read_sealed_contract X d receipt ''final-status.json'' STATUS_SCHEMA = Inr (final, g)
    \<and> read_sealed_contract X d receipt ''completion.json'' ''agent-workflow/completion/v1'' = Inr (completion, ch)
    \<and> read_sealed_contract X d receipt ''collections/completion.json'' ''agent-workflow/completion-collection/v1''
        = Inr (collection, k)
    \<and> jget final ''agent_run_id'' = JStr rid \<and> jget final ''status'' = JStr ''completed''
    \<and> jget completion ''agent_run_id'' = JStr rid \<and> jget completion ''result'' = JStr ''completed''
    \<and> jget collection ''validation_status'' = JStr ''valid'')"
  using decide_running_completed [OF assms] by (blast dest: terminal_child_completed)

lemma demo_run_dir: "agent_run_dir demo_world ''r1'' = Inr (demo_with [] None)"
proof -
  have "SAFE_ID ''r1''" by code_simp
  then show ?thesis by (simp add: agent_run_dir_def validate_id_def run_at_def demo_world_def)
qed

lemma demo_run_provenance: "read_provenance seal_ext (demo_with [] None) = Inr demo_provenance"
proof -
  have n: "''run-provenance.json'' \<in> set demo_names" by (simp add: demo_names_def SEALED_ARTIFACTS_def)
  have t: "loads (dumps False demo_provenance) = Some demo_provenance" "utf8_valid (dumps False demo_provenance)"
    "length (dumps False demo_provenance) < 200"
    by code_simp+
  have b: "demo_bytes ''run-provenance.json'' = dumps False demo_provenance"
    by (simp add: demo_bytes_def demo_table_def)
  have "run_entry (demo_with [] None) ''run-provenance.json'' = Some (RFile (dumps False demo_provenance) 1 False)"
    using demo_entry(3) [OF n, of "[]" None] by (simp add: b)
  then show ?thesis
    using t by (simp add: read_provenance_def read_contract_def read_regular_file_def MAX_VALIDATED_FILE_BYTES_def
        Let_def PROVENANCE_SCHEMA_def validate_instance_def seal_ext_def)
      (simp add: demo_provenance_def jaccess)
qed

definition demo_running :: node_status where
  "demo_running = (initial_node (nodes demo_snapshot ! 0))\<lparr>st_state := Running, st_run := Some ''r1'', st_attempt := Some 1\<rparr>"

theorem completion_needs_seal_witness:
  "\<exists>m receipt h. decide_running seal_ext demo_snapshot demo_world demo_running = Inr [m] \<and> mv_to m = Completed
     \<and> verify_seal_details seal_ext (demo_with [] None) None = Inr (receipt, h) \<and> jget receipt ''agent_run_id'' = JStr ''r1''"
proof -
  have i: "st_id demo_running = ''build''" "st_state demo_running = Running" "st_run demo_running = Some ''r1''"
    "node_of demo_snapshot ''build'' \<noteq> None" "is_task demo_snapshot ''build''"
    by (simp_all add: demo_running_def demo_snapshot_def initial_node_def node_of_def is_task_def)
  have "present (demo_with [] None) ''final-receipt.json''"
    using demo_entry(1) [of "[]" None] by (simp add: present_def)
  moreover have "observation_ids demo_provenance = Inr []"
    by (simp add: observation_ids_def Let_def demo_provenance_def jaccess)
  moreover have "jget demo_completion ''agent_run_id'' = JStr ''r1''" by (simp add: demo_completion_def jaccess)
  ultimately have "\<exists>reason details. terminal_child_outcome seal_ext demo_world ''r1'' = Inr (Some (Completed, reason, details))"
    using demo_verified [of None "[]" None] demo_run_provenance
    by (simp add: terminal_child_outcome_def demo_run_dir demo_contract_reads Let_def)
  then obtain m where m: "decide_running seal_ext demo_snapshot demo_world demo_running = Inr [m]" "mv_to m = Completed"
    using i by (auto simp: decide_running_def Let_def)
  from completion_needs_seal [OF m(1), of m] m i(3) demo_run_dir show ?thesis by auto
qed

lemma disposition_action:
  assumes "lifecycle_disposition X d = Inr (Some p)"
  shows "disp_action p \<in> JStr ` {''reviewed'', ''accepted'', ''rejected'', ''force-accepted''} \<union> {JNull}"
proof -
  from lifecycle_disposition_Inr [OF assms] obtain h ch rv override where
    k: "(case override of Some (v, dig) \<Rightarrow> override_disposition d h ch rv v dig
         | None \<Rightarrow> chain_disposition X d h ch rv) = Inr (Some p)" by blast
  show ?thesis
  proof (cases override)
    case (Some x)
    with k show ?thesis by (cases x) (auto simp: override_disposition_def)
  next
    case None
    with k chain_disposition_Inr obtain chain where "lifecycle_receipts X d (Some h) = Inr chain"
      "disp_action p = chain_action chain" by fastforce
    with chain_action_cases [OF this(1)] show ?thesis by (auto simp: LIFECYCLE_ACTIONS_def)
  qed
qed

lemma accepted_disposition_chain:
  assumes "lifecycle_disposition X d = Inr (Some p)" and "disp_action p = JStr ''accepted''"
  shows "\<exists>receipt h completion ch rv chain. verify_seal_details X d None = Inr (receipt, h)
    \<and> jget receipt ''agent_run_id'' = JStr (run_name d)
    \<and> read_sealed_contract X d receipt ''completion.json'' ''agent-workflow/completion/v1'' = Inr (completion, ch)
    \<and> jget completion ''head_revision'' = JStr rv
    \<and> lifecycle_receipts X d (Some h) = Inr chain \<and> accepted_chain chain h rv"
proof -
  from lifecycle_disposition_Inr [OF assms(1)] obtain receipt h completion ch rv override where
    v: "verify_seal_details X d None = Inr (receipt, h)" "jget receipt ''agent_run_id'' = JStr (run_name d)"
    "read_sealed_contract X d receipt ''completion.json'' ''agent-workflow/completion/v1'' = Inr (completion, ch)"
    "jget completion ''head_revision'' = JStr rv"
    and k: "(case override of Some (v, dig) \<Rightarrow> override_disposition d h ch rv v dig
             | None \<Rightarrow> chain_disposition X d h ch rv) = Inr (Some p)"
    by blast
  have "override = None"
    using k assms(2) by (cases override) (auto simp: override_disposition_def split: prod.splits)
  with k have "chain_disposition X d h ch rv = Inr (Some p)" by simp
  moreover have "disp_action p \<in> {JStr ''accepted'', JStr ''force-accepted''}" by (subst assms(2)) simp
  ultimately have "\<exists>chain. lifecycle_receipts X d (Some h) = Inr chain \<and> accepted_chain chain h rv"
    by (rule chain_disposition_accepted)
  with v show ?thesis by blast
qed

lemma decide_subject_completed:
  assumes "decide_subject X W nid subject x = Inr ms" and "m \<in> set ms" and "mv_to m = Completed"
  shows "\<exists>rid d p. st_run x = Some rid \<and> agent_run_dir W rid = Inr d \<and> lifecycle_disposition X d = Inr (Some p)
    \<and> disp_action p = JStr ''accepted''"
proof -
  from assms obtain rid d p where r: "st_run x = Some rid" "agent_run_dir W rid = Inr d"
    "lifecycle_disposition X d = Inr (Some p)" "py_str (disp_action p) = ''accepted''"
    by (auto simp: decide_subject_def approval_move_def split: option.splits sum.splits if_splits)
  moreover from r(4) disposition_action [OF r(3)] have "disp_action p = JStr ''accepted''" by auto
  ultimately show ?thesis by blast
qed

text \<open>
  C4. An approval node is completed only by an accepted lifecycle: when reconciliation decides
  that an eligible approval node is completed, its subject is bound to an agent run whose seal
  verifies, and the lifecycle receipts of that run end with a review and an acceptance of this
  very seal and of the revision it seals. An override alone never completes it.
\<close>

theorem approval_needs_acceptance:
  assumes "decide_approval X s W w nid = Inr ms" and "m \<in> set ms" and "mv_to m = Completed"
  shows "\<exists>n subject x rid d receipt h completion ch rv chain. node_of s nid = Some n \<and> kind n = Approval subject
    \<and> node_status_of w subject = Some x \<and> st_run x = Some rid \<and> agent_run_dir W rid = Inr d
    \<and> verify_seal_details X d None = Inr (receipt, h) \<and> jget receipt ''agent_run_id'' = JStr (run_name d)
    \<and> read_sealed_contract X d receipt ''completion.json'' ''agent-workflow/completion/v1'' = Inr (completion, ch)
    \<and> jget completion ''head_revision'' = JStr rv
    \<and> lifecycle_receipts X d (Some h) = Inr chain \<and> accepted_chain chain h rv"
proof -
  from assms obtain n subject x where n: "node_of s nid = Some n" "kind n = Approval subject"
    "node_status_of w subject = Some x" "decide_subject X W nid subject x = Inr ms"
    by (auto simp: decide_approval_def split: option.splits node_kind.splits)
  from decide_subject_completed [OF n(4) assms(2,3)] obtain rid d p where
    r: "st_run x = Some rid" "agent_run_dir W rid = Inr d" "lifecycle_disposition X d = Inr (Some p)"
    "disp_action p = JStr ''accepted''" by blast
  from accepted_disposition_chain [OF r(3,4)] n(1-3) r(1,2) show ?thesis by blast
qed

definition demo_accepted_world :: world where
  "demo_accepted_world = demo_world\<lparr>w_runs := [(''r1'', demo_with demo_accept_files None)]\<rparr>"

theorem approval_needs_acceptance_witness:
  "\<exists>m receipt h. decide_approval seal_ext demo_snapshot demo_accepted_world demo_done ''gate'' = Inr [m]
     \<and> mv_to m = Completed
     \<and> verify_seal_details seal_ext (demo_with demo_accept_files None) None = Inr (receipt, h)"
proof -
  let ?d = "demo_with demo_accept_files None"
  have "SAFE_ID ''r1''" by code_simp
  then have rd: "agent_run_dir demo_accepted_world ''r1'' = Inr ?d"
    by (simp add: agent_run_dir_def validate_id_def run_at_def demo_accepted_world_def demo_world_def)
  have i: "\<exists>n. node_of demo_snapshot ''gate'' = Some n \<and> kind n = Approval ''build''"
    by (simp add: demo_snapshot_def node_of_def)
  have st: "\<exists>x. node_status_of demo_done ''build'' = Some x \<and> st_run x = Some ''r1''"
    by (simp add: node_status_of_def demo_done_def initial_node_def demo_snapshot_def)
  from demo_accepted rd i st obtain m where
    m: "decide_approval seal_ext demo_snapshot demo_accepted_world demo_done ''gate'' = Inr [m]" "mv_to m = Completed"
    by (auto simp: decide_approval_def decide_subject_def approval_move_def)
  from approval_needs_acceptance [OF m(1), of m] m rd st i show ?thesis by auto
qed

subsection \<open>Behaviours that contradict the intent\<close>

definition demo_override :: json where
  "demo_override = JObj [(''final_receipt_sha256'', JStr (dumps False demo_receipt))]"

definition demo_forced :: rundir where
  "demo_forced = demo_with [(OVERRIDE_NAME, RFile (dumps False demo_override) 1 False)] None"

lemma demo_forced_disposition:
  "\<exists>p. lifecycle_disposition seal_ext demo_forced = Inr (Some p) \<and> disp_action p = JStr ''force-accepted''"
proof -
  have s: "OVERRIDE_NAME \<notin> set demo_names" "OVERRIDE_NAME \<noteq> ''collections''" "OVERRIDE_NAME \<noteq> ''final-receipt.json''"
    "OVERRIDE_NAME \<noteq> ''seal.lock''"
    by (simp_all add: demo_names_def SEALED_ARTIFACTS_def OVERRIDE_NAME_def)
  have t: "plain demo_override" "ascii_json demo_override" "canon demo_override = demo_override"
    using dumps_ascii [OF demo_receipt_text(1,2)] by (simp_all add: demo_override_def) (simp_all add: ascii_def)
  have "run_entry demo_forced OVERRIDE_NAME = Some (RFile (dumps False demo_override) 1 False)"
    using demo_extra_entry [OF s(1-3)] by (simp add: demo_forced_def)
  then have o: "\<exists>h. read_override seal_ext demo_forced = Inr (Some (demo_override, h))"
    using t by (simp add: read_override_def loads_utf8_def utf8_valid_dumps loads_dumps validate_instance_def seal_ext_def)
  have r: "run_name demo_forced = ''r1''" by (simp add: demo_forced_def demo_with_def)
  have "verify_seal_details seal_ext demo_forced None = Inr (demo_receipt, dumps False demo_receipt)"
    using demo_verified s(4) by (simp add: demo_forced_def)
  moreover have "read_sealed_contract seal_ext demo_forced demo_receipt ''completion.json'' sc
      = Inr (demo_completion, dumps False demo_completion)" for sc
    unfolding demo_forced_def by (rule demo_contract_reads)
  moreover have "py_get demo_override ''final_receipt_sha256'' = Inr (JStr (dumps False demo_receipt))"
    by (simp add: py_get_def demo_override_def jaccess)
  ultimately show ?thesis
    using o r by (auto simp: lifecycle_disposition_def override_disposition_def)
qed

lemma replay_node:
  assumes "reconstruct_workflow_status X j events = Inr w" and "node_status_of w nid = Some x"
  shows "\<exists>s (r :: replay). normalize_snapshot X j = Inr s
    \<and> foldE (replay_event X s) (initial_replay s) events = Inr r \<and> r_nodes r nid = Some x
    \<and> node_ok s (r_nodes r) (r_seen r) nid x"
proof -
  from reconstruct_Inr [OF assms(1)] obtain s and r :: replay where
    n: "normalize_snapshot X j = Inr s" "wf_snapshot s"
    "foldE (replay_event X s) (initial_replay s) events = Inr r"
    "replay_ok s (r_nodes r, r_seen r)" "ws_nodes w = node_list s (r_nodes r)" by metis
  then have "status_of_replay s w r" by (simp add: status_of_replay_def)
  with assms(2) have "r_nodes r nid = Some x" by (simp add: replay_lookup)
  with n replay_okD show ?thesis by blast
qed

lemma unbound_rebinding_rejected:
  assumes "st_run x = None" and "st_state x = Failed"
  shows "\<exists>e. apply_binding r nid x b = Inl e"
  using assms by (auto simp: apply_binding_def bindE_def raise_if_def)

text \<open>
  C35. Retrying a node that failed before it was ever bound makes the journal unreadable. The
  retry is not refused: it is planned as attempt 1 of a run named by the word \<open>None\<close>. Once a
  binding event for that node is in the journal, no continuation of the journal replays.
\<close>

theorem retry_unbound_breaks_replay:
  assumes "reconstruct_workflow_status X j events = Inr w" and "node_status_of w (node_id n) = Some x"
    and "st_state x = Failed" and "st_run x = None"
  shows "next_attempt n True x = Inr (1, Some ''None'')
    \<and> (\<forall>event more. jget event ''kind'' = JStr ''node-bound'' \<and> jget event ''node_id'' = JStr (node_id n) \<longrightarrow>
         (\<exists>e. reconstruct_workflow_status X j (events @ event # more) = Inl e))"
proof -
  from replay_node [OF assms(1,2)] obtain s and r :: replay where
    n: "normalize_snapshot X j = Inr s" and f: "foldE (replay_event X s) (initial_replay s) events = Inr r"
    and x: "r_nodes r (node_id n) = Some x" and ok: "node_ok s (r_nodes r) (r_seen r) (node_id n) x"
    by blast
  from ok assms(4) have "st_attempt x = None" by (simp add: node_ok_def lineage_ok_def)
  with assms(3,4) have "next_attempt n True x = Inr (1, Some ''None'')" by (simp add: next_attempt_def)
  moreover have "\<exists>e. reconstruct_workflow_status X j (events @ event # more) = Inl e"
    if "jget event ''kind'' = JStr ''node-bound''" "jget event ''node_id'' = JStr (node_id n)" for event more
  proof (rule ccontr)
    assume "\<not> ?thesis"
    then obtain w' where "reconstruct_workflow_status X j (events @ event # more) = Inr w'"
      by (cases "reconstruct_workflow_status X j (events @ event # more)") auto
    with n f obtain r' :: replay where "replay_event X s r event = Inr r'"
      by (auto simp: reconstruct_workflow_status_def foldE_append)
    with that x unbound_rebinding_rejected [OF assms(4,3)] show False
      by (auto simp: replay_event_def Let_def jidx_Inr split: option.splits) (metis Inl_Inr_False)
  qed
  ultimately show ?thesis by blast
qed

theorem retry_unbound_breaks_replay_witness:
  "\<exists>w x. reconstruct_workflow_status demo_ext demo_json [demo_move ''ship'' Blocked Failed] = Inr w
     \<and> node_status_of w (node_id demo_ship) = Some x \<and> next_attempt demo_ship True x = Inr (1, Some ''None'')
     \<and> (\<exists>e. reconstruct_workflow_status demo_ext demo_json
               ([demo_move ''ship'' Blocked Failed] @ demo_bind ''ship'' ''r2'' # []) = Inl e)"
proof -
  have "case reconstruct_workflow_status demo_ext demo_json [demo_move ''ship'' Blocked Failed] of
      Inr w \<Rightarrow> (case node_status_of w ''ship'' of Some x \<Rightarrow> st_state x = Failed \<and> st_run x = None | None \<Rightarrow> False)
    | Inl _ \<Rightarrow> False" by code_simp
  then obtain w x where w: "reconstruct_workflow_status demo_ext demo_json [demo_move ''ship'' Blocked Failed] = Inr w"
    "node_status_of w ''ship'' = Some x" "st_state x = Failed" "st_run x = None"
    by (auto split: sum.splits option.splits)
  have n: "node_id demo_ship = ''ship''" by (simp add: demo_ship_def demo_snapshot_def)
  have "jget (demo_bind ''ship'' ''r2'') ''kind'' = JStr ''node-bound''"
    "jget (demo_bind ''ship'' ''r2'') ''node_id'' = JStr ''ship''"
    by (simp_all add: demo_bind_def jaccess)
  with retry_unbound_breaks_replay [OF w(1) _ w(3,4), of demo_ship] w n show ?thesis by auto
qed

lemma ensure_twice:
  "ensure_workflow_events_file path f = (f', Inr u) \<Longrightarrow> ensure_workflow_events_file path f' = (f', Inr ())"
  by (cases f rule: slot_cases)
    (auto simp: ensure_workflow_events_file_def locked_file_def split: if_splits)

lemma resolve_node_inputs_dir: "w_dir (fst (resolve_node_inputs X now s w n att W)) = w_dir W"
  by (auto simp: resolve_node_inputs_def freeze_inputs_def Let_def split: sum.splits prod.splits)

lemma scheduler_status_stable:
  assumes "scheduler_status X s W = (W1, Inr w)" and "w_events W2 = w_events W1" and "w_dir W2 = w_dir W1"
  shows "scheduler_status X s W2 = (W2, Inr w)"
proof -
  obtain f r where e: "ensure_workflow_events_file (events_path W) (w_events W) = (f, r)" by (rule prod.exhaust)
  with assms(1) obtain u where "r = Inr u" by (cases r) (auto simp: scheduler_status_def)
  with e assms(1) have W1: "W1 = W\<lparr>w_events := f\<rparr>"
    and rc: "reconstruct_from_file X (snapshot_json s) (events_path W) f = Inr w"
    by (auto simp: scheduler_status_def)
  from W1 assms(2,3) have same: "events_path W2 = events_path W" "w_events W2 = f" by (simp_all add: events_path_def)
  with ensure_twice [OF e [unfolded \<open>r = Inr u\<close>]] rc show ?thesis
    by (simp add: scheduler_status_def)
qed

text \<open>
  A launch whose run already exists is never recorded: when the child run of a planned
  binding exists, executing the plan reports it as recovered but leaves the journal, and with it
  the status of the workflow, as it was. The node stays eligible, so that every later round plans
  it again and none observes the outcome of its run.
\<close>

theorem recovered_child_not_recorded:
  assumes "scheduler_status X s W = (W1, Inr w)"
    and "resolve_node_inputs X now s w n (lp_attempt p) W1 = (W2, Inr inputs)"
    and "child_run_exists X W2 (lp_run p) = Inr True"
  shows "execute C X now s n p W = (W2, Inr (JObj [(''recovered'', JBool True), (''agent_run_id'', JStr (lp_run p))]))
    \<and> scheduler_status X s W2 = (W2, Inr w)"
proof -
  have "w_events W2 = w_events W1" "w_dir W2 = w_dir W1"
    using resolve_node_inputs_events [of X now s w n "lp_attempt p" W1]
      resolve_node_inputs_dir [of X now s w n "lp_attempt p" W1] by (simp_all add: assms(2))
  from scheduler_status_stable [OF assms(1) this] assms show ?thesis
    by (simp add: execute_def bindS_def catchW_def returnS_def)
qed

definition demo_plan1 :: launch_plan where
  "demo_plan1 = \<lparr>lp_node = ''build'', lp_run = ''r1'', lp_attempt = 1, lp_retry = None\<rparr>"

theorem recovered_child_not_recorded_witness:
  "\<exists>W w. scheduler_status seal_ext demo_snapshot demo_world = (W, Inr w) \<and> state_of w ''build'' = Some Eligible
     \<and> (\<forall>C. fst (execute C seal_ext ''t'' demo_snapshot (nodes demo_snapshot ! 0) demo_plan1 demo_world) = W)"
proof -
  let ?W = "demo_world\<lparr>w_events := Some (Regular [] 1)\<rparr>"
  have n: "normalize_snapshot seal_ext (snapshot_json demo_snapshot) = Inr demo_snapshot" by code_simp
  have "schema_errors seal_ext a v = []" for a v by (simp add: seal_ext_def)
  with n obtain w where w: "reconstruct_workflow_status seal_ext (snapshot_json demo_snapshot) [] = Inr w"
    by (auto simp: reconstruct_workflow_status_def snapshot_sha256_def Let_def)
  have "status_of_replay demo_snapshot w (initial_replay demo_snapshot)"
    by (rule status_of_replayI [OF n w]) simp
  then have el: "state_of w ''build'' = Some Eligible"
    by (simp add: replay_states states_of_def initial_replay_def demo_snapshot_def initial_node_def)
  have "decode_jsonl (workflow_cfg path) V [] = Inr []" for path V by (simp add: decode_jsonl_def splitlines_def)
  then have "read_workflow_events seal_ext path (Some (Regular [] 1)) = Inr []" for path
    using read_regular [of "[]" "workflow_cfg path" True "validate_workflow_event_record seal_ext"]
    by (simp add: read_workflow_events_def read_jsonl_exists workflow_cfg_def default_cfg_def DEFAULT_MAX_JOURNAL_BYTES_def)
  with n w have st: "scheduler_status seal_ext demo_snapshot demo_world = (?W, Inr w)"
    by (simp add: scheduler_status_def ensure_workflow_events_file_def locked_file_def demo_world_def
        reconstruct_from_file_def)
  have "node_inputs (kind (nodes demo_snapshot ! 0)) = []" by (simp add: demo_snapshot_def)
  then have ri: "resolve_node_inputs seal_ext ''t'' demo_snapshot w (nodes demo_snapshot ! 0) (lp_attempt demo_plan1) ?W
      = (?W, Inr None)" by (simp add: resolve_node_inputs_def)
  have "SAFE_ID ''r1''" by code_simp
  then have "agent_run_dir ?W ''r1'' = Inr (demo_with [] None)"
    by (simp add: agent_run_dir_def validate_id_def run_at_def demo_world_def)
  moreover have "present (demo_with [] None) ''final-receipt.json''"
    using demo_entry(1) [of "[]" None] by (simp add: present_def)
  moreover have "verify_seal seal_ext (demo_with [] None) None = Inr demo_receipt"
    using demo_verified [of None "[]" None] by (simp add: verify_seal_def)
  moreover have "map_of (w_runs ?W) ''r1'' \<noteq> None" "lp_run demo_plan1 = ''r1''"
    by (simp_all add: demo_world_def demo_plan1_def)
  moreover have "jget demo_receipt ''agent_run_id'' = JStr ''r1''" by simp
  ultimately have "child_run_exists seal_ext ?W (lp_run demo_plan1) = Inr True"
    by (simp add: child_run_exists_def)
  from recovered_child_not_recorded [OF st ri this] st el show ?thesis by auto
qed

end
