(* ===== verification/Json_Pretty.thy ===== *)
theory Json_Pretty
  imports Json_Roundtrip
begin

text \<open>
  Reading back an indented document: \<open>atomic_write_json\<close> writes
  \<open>json.dumps(v, indent=2, sort_keys=True)\<close> and a line feed; \<open>json.loads\<close> returns the value with
  sorted keys. Stated for ASCII text, where the escaping of \<open>ensure_ascii=True\<close> needs no surrogates.
\<close>

subsection \<open>Quoted ASCII text\<close>

lemma ascii_space [simp]: "ascii (CHR '' '')" "ascii (CHR 0x0A)" "ascii (CHR ''u'')"
  by (simp_all add: ascii_def)

lemma esc_ascii_Cons:
  assumes "ascii c"
  shows "esc_ascii (c # s) = (if c = CHR 0x7F then esc_point 127 else esc_char c) @ esc_ascii s"
proof (cases "c = CHR 0x7F")
  case True
  have "utf8_head (CHR 0x7F # s) = Some (127, s)" by (simp add: utf8_head_def)
  with True show ?thesis by (subst esc_ascii.simps) simp
next
  case False
  have "(of_char c :: nat) \<noteq> 127"
  proof
    assume "(of_char c :: nat) = 127"
    moreover have "(of_char (CHR 0x7F) :: nat) = 127" by simp
    ultimately show False using False by (metis of_char_eq_iff)
  qed
  with assms have "(of_char c :: nat) < 127" by (simp add: ascii_def)
  with False show ?thesis by (simp add: esc_ascii.simps [of "c # s"])
qed

lemma pstr_del: "pstr (esc_point 127 @ s) = prepend [CHR 0x7F] (pstr s)"
proof -
  obtain a b c' d where h: "hex4 127 = [a, b, c', d]" and v: "hex4_val a b c' d = Some 127"
    using hex4_val_hex4 [of 127] by auto
  have "char_of (of_char (CHR 0x7F) :: nat) = CHR 0x7F" by (rule char_of_char)
  then have "utf8_encode 127 = [CHR 0x7F]" by (simp add: utf8_encode_def)
  with h v show ?thesis by (simp add: esc_point_def simple_escape_def del: hex4_val.simps)
qed

lemma pstr_esc_ascii: "list_all ascii s \<Longrightarrow> pstr (esc_ascii s @ CHR 0x22 # r) = Some (s, r)"
proof (induction s)
  case Nil
  show ?case by (simp add: esc_ascii.simps)
next
  case (Cons c s)
  then show ?case by (cases "c = CHR 0x7F") (simp_all add: esc_ascii_Cons pstr_del pstr_esc_char prepend_simps)
qed

lemma esc_ascii_ascii: "list_all ascii s \<Longrightarrow> list_all ascii (esc_ascii s)"
proof (induction s)
  case (Cons c s)
  have "list_all ascii (esc_point 127)" by (simp add: esc_point_def hex4_def hex2_def hex_digit_ascii)
  with Cons show ?case by (auto simp: esc_ascii_Cons esc_char_ascii)
qed (simp add: esc_ascii.simps)

lemma json_quote_True_ascii: "list_all ascii s \<Longrightarrow> list_all ascii (json_quote True s)"
  by (simp add: json_quote_def esc_ascii_ascii)

subsection \<open>Indentation\<close>

definition newline :: "nat \<Rightarrow> string" where
  "newline n = CHR 0x0A # replicate n (CHR '' '')"

lemma skip_ws_newline [simp]: "skip_ws (newline n @ s) = skip_ws s"
proof -
  have "dropWhile is_ws (replicate n (CHR '' '') @ s) = dropWhile is_ws s"
    by (induction n) (simp_all add: is_ws_def)
  then show ?thesis by (simp add: skip_ws_def newline_def is_ws_def)
qed

lemma delim_newline [simp]: "delim (newline n @ s)"
  by (simp add: newline_def delim_def)

definition pretty_entry :: "nat \<Rightarrow> string \<times> json \<Rightarrow> string" where
  "pretty_entry m kv = json_quote True (fst kv) @ '': '' @ dumps_pretty m (snd kv)"

lemma pretty_JList:
  "vs \<noteq> [] \<Longrightarrow> dumps_pretty n (JList vs) =
     CHR ''['' # newline (n + 2) @ py_join ('','' @ newline (n + 2)) (map (dumps_pretty (n + 2)) vs) @ newline n @ '']''"
  by (simp add: newline_def)

lemma pretty_JObj:
  assumes "kvs \<noteq> []"
  shows "dumps_pretty n (JObj kvs) =
     CHR 0x7B # newline (n + 2)
       @ py_join ('','' @ newline (n + 2)) (map (pretty_entry (n + 2)) (sort_key fst kvs)) @ newline n @ [CHR 0x7D]"
proof -
  have "map (\<lambda>(k, t). json_quote True k @ '': '' @ t)
      (sort_key fst (map (\<lambda>(k, v). (k, dumps_pretty (n + 2) v)) kvs)) = map (pretty_entry (n + 2)) (sort_key fst kvs)"
    unfolding sort_map_val by (simp add: pretty_entry_def case_prod_beta')
  with assms show ?thesis by (simp add: newline_def)
qed

subsection \<open>Reading\<close>

definition reads_pretty :: "json \<Rightarrow> bool" where
  "reads_pretty v \<longleftrightarrow> (\<forall>n f rest. delim rest \<longrightarrow> 2 * length (dumps_pretty n v) \<le> f \<longrightarrow>
     pval f (dumps_pretty n v @ rest) = Some (canon v, rest))"

lemma reads_prettyD:
  "reads_pretty v \<Longrightarrow> delim rest \<Longrightarrow> 2 * length (dumps_pretty n v) \<le> f \<Longrightarrow>
   pval f (dumps_pretty n v @ rest) = Some (canon v, rest)"
  by (simp add: reads_pretty_def)

text \<open>On atoms the indented text is the compact one.\<close>

lemma pretty_atom:
  "\<not> is_obj v \<Longrightarrow> \<not> is_list v \<Longrightarrow> \<not> is_str v \<Longrightarrow> dumps_pretty n v = dumps False v"
  by (cases v) simp_all

lemma pretty_head:
  assumes "plain v" and "ascii_json v"
  shows "\<exists>c r. dumps_pretty n v = c # r \<and> \<not> is_ws c \<and> c \<noteq> CHR '']'' \<and> c \<noteq> CHR 0x7D"
proof (cases "is_obj v \<or> is_list v \<or> is_str v")
  case True
  then show ?thesis by (cases v) (auto simp: is_ws_def json_quote_def)
next
  case False
  with assms show ?thesis using dumps_head [of v] by (simp add: pretty_atom)
qed

lemma skip_ws_pretty: "plain v \<Longrightarrow> ascii_json v \<Longrightarrow> skip_ws (dumps_pretty n v @ r) = dumps_pretty n v @ r"
  using pretty_head [of v n] by (auto simp: skip_ws_head)

lemma skip_ws_join:
  assumes "vs \<noteq> []" and "\<forall>v \<in> set vs. plain v \<and> ascii_json v"
  shows "skip_ws (py_join sep (map (dumps_pretty m) vs) @ r) = py_join sep (map (dumps_pretty m) vs) @ r"
  using assms by (cases vs; cases "tl vs") (auto simp: skip_ws_pretty)

lemma parr_pretty:
  assumes "vs \<noteq> []" and "\<forall>v \<in> set vs. plain v \<and> ascii_json v \<and> reads_pretty v"
    and "2 * length (py_join ('','' @ newline m) (map (dumps_pretty m) vs)) + 1 \<le> f"
  shows "parr f (py_join ('','' @ newline m) (map (dumps_pretty m) vs) @ newline n @ CHR '']'' # rest)
    = Some (map canon vs, rest)"
  using assms
proof (induction vs arbitrary: f)
  case (Cons v vs)
  from Cons.prems obtain f' where f: "f = Suc f'" by (cases f) auto
  show ?case
  proof (cases "vs = []")
    case True
    with Cons.prems f show ?thesis by (simp add: reads_prettyD)
  next
    case False
    have "parr f' (py_join ('','' @ newline m) (map (dumps_pretty m) vs) @ newline n @ CHR '']'' # rest)
        = Some (map canon vs, rest)"
      using Cons.prems False f by (intro Cons.IH) (auto simp: py_join_Cons)
    moreover have "skip_ws (newline m @ py_join ('','' @ newline m) (map (dumps_pretty m) vs) @ newline n @ CHR '']'' # rest)
        = py_join ('','' @ newline m) (map (dumps_pretty m) vs) @ newline n @ CHR '']'' # rest"
      using False Cons.prems by (simp add: skip_ws_join)
    ultimately show ?thesis
      using Cons.prems False f by (simp add: py_join_Cons reads_prettyD)
  qed
qed simp

lemma pobj_pretty_entry:
  assumes "plain v" and "ascii_json v" and "reads_pretty v" and "list_all ascii k"
    and "2 * length (pretty_entry m (k, v)) \<le> f" and "delim rest"
  shows "pobj (Suc f) (pretty_entry m (k, v) @ rest) =
    (case skip_ws rest of
       [] \<Rightarrow> None
     | e # r3 \<Rightarrow>
         if e = CHR 0x7D then Some ([(k, canon v)], r3)
         else if e = CHR '','' then
           map_option (\<lambda>(kvs, r'). ((k, canon v) # kvs, r')) (pobj f (skip_ws r3))
         else None)"
proof -
  have "skip_ws (CHR '' '' # dumps_pretty m v @ rest) = dumps_pretty m v @ rest"
    using skip_ws_pretty [OF assms(1,2), of m rest] by (simp add: skip_ws_def is_ws_def)
  with assms show ?thesis
    by (simp add: pretty_entry_def json_quote_def pstr_esc_ascii reads_prettyD cong: list.case_cong)
qed

lemma skip_ws_pretty_entries:
  "kvs \<noteq> [] \<Longrightarrow> skip_ws (py_join sep (map (pretty_entry m) kvs) @ r) = py_join sep (map (pretty_entry m) kvs) @ r"
  by (cases kvs; cases "tl kvs") (auto simp: pretty_entry_def json_quote_def)

lemma pobj_pretty:
  assumes "kvs \<noteq> []" and "\<forall>(k, v) \<in> set kvs. list_all ascii k \<and> plain v \<and> ascii_json v \<and> reads_pretty v"
    and "2 * length (py_join ('','' @ newline m) (map (pretty_entry m) kvs)) + 1 \<le> f"
  shows "pobj f (py_join ('','' @ newline m) (map (pretty_entry m) kvs) @ newline n @ CHR 0x7D # rest) =
    Some (map (\<lambda>(k, v). (k, canon v)) kvs, rest)"
  using assms
proof (induction kvs arbitrary: f)
  case (Cons kv kvs)
  obtain k v where kv: "kv = (k, v)" by (cases kv)
  from Cons.prems obtain f' where f: "f = Suc f'" by (cases f) auto
  show ?case
  proof (cases "kvs = []")
    case True
    with Cons.prems f kv show ?thesis by (simp add: pobj_pretty_entry del: pobj.simps(2))
  next
    case False
    have "pobj f' (py_join ('','' @ newline m) (map (pretty_entry m) kvs) @ newline n @ CHR 0x7D # rest) =
        Some (map (\<lambda>(k, v). (k, canon v)) kvs, rest)"
      using Cons.prems False f by (intro Cons.IH) (auto simp: py_join_Cons)
    then show ?thesis
      using Cons.prems False f kv
      by (simp add: py_join_Cons pobj_pretty_entry skip_ws_pretty_entries del: pobj.simps(2))
  qed
qed simp

lemma reads_pretty_JList:
  assumes "\<forall>v \<in> set vs. plain v \<and> ascii_json v \<and> reads_pretty v"
  shows "reads_pretty (JList vs)"
  unfolding reads_pretty_def
proof (intro allI impI)
  fix n f rest
  assume len: "2 * length (dumps_pretty n (JList vs)) \<le> f" and "delim rest"
  show "pval f (dumps_pretty n (JList vs) @ rest) = Some (canon (JList vs), rest)"
  proof (cases "vs = []")
    case True
    with len obtain f' where "f = Suc f'" by (cases f) auto
    with True show ?thesis by (simp add: pval_open(1) del: pval.simps(2))
  next
    case False
    let ?t = "py_join ('','' @ newline (n + 2)) (map (dumps_pretty (n + 2)) vs) @ newline n @ CHR '']'' # rest"
    from len False obtain f' where f: "f = Suc f'"
      "2 * length (py_join ('','' @ newline (n + 2)) (map (dumps_pretty (n + 2)) vs)) + 1 \<le> f'"
      unfolding pretty_JList [OF False] by (cases f) auto
    from False obtain v ws where vs: "vs = v # ws" by (cases vs) auto
    then obtain c r where c: "dumps_pretty (n + 2) v = c # r" "\<not> is_ws c" "c \<noteq> CHR '']''"
      using pretty_head [of v "n + 2"] assms by auto
    then obtain r' where t: "?t = c # r'" using vs by (cases ws) auto
    moreover from this c(2) have "skip_ws (newline (n + 2) @ ?t) = ?t" by (simp add: t skip_ws_newline skip_ws_head)
    moreover have "parr f' ?t = Some (map canon vs, rest)" by (rule parr_pretty [OF False assms f(2)])
    ultimately show ?thesis
      using c(3) by (simp add: f(1) pretty_JList [OF False] pval_open(1) del: pval.simps(2) parr.simps(2) dumps_pretty.simps)
  qed
qed

lemma reads_pretty_JObj:
  assumes "\<forall>(k, v) \<in> set kvs. list_all ascii k \<and> plain v \<and> ascii_json v \<and> reads_pretty v" and "distinct (map fst kvs)"
  shows "reads_pretty (JObj kvs)"
  unfolding reads_pretty_def
proof (intro allI impI)
  fix n f rest
  let ?s = "sort_key fst kvs"
  assume len: "2 * length (dumps_pretty n (JObj kvs)) \<le> f" and "delim rest"
  show "pval f (dumps_pretty n (JObj kvs) @ rest) = Some (canon (JObj kvs), rest)"
  proof (cases "kvs = []")
    case True
    with len obtain f' where "f = Suc f'" by (cases f) auto
    with True show ?thesis by (simp add: pval_open(2) del: pval.simps(2))
  next
    case False
    let ?t = "py_join ('','' @ newline (n + 2)) (map (pretty_entry (n + 2)) ?s) @ newline n @ CHR 0x7D # rest"
    from len False obtain f' where f: "f = Suc f'"
      "2 * length (py_join ('','' @ newline (n + 2)) (map (pretty_entry (n + 2)) ?s)) + 1 \<le> f'"
      unfolding pretty_JObj [OF False] by (cases f) auto
    have ne: "?s \<noteq> []" using False by (metis length_sort length_0_conv)
    then obtain kv ws where s: "?s = kv # ws" by (cases ?s) auto
    obtain r' where t: "?t = CHR 0x22 # r'"
      using s by (cases ws) (auto simp: pretty_entry_def json_quote_def)
    have d: "dict_of (map (\<lambda>(k, v). (k, canon v)) ?s) = map (\<lambda>(k, v). (k, canon v)) ?s"
      using assms(2) by (intro dict_of_distinct) (simp add: comp_def case_prod_beta' distinct_sort_keys)
    have "\<forall>(k, v) \<in> set ?s. list_all ascii k \<and> plain v \<and> ascii_json v \<and> reads_pretty v" using assms(1) by simp
    then have p: "pobj f' ?t = Some (map (\<lambda>(k, v). (k, canon v)) ?s, rest)"
      by (rule pobj_pretty [OF ne _ f(2)])
    have w: "skip_ws (newline (n + 2) @ ?t) = ?t" unfolding t by (simp add: skip_ws_newline)
    have "dumps_pretty n (JObj kvs) @ rest = CHR 0x7B # newline (n + 2) @ ?t"
      unfolding pretty_JObj [OF False] by simp
    then have "pval f (dumps_pretty n (JObj kvs) @ rest)
        = (case ?t of [] \<Rightarrow> None | d # r1 \<Rightarrow> if d = CHR 0x7D then Some (JObj [], r1)
             else map_option (\<lambda>(kvs, r'). (JObj (dict_of kvs), r')) (pobj f' ?t))"
      unfolding f(1) by (simp only: pval_open(2) w)
    also have "\<dots> = Some (JObj (map (\<lambda>(k, v). (k, canon v)) ?s), rest)"
      unfolding p using t d by simp
    finally show ?thesis by (simp only: canon_JObj)
  qed
qed

lemma reads_pretty_plain: "plain v \<Longrightarrow> ascii_json v \<Longrightarrow> reads_pretty v"
proof (induction v)
  case (JList vs)
  then show ?case by (intro reads_pretty_JList) (auto simp: list_all_iff)
next
  case (JObj kvs)
  have "list_all ascii k \<and> plain w \<and> ascii_json w \<and> reads_pretty w" if "(k, w) \<in> set kvs" for k w
  proof -
    from JObj.prems that have "plain w" "ascii_json w" "list_all ascii k" by (auto simp: list_all_iff)
    with JObj.IH [of "(k, w)" w] that show ?thesis by simp
  qed
  with JObj.prems show ?case by (intro reads_pretty_JObj) auto
next
  case (JStr s)
  then show ?case
  proof (clarsimp simp: reads_pretty_def)
    fix f :: nat and rest
    assume "list_all ascii s" and "2 * length (json_quote True s) \<le> f"
    then obtain f' where "f = Suc f'" by (cases f) (auto simp: json_quote_def)
    with \<open>list_all ascii s\<close> show "pval f (json_quote True s @ rest) = Some (JStr s, rest)"
      by (simp add: json_quote_def pstr_esc_ascii)
  qed
qed (use reads_plain in \<open>fastforce simp: reads_pretty_def reads_def\<close>)+

text \<open>The text \<open>atomic_write_json\<close> writes.\<close>

definition json_document :: "json \<Rightarrow> string" where
  "json_document v = dumps_pretty 0 v @ [CHR 0x0A]"

lemma loads_pretty:
  assumes "plain v" and "ascii_json v"
  shows "loads (json_document v) = Some (canon v)"
proof -
  have "delim [CHR 0x0A]" by (simp add: delim_def)
  from reads_prettyD [OF reads_pretty_plain [OF assms] this, of 0 "2 * length (json_document v) + 2"]
  show ?thesis
    using skip_ws_pretty [OF assms, of 0 "[CHR 0x0A]"]
    by (simp add: loads_def json_document_def skip_ws_def is_ws_def)
qed

lemma newline_ascii [simp]: "list_all ascii (newline n)"
  by (induction n) (simp_all add: newline_def)

lemma pretty_ascii: "plain v \<Longrightarrow> ascii_json v \<Longrightarrow> list_all ascii (dumps_pretty n v)"
proof (induction v arbitrary: n)
  case (JList vs)
  have "list_all ascii (py_join ('','' @ newline (n + 2)) (map (dumps_pretty (n + 2)) vs))"
    using JList by (intro py_join_all) (simp, auto simp: list_all_iff)
  moreover have "list_all ascii (dumps_pretty n (JList []))" by simp
  ultimately show ?case
    by (cases "vs = []") (simp_all add: pretty_JList del: dumps_pretty.simps)
next
  case (JObj kvs)
  have "list_all ascii (pretty_entry m (k, w))" if "(k, w) \<in> set kvs" for k w m
  proof -
    from JObj.prems that have "plain w" "ascii_json w" "list_all ascii k" by (auto simp: list_all_iff)
    with JObj.IH [of "(k, w)" w] that show ?thesis by (simp add: pretty_entry_def json_quote_True_ascii)
  qed
  then have "list_all ascii (py_join ('','' @ newline (n + 2)) (map (pretty_entry (n + 2)) (sort_key fst kvs)))"
    by (intro py_join_all) auto
  moreover have "list_all ascii (dumps_pretty n (JObj []))" by simp
  ultimately show ?case using JObj.prems
    by (cases "kvs = []") (simp_all add: pretty_JObj del: dumps_pretty.simps)
next
  case (JStr s)
  then show ?case by (simp add: json_quote_True_ascii)
qed (use dumps_ascii in \<open>fastforce simp: pretty_atom\<close>)+

lemma loads_utf8_document:
  assumes "plain v" and "ascii_json v"
  shows "utf8_valid (json_document v)" and "loads (json_document v) = Some (canon v)"
  using utf8_valid_ascii pretty_ascii [OF assms, of 0] loads_pretty [OF assms]
  by (simp_all add: json_document_def)

lemma dumps_all_ascii: "plain v \<Longrightarrow> ascii_json v \<Longrightarrow> list_all ascii (dumps b v)"
proof (cases b)
  case True
  assume "plain v" "ascii_json v"
  then have "list_all ascii (dumps True v)"
  proof (induction v)
    case (JList vs)
    then have "list_all ascii (py_join '','' (map (dumps True) vs))"
      by (intro py_join_all) (auto simp: list_all_iff)
    then show ?case by simp
  next
    case (JObj kvs)
    have "list_all ascii (json_quote True k @ '':'' @ dumps True w)" if "(k, w) \<in> set kvs" for k w
    proof -
      from JObj.prems that have "plain w" "ascii_json w" "list_all ascii k" by (auto simp: list_all_iff)
      with JObj.IH [of "(k, w)" w] that show ?thesis by (simp add: json_quote_True_ascii)
    qed
    then have "list_all ascii (py_join '','' (map (\<lambda>(k, t). json_quote True k @ '':'' @ t)
        (sort_key fst (map (\<lambda>(k, v). (k, dumps True v)) kvs))))"
      unfolding sort_map_val by (intro py_join_all) auto
    then show ?case by simp
  next
    case (JStr s)
    then show ?case by (simp add: json_quote_True_ascii)
  qed (use dumps_ascii in fastforce)+
  with True show ?thesis by simp
qed (simp add: dumps_ascii)

end
