(* ===== verification/Workflow_Receipt.thy ===== *)
theory Workflow_Receipt
  imports Scheduler_Safety Json_Pretty
begin

text \<open>
  \<open>workflow_receipt.py\<close> and the file reads of \<open>workflow.py\<close> it uses: the receipt that closes a
  workflow run. It is built from the stored snapshot, the event journal and the sealed evidence of
  the agent runs, written once as a read-only file, and verified by building it again. The
  advisory lock makes each operation atomic and is left out.
\<close>

record wrun =
  wr_world :: world
  wr_snapshot :: "rentry option"
  wr_receipt :: "rentry option"

definition run_file :: "wrun \<Rightarrow> string \<Rightarrow> string" where
  "run_file R name = w_dir (wr_world R) @ ''/'' @ name"

subsection \<open>Reading the stored files\<close>

text \<open>
  A read-only regular file opened without following a link; \<open>what\<close> names it in the messages. To
  open a directory for reading raises an \<open>OSError\<close> that the code does not catch.
\<close>

definition read_frozen :: "string \<Rightarrow> string \<Rightarrow> string \<Rightarrow> string \<Rightarrow> rentry option \<Rightarrow> string result" where
  "read_frozen what writable_text path dir_error entry =
     (case entry of
        None \<Rightarrow> Inl (WorkflowError (''cannot open '' @ what @ '' '' @ path))
      | Some (RLink _) \<Rightarrow> Inl (WorkflowError (''cannot open '' @ what @ '' '' @ path))
      | Some RDir \<Rightarrow> Inl (OSError dir_error)
      | Some RSpecial \<Rightarrow> Inl (WorkflowError (what @ '' must be a regular file: '' @ path))
      | Some (RFile data _ writable) \<Rightarrow>
          bindE (raise_if writable writable_text) (\<lambda>_. Inr data))"

definition read_stored_workflow_snapshot :: "ext \<Rightarrow> string \<Rightarrow> rentry option \<Rightarrow> snapshot result" where
  "read_stored_workflow_snapshot X path entry =
     bindE (read_frozen ''workflow snapshot'' (''workflow snapshot must be read-only: '' @ path) path path entry) (\<lambda>data.
     bindE (raise_if (\<not> utf8_valid data) (''workflow snapshot is not UTF-8: '' @ path)) (\<lambda>_.
     (case loads data of
        None \<Rightarrow> Inl (WorkflowError (''invalid JSON in workflow snapshot '' @ path))
      | Some v \<Rightarrow>
          bindE (raise_if (\<not> is_obj v) (''workflow snapshot must be a JSON object: '' @ path)) (\<lambda>_.
          bindE (raise_if (jget v ''schema'' \<noteq> JStr WORKFLOW_SNAPSHOT_SCHEMA)
                  (''unexpected workflow snapshot schema in '' @ path @ '': '' @ py_repr (jget v ''schema''))) (\<lambda>_.
          bindE (validate_instance X v WORKFLOW_SNAPSHOT_SCHEMA path) (\<lambda>_.
          normalize_snapshot X v))))))"

definition WORKFLOW_RECEIPT_SCHEMA :: string where
  "WORKFLOW_RECEIPT_SCHEMA = ''agent-workflow/workflow-receipt/v1''"

definition read_workflow_receipt :: "ext \<Rightarrow> string \<Rightarrow> rentry option \<Rightarrow> (json \<times> string) result" where
  "read_workflow_receipt X path entry =
     bindE (read_frozen ''workflow receipt'' ''workflow receipt must be read-only'' path path entry) (\<lambda>data.
     (case loads_utf8 data of
        None \<Rightarrow> Inl (WorkflowError (''cannot read workflow receipt '' @ path))
      | Some v \<Rightarrow>
          bindE (raise_if (\<not> is_obj v) (''workflow receipt must be a JSON object: '' @ path)) (\<lambda>_.
          bindE (validate_instance X v WORKFLOW_RECEIPT_SCHEMA path) (\<lambda>_.
          Inr (v, sha256 X data)))))"

subsection \<open>Evidence of one node\<close>

definition history_item :: "json \<Rightarrow> (string \<times> json) list result" where
  "history_item event =
     (if jget event ''kind'' \<noteq> JStr ''node-bound'' then Inr []
      else
        (let b = jget event ''binding'' in
         bindE (raise_if (\<not> is_obj b) ''workflow node-bound event is missing binding'') (\<lambda>_.
         Inr [(py_str (jget_or event ''node_id'' (JStr [])),
               JObj [(''agent_run_id'', jget b ''agent_run_id''), (''attempt'', jget b ''attempt''),
                     (''retry_of_agent_run_id'', jget b ''retry_of_agent_run_id''),
                     (''bound_at'', jget b ''bound_at'')])])))"

definition binding_history :: "json list \<Rightarrow> (string \<times> json) list result" where
  "binding_history events = bindE (mapE history_item events) (\<lambda>xs. Inr (concat xs))"

definition history_of :: "(string \<times> json) list \<Rightarrow> string \<Rightarrow> json list" where
  "history_of h nid = map snd (filter (\<lambda>(m, _). m = nid) h)"

record task_evidence =
  te_run :: "string option"
  te_receipt :: "string option"
  te_completion :: "string option"

definition no_evidence :: task_evidence where
  "no_evidence = \<lparr>te_run = None, te_receipt = None, te_completion = None\<rparr>"

definition task_receipt :: "ext \<Rightarrow> world \<Rightarrow> node_status \<Rightarrow> task_evidence result" where
  "task_receipt X W x =
     (case (case st_run x of None \<Rightarrow> [] | Some r \<Rightarrow> r) of
        [] \<Rightarrow>
          bindE (raise_if (st_state x = Completed)
                  (''completed task '' @ st_id x @ '' has no child Agent Run binding'')) (\<lambda>_.
          Inr no_evidence)
      | c # cs \<Rightarrow>
          (let rid = c # cs in
           bindE (agent_run_dir W rid) (\<lambda>child.
           if \<not> is_file child ''final-receipt.json'' then
             bindE (raise_if (st_state x = Completed)
                     (''completed task child Agent Run is not sealed: '' @ rid)) (\<lambda>_.
             Inr \<lparr>te_run = Some rid, te_receipt = None, te_completion = None\<rparr>)
           else
             bindE (verify_seal_details X child None) (\<lambda>(receipt, sealed_sha).
             bindE (raise_if (jget receipt ''agent_run_id'' \<noteq> JStr rid)
                     (''child final receipt belongs to another run: '' @ rid)) (\<lambda>_.
             bindE (read_sealed_contract X child receipt ''completion.json'' ''agent-workflow/completion/v1'')
               (\<lambda>(_, completion_sha).
             Inr \<lparr>te_run = Some rid, te_receipt = Some sealed_sha, te_completion = Some completion_sha\<rparr>))))))"

definition approval_receipt_digest ::
  "ext \<Rightarrow> world \<Rightarrow> wstatus \<Rightarrow> string \<Rightarrow> node_status \<Rightarrow> string option result" where
  "approval_receipt_digest X W w subject x =
     (let who = ''approval node '' @ st_id x in
      case st_approval x of
        None \<Rightarrow>
          bindE (raise_if (st_state x = Completed)
                  (''completed approval node '' @ st_id x @ '' has no approval receipt digest'')) (\<lambda>_.
          Inr None)
      | Some recorded \<Rightarrow>
          bindE (raise_if (recorded = []) (who @ '' has an invalid receipt digest'')) (\<lambda>_.
          (let rid = (case node_status_of w subject of
                        None \<Rightarrow> []
                      | Some y \<Rightarrow> (case st_run y of None \<Rightarrow> [] | Some r \<Rightarrow> r)) in
          bindE (raise_if (rid = []) (who @ '' has no authoritative subject run'')) (\<lambda>_.
          bindE (bindE (agent_run_dir W rid) (lifecycle_disposition X)) (\<lambda>disp.
          (case disp of
             None \<Rightarrow> Inl (WorkflowError (who @ '' has no canonical lifecycle disposition''))
           | Some p \<Rightarrow>
               bindE (raise_if (disp_receipt_sha256 p \<noteq> recorded)
                       (who @ '' receipt digest does not match canonical evidence'')) (\<lambda>_.
               bindE (raise_if (disp_action p \<noteq> JStr (if st_state x = Completed then ''accepted'' else ''rejected''))
                       (who @ '' terminal state contradicts canonical disposition'')) (\<lambda>_.
               Inr (Some recorded)))))))))"

subsection \<open>Building the receipt\<close>

definition receipt_node :: "ext \<Rightarrow> world \<Rightarrow> snapshot \<Rightarrow> wstatus \<Rightarrow> (string \<times> json) list \<Rightarrow> node_status \<Rightarrow> json result" where
  "receipt_node X W s w h x =
     (case node_of s (st_id x) of
        None \<Rightarrow> Inl (KeyError (st_id x))
      | Some n \<Rightarrow>
          bindE (case kind n of Task _ \<Rightarrow> task_receipt X W x | Approval _ \<Rightarrow> Inr no_evidence) (\<lambda>te.
          bindE (case kind n of
                   Task _ \<Rightarrow> Inr None
                 | Approval subject \<Rightarrow> approval_receipt_digest X W w subject x) (\<lambda>approval.
          Inr (JObj [(''node_id'', JStr (st_id x)), (''kind'', JStr (kind_str (kind n))),
                     (''state'', JStr (state_str (st_state x))), (''terminal_reason'', opt_str (st_reason x)),
                     (''attempt'', (case st_attempt x of None \<Rightarrow> JNull | Some k \<Rightarrow> JInt k)),
                     (''retry_of_agent_run_id'', opt_str (st_retry x)),
                     (''binding_history'', JList (history_of h (st_id x))),
                     (''input_binding_sha256'', opt_str (st_binding x)),
                     (''approval_receipt_sha256'', opt_str approval),
                     (''child_agent_run_id'', opt_str (te_run te)),
                     (''child_final_receipt_sha256'', opt_str (te_receipt te)),
                     (''child_completion_sha256'', opt_str (te_completion te))]))))"

definition nonterminal_nodes :: "wstatus \<Rightarrow> string list" where
  "nonterminal_nodes w = map st_id (filter (\<lambda>x. st_state x \<notin> TERMINAL_NODE_STATES) (ws_nodes w))"

text \<open>
  \<open>events_path.is_file()\<close>; of a link it depends on the target, and either answer ends in a
  \<open>WorkflowError\<close>.
\<close>

definition journal_file :: "slot \<Rightarrow> bool" where
  "journal_file f = (case f of Some (Regular _ _) \<Rightarrow> True | _ \<Rightarrow> False)"

definition entry_bytes :: "rentry option \<Rightarrow> string" where
  "entry_bytes e = (case e of Some (RFile data _ _) \<Rightarrow> data | _ \<Rightarrow> [])"

definition build_workflow_receipt :: "ext \<Rightarrow> string \<Rightarrow> string option \<Rightarrow> wrun \<Rightarrow> json result" where
  "build_workflow_receipt X now created_at R =
     (let W = wr_world R; path = events_path W in
     bindE (read_stored_workflow_snapshot X (run_file R ''workflow-snapshot.json'') (wr_snapshot R)) (\<lambda>s.
     bindE (raise_if (\<not> journal_file (w_events W)) ''workflow event journal is missing'') (\<lambda>_.
     bindE (reconstruct_from_file X (snapshot_json s) path (w_events W)) (\<lambda>w.
     bindE (raise_if (nonterminal_nodes w \<noteq> [])
             (''workflow receipt requires terminal nodes; nonterminal: '' @ py_join '', '' (sort (nonterminal_nodes w)))) (\<lambda>_.
     bindE (bindE (read_workflow_events X path (w_events W)) binding_history) (\<lambda>h.
     bindE (mapE (receipt_node X W s w h) (ws_nodes w)) (\<lambda>receipt_nodes.
     bindE (snapshot_sha256 X (snapshot_json s)) (\<lambda>dig.
     (let receipt = JObj
            [(''schema'', JStr WORKFLOW_RECEIPT_SCHEMA), (''workflow_id'', JStr (workflow_id s)),
             (''created_at'', JStr (case created_at of None \<Rightarrow> now | Some t \<Rightarrow> if t = [] then now else t)),
             (''workflow_state'', JStr (state_str (ws_state w))), (''snapshot_sha256'', JStr dig),
             (''snapshot_file_sha256'', JStr (sha256 X (entry_bytes (wr_snapshot R)))),
             (''events_sha256'', JStr (sha256 X (slot_bytes (w_events W)))),
             (''event_count'', JInt (int (ws_count w))), (''node_count'', JInt (int (length receipt_nodes))),
             (''nodes'', JList receipt_nodes)] in
     bindE (validate_instance X receipt WORKFLOW_RECEIPT_SCHEMA ''workflow receipt'') (\<lambda>_.
     Inr receipt))))))))))"

subsection \<open>Sealing and verifying\<close>

record sealed_receipt =
  sr_receipt :: json
  sr_path :: string
  sr_sha256 :: string

definition verify_workflow_receipt :: "ext \<Rightarrow> string \<Rightarrow> wrun \<Rightarrow> sealed_receipt result" where
  "verify_workflow_receipt X now R =
     (let path = run_file R ''workflow-receipt.json'' in
     bindE (read_workflow_receipt X path (wr_receipt R)) (\<lambda>(receipt, dig).
     bindE (jidx receipt ''created_at'') (\<lambda>created_at.
     bindE (build_workflow_receipt X now (Some (py_str created_at)) R) (\<lambda>rebuilt.
     bindE (raise_if (\<not> py_eq receipt rebuilt) ''workflow receipt does not match current durable evidence'') (\<lambda>_.
     Inr \<lparr>sr_receipt = receipt, sr_path = path, sr_sha256 = dig\<rparr>)))))"

definition seal_workflow :: "ext \<Rightarrow> string \<Rightarrow> (wrun, sealed_receipt) op" where
  "seal_workflow X now R =
     (let path = run_file R ''workflow-receipt.json'' in
      if wr_receipt R \<noteq> None then (R, verify_workflow_receipt X now R)
      else
        (case build_workflow_receipt X now None R of
           Inl e \<Rightarrow> (R, Inl e)
         | Inr receipt \<Rightarrow>
             (let R' = R\<lparr>wr_receipt := Some (RFile (dumps_pretty 0 receipt @ [CHR 0x0A]) 1 False)\<rparr> in
              (R',
               bindE (read_workflow_receipt X path (wr_receipt R')) (\<lambda>(stored, dig).
               bindE (raise_if (\<not> py_eq stored receipt) ''workflow receipt changed during atomic installation'') (\<lambda>_.
               Inr \<lparr>sr_receipt = receipt, sr_path = path, sr_sha256 = dig\<rparr>))))))"

subsection \<open>What a value read back shares with the value written\<close>

lemma distinct_dict_of: "distinct (map fst (dict_of kvs))"
proof -
  have "distinct (map fst (foldl (\<lambda>d (k, v). AList.update k v d) d kvs))" if "distinct (map fst d)" for d
    using that
  proof (induction kvs arbitrary: d)
    case (Cons kv kvs)
    have "distinct (map fst (AList.update (fst kv) (snd kv) d))" using Cons.prems by (rule distinct_update)
    then show ?case using Cons.IH by (cases kv) simp
  qed simp
  from this [of "[]"] show ?thesis by (simp add: dict_of_def)
qed

lemma pliteral_no_obj: "pliteral s \<noteq> Some (JObj kvs, r)"
proof
  assume "pliteral s = Some (JObj kvs, r)"
  moreover have "pnum s \<noteq> Some (JObj kvs, r)" by (auto simp: pnum_def Let_def split: list.splits if_splits)
  ultimately show False by (auto simp: pliteral_def split: if_splits option.splits)
qed

lemma pval_distinct: "pval f s = Some (JObj kvs, r) \<Longrightarrow> distinct (map fst kvs)"
  by (cases f) (auto simp: pliteral_no_obj distinct_dict_of split: list.splits if_splits)

lemma loads_distinct: "loads s = Some (JObj kvs) \<Longrightarrow> distinct (map fst kvs)"
  by (auto simp: loads_def dest: pval_distinct simp del: pval.simps split: option.splits prod.splits if_splits)

text \<open>A dict equal to another has its keys, with equal values.\<close>

lemma py_eq_field:
  assumes "py_eq (JObj kvs) (JObj kws)" and "distinct (map fst kvs)" and "distinct (map fst kws)"
    and "map_of kws k = Some y"
  shows "\<exists>x. map_of kvs k = Some x \<and> py_eq x y"
proof -
  from assms(1) have len: "length kvs = length kws"
    and sub: "\<forall>(k, x) \<in> set kvs. case map_of kws k of None \<Rightarrow> False | Some y \<Rightarrow> py_eq x y"
    by (simp_all add: py_eq.simps [of "JObj kvs"])
  have "fst ` set kvs \<subseteq> fst ` set kws"
    using sub by (force split: option.splits dest: map_of_SomeD)
  moreover have "card (fst ` set kvs) = card (fst ` set kws)"
    using len assms(2,3) by (metis distinct_card length_map set_map)
  ultimately have "fst ` set kvs = fst ` set kws" by (intro card_subset_eq) simp_all
  moreover have "k \<in> fst ` set kws" using assms(4) by (metis map_of_SomeD fst_conv imageI)
  ultimately have "k \<in> fst ` set kvs" by simp
  then obtain x where x: "(k, x) \<in> set kvs" by (metis imageE prod.collapse)
  with assms(2) have "map_of kvs k = Some x" by simp
  moreover from x sub assms(4) have "py_eq x y" by fastforce
  ultimately show ?thesis by blast
qed

lemma read_workflow_receipt_field:
  assumes "read_workflow_receipt X path e = Inr (v, h)" and "py_eq v (JObj kws)" and "distinct (map fst kws)"
    and "map_of kws k = Some (JStr q)"
  shows "jidx v k = Inr (JStr q)" and "jget v k = JStr q"
proof -
  from assms(1) obtain data kvs where d: "loads data = Some (JObj kvs)" "v = JObj kvs"
    by (auto simp: read_workflow_receipt_def loads_utf8_def is_obj_conv split: option.splits if_splits)
  from py_eq_field [OF assms(2) [unfolded d(2)] loads_distinct [OF d(1)] assms(3,4)]
  obtain x where "map_of kvs k = Some x" "py_eq x (JStr q)" by blast
  then show "jidx v k = Inr (JStr q)" "jget v k = JStr q"
    by (simp_all add: d(2) jidx_def jlookup_JObj jget_def jget_or_def)
qed

subsection \<open>The receipt that is built\<close>

text \<open>The evidence a receipt rests on: the snapshot, the status replayed from the journal, the nodes.\<close>

definition closes :: "ext \<Rightarrow> wrun \<Rightarrow> snapshot \<Rightarrow> wstatus \<Rightarrow> (string \<times> json) list \<Rightarrow> json list \<Rightarrow> bool" where
  "closes X R s w h receipt_nodes \<longleftrightarrow>
     read_stored_workflow_snapshot X (run_file R ''workflow-snapshot.json'') (wr_snapshot R) = Inr s
     \<and> reconstruct_from_file X (snapshot_json s) (events_path (wr_world R)) (w_events (wr_world R)) = Inr w
     \<and> nonterminal_nodes w = []
     \<and> mapE (receipt_node X (wr_world R) s w h) (ws_nodes w) = Inr receipt_nodes"

lemma build_workflow_receipt_Inr:
  assumes "build_workflow_receipt X now created R = Inr v"
  shows "\<exists>s w h ns kvs. closes X R s w h ns \<and> v = JObj kvs \<and> distinct (map fst kvs)
    \<and> map_of kvs ''created_at'' = Some (JStr (case created of None \<Rightarrow> now | Some t \<Rightarrow> if t = [] then now else t))
    \<and> map_of kvs ''workflow_state'' = Some (JStr (state_str (ws_state w)))
    \<and> map_of kvs ''snapshot_file_sha256'' = Some (JStr (sha256 X (entry_bytes (wr_snapshot R))))
    \<and> map_of kvs ''events_sha256'' = Some (JStr (sha256 X (slot_bytes (w_events (wr_world R)))))"
proof -
  from assms obtain s w h ns dig where c: "closes X R s w h ns"
    and v: "v = JObj
      [(''schema'', JStr WORKFLOW_RECEIPT_SCHEMA), (''workflow_id'', JStr (workflow_id s)),
       (''created_at'', JStr (case created of None \<Rightarrow> now | Some t \<Rightarrow> if t = [] then now else t)),
       (''workflow_state'', JStr (state_str (ws_state w))), (''snapshot_sha256'', JStr dig),
       (''snapshot_file_sha256'', JStr (sha256 X (entry_bytes (wr_snapshot R)))),
       (''events_sha256'', JStr (sha256 X (slot_bytes (w_events (wr_world R))))),
       (''event_count'', JInt (int (ws_count w))), (''node_count'', JInt (int (length ns))),
       (''nodes'', JList ns)]"
    unfolding build_workflow_receipt_def Let_def closes_def by (clarsimp split del: option.split)
  show ?thesis
    unfolding v json.inject
    by (rule exI [of _ s], rule exI [of _ w], rule exI [of _ h], rule exI [of _ ns], rule exI, rule conjI [OF c],
        rule conjI [OF refl]) simp
qed

lemma build_ignores_receipt: "build_workflow_receipt X now c (R\<lparr>wr_receipt := e\<rparr>) = build_workflow_receipt X now c R"
  by (simp add: build_workflow_receipt_def run_file_def Let_def)

lemma build_created:
  "now \<noteq> [] \<Longrightarrow> build_workflow_receipt X later (Some now) R = build_workflow_receipt X now None R"
  by (simp add: build_workflow_receipt_def)

text \<open>
  C11. A sealed workflow verifies: when sealing a workflow run without a receipt returns, the
  receipt is installed, and verifying it at any later time, as well as sealing again, succeeds,
  with the digest that sealing returned and a receipt equal to the one it returned.
\<close>

theorem seal_then_verify:
  assumes "seal_workflow X now R = (R', Inr sr)" and "wr_receipt R = None" and "now \<noteq> []"
  shows "\<exists>stored. py_eq stored (sr_receipt sr)
    \<and> verify_workflow_receipt X later R' = Inr (sr\<lparr>sr_receipt := stored\<rparr>)
    \<and> seal_workflow X later R' = (R', Inr (sr\<lparr>sr_receipt := stored\<rparr>))"
proof -
  let ?path = "run_file R ''workflow-receipt.json''"
  from assms(1,2) obtain receipt stored h where b: "build_workflow_receipt X now None R = Inr receipt"
    and R': "R' = R\<lparr>wr_receipt := Some (RFile (dumps_pretty 0 receipt @ [CHR 0x0A]) 1 False)\<rparr>"
    and rd: "read_workflow_receipt X ?path (wr_receipt R') = Inr (stored, h)" and eq: "py_eq stored receipt"
    and sr: "sr = \<lparr>sr_receipt = receipt, sr_path = ?path, sr_sha256 = h\<rparr>"
    by (auto simp: seal_workflow_def Let_def split: sum.splits)
  from build_workflow_receipt_Inr [OF b] obtain kvs where k: "receipt = JObj kvs" "distinct (map fst kvs)"
    "map_of kvs ''created_at'' = Some (JStr now)" by auto
  have "jidx stored ''created_at'' = Inr (JStr now)"
    by (rule read_workflow_receipt_field(1) [OF rd eq [unfolded k(1)] k(2,3)])
  moreover have "build_workflow_receipt X later (Some now) R' = Inr receipt"
    using b assms(3) by (simp add: R' build_ignores_receipt build_created)
  moreover have "run_file R' ''workflow-receipt.json'' = ?path" by (simp add: R' run_file_def)
  ultimately have "verify_workflow_receipt X later R' = Inr (sr\<lparr>sr_receipt := stored\<rparr>)"
    using rd eq by (simp add: verify_workflow_receipt_def sr)
  moreover have "wr_receipt R' \<noteq> None" by (simp add: R')
  ultimately show ?thesis using eq by (auto simp: seal_workflow_def sr)
qed

subsection \<open>What a verified receipt proves\<close>

lemma task_receipt_completed:
  assumes "task_receipt X W x = Inr te" and "st_state x = Completed"
  shows "\<exists>rid d receipt h. st_run x = Some rid \<and> rid \<noteq> [] \<and> agent_run_dir W rid = Inr d
    \<and> verify_seal_details X d None = Inr (receipt, h) \<and> jget receipt ''agent_run_id'' = JStr rid"
  using assms by (auto simp: task_receipt_def Let_def split: list.splits option.splits if_splits)

lemma approval_digest_completed:
  assumes "approval_receipt_digest X W w subject x = Inr q" and "st_state x = Completed"
  shows "\<exists>y rid d p. node_status_of w subject = Some y \<and> st_run y = Some rid \<and> agent_run_dir W rid = Inr d
    \<and> lifecycle_disposition X d = Inr (Some p) \<and> disp_action p = JStr ''accepted''
    \<and> st_approval x = Some (disp_receipt_sha256 p)"
  using assms by (auto simp: approval_receipt_digest_def Let_def split: option.splits)

definition evidenced :: "ext \<Rightarrow> world \<Rightarrow> snapshot \<Rightarrow> wstatus \<Rightarrow> node_status \<Rightarrow> bool" where
  "evidenced X W s w x \<longleftrightarrow>
     (\<exists>n rid d. node_of s (st_id x) = Some n \<and> agent_run_dir W rid = Inr d
        \<and> (case kind n of
             Task _ \<Rightarrow> st_run x = Some rid
               \<and> (\<exists>receipt h. verify_seal_details X d None = Inr (receipt, h) \<and> jget receipt ''agent_run_id'' = JStr rid)
           | Approval subject \<Rightarrow> (\<exists>y p. node_status_of w subject = Some y \<and> st_run y = Some rid
               \<and> lifecycle_disposition X d = Inr (Some p) \<and> disp_action p = JStr ''accepted''
               \<and> st_approval x = Some (disp_receipt_sha256 p))))"

lemma receipt_node_evidenced:
  assumes "receipt_node X W s w h x = Inr v" and "st_state x = Completed"
  shows "evidenced X W s w x"
proof -
  from assms(1) obtain n where n: "node_of s (st_id x) = Some n"
    by (cases "node_of s (st_id x)") (auto simp: receipt_node_def)
  show ?thesis
  proof (cases "kind n")
    case (Task t)
    with assms(1) n obtain te where "task_receipt X W x = Inr te" by (auto simp: receipt_node_def)
    from task_receipt_completed [OF this assms(2)] n Task show ?thesis by (auto simp: evidenced_def)
  next
    case (Approval subject)
    with assms(1) n obtain q where "approval_receipt_digest X W w subject x = Inr q" by (auto simp: receipt_node_def)
    from approval_digest_completed [OF this assms(2)] n Approval show ?thesis by (auto simp: evidenced_def)
  qed
qed

lemma closes_evidenced:
  assumes "closes X R s w h ns" and "x \<in> set (ws_nodes w)"
  shows "st_state x \<in> TERMINAL_NODE_STATES \<and> (st_state x = Completed \<longrightarrow> evidenced X (wr_world R) s w x)"
proof -
  from assms have "st_state x \<in> TERMINAL_NODE_STATES"
    by (auto simp: closes_def nonterminal_nodes_def filter_empty_conv)
  moreover from assms obtain v where "receipt_node X (wr_world R) s w h x = Inr v"
    by (auto simp: closes_def mapE_Inr_iff list_all2_conv_all_nth in_set_conv_nth)
  ultimately show ?thesis using receipt_node_evidenced by blast
qed

lemma verify_workflow_receipt_Inr:
  assumes "verify_workflow_receipt X now R = Inr sr"
  shows "\<exists>s w h ns. closes X R s w h ns
    \<and> jget (sr_receipt sr) ''workflow_state'' = JStr (state_str (ws_state w))
    \<and> jget (sr_receipt sr) ''snapshot_file_sha256'' = JStr (sha256 X (entry_bytes (wr_snapshot R)))
    \<and> jget (sr_receipt sr) ''events_sha256'' = JStr (sha256 X (slot_bytes (w_events (wr_world R))))
    \<and> read_workflow_receipt X (run_file R ''workflow-receipt.json'') (wr_receipt R) = Inr (sr_receipt sr, sr_sha256 sr)"
proof -
  from assms obtain created v where
    rd: "read_workflow_receipt X (run_file R ''workflow-receipt.json'') (wr_receipt R) = Inr (sr_receipt sr, sr_sha256 sr)"
    and b: "build_workflow_receipt X now (Some (py_str created)) R = Inr v" and eq: "py_eq (sr_receipt sr) v"
    by (auto simp: verify_workflow_receipt_def Let_def)
  from build_workflow_receipt_Inr [OF b] obtain s w h ns kvs where k: "closes X R s w h ns" "v = JObj kvs"
    "distinct (map fst kvs)" "map_of kvs ''workflow_state'' = Some (JStr (state_str (ws_state w)))"
    "map_of kvs ''snapshot_file_sha256'' = Some (JStr (sha256 X (entry_bytes (wr_snapshot R))))"
    "map_of kvs ''events_sha256'' = Some (JStr (sha256 X (slot_bytes (w_events (wr_world R)))))" by blast
  note field = read_workflow_receipt_field(2) [OF rd eq [unfolded k(2)] k(3)]
  from k(1) field [OF k(4)] field [OF k(5)] field [OF k(6)] rd show ?thesis by blast
qed

text \<open>
  C9. A verified workflow receipt is justified by durable evidence: the journal replays to a
  status in which every node is completed or failed, the receipt states its aggregated state,
  every completed task is bound to a run with a verified seal of its own, and every completed
  approval node records the digest of an accepted disposition of its subject's run.
\<close>

theorem workflow_receipt_sound:
  assumes "verify_workflow_receipt X now R = Inr sr"
  shows "\<exists>s w. read_stored_workflow_snapshot X (run_file R ''workflow-snapshot.json'') (wr_snapshot R) = Inr s
    \<and> reconstruct_from_file X (snapshot_json s) (events_path (wr_world R)) (w_events (wr_world R)) = Inr w
    \<and> jget (sr_receipt sr) ''workflow_state'' = JStr (state_str (ws_state w))
    \<and> (\<forall>x \<in> set (ws_nodes w). st_state x \<in> TERMINAL_NODE_STATES
         \<and> (st_state x = Completed \<longrightarrow> evidenced X (wr_world R) s w x))"
proof -
  from verify_workflow_receipt_Inr [OF assms] obtain s w h ns where c: "closes X R s w h ns"
    "jget (sr_receipt sr) ''workflow_state'' = JStr (state_str (ws_state w))" by blast
  with closes_evidenced [OF c(1)] show ?thesis unfolding closes_def by blast
qed


subsection \<open>A sealed workflow\<close>

lemma py_eq_canon: "plain v \<Longrightarrow> py_eq (canon v) v"
proof (induction v)
  case (JList vs)
  then show ?case by (auto simp: py_eq.simps [of "JList _"] set_zip list_all_iff)
next
  case (JObj kvs)
  have "case map_of kvs k of None \<Rightarrow> False | Some y \<Rightarrow> py_eq (canon w) y" if "(k, w) \<in> set kvs" for k w
  proof -
    from JObj.prems that have "map_of kvs k = Some w" "plain w" by (auto simp: list_all_iff)
    with JObj.IH [of "(k, w)" w] that show ?thesis by simp
  qed
  then show ?case unfolding canon_JObj by (auto simp: py_eq.simps [of "JObj _"])
qed (simp_all add: py_eq.simps)

definition solo :: snapshot where
  "solo = demo_snapshot\<lparr>nodes := [nodes demo_snapshot ! 0]\<rparr>"

definition solo_digest :: string where
  "solo_digest = canonical_json_sha256 (sha256 seal_ext) (snapshot_json solo) True"

definition solo_events :: "json list" where
  "solo_events =
     [JObj [(''binding'', JObj [(''agent_run_id'', JStr ''r1''), (''attempt'', JInt 1), (''bound_at'', JStr ''t''),
                                (''current'', JBool True)]),
            (''kind'', JStr ''node-bound''), (''node_id'', JStr ''build''), (''sequence'', JInt 1),
            (''snapshot_sha256'', JStr solo_digest), (''workflow_id'', JStr ''w'')],
      JObj [(''kind'', JStr ''node-transition''), (''next_state'', JStr ''completed''), (''node_id'', JStr ''build''),
            (''previous_state'', JStr ''eligible''), (''reason'', JStr ''r''), (''sequence'', JInt 2),
            (''snapshot_sha256'', JStr solo_digest), (''workflow_id'', JStr ''w'')]]"

definition solo_journal :: string where
  "solo_journal = concat (map canonical_json_line solo_events)"

definition solo_run :: wrun where
  "solo_run = \<lparr>wr_world = demo_world\<lparr>w_events := Some (Regular solo_journal 1)\<rparr>,
     wr_snapshot = Some (RFile (dumps False (snapshot_json solo)) 1 False), wr_receipt = None\<rparr>"

lemma solo_normal:
  "normalize_snapshot seal_ext (canon (snapshot_json solo)) = Inr solo"
  "normalize_snapshot seal_ext (snapshot_json solo) = Inr solo"
  by code_simp+

lemma solo_plain:
  "plain (snapshot_json solo)" "ascii_json (snapshot_json solo)" "is_obj (snapshot_json solo)"
  "jget (snapshot_json solo) ''schema'' = JStr WORKFLOW_SNAPSHOT_SCHEMA"
  by code_simp+

lemma solo_events_plain: "list_all plain solo_events" "list_all is_obj solo_events" "length solo_events = 2"
  by (simp_all add: solo_events_def)

lemma solo_lines: "list_all (\<lambda>e. length (canonical_json_line e) \<le> 4000) solo_events"
  by code_simp

lemma solo_journal_length: "length solo_journal \<le> 8000"
proof -
  have "length (concat (map canonical_json_line es)) \<le> 4000 * length es"
    if "list_all (\<lambda>e. length (canonical_json_line e) \<le> 4000) es" for es
    using that by (induction es) auto
  from this [OF solo_lines] show ?thesis by (simp add: solo_journal_def solo_events_plain)
qed

lemmas solo_facts = solo_normal solo_plain solo_events_plain solo_journal_length solo_lines

lemma solo_digest_ascii: "list_all ascii solo_digest"
  using dumps_all_ascii [OF solo_plain(1,2), of True]
  by (simp add: solo_digest_def canonical_json_sha256_def canonical_json_bytes_def seal_ext_def)

lemma solo_events_text:
  "list_all ascii_json solo_events" "map canon solo_events = solo_events"
  "i < length solo_events \<Longrightarrow> jget (solo_events ! i) ''sequence'' = JInt (int (i + 1))"
proof -
  note solo_digest_ascii
  then show "list_all ascii_json solo_events" by (simp add: solo_events_def ascii_def)
  show "map canon solo_events = solo_events" by (simp add: solo_events_def)
  show "i < length solo_events \<Longrightarrow> jget (solo_events ! i) ''sequence'' = JInt (int (i + 1))"
    by (auto simp: solo_events_def jaccess nth_Cons split: nat.split)
qed

lemma solo_read: "read_workflow_events seal_ext path (Some (Regular solo_journal 1)) = Inr solo_events"
proof -
  have "good_record (workflow_cfg path) (validate_workflow_event_record seal_ext) (solo_events ! i) (i + 1)"
    if "i < length solo_events" for i
  proof -
    let ?e = "solo_events ! i"
    have e: "plain ?e" "ascii_json ?e" "is_obj ?e" "length (canonical_json_line ?e) \<le> 4000"
      using solo_events_plain solo_lines solo_events_text(1) that by (simp_all add: list_all_length)
    have "canon ?e = ?e" using solo_events_text(2) that by (metis nth_map)
    with e solo_events_text(3) [OF that] show ?thesis
      by (simp add: good_record_def utf8_valid_dumps workflow_cfg_def default_cfg_def DEFAULT_MAX_RECORD_BYTES_def
          validate_workflow_event_record_Inr seal_ext_def)
  qed
  then have "decode_jsonl (workflow_cfg path) (validate_workflow_event_record seal_ext) solo_journal = Inr solo_events"
    using decode_records [of "workflow_cfg path" solo_events "validate_workflow_event_record seal_ext"] solo_events_text(2)
    by (simp add: solo_journal_def workflow_cfg_def default_cfg_def)
  then show ?thesis
    using read_regular [of solo_journal "workflow_cfg path" True "validate_workflow_event_record seal_ext"] solo_journal_length
    by (simp add: read_workflow_events_def read_jsonl_exists workflow_cfg_def default_cfg_def DEFAULT_MAX_JOURNAL_BYTES_def)
qed

lemma solo_status:
  "\<exists>w x. reconstruct_workflow_status seal_ext (snapshot_json solo) solo_events = Inr w \<and> ws_nodes w = [x]
     \<and> st_id x = ''build'' \<and> st_state x = Completed \<and> st_run x = Some ''r1'' \<and> st_reason x = Some ''r''
     \<and> st_retry x = None \<and> st_binding x = None"
proof -
  have "case reconstruct_workflow_status seal_ext (snapshot_json solo) solo_events of
      Inr w \<Rightarrow> (case ws_nodes w of [x] \<Rightarrow> st_id x = ''build'' \<and> st_state x = Completed \<and> st_run x = Some ''r1''
          \<and> st_reason x = Some ''r'' \<and> st_retry x = None \<and> st_binding x = None | _ \<Rightarrow> False)
    | Inl _ \<Rightarrow> False" by code_simp
  then show ?thesis by (auto split: sum.splits list.splits)
qed

lemma agent_run_dir_events: "agent_run_dir (W\<lparr>w_events := f\<rparr>) rid = agent_run_dir W rid"
  by (simp add: agent_run_dir_def run_at_def split: option.split cong: option.case_cong)

lemma solo_journal_ascii: "list_all ascii solo_journal"
  using solo_events_plain(1) solo_events_text(1) dumps_ascii
  by (auto simp: solo_journal_def canonical_json_line_def list_all_iff)

lemma state_str_ascii: "list_all ascii (state_str q)"
  by (cases q) (simp_all add: ascii_def)

definition solo_node :: "json \<Rightarrow> json list \<Rightarrow> string \<Rightarrow> string \<Rightarrow> json" where
  "solo_node attempt history receipt completion =
     JObj [(''node_id'', JStr ''build''), (''kind'', JStr ''task''), (''state'', JStr ''completed''),
           (''terminal_reason'', JStr ''r''), (''attempt'', attempt), (''retry_of_agent_run_id'', JNull),
           (''binding_history'', JList history), (''input_binding_sha256'', JNull),
           (''approval_receipt_sha256'', JNull), (''child_agent_run_id'', JStr ''r1''),
           (''child_final_receipt_sha256'', JStr receipt), (''child_completion_sha256'', JStr completion)]"

lemma solo_node_text:
  assumes "list_all plain history" and "list_all ascii_json history" and "list_all ascii receipt" and "list_all ascii completion"
  shows "plain attempt \<Longrightarrow> plain (solo_node attempt history receipt completion)"
    and "ascii_json attempt \<Longrightarrow> ascii_json (solo_node attempt history receipt completion)"
  using assms by (simp_all add: solo_node_def ascii_def)

lemma solo_build:
  "\<exists>v. build_workflow_receipt seal_ext ''t'' None solo_run = Inr v \<and> plain v \<and> ascii_json v"
proof -
  obtain w x where w: "reconstruct_workflow_status seal_ext (snapshot_json solo) solo_events = Inr w" "ws_nodes w = [x]"
    "st_id x = ''build''" "st_state x = Completed" "st_run x = Some ''r1''" "st_reason x = Some ''r''"
    "st_retry x = None" "st_binding x = None"
    using solo_status by blast
  have t: "utf8_valid (dumps False (snapshot_json solo))" "loads (dumps False (snapshot_json solo)) = Some (canon (snapshot_json solo))"
    using solo_plain(1,2) by (simp_all add: utf8_valid_dumps loads_dumps)
  have snap: "read_stored_workflow_snapshot seal_ext path (wr_snapshot solo_run) = Inr solo" for path
    using t solo_facts by (simp add: read_stored_workflow_snapshot_def read_frozen_def solo_run_def jget_canon
        validate_instance_def seal_ext_def)
  have rec: "reconstruct_from_file seal_ext (snapshot_json solo) path (w_events (wr_world solo_run)) = Inr w" for path
    using solo_normal(2) solo_read w(1) by (simp add: reconstruct_from_file_def solo_run_def)
  have ev: "read_workflow_events seal_ext path (w_events (wr_world solo_run)) = Inr solo_events" for path
    using solo_read by (simp add: solo_run_def)
  have h: "\<exists>h. binding_history solo_events = Inr h \<and> list_all (\<lambda>(_, v). plain v \<and> ascii_json v) h"
    by (simp add: binding_history_def history_item_def solo_events_def jaccess bindE_def raise_if_def ascii_def)
  then obtain h where h: "binding_history solo_events = Inr h" "list_all (\<lambda>(_, v). plain v \<and> ascii_json v) h" by blast
  have n: "\<exists>n t. node_of solo ''build'' = Some n \<and> kind n = Task t"
    by (simp add: solo_def demo_snapshot_def node_of_def)
  have rd: "agent_run_dir (wr_world solo_run) ''r1'' = Inr (demo_with [] None)"
    using demo_run_dir by (simp add: solo_run_def agent_run_dir_events)
  have isf: "is_file (demo_with [] None) ''final-receipt.json''"
    using demo_entry(1) [of "[]" None] by (simp add: is_file_def)
  have te: "task_receipt seal_ext (wr_world solo_run) x = Inr \<lparr>te_run = Some ''r1'',
      te_receipt = Some (dumps False demo_receipt), te_completion = Some (dumps False demo_completion)\<rparr>"
    using w(4,5) rd isf demo_verified [of None "[]" None] by (simp add: task_receipt_def demo_contract_reads)
  have asc: "list_all ascii (dumps False demo_receipt)" "list_all ascii (dumps False demo_completion)"
    "list_all ascii (dumps False (snapshot_json solo))"
    using dumps_ascii [OF demo_receipt_text(1,2)] dumps_ascii [of demo_completion] dumps_ascii [OF solo_plain(1,2)]
      demo_tableD [of "''completion.json''" demo_completion] by (simp_all add: demo_table_def)
  have q: "list_all plain (history_of h nid)" "list_all ascii_json (history_of h nid)" for nid
    using h(2) by (auto simp: history_of_def list_all_iff)
  obtain n t where n: "node_of solo ''build'' = Some n" "kind n = Task t" using n by blast
  have "\<exists>v. receipt_node seal_ext (wr_world solo_run) solo w h x = Inr v
      \<and> v = solo_node (case st_attempt x of None \<Rightarrow> JNull | Some k \<Rightarrow> JInt k) (history_of h ''build'')
          (dumps False demo_receipt) (dumps False demo_completion)"
    by (simp add: receipt_node_def w(3-8) n te solo_node_def)
  with solo_node_text [OF q(1) q(2) asc(1,2)] have
    rn: "\<exists>v. receipt_node seal_ext (wr_world solo_run) solo w h x = Inr v \<and> plain v \<and> ascii_json v"
    by (auto split: option.split)
  then obtain v where v: "receipt_node seal_ext (wr_world solo_run) solo w h x = Inr v" "plain v" "ascii_json v"
    by blast
  have dig: "snapshot_sha256 seal_ext (snapshot_json solo) = Inr solo_digest"
    using solo_normal(2) by (simp add: snapshot_sha256_def solo_digest_def)
  have nt: "nonterminal_nodes w = []" using w by (simp add: nonterminal_nodes_def TERMINAL_NODE_STATES_def)
  have sl: "slot_bytes (w_events (wr_world solo_run)) = solo_journal" "journal_file (w_events (wr_world solo_run))"
    "entry_bytes (wr_snapshot solo_run) = dumps False (snapshot_json solo)" "workflow_id solo = ''w''"
    by (simp_all add: solo_run_def slot_bytes_def journal_file_def entry_bytes_def solo_def demo_snapshot_def)
  have s: "sha256 seal_ext = (\<lambda>s. s)" "schema_errors seal_ext a b = []" for a b by (simp_all add: seal_ext_def)
  show ?thesis
    using v asc(3) solo_journal_ascii solo_digest_ascii
    by (simp add: build_workflow_receipt_def snap rec ev h(1) nt w(2) dig sl s validate_instance_def state_str_ascii
        WORKFLOW_RECEIPT_SCHEMA_def) (simp add: ascii_def)
qed

lemma solo_sealed: "\<exists>R sr. seal_workflow seal_ext ''t'' solo_run = (R, Inr sr)"
proof -
  obtain v where v: "build_workflow_receipt seal_ext ''t'' None solo_run = Inr v" "plain v" "ascii_json v"
    using solo_build by blast
  from build_workflow_receipt_Inr [OF v(1)] have "is_obj v" by auto
  moreover have "dumps_pretty 0 v @ [CHR 0x0A] = json_document v" by (simp add: json_document_def)
  moreover have "wr_receipt solo_run = None" "schema_errors seal_ext a b = []" for a b
    by (simp_all add: solo_run_def seal_ext_def)
  ultimately show ?thesis
    using v(1) loads_utf8_document [OF v(2,3)] py_eq_canon [OF v(2)]
    by (simp add: seal_workflow_def read_workflow_receipt_def read_frozen_def loads_utf8_def validate_instance_def)
qed

theorem seal_then_verify_witness:
  "\<exists>R sr sr'. seal_workflow seal_ext ''t'' solo_run = (R, Inr sr) \<and> verify_workflow_receipt seal_ext ''u'' R = Inr sr'"
proof -
  obtain R sr where s: "seal_workflow seal_ext ''t'' solo_run = (R, Inr sr)" using solo_sealed by blast
  have "wr_receipt solo_run = None" by (simp add: solo_run_def)
  from seal_then_verify [OF s this, of "''u''"] s show ?thesis by blast
qed

lemma solo_verified: "\<exists>R sr. verify_workflow_receipt seal_ext ''t'' R = Inr sr"
proof -
  obtain v where v: "build_workflow_receipt seal_ext ''t'' None solo_run = Inr v" "plain v" "ascii_json v"
    using solo_build by blast
  let ?R = "solo_run\<lparr>wr_receipt := Some (RFile (dumps False v) 1 False)\<rparr>"
  from build_workflow_receipt_Inr [OF v(1)] obtain kvs where k: "v = JObj kvs" "distinct (map fst kvs)"
    "map_of kvs ''created_at'' = Some (JStr ''t'')" by auto
  then have c: "jidx (canon v) ''created_at'' = Inr (JStr ''t'')"
    using jlookup_canon [OF v(2), of "''created_at''"] by (simp add: jidx_def jlookup_JObj del: canon.simps)
  have "schema_errors seal_ext a b = []" for a b by (simp add: seal_ext_def)
  with k(1) have "read_workflow_receipt seal_ext path (wr_receipt ?R) = Inr (canon v, sha256 seal_ext (dumps False v))" for path
    using v by (simp add: read_workflow_receipt_def read_frozen_def loads_utf8_def utf8_valid_dumps loads_dumps
        validate_instance_def del: canon.simps dumps.simps)
  moreover have "build_workflow_receipt seal_ext ''t'' (Some ''t'') ?R = Inr v"
    using v(1) by (simp add: build_ignores_receipt build_created)
  ultimately have "\<exists>sr. verify_workflow_receipt seal_ext ''t'' ?R = Inr sr"
    using c py_eq_canon [OF v(2)] by (simp add: verify_workflow_receipt_def)
  then show ?thesis by blast
qed

theorem workflow_receipt_sound_witness:
  "\<exists>R sr s w. verify_workflow_receipt seal_ext ''t'' R = Inr sr
     \<and> reconstruct_from_file seal_ext (snapshot_json s) (events_path (wr_world R)) (w_events (wr_world R)) = Inr w
     \<and> jget (sr_receipt sr) ''workflow_state'' = JStr (state_str (ws_state w))"
proof -
  obtain R sr where v: "verify_workflow_receipt seal_ext ''t'' R = Inr sr" using solo_verified by blast
  from workflow_receipt_sound [OF v] v show ?thesis by blast
qed


subsection \<open>An override can never be sealed\<close>



end
