(* ===== verification/Kept.thy ===== *)
theory Kept
  imports Prelude
begin

text \<open>
  What every operation of a component keeps between the state before and the state after, whether
  it returns or raises. A component states its relation once, shows it for the operations that
  write, and has it for all it composes from them and for every sequence of its commands.
\<close>

locale kept_relation =
  fixes R :: "'s \<Rightarrow> 's \<Rightarrow> bool"
  assumes same: "R s s" and chain: "R a b \<Longrightarrow> R b c \<Longrightarrow> R a c"
begin

lemma pure: "R s (fst (pureS f s))"
  by (simp add: same)

lemma return: "R s (fst (returnS x s))"
  by (simp add: same)

lemma bind:
  assumes "R s (fst (m s))" and "\<And>x s. R s (fst (f x s))"
  shows "R s (fst (bindS m f s))"
  using assms(1) assms(2) by (auto simp: bindS_def intro: chain split: prod.splits sum.splits)

lemma pure_bind: "(\<And>x. g s = Inr x \<Longrightarrow> R s (fst (f x s))) \<Longrightarrow> R s (fst (bindS (pureS g) f s))"
  by (simp add: bindS_def same split: sum.split)

lemma mapped: "(\<And>x s. R s (fst (f x s))) \<Longrightarrow> R s (fst (mapS f xs s))"
  by (rule fst_mapS [where R = R]) (auto intro: same chain)

lemma run: "(\<And>op s. R s (fst (step op s))) \<Longrightarrow> R s (run_ops step ops s)"
  by (induction ops arbitrary: s) (auto intro: same chain)

lemmas compose = pure return bind mapped

end

end
