(* ===== verification/Workflow_Service.thy ===== *)
theory Workflow_Service
  imports Workflow_Receipt Kept
begin

text \<open>
  \<open>workflow_service.py\<close>, with the projections of \<open>workflow.py\<close>: the operations behind the workflow
  commands. A service works on one workflow run directory: the event journal and bindings (the
  world of the scheduler), the canonical snapshot, the receipt, and the two projections.
  Every operation takes the snapshot file it is given as a directory, a name and an entry.
\<close>

record service =
  sv_run :: wrun
  sv_status :: "rentry option"
  sv_projection :: "rentry option"

definition sv_path :: "service \<Rightarrow> string \<Rightarrow> string" where
  "sv_path S name = run_file (sv_run S) name"

text \<open>An operation of the scheduler on the world of the service.\<close>

definition on_world :: "(world, 'a) op \<Rightarrow> (service, 'a) op" where
  "on_world m S =
     (case m (wr_world (sv_run S)) of
        (W, r) \<Rightarrow> (S\<lparr>sv_run := (sv_run S)\<lparr>wr_world := W\<rparr>\<rparr>, r))"

text \<open>\<open>except OSError as exc: raise _workflow_io_error(action, exc)\<close>.\<close>

definition io_guard :: "string \<Rightarrow> (service, 'a) op \<Rightarrow> (service, 'a) op" where
  "io_guard action m S =
     (case m S of
        (S', Inl (OSError e)) \<Rightarrow> (S', Inl (WorkflowError (''workflow '' @ action @ '' failed'')))
      | (S', r) \<Rightarrow> (S', r))"

subsection \<open>Projections\<close>

definition WORKFLOW_RUN_SCHEMA :: string where
  "WORKFLOW_RUN_SCHEMA = ''agent-workflow/workflow-run/v1''"

definition build_workflow_run :: "ext \<Rightarrow> snapshot \<Rightarrow> service \<Rightarrow> (wstatus \<times> json) result" where
  "build_workflow_run X s S =
     (let W = wr_world (sv_run S) in
     bindE (normalize_snapshot X (snapshot_json s)) (\<lambda>norm.
     bindE (reconstruct_from_file X (snapshot_json norm) (events_path W) (w_events W)) (\<lambda>w.
     bindE (snapshot_sha256 X (snapshot_json norm)) (\<lambda>dig.
     (let run = JObj
            [(''schema'', JStr WORKFLOW_RUN_SCHEMA), (''workflow_id'', JStr (workflow_id norm)),
             (''snapshot_sha256'', JStr dig), (''snapshot_path'', JStr (sv_path S ''workflow-snapshot.json'')),
             (''events_path'', JStr (sv_path S ''workflow-events.jsonl'')),
             (''status_path'', JStr (sv_path S ''workflow-status.json'')), (''status'', wstatus_json False w)] in
     bindE (validate_instance X run WORKFLOW_RUN_SCHEMA ''workflow run'') (\<lambda>_.
     Inr (w, run)))))))"

text \<open>
  The write of a projection replaces a file or a link by a new file; over a directory the final
  rename raises.
\<close>

definition replace_file :: "rentry option \<Rightarrow> string \<Rightarrow> rentry result" where
  "replace_file entry data =
     (if entry = Some RDir then Inl (OSError ''is a directory'') else Inr (RFile data 1 True))"

definition write_workflow_projection :: "ext \<Rightarrow> snapshot \<Rightarrow> (service, json) op" where
  "write_workflow_projection X s S =
     (case build_workflow_run X s S of
        Inl e \<Rightarrow> (S, Inl e)
      | Inr (w, run) \<Rightarrow>
          (case replace_file (sv_status S) (json_document (wstatus_json False w)) of
             Inl e \<Rightarrow> (S, Inl e)
           | Inr st \<Rightarrow>
               (let S1 = S\<lparr>sv_status := Some st\<rparr> in
                case replace_file (sv_projection S) (json_document run) of
                  Inl e \<Rightarrow> (S1, Inl e)
                | Inr pr \<Rightarrow> (S1\<lparr>sv_projection := Some pr\<rparr>, Inr run))))"

subsection \<open>Results and the supplied snapshot\<close>

definition WORKFLOW_NODE_RESULT_SCHEMA :: string where
  "WORKFLOW_NODE_RESULT_SCHEMA = ''agent-workflow/workflow-node-result/v1''"

definition service_result :: "ext \<Rightarrow> string \<Rightarrow> string \<Rightarrow> json \<Rightarrow> (string \<times> json) list \<Rightarrow> json result" where
  "service_result X action wid result extra =
     (let data = JObj ([(''schema'', JStr WORKFLOW_NODE_RESULT_SCHEMA), (''workflow_id'', JStr wid),
                        (''action'', JStr action), (''result'', result)] @ extra) in
      bindE (validate_instance X data WORKFLOW_NODE_RESULT_SCHEMA ''workflow node result'') (\<lambda>_. Inr data))"

record supplied =
  su_dir :: string
  su_name :: string
  su_entry :: "rentry option"

definition su_path :: "supplied \<Rightarrow> string" where
  "su_path f = su_dir f @ ''/'' @ su_name f"

definition read_supplied :: "ext \<Rightarrow> supplied \<Rightarrow> snapshot result" where
  "read_supplied X f =
     bindE (read_contract X (su_dir f) (su_name f) (su_entry f) None) (\<lambda>v. normalize_snapshot X v)"

definition matching_started_snapshot :: "ext \<Rightarrow> snapshot \<Rightarrow> service \<Rightarrow> snapshot result" where
  "matching_started_snapshot X s S =
     bindE (raise_if (wr_snapshot (sv_run S) = None) ''workflow has not been started'') (\<lambda>_.
     bindE (read_stored_workflow_snapshot X (sv_path S ''workflow-snapshot.json'') (wr_snapshot (sv_run S))) (\<lambda>stored.
     bindE (snapshot_sha256 X (snapshot_json stored)) (\<lambda>a.
     bindE (snapshot_sha256 X (snapshot_json s)) (\<lambda>b.
     bindE (raise_if (a \<noteq> b) ''supplied workflow snapshot does not match the started snapshot'') (\<lambda>_.
     Inr stored)))))"

subsection \<open>Operations\<close>

definition service_validate :: "ext \<Rightarrow> supplied \<Rightarrow> (service, json) op" where
  "service_validate X f =
     pureS (\<lambda>_.
     bindE (read_supplied X f) (\<lambda>s.
     bindE (snapshot_sha256 X (snapshot_json s)) (\<lambda>dig.
     service_result X ''validate'' (workflow_id s)
       (JObj [(''snapshot_sha256'', JStr dig), (''node_count'', JInt (int (length (nodes s))))])
       [(''snapshot_path'', JStr (su_path f))])))"

definition plan_json :: "launch_plan \<Rightarrow> json" where
  "plan_json p = JObj [(''node_id'', JStr (lp_node p)), (''agent_run_id'', JStr (lp_run p)),
                       (''attempt'', JInt (lp_attempt p)), (''retry_of_agent_run_id'', opt_str (lp_retry p))]"

definition schedule_result ::
  "ext \<Rightarrow> string \<Rightarrow> bool \<Rightarrow> snapshot \<Rightarrow> launch_plan list \<times> (string \<times> json) list \<Rightarrow> service \<Rightarrow> json result" where
  "schedule_result X action fresh s schedule S =
     (case schedule of (plans, results) \<Rightarrow>
      service_result X action (workflow_id s)
        (JObj [(''run_count'', JInt (int (length plans))), (''plans'', JList (map plan_json plans)),
               (''results'', JObj results)])
        [(''snapshot_path'', JStr (sv_path S ''workflow-snapshot.json'')),
         (''events_path'', JStr (sv_path S ''workflow-events.jsonl'')),
         (''status_path'', JStr (sv_path S ''workflow-status.json'')),
         (''run_path'', JStr (sv_path S ''workflow-run.json'')),
         (''started'', JBool fresh), (''resumed'', JBool (\<not> fresh)),
         (''scheduled'', JList (map (\<lambda>p. JStr (lp_node p)) plans))])"

text \<open>\<open>launch_eligible\<close> and the projection after it, as \<open>start\<close> and \<open>resume\<close> both end.\<close>

definition service_schedule ::
  "sched \<Rightarrow> ext \<Rightarrow> string \<Rightarrow> (launch_plan list \<Rightarrow> launch_plan list) \<Rightarrow> string \<Rightarrow> bool \<Rightarrow> snapshot \<Rightarrow> (service, json) op" where
  "service_schedule C X now order action fresh s =
     bindS (on_world (launch_eligible C X now s order)) (\<lambda>schedule.
     bindS (io_guard action (write_workflow_projection X s)) (\<lambda>_.
     pureS (schedule_result X action fresh s schedule)))"

definition ensure_events :: "(service, unit) op" where
  "ensure_events =
     on_world (\<lambda>W. case ensure_workflow_events_file (events_path W) (w_events W) of (f, r) \<Rightarrow> (W\<lparr>w_events := f\<rparr>, r))"

definition install_snapshot :: "snapshot \<Rightarrow> (service, unit) op" where
  "install_snapshot s S =
     (S\<lparr>sv_run := (sv_run S)\<lparr>wr_snapshot := Some (RFile (json_document (snapshot_json s)) 1 False)\<rparr>\<rparr>, Inr ())"

definition service_start ::
  "sched \<Rightarrow> ext \<Rightarrow> string \<Rightarrow> (launch_plan list \<Rightarrow> launch_plan list) \<Rightarrow> supplied \<Rightarrow> (service, json) op" where
  "service_start C X now order f =
     bindS (pureS (\<lambda>_. read_supplied X f)) (\<lambda>s.
     bindS (io_guard ''start''
       (bindS (pureS (\<lambda>S.
          bindE (raise_if (wr_snapshot (sv_run S) \<noteq> None) (''workflow already started: '' @ workflow_id s)) (\<lambda>_.
          raise_if (sv_projection S \<noteq> None)
            (''workflow run projection exists without canonical snapshot: '' @ w_dir (wr_world (sv_run S)))))) (\<lambda>_.
        bindS (install_snapshot s) (\<lambda>_.
        bindS ensure_events (\<lambda>_.
        write_workflow_projection X s))))) (\<lambda>_.
     service_schedule C X now order ''start'' True s))"

definition service_status :: "ext \<Rightarrow> supplied \<Rightarrow> (service, json) op" where
  "service_status X f =
     bindS (pureS (\<lambda>_. read_supplied X f)) (\<lambda>given.
     bindS (pureS (matching_started_snapshot X given)) (\<lambda>s.
     bindS (io_guard ''status'' (bindS ensure_events (\<lambda>_. write_workflow_projection X s))) (\<lambda>run.
     pureS (\<lambda>_. bindE (jidx run ''status'') (\<lambda>st. service_result X ''status'' (workflow_id s) st [])))))"

definition service_resume ::
  "sched \<Rightarrow> ext \<Rightarrow> string \<Rightarrow> (launch_plan list \<Rightarrow> launch_plan list) \<Rightarrow> supplied \<Rightarrow> (service, json) op" where
  "service_resume C X now order f =
     bindS (pureS (\<lambda>_. read_supplied X f)) (\<lambda>given.
     bindS (io_guard ''resume''
       (bindS (pureS (matching_started_snapshot X given)) (\<lambda>s. bindS ensure_events (\<lambda>_. returnS s)))) (\<lambda>s.
     service_schedule C X now order ''resume'' False s))"

definition receipt_result :: "ext \<Rightarrow> string \<Rightarrow> snapshot \<Rightarrow> sealed_receipt \<Rightarrow> json result" where
  "receipt_result X action s sr =
     bindE (jidx (sr_receipt sr) ''workflow_state'') (\<lambda>q.
     service_result X action (workflow_id s)
       (JObj [(''receipt_sha256'', JStr (sr_sha256 sr)), (''verified'', JBool True), (''workflow_state'', q)])
       [(''receipt_path'', JStr (sr_path sr))])"

definition on_run :: "(wrun, 'a) op \<Rightarrow> (service, 'a) op" where
  "on_run m S = (case m (sv_run S) of (R, r) \<Rightarrow> (S\<lparr>sv_run := R\<rparr>, r))"

definition service_seal :: "ext \<Rightarrow> string \<Rightarrow> supplied \<Rightarrow> (service, json) op" where
  "service_seal X now f =
     bindS (pureS (\<lambda>_. read_supplied X f)) (\<lambda>given.
     bindS (pureS (matching_started_snapshot X given)) (\<lambda>s.
     bindS (on_run (seal_workflow X now)) (\<lambda>sr.
     pureS (\<lambda>_. receipt_result X ''seal'' s sr))))"

definition service_verify :: "ext \<Rightarrow> string \<Rightarrow> supplied \<Rightarrow> (service, json) op" where
  "service_verify X now f =
     bindS (pureS (\<lambda>_. read_supplied X f)) (\<lambda>given.
     bindS (pureS (matching_started_snapshot X given)) (\<lambda>s.
     bindS (pureS (\<lambda>S. verify_workflow_receipt X now (sv_run S))) (\<lambda>sr.
     pureS (\<lambda>_. receipt_result X ''verify'' s sr))))"

subsection \<open>No operation rewrites the evidence\<close>

text \<open>
  What a later state keeps of an earlier one: the snapshot and the receipt stay the files they
  are, and the journal only grows.
\<close>

definition kept :: "'a option \<Rightarrow> 'a option \<Rightarrow> bool" where
  "kept old new = (case old of None \<Rightarrow> True | Some _ \<Rightarrow> new = old)"

definition evidence_kept :: "service \<Rightarrow> service \<Rightarrow> bool" where
  "evidence_kept S S' \<longleftrightarrow>
     journal_grows (wr_world (sv_run S)) (wr_world (sv_run S'))
     \<and> kept (wr_snapshot (sv_run S)) (wr_snapshot (sv_run S')) \<and> kept (wr_receipt (sv_run S)) (wr_receipt (sv_run S'))"

lemma kept_refl [simp]: "kept a a"
  by (simp add: kept_def split: option.split)

lemma kept_None [simp]: "kept None b"
  by (simp add: kept_def)

lemma kept_trans: "kept a b \<Longrightarrow> kept b c \<Longrightarrow> kept a c"
  by (cases a) (simp_all add: kept_def)

lemma evidence_kept_refl [simp]: "evidence_kept S S"
  by (simp add: evidence_kept_def)

lemma evidence_kept_trans: "evidence_kept A B \<Longrightarrow> evidence_kept B C \<Longrightarrow> evidence_kept A C"
  unfolding evidence_kept_def by (blast intro: journal_grows_trans kept_trans)

interpretation ek: kept_relation evidence_kept
  by unfold_locales (simp, rule evidence_kept_trans)

lemma on_world_kept:
  "journal_grows (wr_world (sv_run S)) (fst (m (wr_world (sv_run S)))) \<Longrightarrow> evidence_kept S (fst (on_world m S))"
  by (simp add: on_world_def evidence_kept_def split_def)

lemma io_guard_kept: "evidence_kept S (fst (m S)) \<Longrightarrow> evidence_kept S (fst (io_guard action m S))"
  by (cases "m S") (auto simp: io_guard_def split: sum.split error.split)

lemma write_projection_kept: "evidence_kept S (fst (write_workflow_projection X s S))"
  by (simp add: write_workflow_projection_def evidence_kept_def Let_def split: sum.split)

lemma ensure_events_kept: "evidence_kept S (fst (ensure_events S))"
  unfolding ensure_events_def
  by (rule on_world_kept)
    (use ensure_keeps in \<open>simp add: journal_grows_def split: prod.split, metis fst_conv order_refl take_all_iff\<close>)

lemma seal_kept: "evidence_kept S (fst (on_run (seal_workflow X now) S))"
  by (simp add: on_run_def seal_workflow_def evidence_kept_def kept_def Let_def split: sum.split option.split)

lemma schedule_kept: "evidence_kept S (fst (service_schedule C X now order action fresh s S))"
  unfolding service_schedule_def
  by (intro ek.compose on_world_kept launch_eligible_grows io_guard_kept write_projection_kept)

lemma start_refused:
  "wr_snapshot (sv_run S) \<noteq> None \<Longrightarrow> \<exists>e. service_start C X now order f S = (S, Inl e)"
  by (cases "read_supplied X f")
    (simp_all add: service_start_def bindS_def io_guard_def bindE_def raise_if_def)

lemma install_kept: "wr_snapshot (sv_run S) = None \<Longrightarrow> evidence_kept S (fst (install_snapshot s S))"
  by (simp add: install_snapshot_def evidence_kept_def)

lemma start_kept: "evidence_kept S (fst (service_start C X now order f S))"
proof (cases "wr_snapshot (sv_run S) = None")
  case False
  with start_refused [of S C X now order f] show ?thesis by auto
next
  case True
  then show ?thesis
    unfolding service_start_def
    by (intro ek.pure_bind ek.bind io_guard_kept install_kept ensure_events_kept
        write_projection_kept schedule_kept)
qed

lemma resume_kept: "evidence_kept S (fst (service_resume C X now order f S))"
  unfolding service_resume_def by (intro ek.compose io_guard_kept ensure_events_kept schedule_kept)

lemma status_kept: "evidence_kept S (fst (service_status X f S))"
  unfolding service_status_def by (intro ek.compose io_guard_kept ensure_events_kept write_projection_kept)

lemma service_seal_kept: "evidence_kept S (fst (service_seal X now f S))"
  unfolding service_seal_def by (intro ek.compose seal_kept)

text \<open>The commands of the workflow service, and of the scheduler between them.\<close>

datatype service_command =
    Validate supplied
  | Start string "launch_plan list \<Rightarrow> launch_plan list" supplied
  | Status supplied
  | Resume string "launch_plan list \<Rightarrow> launch_plan list" supplied
  | Retry_Node string snapshot string
  | Seal string supplied
  | Verify string supplied

fun run_service :: "sched \<Rightarrow> ext \<Rightarrow> service_command \<Rightarrow> (service, json) op" where
  "run_service C X (Validate f) = service_validate X f"
| "run_service C X (Start now order f) = service_start C X now order f"
| "run_service C X (Status f) = service_status X f"
| "run_service C X (Resume now order f) = service_resume C X now order f"
| "run_service C X (Retry_Node now s nid) =
     bindS (on_world (retry_node C X now s nid)) (\<lambda>(p, r). returnS (JObj [(''plan'', plan_json p), (''result'', r)]))"
| "run_service C X (Seal now f) = service_seal X now f"
| "run_service C X (Verify now f) = service_verify X now f"

lemma run_service_kept: "evidence_kept S (fst (run_service C X c S))"
proof (cases c)
  case (Retry_Node now s nid)
  show ?thesis
    unfolding Retry_Node run_service.simps split_def
    by (intro ek.compose on_world_kept retry_node_grows)
qed (simp_all only: run_service.simps start_kept resume_kept status_kept service_seal_kept,
    simp_all only: service_validate_def service_verify_def, (intro ek.compose)+)

text \<open>
  C25. No workflow command rewrites what a workflow stands on. Whatever commands are given, in
  whatever order, with whatever snapshot files, and however many of them raise: the installed
  snapshot stays the file it is, a receipt once written stays the file it is, and the event
  journal keeps its bytes as the first bytes of what it becomes. A second \<open>start\<close> raises and
  changes nothing at all, the projections included.
\<close>

theorem service_evidence_immutable:
  "evidence_kept S (run_ops (run_service C X) commands S)
   \<and> (wr_snapshot (sv_run S) = None \<or> (\<exists>e. service_start C X now order f S = (S, Inl e)))"
proof
  show "evidence_kept S (run_ops (run_service C X) commands S)"
    by (rule ek.run) (rule run_service_kept)
  show "wr_snapshot (sv_run S) = None \<or> (\<exists>e. service_start C X now order f S = (S, Inl e))"
    using start_refused by blast
qed

end
