(* ===== verification/Hierarchy.thy ===== *)
theory Hierarchy
  imports Input_Bindings Json_Pretty
begin

text \<open>
  \<open>hierarchy/contracts.py\<close>: the contracts of a hierarchy of agents. A hierarchy contract gives
  the teams with their budgets and capabilities; a delegation contract hands a part of them to one
  team and may only narrow it. Both carry a digest of themselves, and a set of them is installed
  as read-only files. First the comparison and path operations of Python that the checks use.
\<close>

subsection \<open>Python operations\<close>

text \<open>
  A number as \<open>m * 10 ^ e\<close>. The value of a float is read off its \<open>repr\<close>, the shortest decimal
  that denotes it; it compares with integers up to \<open>2 ^ 53\<close> as the float does.
\<close>

definition decimal :: "string \<Rightarrow> int \<times> int" where
  "decimal r =
     (let neg = (r \<noteq> [] \<and> hd r = CHR ''-''); s = (if neg then tl r else r);
          whole = takeWhile is_digit s; s1 = dropWhile is_digit s;
          frac = (if s1 \<noteq> [] \<and> hd s1 = CHR ''.'' then takeWhile is_digit (tl s1) else []);
          e = drop 1 (dropWhile (\<lambda>c. c \<noteq> CHR ''e'') s1);
          eneg = (e \<noteq> [] \<and> hd e = CHR ''-''); ev = int (digits_val (filter is_digit e));
          m = int (digits_val (whole @ frac)) in
      (if neg then - m else m, (if eneg then - ev else ev) - int (length frac)))"

definition decimal_less :: "int \<times> int \<Rightarrow> int \<times> int \<Rightarrow> bool" where
  "decimal_less a b =
     (case (a, b) of ((m, e), (n, f)) \<Rightarrow> m * 10 ^ nat (e - min e f) < n * 10 ^ nat (f - min e f))"

fun num_less :: "json \<Rightarrow> json \<Rightarrow> bool" where
  "num_less (JFloat a) (JFloat b) =
     (if a = ''nan'' \<or> b = ''nan'' then False
      else if a = b then False
      else if a = ''-inf'' \<or> b = ''inf'' then True
      else if a = ''inf'' \<or> b = ''-inf'' then False
      else decimal_less (decimal a) (decimal b))"
| "num_less (JFloat a) w =
     (if a = ''nan'' \<or> a = ''inf'' then False else a = ''-inf'' \<or> decimal_less (decimal a) (int_of w, 0))"
| "num_less v (JFloat b) =
     (if b = ''nan'' \<or> b = ''-inf'' then False else b = ''inf'' \<or> decimal_less (int_of v, 0) (decimal b))"
| "num_less v w = (int_of v < int_of w)"

definition is_number :: "json \<Rightarrow> bool" where
  "is_number v \<longleftrightarrow> is_int v \<or> (case v of JFloat _ \<Rightarrow> True | _ \<Rightarrow> False)"

text \<open>\<open>v > w\<close>: numbers, strings and lists compare among themselves, anything else raises.\<close>

fun py_gt :: "json \<Rightarrow> json \<Rightarrow> bool result" where
  "py_gt (JStr a) (JStr b) = Inr (b < a)"
| "py_gt (JList []) (JList ys) = Inr False"
| "py_gt (JList (x # xs)) (JList []) = Inr True"
| "py_gt (JList (x # xs)) (JList (y # ys)) =
     (if py_eq x y then py_gt (JList xs) (JList ys) else py_gt x y)"
| "py_gt v w = (if is_number v \<and> is_number w then Inr (num_less w v) else Inl (TypeError ''>''))"

lemma py_gt_JInt [simp]: "py_gt (JInt i) (JInt j) = Inr (j < i)"
  by (simp add: is_number_def)

declare py_gt.simps [simp del]

text \<open>The code points of a string, and what a \<open>for\<close> loop iterates over.\<close>

function code_points :: "string \<Rightarrow> string list" where
  "code_points s =
     (case s of
        [] \<Rightarrow> []
      | c # r \<Rightarrow> (c # takeWhile cont_byte r) # code_points (dropWhile cont_byte r))"
  by pat_completeness auto
termination
  by (relation "measure length") (auto simp: less_Suc_eq_le length_dropWhile_le)

declare code_points.simps [simp del]

definition py_iter :: "json \<Rightarrow> json list result" where
  "py_iter v =
     (case v of
        JList xs \<Rightarrow> Inr xs
      | JObj kvs \<Rightarrow> Inr (map (JStr \<circ> fst) kvs)
      | JStr s \<Rightarrow> Inr (map JStr (code_points s))
      | _ \<Rightarrow> Inl (TypeError ''iter''))"

text \<open>\<open>validate_id\<close> of a value that may be no string, which \<open>re\<close> refuses.\<close>

definition validate_json_id :: "json \<Rightarrow> string \<Rightarrow> string result" where
  "validate_json_id v label = bindE (as_str v) (\<lambda>s. validate_id s label)"

lemma as_str_Inr [simp]: "as_str v = Inr s \<longleftrightarrow> v = JStr s"
  by (cases v) (auto simp: as_str_def)

lemma validate_json_id_Inr [simp]: "validate_json_id v label = Inr s \<longleftrightarrow> v = JStr s \<and> SAFE_ID s"
  by (auto simp: validate_json_id_def)

text \<open>\<open>PurePosixPath(v)\<close>: \<open>parts\<close>, \<open>str\<close> and \<open>is_absolute\<close> of a relative path.\<close>

definition path_parts :: "string \<Rightarrow> string list" where
  "path_parts v = filter (\<lambda>p. p \<noteq> [] \<and> p \<noteq> ''.'') (split_on (CHR ''/'') v)"

definition path_str :: "string \<Rightarrow> string" where
  "path_str v = (if path_parts v = [] then ''.'' else py_join ''/'' (path_parts v))"

definition relative_path_ok :: "json \<Rightarrow> bool" where
  "relative_path_ok v \<longleftrightarrow>
     (case v of
        JStr s \<Rightarrow> s \<noteq> [] \<and> CHR 0x5C \<notin> set s \<and> hd s \<noteq> CHR ''/'' \<and> path_str s = s \<and> ''..'' \<notin> set (path_parts s)
      | _ \<Rightarrow> False)"

definition validate_relative_path :: "json \<Rightarrow> string \<Rightarrow> unit result" where
  "validate_relative_path v label =
     raise_if (\<not> relative_path_ok v) (''invalid '' @ label @ '': '' @ py_repr v)"

subsection \<open>Digests and identities\<close>

definition HIERARCHY_SCHEMA :: string where
  "HIERARCHY_SCHEMA = ''agent-workflow/orchestration-hierarchy/v1''"

definition TEAM_DELEGATION_SCHEMA :: string where
  "TEAM_DELEGATION_SCHEMA = ''agent-workflow/team-delegation/v1''"

definition CONTRACT_SET_SCHEMA :: string where
  "CONTRACT_SET_SCHEMA = ''agent-workflow/hierarchy-contract-set/v1''"

definition DIGEST_PREFIX :: string where
  "DIGEST_PREFIX = ''sha256:''"

definition ALLOWED_KEYS :: "string list" where
  "ALLOWED_KEYS = [''executors'', ''models'', ''agent_classes'', ''permissions'', ''commands'']"

text \<open>The digest of a contract is over its canonical bytes without the digest field itself.\<close>

definition identity_digest :: "ext \<Rightarrow> json \<Rightarrow> string \<Rightarrow> string" where
  "identity_digest X v omit = DIGEST_PREFIX @ sha256 X (dumps False (jpop omit v))"

definition verify_digest :: "ext \<Rightarrow> json \<Rightarrow> string \<Rightarrow> string \<Rightarrow> unit result" where
  "verify_digest X v field label =
     (let expected = identity_digest X v field; actual = jget v field in
      raise_if (actual \<noteq> JStr expected)
        (label @ '' digest mismatch: expected '' @ expected @ '', got '' @ py_str actual))"

definition nonempty_str :: "json \<Rightarrow> bool" where
  "nonempty_str v \<longleftrightarrow> is_str v \<and> v \<noteq> JStr []"

definition validate_unique_strings :: "json \<Rightarrow> string \<Rightarrow> string list result" where
  "validate_unique_strings values label =
     bindE (raise_if (\<not> is_list values \<or> (\<exists>item \<in> set (list_items values). \<not> nonempty_str item))
             (label @ '' must be a list of non-empty strings'')) (\<lambda>_.
     (let result = map str_of (list_items values) in
     bindE (raise_if (\<not> distinct result) (label @ '' must not contain duplicates'')) (\<lambda>_.
     Inr result)))"

text \<open>The declared teams with their leads, in the order of the contract.\<close>

fun team_loop :: "(string \<times> string) list \<Rightarrow> json list \<Rightarrow> (string \<times> string) list result" where
  "team_loop acc [] = Inr acc"
| "team_loop acc (item # items) =
     bindE (bindE (jidx item ''team_id'') (\<lambda>v. validate_json_id v ''team id'')) (\<lambda>team_id.
     bindE (bindE (jidx item ''team_lead_agent_run_id'') (\<lambda>v. validate_json_id v ''team lead Agent Run ID'')) (\<lambda>lead_id.
     bindE (raise_if (team_id \<in> fst ` set acc)
             (''duplicate team id in hierarchy contract: '' @ team_id)) (\<lambda>_.
     team_loop (acc @ [(team_id, lead_id)]) items)))"

definition team_map :: "json \<Rightarrow> (string \<times> string) list result" where
  "team_map hierarchy =
     bindE (jidx hierarchy ''teams'') (\<lambda>v. bindE (py_iter v) (\<lambda>items. team_loop [] items))"

fun identity_loop :: "(string \<times> string) list \<Rightarrow> (string \<times> string) list \<Rightarrow> unit result" where
  "identity_loop seen [] = Inr ()"
| "identity_loop seen ((identity, label) # rest) =
     (case map_of seen identity of
        Some previous \<Rightarrow>
          Inl (WorkflowError (''duplicate hierarchy authority identity '' @ str_repr identity
            @ '': used by '' @ previous @ '' and '' @ label))
      | None \<Rightarrow> identity_loop ((identity, label) # seen) rest)"

definition validate_unique_authority_identities :: "string \<Rightarrow> (string \<times> string) list \<Rightarrow> unit result" where
  "validate_unique_authority_identities root_id teams =
     identity_loop [(root_id, ''root orchestrator'')]
       (concat (map (\<lambda>(team_id, lead_id).
          [(team_id, ''team '' @ team_id), (lead_id, ''team lead for '' @ team_id)]) teams))"

subsection \<open>The hierarchy contract\<close>

definition raise_if_gt :: "json \<Rightarrow> json \<Rightarrow> string \<Rightarrow> unit result" where
  "raise_if_gt v w msg = bindE (py_gt v w) (\<lambda>b. raise_if b msg)"

definition check_allowed :: "json \<Rightarrow> string \<Rightarrow> string list result" where
  "check_allowed contract key =
     bindE (jidx contract ''allowed'') (\<lambda>a. bindE (jidx a key) (\<lambda>v.
     validate_unique_strings v (''hierarchy allowed.'' @ key)))"

definition validate_hierarchy_contract :: "ext \<Rightarrow> json \<Rightarrow> unit result" where
  "validate_hierarchy_contract X contract =
     bindE (raise_if (\<not> is_obj contract) ''hierarchy contract must be an object'') (\<lambda>_.
     bindE (validate_instance X contract HIERARCHY_SCHEMA ''hierarchy contract'') (\<lambda>_.
     bindE (jidx contract ''allowed_depth'') (\<lambda>depth.
     bindE (raise_if (\<not> py_eq depth (JInt 2)) ''hierarchy allowed_depth must be exactly 2'') (\<lambda>_.
     bindE (bindE (jidx contract ''orchestration_id'') (\<lambda>v. validate_json_id v ''orchestration id'')) (\<lambda>_.
     bindE (bindE (jidx contract ''root_orchestrator_id'') (\<lambda>v. validate_json_id v ''root orchestrator id'')) (\<lambda>root_id.
     bindE (bindE (jidx contract ''workflow_id'') (\<lambda>v. validate_json_id v ''workflow id'')) (\<lambda>_.
     bindE (team_map contract) (\<lambda>teams.
     bindE (validate_unique_authority_identities root_id teams) (\<lambda>_.
     bindE (jidx contract ''budgets'') (\<lambda>budgets.
     bindE (jidx budgets ''max_teams'') (\<lambda>max_teams.
     bindE (raise_if_gt (JInt (int (length teams))) max_teams ''hierarchy declares more teams than max_teams'') (\<lambda>_.
     bindE (jidx budgets ''max_concurrent_workers'') (\<lambda>concurrent.
     bindE (jidx budgets ''max_total_workers'') (\<lambda>workers.
     bindE (raise_if_gt concurrent workers ''hierarchy max_concurrent_workers exceeds max_total_workers'') (\<lambda>_.
     bindE (mapE (check_allowed contract) ALLOWED_KEYS) (\<lambda>_.
     bindE (bindE (jidx contract ''allowed_routes'') (\<lambda>v. validate_unique_strings v ''hierarchy allowed_routes'')) (\<lambda>_.
     verify_digest X contract ''identity_sha256'' ''hierarchy contract'')))))))))))))))))"

definition seal_hierarchy_contract :: "ext \<Rightarrow> json \<Rightarrow> json result" where
  "seal_hierarchy_contract X v =
     (if \<not> is_obj v then Inl (TypeError ''dict'')
      else
        (let result = jset ''identity_sha256'' (JStr (identity_digest X v ''identity_sha256'')) v in
         bindE (validate_hierarchy_contract X result) (\<lambda>_. Inr result)))"

subsection \<open>The delegation contract\<close>

text \<open>Each budget of a team with the budget of the hierarchy that bounds it.\<close>

definition BUDGET_COMPARISONS :: "(string \<times> string) list" where
  "BUDGET_COMPARISONS =
     [(''max_workers'', ''max_total_workers''), (''max_concurrent_workers'', ''max_concurrent_workers''),
      (''max_retries'', ''max_retries_per_worker''), (''max_wall_seconds'', ''max_wall_seconds'')]"

definition check_budget :: "json \<Rightarrow> json \<Rightarrow> string \<times> string \<Rightarrow> unit result" where
  "check_budget parent_budget team_budget =
     (\<lambda>(child_key, parent_key).
        bindE (jidx team_budget child_key) (\<lambda>c.
        bindE (jidx parent_budget parent_key) (\<lambda>p.
        raise_if_gt c p (''team budget '' @ child_key @ ''='' @ py_str c @ '' widens hierarchy '' @ parent_key
          @ ''='' @ py_str p))))"

text \<open>A sorted set difference of strings.\<close>

definition str_set :: "json list \<Rightarrow> string set" where
  "str_set vs = {s. JStr s \<in> set vs}"

definition beyond :: "string list \<Rightarrow> json list \<Rightarrow> string list" where
  "beyond child parent = sort (filter (\<lambda>s. JStr s \<notin> set parent) child)"

definition check_team_allowed :: "json \<Rightarrow> json \<Rightarrow> string \<Rightarrow> unit result" where
  "check_team_allowed contract hierarchy key =
     bindE (bindE (jidx contract ''allowed'') (\<lambda>a. jidx a key)) (\<lambda>v.
     bindE (validate_unique_strings v (''team allowed.'' @ key)) (\<lambda>child.
     bindE (bindE (bindE (jidx hierarchy ''allowed'') (\<lambda>a. jidx a key)) py_iter) (\<lambda>parent.
     raise_if (beyond child parent \<noteq> [])
       (''team allowed.'' @ key @ '' widens hierarchy capability: '' @ py_join '', '' (beyond child parent)))))"

definition check_scope :: "json \<Rightarrow> string \<Rightarrow> unit result" where
  "check_scope contract field =
     bindE (bindE (jidx contract field) py_iter) (\<lambda>items.
     bindE (mapE (\<lambda>item. validate_relative_path item (''team '' @ field @ '' path'')) items) (\<lambda>_. Inr ()))"

definition scope_parts :: "json \<Rightarrow> string \<Rightarrow> string list list result" where
  "scope_parts contract field =
     bindE (bindE (jidx contract field) py_iter) (\<lambda>items.
     bindE (mapE as_str items) (\<lambda>paths. Inr (map path_parts paths)))"

definition parts_overlap :: "string list \<Rightarrow> string list \<Rightarrow> bool" where
  "parts_overlap w g \<longleftrightarrow> (let shared = min (length w) (length g) in take shared w = take shared g)"

definition scope_conflicts :: "string list list \<Rightarrow> string list list \<Rightarrow> string list" where
  "scope_conflicts writable no_go =
     concat (map (\<lambda>w. map (\<lambda>g. py_join ''/'' w @ '' <-> '' @ py_join ''/'' g) (filter (parts_overlap w) no_go)) writable)"

definition same_field :: "json \<Rightarrow> string \<Rightarrow> json \<Rightarrow> string \<Rightarrow> string \<Rightarrow> unit result" where
  "same_field contract field hierarchy parent_field what =
     bindE (jidx contract field) (\<lambda>a. bindE (jidx hierarchy parent_field) (\<lambda>b.
     raise_if (\<not> py_eq a b) (''team contract '' @ what @ '' does not match hierarchy'')))"

definition validate_team_delegation_contract :: "ext \<Rightarrow> json \<Rightarrow> json \<Rightarrow> unit result" where
  "validate_team_delegation_contract X contract hierarchy =
     bindE (raise_if (\<not> is_obj contract) ''team delegation contract must be an object'') (\<lambda>_.
     bindE (validate_hierarchy_contract X hierarchy) (\<lambda>_.
     bindE (validate_instance X contract TEAM_DELEGATION_SCHEMA ''team delegation contract'') (\<lambda>_.
     bindE (same_field contract ''orchestration_id'' hierarchy ''orchestration_id'' ''orchestration identity'') (\<lambda>_.
     bindE (same_field contract ''root_orchestrator_id'' hierarchy ''root_orchestrator_id'' ''root identity'') (\<lambda>_.
     bindE (same_field contract ''hierarchy_identity_sha256'' hierarchy ''identity_sha256'' ''hierarchy digest'') (\<lambda>_.
     bindE (bindE (jidx contract ''team_id'') (\<lambda>v. validate_json_id v ''team id'')) (\<lambda>team_id.
     bindE (bindE (jidx contract ''team_lead_agent_run_id'') (\<lambda>v. validate_json_id v ''team lead Agent Run ID'')) (\<lambda>lead_id.
     bindE (team_map hierarchy) (\<lambda>declared.
     bindE (raise_if (map_of declared team_id = None) (''team contract references undeclared team: '' @ team_id)) (\<lambda>_.
     bindE (raise_if (map_of declared team_id \<noteq> Some lead_id) ''team lead Agent Run IDentity does not match hierarchy'') (\<lambda>_.
     bindE (jidx hierarchy ''budgets'') (\<lambda>parent_budget.
     bindE (jidx contract ''budgets'') (\<lambda>team_budget.
     bindE (mapE (check_budget parent_budget team_budget) BUDGET_COMPARISONS) (\<lambda>_.
     bindE (jidx team_budget ''max_concurrent_workers'') (\<lambda>concurrent.
     bindE (jidx team_budget ''max_workers'') (\<lambda>workers.
     bindE (raise_if_gt concurrent workers ''team max_concurrent_workers exceeds max_workers'') (\<lambda>_.
     bindE (mapE (check_team_allowed contract hierarchy) ALLOWED_KEYS) (\<lambda>_.
     bindE (bindE (jidx contract ''message_routes'') (\<lambda>v. validate_unique_strings v ''team message_routes'')) (\<lambda>routes.
     bindE (bindE (jidx hierarchy ''allowed_routes'') py_iter) (\<lambda>parent_routes.
     bindE (raise_if (beyond routes parent_routes \<noteq> [])
             (''team message routes widen hierarchy capability: '' @ py_join '', '' (beyond routes parent_routes))) (\<lambda>_.
     bindE (mapE (check_scope contract) [''writable_scope'', ''no_go_scope'']) (\<lambda>_.
     bindE (scope_parts contract ''writable_scope'') (\<lambda>writable.
     bindE (scope_parts contract ''no_go_scope'') (\<lambda>no_go.
     bindE (raise_if (scope_conflicts writable no_go \<noteq> [])
             (''team writable and no-go scopes overlap: '' @ py_join '', '' (sort (scope_conflicts writable no_go)))) (\<lambda>_.
     verify_digest X contract ''contract_sha256'' ''team delegation contract'')))))))))))))))))))))))))"

definition seal_team_delegation_contract :: "ext \<Rightarrow> json \<Rightarrow> json \<Rightarrow> json result" where
  "seal_team_delegation_contract X v hierarchy =
     (if \<not> is_obj v then Inl (TypeError ''dict'')
      else if \<not> is_obj hierarchy then Inl (TypeError ''get'')
      else
        (let bound = jset ''hierarchy_identity_sha256'' (jget hierarchy ''identity_sha256'') v;
             result = jset ''contract_sha256'' (JStr (identity_digest X bound ''contract_sha256'')) bound in
         bindE (validate_team_delegation_contract X result hierarchy) (\<lambda>_. Inr result)))"

subsection \<open>A delegation only narrows\<close>

definition capabilities :: "json \<Rightarrow> string \<Rightarrow> json set" where
  "capabilities v key = set (list_items (jget (jget v ''allowed'') key))"

definition routes_of :: "json \<Rightarrow> string \<Rightarrow> json set" where
  "routes_of v field = set (list_items (jget v field))"

definition budget_of :: "json \<Rightarrow> string \<Rightarrow> json" where
  "budget_of v key = jget (jget v ''budgets'') key"

text \<open>A scope covers the paths at and below the ones it lists.\<close>

definition covers :: "json \<Rightarrow> string \<Rightarrow> string list \<Rightarrow> bool" where
  "covers v field p \<longleftrightarrow>
     (\<exists>s. JStr s \<in> set (list_items (jget v field)) \<and> take (length (path_parts s)) p = path_parts s)"

lemma jidx_jget: "jidx v k = Inr x \<Longrightarrow> jget v k = x"
  by (auto simp: jidx_def jget_def jget_or_def split: if_splits option.splits)

lemma raise_if_gt_Inr [simp]: "raise_if_gt v w msg = Inr u \<longleftrightarrow> py_gt v w = Inr False"
  by (auto simp: raise_if_gt_def)

lemma verify_digest_Inr [simp]:
  "verify_digest X v field label = Inr u \<longleftrightarrow> jget v field = JStr (identity_digest X v field)"
  by (auto simp: verify_digest_def Let_def)

lemma validate_unique_strings_Inr:
  "validate_unique_strings v label = Inr r \<Longrightarrow>
     v = JList (map JStr r) \<and> distinct r \<and> [] \<notin> set r"
proof -
  assume a: "validate_unique_strings v label = Inr r"
  then obtain xs where v: "v = JList xs" and x: "\<forall>x \<in> set xs. nonempty_str x" and r: "r = map str_of xs" "distinct r"
    by (auto simp: validate_unique_strings_def Let_def is_list_conv)
  have "map JStr r = xs" unfolding r(1) map_map by (rule map_idI) (use x in \<open>auto simp: nonempty_str_def is_str_conv\<close>)
  moreover have "[] \<notin> set r" using x by (auto simp: r(1) nonempty_str_def is_str_conv)
  ultimately show ?thesis using v r(2) by simp
qed

lemma beyond_Nil: "beyond child parent = [] \<longleftrightarrow> JStr ` set child \<subseteq> set parent"
proof -
  have "beyond child parent = [] \<longleftrightarrow> set (beyond child parent) = {}" by simp
  then show ?thesis by (auto simp: beyond_def)
qed

lemma check_team_allowed_Inr:
  assumes "check_team_allowed c h key = Inr u" and "check_allowed h key = Inr r"
  shows "capabilities c key \<subseteq> capabilities h key"
  using assms
  by (auto simp: check_team_allowed_def check_allowed_def beyond_Nil capabilities_def py_iter_def
      dest!: jidx_jget validate_unique_strings_Inr simp del: image_subset_iff) blast

lemma parts_overlapI:
  assumes "take (length w) p = w" and "take (length g) p = g"
  shows "parts_overlap w g"
proof -
  have "take (min (length w) (length g)) w = take (min (length w) (length g)) p"
    using assms(1) by (metis min.commute min.left_idem take_take)
  moreover have "take (min (length w) (length g)) g = take (min (length w) (length g)) p"
    using assms(2) by (metis min.right_idem take_take)
  ultimately show ?thesis by (simp add: parts_overlap_def)
qed

lemma scope_parts_in:
  assumes "scope_parts c field = Inr ps" and "JStr s \<in> set (list_items (jget c field))"
  shows "path_parts s \<in> set ps"
proof -
  obtain xs qs where x: "jget c field = JList xs" "mapE as_str xs = Inr qs" "ps = map path_parts qs"
    using assms jidx_jget [of c field]
    by (cases "jget c field") (auto simp: scope_parts_def py_iter_def)
  with assms(2) obtain i where i: "i < length xs" "xs ! i = JStr s" by (auto simp: in_set_conv_nth)
  with x(2) have "qs ! i = s" "i < length qs" by (auto simp: mapE_Inr_iff list_all2_conv_all_nth)
  then have "s \<in> set qs" by (metis nth_mem)
  with x(3) show ?thesis by simp
qed

lemma scopes_apart:
  assumes "scope_parts c a = Inr ws" and "scope_parts c b = Inr gs" and "scope_conflicts ws gs = []"
  shows "\<not> (covers c a p \<and> covers c b p)"
proof
  assume "covers c a p \<and> covers c b p"
  then obtain s t where s: "JStr s \<in> set (list_items (jget c a))" "take (length (path_parts s)) p = path_parts s"
    and t: "JStr t \<in> set (list_items (jget c b))" "take (length (path_parts t)) p = path_parts t"
    by (auto simp: covers_def)
  have "parts_overlap (path_parts s) (path_parts t)" by (rule parts_overlapI [OF s(2) t(2)])
  with scope_parts_in [OF assms(1) s(1)] scope_parts_in [OF assms(2) t(1)] assms(3) show False
    by (auto simp: scope_conflicts_def filter_empty_conv)
qed

lemma check_budget_Inr:
  "check_budget pb tb (ck, pk) = Inr u \<Longrightarrow> py_gt (jget tb ck) (jget pb pk) = Inr False"
  by (auto simp: check_budget_def dest!: jidx_jget)

lemma team_loop_distinct:
  "team_loop acc items = Inr teams \<Longrightarrow> distinct (map fst acc) \<Longrightarrow>
     distinct (map fst teams) \<and> set acc \<subseteq> set teams"
  by (induction acc items rule: team_loop.induct) (force simp del: validate_json_id_Inr)+

text \<open>What a contract that was accepted is.\<close>

lemma validate_hierarchy_contract_Inr:
  assumes "validate_hierarchy_contract X h = Inr u"
  shows "is_obj h" and "key \<in> set ALLOWED_KEYS \<Longrightarrow> \<exists>r. check_allowed h key = Inr r"
    and "\<exists>r. jidx h ''allowed_routes'' = Inr (JList (map JStr r))"
    and "\<exists>ts. team_map h = Inr ts"
    and "jget h ''identity_sha256'' = JStr (identity_digest X h ''identity_sha256'')"
  using assms mapE_units [of "check_allowed h" ALLOWED_KEYS]
  by (auto simp: validate_hierarchy_contract_def dest!: validate_unique_strings_Inr)

lemma validate_team_Inr:
  assumes "validate_team_delegation_contract X c h = Inr u"
  obtains teams ws gs pb tb rs prs us vs where "validate_hierarchy_contract X h = Inr ()" "is_obj c"
    "team_map h = Inr teams" "(str_of (jget c ''team_id''), str_of (jget c ''team_lead_agent_run_id'')) \<in> set teams"
    "jget h ''budgets'' = pb" "jget c ''budgets'' = tb" "mapE (check_budget pb tb) BUDGET_COMPARISONS = Inr us"
    "mapE (check_team_allowed c h) ALLOWED_KEYS = Inr vs"
    "jget c ''message_routes'' = JList (map JStr rs)"
    "bindE (jidx h ''allowed_routes'') py_iter = Inr prs" "beyond rs prs = []"
    "scope_parts c ''writable_scope'' = Inr ws" "scope_parts c ''no_go_scope'' = Inr gs" "scope_conflicts ws gs = []"
    "jget c ''contract_sha256'' = JStr (identity_digest X c ''contract_sha256'')"
    "is_str (jget c ''team_id'')" "is_str (jget c ''team_lead_agent_run_id'')"
  using assms unfolding validate_team_delegation_contract_def
  by (clarsimp simp del: mapE.simps) (auto dest!: validate_unique_strings_Inr jidx_jget map_of_SomeD)

text \<open>
  C8. A delegation that is accepted only narrows the hierarchy it belongs to: every capability and
  message route of the team is one of the hierarchy, every integer budget of the team is at most
  the budget of the hierarchy that bounds it, the team and its lead are declared by the hierarchy,
  both contracts carry the digest of their own content, and no path, at any depth, is covered by
  both the writable and the no-go scope.
\<close>

theorem team_contract_narrows:
  assumes "validate_team_delegation_contract X c h = Inr u"
  shows "(\<forall>key \<in> set ALLOWED_KEYS. capabilities c key \<subseteq> capabilities h key)
    \<and> routes_of c ''message_routes'' \<subseteq> routes_of h ''allowed_routes''
    \<and> (\<forall>(ck, pk) \<in> set BUDGET_COMPARISONS. \<forall>i j. budget_of c ck = JInt i \<longrightarrow> budget_of h pk = JInt j \<longrightarrow> i \<le> j)
    \<and> (\<exists>teams team lead. team_map h = Inr teams \<and> (team, lead) \<in> set teams
         \<and> jget c ''team_id'' = JStr team \<and> jget c ''team_lead_agent_run_id'' = JStr lead)
    \<and> jget c ''contract_sha256'' = JStr (identity_digest X c ''contract_sha256'')
    \<and> jget h ''identity_sha256'' = JStr (identity_digest X h ''identity_sha256'')
    \<and> \<not> (covers c ''writable_scope'' p \<and> covers c ''no_go_scope'' p)"
proof (rule validate_team_Inr [OF assms], intro conjI ballI)
  fix teams ws gs pb tb rs prs us vs key
  assume h: "validate_hierarchy_contract X h = Inr ()"
    and v: "mapE (check_team_allowed c h) ALLOWED_KEYS = Inr vs" and key: "key \<in> set ALLOWED_KEYS"
  from mapE_units [OF v key] validate_hierarchy_contract_Inr(2) [OF h key]
  show "capabilities c key \<subseteq> capabilities h key" by (auto dest: check_team_allowed_Inr)
next
  fix teams ws gs pb tb rs prs us vs
  assume h: "validate_hierarchy_contract X h = Inr ()" and r: "jget c ''message_routes'' = JList (map JStr rs)"
    "bindE (jidx h ''allowed_routes'') py_iter = Inr prs" "beyond rs prs = []"
  from validate_hierarchy_contract_Inr(3) [OF h] obtain q where
    "jidx h ''allowed_routes'' = Inr (JList (map JStr q))" by blast
  with r jidx_jget [OF this] show "routes_of c ''message_routes'' \<subseteq> routes_of h ''allowed_routes''"
    by (auto simp: routes_of_def py_iter_def beyond_Nil)
next
  fix teams ws gs pb tb rs prs us vs b
  assume b: "jget h ''budgets'' = pb" "jget c ''budgets'' = tb" "b \<in> set BUDGET_COMPARISONS"
    and m: "mapE (check_budget pb tb) BUDGET_COMPARISONS = Inr us"
  obtain ck pk where k: "b = (ck, pk)" by (cases b)
  from mapE_units [OF m b(3)] have "py_gt (jget tb ck) (jget pb pk) = Inr False"
    by (auto simp: k dest: check_budget_Inr)
  then show "case b of (ck, pk) \<Rightarrow> \<forall>i j. budget_of c ck = JInt i \<longrightarrow> budget_of h pk = JInt j \<longrightarrow> i \<le> j"
    by (auto simp: k budget_of_def b(1,2))
qed (auto simp: is_str_conv dest: validate_hierarchy_contract_Inr(5) scopes_apart)

text \<open>A hierarchy of one team, and the contract that delegates to it.\<close>

definition demo_allowed :: "string list \<Rightarrow> json" where
  "demo_allowed models = JObj (map (\<lambda>k. (k, JList (if k = ''models'' then map JStr models else []))) ALLOWED_KEYS)"

definition demo_hierarchy :: json where
  "demo_hierarchy = JObj
     [(''orchestration_id'', JStr ''o''), (''root_orchestrator_id'', JStr ''root''), (''workflow_id'', JStr ''w''),
      (''allowed_depth'', JInt 2),
      (''teams'', JList [JObj [(''team_id'', JStr ''a''), (''team_lead_agent_run_id'', JStr ''lead-a'')]]),
      (''budgets'', JObj [(''max_teams'', JInt 1), (''max_total_workers'', JInt 4), (''max_concurrent_workers'', JInt 2),
                          (''max_retries_per_worker'', JInt 1), (''max_wall_seconds'', JInt 60)]),
      (''allowed'', demo_allowed [''m'', ''n'']), (''allowed_routes'', JList [JStr ''r''])]"

definition demo_team :: json where
  "demo_team = JObj
     [(''orchestration_id'', JStr ''o''), (''root_orchestrator_id'', JStr ''root''),
      (''team_id'', JStr ''a''), (''team_lead_agent_run_id'', JStr ''lead-a''),
      (''budgets'', JObj [(''max_workers'', JInt 2), (''max_concurrent_workers'', JInt 2), (''max_retries'', JInt 1),
                          (''max_wall_seconds'', JInt 30)]),
      (''allowed'', demo_allowed [''m'']), (''message_routes'', JList []),
      (''writable_scope'', JList [JStr ''src/a'']), (''no_go_scope'', JList [JStr ''src/b'', JStr ''docs'']),
      (''required_outputs'', JList [JStr ''log'']), (''required_reviews'', JList []), (''required_approvals'', JList [])]"

lemma demo_hierarchy_sealed: "\<exists>h. seal_hierarchy_contract demo_ext demo_hierarchy = Inr h"
proof -
  have "\<not> isl (seal_hierarchy_contract demo_ext demo_hierarchy)" by code_simp
  then show ?thesis by (cases "seal_hierarchy_contract demo_ext demo_hierarchy") auto
qed

lemma demo_team_sealed:
  "\<exists>h c. seal_hierarchy_contract demo_ext demo_hierarchy = Inr h
     \<and> seal_team_delegation_contract demo_ext demo_team h = Inr c"
proof -
  have "\<not> isl (bindE (seal_hierarchy_contract demo_ext demo_hierarchy) (seal_team_delegation_contract demo_ext demo_team))"
    by code_simp
  then show ?thesis
    by (cases "bindE (seal_hierarchy_contract demo_ext demo_hierarchy) (seal_team_delegation_contract demo_ext demo_team)") auto
qed

theorem team_contract_narrows_witness:
  "\<exists>c h. validate_team_delegation_contract demo_ext c h = Inr ()
     \<and> (\<forall>key \<in> set ALLOWED_KEYS. capabilities c key \<subseteq> capabilities h key)
     \<and> \<not> (covers c ''writable_scope'' [''src'', ''a'', ''x''] \<and> covers c ''no_go_scope'' [''src'', ''a'', ''x''])"
proof -
  obtain h c where "seal_team_delegation_contract demo_ext demo_team h = Inr c" using demo_team_sealed by blast
  then have v: "validate_team_delegation_contract demo_ext c h = Inr ()"
    by (auto simp: seal_team_delegation_contract_def Let_def split: if_splits)
  from team_contract_narrows [OF v, of "[''src'', ''a'', ''x'']"] v show ?thesis by blast
qed

end
