(* ===== verification/Hierarchy_Store.thy ===== *)
theory Hierarchy_Store
  imports Hierarchy Kept
begin

text \<open>
  The second half of \<open>hierarchy/contracts.py\<close>: the installation of a contract set as read-only
  files below an orchestration root, and its reading. Also \<open>path.require_directory\<close> and the
  walk of \<open>path.read_regular_file\<close>, which follow no link on the way to a file.
\<close>

subsection \<open>A tree of files\<close>

text \<open>
  A directory with its entries by relative path; the directory itself is the entry \<open>"."\<close>.
  \<open>t_parent\<close> tells whether the directory above it is reached without following a link.
\<close>

record ftree =
  t_above :: string
  t_name :: string
  t_parent :: bool
  t_entries :: "(string \<times> rentry) list"

definition tree_entry :: "ftree \<Rightarrow> string \<Rightarrow> rentry option" where
  "tree_entry t p = map_of (t_entries t) p"

definition tree_put :: "ftree \<Rightarrow> string \<Rightarrow> rentry \<Rightarrow> ftree" where
  "tree_put t p e = t\<lparr>t_entries := AList.update p e (t_entries t)\<rparr>"

lemma tree_entry_put [simp]: "tree_entry (tree_put t p e) q = (if q = p then Some e else tree_entry t q)"
  by (simp add: tree_entry_def tree_put_def update_conv')

definition tree_path :: "ftree \<Rightarrow> string \<Rightarrow> string" where
  "tree_path t p = t_above t @ ''/'' @ t_name t @ (if p = ''.'' then [] else ''/'' @ p)"

text \<open>Every directory on the way to an entry is a real one.\<close>

definition dirs_real :: "ftree \<Rightarrow> string \<Rightarrow> bool" where
  "dirs_real t p \<longleftrightarrow>
     t_parent t \<and> (p = ''.'' \<or> tree_entry t ''.'' = Some RDir)
     \<and> (\<forall>q \<in> set (parent_dirs (path_parts p)). tree_entry t q = Some RDir)"

definition require_directory :: "ftree \<Rightarrow> string \<Rightarrow> string \<Rightarrow> unit result" where
  "require_directory t p label =
     raise_if (\<not> (dirs_real t p \<and> tree_entry t p = Some RDir))
       (label @ '' is not a regular directory: '' @ tree_path t p)"

definition require_parent :: "ftree \<Rightarrow> string \<Rightarrow> string \<Rightarrow> unit result" where
  "require_parent t p label =
     (if p = ''.'' then raise_if (\<not> t_parent t) (label @ '' is not a regular directory: '' @ t_above t)
      else require_directory t
        (case parent_dirs (path_parts p) of [] \<Rightarrow> ''.'' | ds \<Rightarrow> last ds) label)"

text \<open>A file with whether it is writable; a directory that cannot be walked raises \<open>OSError\<close>.\<close>

definition entry_writable :: "rentry option \<Rightarrow> bool" where
  "entry_writable e = (case e of Some (RFile _ _ w) \<Rightarrow> w | _ \<Rightarrow> False)"

definition read_tree_file :: "ftree \<Rightarrow> string \<Rightarrow> (string \<times> bool) result" where
  "read_tree_file t p =
     (if \<not> dirs_real t p then Inl (OSError (tree_path t p))
      else bindE (read_regular_file (tree_path t p) (tree_entry t p)) (\<lambda>data.
           Inr (data, entry_writable (tree_entry t p))))"

subsection \<open>Installation\<close>

definition install_immutable_json :: "ext \<Rightarrow> string \<Rightarrow> json \<Rightarrow> (ftree, string) op" where
  "install_immutable_json X p v t =
     (let expected = json_document v; path = tree_path t p in
      if tree_entry t p \<noteq> None then
        (t, bindE (read_tree_file t p) (\<lambda>(data, writable).
            bindE (raise_if writable (''installed hierarchy contract must be read-only: '' @ path)) (\<lambda>_.
            bindE (raise_if (data \<noteq> expected) (''immutable hierarchy contract already differs: '' @ path)) (\<lambda>_.
            Inr (sha256 X data)))))
      else
        (let t' = tree_put t p (RFile expected 1 False) in
         (t', bindE (read_tree_file t' p) (\<lambda>(data, writable).
              bindE (raise_if (writable \<or> data \<noteq> expected)
                      (''failed to install immutable hierarchy contract: '' @ path)) (\<lambda>_.
              Inr (sha256 X data))))))"

definition create_private_directory :: "string \<Rightarrow> (ftree, unit) op" where
  "create_private_directory p t =
     (if tree_entry t p \<noteq> None then (t, require_directory t p ''hierarchy contract directory'')
      else
        (case require_parent t p ''hierarchy contract parent'' of
           Inl e \<Rightarrow> (t, Inl e)
         | Inr _ \<Rightarrow>
             (let t' = tree_put t p RDir in
              (t', require_directory t' p ''hierarchy contract directory''))))"

text \<open>The contracts by team, in the order given; each is checked before the next.\<close>

fun collect_delegations ::
  "ext \<Rightarrow> json \<Rightarrow> (string \<times> json) list \<Rightarrow> json list \<Rightarrow> (string \<times> json) list result" where
  "collect_delegations X h acc [] = Inr acc"
| "collect_delegations X h acc (c # cs) =
     bindE (validate_team_delegation_contract X c h) (\<lambda>_.
     bindE (bindE (jidx c ''team_id'') as_str) (\<lambda>team_id.
     bindE (raise_if (team_id \<in> fst ` set acc) (''duplicate team delegation contract: '' @ team_id)) (\<lambda>_.
     collect_delegations X h (acc @ [(team_id, c)]) cs)))"

definition delegation_path :: "string \<Rightarrow> string" where
  "delegation_path team_id = ''teams/'' @ team_id @ ''/delegation-contract.json''"

definition install_team :: "ext \<Rightarrow> string \<times> json \<Rightarrow> (ftree, json) op" where
  "install_team X = (\<lambda>(team_id, contract).
     bindS (create_private_directory (''teams/'' @ team_id)) (\<lambda>_.
     bindS (install_immutable_json X (delegation_path team_id) contract) (\<lambda>file_sha256.
     pureS (\<lambda>_. bindE (jidx contract ''contract_sha256'') (\<lambda>cs.
       Inr (JObj [(''team_id'', JStr team_id), (''contract_sha256'', cs),
                  (''file_sha256'', JStr (DIGEST_PREFIX @ file_sha256)),
                  (''path'', JStr (delegation_path team_id))]))))))"

definition team_set_check :: "json \<Rightarrow> (string \<times> json) list \<Rightarrow> unit result" where
  "team_set_check h by_team =
     bindE (team_map h) (\<lambda>declared.
     (let missing = sort (filter (\<lambda>x. x \<notin> fst ` set by_team) (map fst declared));
          extra = sort (filter (\<lambda>x. x \<notin> fst ` set declared) (map fst by_team)) in
      raise_if (missing \<noteq> [] \<or> extra \<noteq> [])
        (''team contract set does not match hierarchy; missing='' @ py_repr (JList (map JStr missing))
         @ '', extra='' @ py_repr (JList (map JStr extra)))))"

definition install_contract_set :: "ext \<Rightarrow> json \<Rightarrow> json list \<Rightarrow> (ftree, json) op" where
  "install_contract_set X h delegations =
     bindS (pureS (\<lambda>_. validate_hierarchy_contract X h)) (\<lambda>_.
     bindS (pureS (\<lambda>_. bindE (if list_all is_obj delegations then Inr () else Inl (TypeError ''dict'')) (\<lambda>_.
       collect_delegations X h [] delegations))) (\<lambda>by_team.
     bindS (pureS (\<lambda>_. team_set_check h by_team)) (\<lambda>_.
     bindS (create_private_directory ''.'') (\<lambda>_.
     bindS (create_private_directory ''teams'') (\<lambda>_.
     bindS (install_immutable_json X ''hierarchy.json'' h) (\<lambda>hierarchy_file_sha256.
     bindS (mapS (install_team X) (sort_key fst by_team)) (\<lambda>team_entries.
     bindS (pureS (\<lambda>_. bindE (jidx h ''orchestration_id'') (\<lambda>oid. bindE (jidx h ''identity_sha256'') (\<lambda>hid.
       Inr (JObj [(''schema'', JStr CONTRACT_SET_SCHEMA), (''orchestration_id'', oid),
                  (''hierarchy_identity_sha256'', hid),
                  (''hierarchy_file_sha256'', JStr (DIGEST_PREFIX @ hierarchy_file_sha256)),
                  (''hierarchy_path'', JStr ''hierarchy.json''), (''teams'', JList team_entries)]))))) (\<lambda>manifest.
     bindS (install_immutable_json X ''contract-set.json'' manifest) (\<lambda>_.
     returnS manifest)))))))))"

subsection \<open>Reading a contract set\<close>

definition read_readonly_json :: "ftree \<Rightarrow> string \<Rightarrow> json result" where
  "read_readonly_json t p =
     (let path = tree_path t p in
     bindE (read_tree_file t p) (\<lambda>(data, writable).
     bindE (raise_if writable (''installed hierarchy contract must be read-only: '' @ path)) (\<lambda>_.
     (case loads_utf8 data of
        None \<Rightarrow> Inl (WorkflowError (''invalid installed hierarchy JSON: '' @ path))
      | Some v \<Rightarrow>
          bindE (raise_if (\<not> is_obj v) (''installed hierarchy artifact must be an object: '' @ path)) (\<lambda>_.
          Inr v)))))"

definition read_set_entry :: "ext \<Rightarrow> ftree \<Rightarrow> json \<Rightarrow> json \<Rightarrow> json result" where
  "read_set_entry X t h entry =
     bindE (raise_if (\<not> is_obj entry) ''invalid hierarchy contract-set team entry'') (\<lambda>_.
     bindE (raise_if (\<not> is_str (jget entry ''team_id'')) ''hierarchy contract-set team entry has no string team_id'') (\<lambda>_.
     bindE (validate_id (str_of (jget entry ''team_id'')) ''team id'') (\<lambda>team_id.
     (let expected_path = delegation_path team_id in
     bindE (raise_if (jget entry ''path'' \<noteq> JStr expected_path) ''hierarchy contract-set contains an unexpected team path'') (\<lambda>_.
     bindE (read_readonly_json t expected_path) (\<lambda>contract.
     bindE (validate_team_delegation_contract X contract h) (\<lambda>_.
     bindE (read_tree_file t expected_path) (\<lambda>(data, _).
     bindE (raise_if (jget entry ''file_sha256'' \<noteq> JStr (DIGEST_PREFIX @ sha256 X data))
             (''team contract file digest mismatch: '' @ team_id)) (\<lambda>_.
     bindE (jidx contract ''contract_sha256'') (\<lambda>cs.
     bindE (raise_if (\<not> py_eq (jget entry ''contract_sha256'') cs)
             (''team contract identity digest mismatch: '' @ team_id)) (\<lambda>_.
     Inr contract)))))))))))"

definition read_contract_set :: "ext \<Rightarrow> ftree \<Rightarrow> (json \<times> json list \<times> json) result" where
  "read_contract_set X t =
     bindE (require_directory t ''.'' ''hierarchy contract root'') (\<lambda>_.
     bindE (read_readonly_json t ''hierarchy.json'') (\<lambda>h.
     bindE (validate_hierarchy_contract X h) (\<lambda>_.
     bindE (read_readonly_json t ''contract-set.json'') (\<lambda>manifest.
     bindE (raise_if (jget manifest ''schema'' \<noteq> JStr CONTRACT_SET_SCHEMA) ''unexpected hierarchy contract-set schema'') (\<lambda>_.
     bindE (read_tree_file t ''hierarchy.json'') (\<lambda>(data, _).
     bindE (raise_if (jget manifest ''hierarchy_file_sha256'' \<noteq> JStr (DIGEST_PREFIX @ sha256 X data))
             ''hierarchy contract-set file digest mismatch'') (\<lambda>_.
     bindE (jidx h ''identity_sha256'') (\<lambda>hid.
     bindE (raise_if (\<not> py_eq (jget manifest ''hierarchy_identity_sha256'') hid)
             ''hierarchy contract-set identity digest mismatch'') (\<lambda>_.
     bindE (py_iter (jget_or manifest ''teams'' (JList []))) (\<lambda>entries.
     bindE (mapE (read_set_entry X t h) entries) (\<lambda>delegations.
     bindE (mapE (\<lambda>c. bindE (jidx c ''team_id'') as_str) delegations) (\<lambda>ids.
     bindE (team_map h) (\<lambda>declared.
     bindE (raise_if (set ids \<noteq> fst ` set declared) ''installed team contract set does not match hierarchy'') (\<lambda>_.
     Inr (h, delegations, manifest)))))))))))))))"

subsection \<open>Installation never changes a file\<close>

text \<open>
  Between two states of a tree: every entry that was there is there unchanged, and what is new is a
  directory or a read-only file of one link.
\<close>

definition tree_kept :: "ftree \<Rightarrow> ftree \<Rightarrow> bool" where
  "tree_kept t t' \<longleftrightarrow>
     t_above t' = t_above t \<and> t_name t' = t_name t \<and> t_parent t' = t_parent t
     \<and> (\<forall>p. tree_entry t' p = tree_entry t p
          \<or> tree_entry t p = None \<and> (tree_entry t' p = Some RDir \<or> (\<exists>data. tree_entry t' p = Some (RFile data 1 False))))"

lemma tree_kept_trans: "tree_kept a b \<Longrightarrow> tree_kept b c \<Longrightarrow> tree_kept a c"
  unfolding tree_kept_def by (metis option.distinct(1))

interpretation tk: kept_relation tree_kept
  by unfold_locales (simp add: tree_kept_def, rule tree_kept_trans)

lemma tree_put_fields [simp]:
  "t_above (tree_put t p e) = t_above t" "t_name (tree_put t p e) = t_name t" "t_parent (tree_put t p e) = t_parent t"
  by (simp_all add: tree_put_def)

lemma install_immutable_kept: "tree_kept t (fst (install_immutable_json X p v t))"
  by (auto simp: install_immutable_json_def tree_kept_def Let_def)

lemma create_directory_kept: "tree_kept t (fst (create_private_directory p t))"
  by (auto simp: create_private_directory_def tree_kept_def Let_def split: sum.split)

lemma install_team_kept: "tree_kept t (fst (install_team X b t))"
  unfolding install_team_def split_def by (intro tk.compose create_directory_kept install_immutable_kept)

lemma install_contract_set_kept: "tree_kept t (fst (install_contract_set X h ds t))"
  unfolding install_contract_set_def
  by (intro tk.compose create_directory_kept install_immutable_kept install_team_kept)

subsection \<open>What reading a contract set establishes\<close>

lemma read_set_entry_Inr:
  "read_set_entry X t h entry = Inr c \<Longrightarrow>
     (\<exists>team u data. jget entry ''team_id'' = JStr team \<and> validate_team_delegation_contract X c h = Inr u
        \<and> read_tree_file t (delegation_path team) = Inr (data, False) \<and> loads_utf8 data = Some c
        \<and> jget entry ''file_sha256'' = JStr (DIGEST_PREFIX @ sha256 X data))"
  by (auto simp: read_set_entry_def read_readonly_json_def Let_def is_str_conv split: option.splits)

lemma read_contract_set_Inr:
  assumes "read_contract_set X t = Inr (h, ds, m)"
  obtains u data entries ids declared where "validate_hierarchy_contract X h = Inr u"
    "read_tree_file t ''hierarchy.json'' = Inr (data, False)" "loads_utf8 data = Some h"
    "jget m ''hierarchy_file_sha256'' = JStr (DIGEST_PREFIX @ sha256 X data)"
    "py_iter (jget_or m ''teams'' (JList [])) = Inr entries" "mapE (read_set_entry X t h) entries = Inr ds"
    "mapE (\<lambda>c. bindE (jidx c ''team_id'') as_str) ds = Inr ids" "team_map h = Inr declared"
    "set ids = fst ` set declared"
  using assms
  by (auto simp: read_contract_set_def read_readonly_json_def Let_def split: option.splits)

text \<open>
  A contract set that reads back is complete and narrowed: the hierarchy contract is valid and
  is what the read-only file of the digest in the manifest holds; every delegation is one that the
  validation accepts against this hierarchy, so it only narrows it; and the teams of the
  delegations are exactly the teams the hierarchy declares.
\<close>

theorem read_contract_set_sound:
  assumes "read_contract_set X t = Inr (h, ds, m)"
  shows "validate_hierarchy_contract X h = Inr ()
    \<and> (\<exists>data. read_tree_file t ''hierarchy.json'' = Inr (data, False) \<and> loads_utf8 data = Some h
         \<and> jget m ''hierarchy_file_sha256'' = JStr (DIGEST_PREFIX @ sha256 X data))
    \<and> (\<forall>c \<in> set ds. validate_team_delegation_contract X c h = Inr ())
    \<and> (\<exists>declared. team_map h = Inr declared
         \<and> (\<lambda>c. jget c ''team_id'') ` set ds = (\<lambda>(team, _). JStr team) ` set declared)"
proof (rule read_contract_set_Inr [OF assms])
  fix u data entries ids declared
  assume a: "validate_hierarchy_contract X h = Inr u" "read_tree_file t ''hierarchy.json'' = Inr (data, False)"
    "loads_utf8 data = Some h" "jget m ''hierarchy_file_sha256'' = JStr (DIGEST_PREFIX @ sha256 X data)"
    and e: "mapE (read_set_entry X t h) entries = Inr ds"
    and i: "mapE (\<lambda>c. bindE (jidx c ''team_id'') as_str) ds = Inr ids"
    and d: "team_map h = Inr declared" "set ids = fst ` set declared"
  have "validate_team_delegation_contract X c h = Inr ()" if "c \<in> set ds" for c
    using e that by (force simp: mapE_Inr_iff list_all2_conv_all_nth in_set_conv_nth dest: read_set_entry_Inr)
  moreover have "map (\<lambda>c. jget c ''team_id'') ds = map JStr ids"
    using i by (auto simp: mapE_Inr_iff list_all2_conv_all_nth list_eq_iff_nth_eq dest: jidx_jget)
  then have "(\<lambda>c. jget c ''team_id'') ` set ds = JStr ` set ids" by (metis image_set)
  then have "(\<lambda>c. jget c ''team_id'') ` set ds = (\<lambda>(team, _). JStr team) ` set declared"
    using d(2) by (auto simp: image_iff split_def)
  ultimately show ?thesis using a d(1) by auto
qed

text \<open>An installed set of one team.\<close>

definition set_hierarchy :: json where
  "set_hierarchy = canon (jset ''identity_sha256'' (JStr ''sha256:d'') demo_hierarchy)"

definition set_team :: json where
  "set_team = canon (jupdate demo_team
     [(''hierarchy_identity_sha256'', JStr ''sha256:d''), (''contract_sha256'', JStr ''sha256:d'')])"

definition set_manifest :: json where
  "set_manifest = canon (JObj
     [(''schema'', JStr CONTRACT_SET_SCHEMA), (''orchestration_id'', JStr ''o''),
      (''hierarchy_identity_sha256'', JStr ''sha256:d''), (''hierarchy_file_sha256'', JStr ''sha256:d''),
      (''hierarchy_path'', JStr ''hierarchy.json''),
      (''teams'', JList [JObj [(''team_id'', JStr ''a''), (''contract_sha256'', JStr ''sha256:d''),
                               (''file_sha256'', JStr ''sha256:d''), (''path'', JStr (delegation_path ''a''))]])])"

definition set_file :: "json \<Rightarrow> rentry" where
  "set_file v = RFile (dumps False v) 1 False"

definition set_tree :: ftree where
  "set_tree = \<lparr>t_above = [], t_name = ''o'', t_parent = True, t_entries =
     [(''.'', RDir), (''teams'', RDir), (''teams/a'', RDir), (''hierarchy.json'', set_file set_hierarchy),
      (''contract-set.json'', set_file set_manifest), (delegation_path ''a'', set_file set_team)]\<rparr>"

text \<open>A value that is what its own text reads as, and short.\<close>

definition settled :: "json \<Rightarrow> bool" where
  "settled v \<longleftrightarrow> plain v \<and> ascii_json v \<and> is_obj v \<and> canon v = v \<and> length (dumps False v) \<le> 4000"

lemma set_values: "settled set_hierarchy" "settled set_team" "settled set_manifest"
  by code_simp+

lemma set_entries:
  "tree_entry set_tree ''.'' = Some RDir" "tree_entry set_tree ''hierarchy.json'' = Some (set_file set_hierarchy)"
  "tree_entry set_tree ''contract-set.json'' = Some (set_file set_manifest)"
  "tree_entry set_tree (delegation_path ''a'') = Some (set_file set_team)"
  "dirs_real set_tree ''.''" "dirs_real set_tree ''hierarchy.json''" "dirs_real set_tree ''contract-set.json''"
  "dirs_real set_tree (delegation_path ''a'')"
  by (simp_all add: tree_entry_def set_tree_def delegation_path_def dirs_real_def parent_dirs_def path_parts_def
      upt_rec)

lemma read_set_file:
  assumes "settled v" and "tree_entry t p = Some (set_file v)" and "dirs_real t p"
  shows "read_tree_file t p = Inr (dumps False v, False)" and "read_readonly_json t p = Inr v"
proof -
  have v: "plain v" "ascii_json v" "is_obj v" "canon v = v" "length (dumps False v) \<le> 4000"
    using assms(1) by (simp_all add: settled_def)
  then show r: "read_tree_file t p = Inr (dumps False v, False)"
    using assms(2,3) by (simp add: read_tree_file_def read_regular_file_def set_file_def entry_writable_def
        MAX_VALIDATED_FILE_BYTES_def)
  have "loads_utf8 (dumps False v) = Some v"
    using v loads_dumps [OF v(1)] by (simp add: loads_utf8_def utf8_valid_dumps)
  with r v(3) show "read_readonly_json t p = Inr v" by (simp add: read_readonly_json_def)
qed

lemma set_valid:
  "validate_hierarchy_contract demo_ext set_hierarchy = Inr ()"
  "validate_team_delegation_contract demo_ext set_team set_hierarchy = Inr ()"
  by code_simp+

lemma set_fields:
  "jidx set_hierarchy ''identity_sha256'' = Inr (JStr ''sha256:d'')" "jidx set_team ''contract_sha256'' = Inr (JStr ''sha256:d'')"
  "jidx set_team ''team_id'' = Inr (JStr ''a'')" "jget set_manifest ''schema'' = JStr CONTRACT_SET_SCHEMA"
  "jget set_manifest ''hierarchy_file_sha256'' = JStr ''sha256:d''"
  "jget set_manifest ''hierarchy_identity_sha256'' = JStr ''sha256:d''"
  "team_map set_hierarchy = Inr [(''a'', ''lead-a'')]" "SAFE_ID ''a''"
  by code_simp+

lemma set_teams:
  "py_iter (jget_or set_manifest ''teams'' (JList [])) = Inr [JObj
     [(''contract_sha256'', JStr ''sha256:d''), (''file_sha256'', JStr ''sha256:d''),
      (''path'', JStr (delegation_path ''a'')), (''team_id'', JStr ''a'')]]"
  by code_simp

lemma set_reads: "read_contract_set demo_ext set_tree = Inr (set_hierarchy, [set_team], set_manifest)"
proof -
  have d: "DIGEST_PREFIX @ sha256 demo_ext x = ''sha256:d''" for x by (simp add: DIGEST_PREFIX_def demo_ext_def)
  have e: "read_set_entry demo_ext set_tree set_hierarchy (JObj
     [(''contract_sha256'', JStr ''sha256:d''), (''file_sha256'', JStr ''sha256:d''),
      (''path'', JStr (delegation_path ''a'')), (''team_id'', JStr ''a'')]) = Inr set_team"
    using read_set_file [of set_team set_tree "delegation_path ''a''"] set_values set_entries set_fields(2,8) set_valid(2)
    by (simp add: read_set_entry_def jget_fields d)
  show ?thesis
    using read_set_file [of set_hierarchy set_tree "''hierarchy.json''"]
      read_set_file [of set_manifest set_tree "''contract-set.json''"] set_values set_entries
    by (simp add: read_contract_set_def require_directory_def set_valid set_fields set_teams d e)
qed

theorem read_contract_set_sound_witness:
  "\<exists>h ds m. read_contract_set demo_ext set_tree = Inr (h, ds, m) \<and> length ds = 1
     \<and> (\<forall>c \<in> set ds. validate_team_delegation_contract demo_ext c h = Inr ())"
  using read_contract_set_sound [OF set_reads] set_reads by auto

end
