(* ===== verification/Hierarchy_Journal.thy ===== *)
theory Hierarchy_Journal
  imports Hierarchy_Store Workflow_Receipt
begin

text \<open>
  \<open>hierarchy/journals.py\<close>: the append-only journals of a hierarchy and the authority state replayed
  from them. A journal belongs to one identity; its messages have distinct identifiers, and a
  message imported from another journal is recorded once however often the import is repeated.
\<close>

subsection \<open>Records\<close>

definition JOURNAL_RECORD_SCHEMA :: string where
  "JOURNAL_RECORD_SCHEMA = ''agent-workflow/hierarchy-journal-record/v1''"

definition hierarchy_cfg :: "string \<Rightarrow> jcfg" where
  "hierarchy_cfg path =
     \<lparr>jpath = path, max_bytes = 32 * 1024 * 1024, max_record_bytes = 128 * 1024, max_records = None,
      require_trailing_newline = True, sequence_field = Some ''sequence''\<rparr>"

lemma hierarchy_limits [simp]:
  "max_bytes (hierarchy_cfg path) = 33554432" "max_record_bytes (hierarchy_cfg path) = 131072"
  "max_records (hierarchy_cfg path) = None" "require_trailing_newline (hierarchy_cfg path)"
  "sequence_field (hierarchy_cfg path) = Some ''sequence''" "jpath (hierarchy_cfg path) = path"
  by (simp_all add: hierarchy_cfg_def)

definition RECORD_TYPES :: "string list" where
  "RECORD_TYPES = [''lifecycle'', ''action'', ''acknowledgement'', ''import'', ''diagnostic'']"

text \<open>\<open>^[A-Za-z0-9][A-Za-z0-9_.:-]{0,255}$\<close> and \<open>^[a-z][a-z0-9_-]{0,127}$\<close>, as full matches.\<close>

fun PRINCIPAL :: "string \<Rightarrow> bool" where
  "PRINCIPAL [] = False"
| "PRINCIPAL (c # r) = (id_start c \<and> list_all (\<lambda>d. id_char d \<or> d = CHR '':'') r \<and> length r \<le> 255)"

definition lower_alpha :: "char \<Rightarrow> bool" where
  "lower_alpha c \<longleftrightarrow> CHR ''a'' \<le> c \<and> c \<le> CHR ''z''"

fun STATE :: "string \<Rightarrow> bool" where
  "STATE [] = False"
| "STATE (c # r) =
     (lower_alpha c \<and> list_all (\<lambda>d. lower_alpha d \<or> is_digit d \<or> d = CHR ''_'' \<or> d = CHR ''-'') r \<and> length r \<le> 127)"

definition validate_record :: "ext \<Rightarrow> json \<Rightarrow> nat \<Rightarrow> json result" where
  "validate_record X v n =
     bindE (raise_if (\<not> is_obj v) ''hierarchy journal record must be an object'') (\<lambda>_.
     bindE (validate_instance X v JOURNAL_RECORD_SCHEMA (''hierarchy journal:'' @ int_str (int n))) (\<lambda>_.
     bindE (jidx v ''sequence'') (\<lambda>q.
     bindE (raise_if (\<not> py_eq q (JInt (int n)))
             (''hierarchy journal sequence mismatch: expected '' @ int_str (int n) @ '', got '' @ py_str q)) (\<lambda>_.
     Inr v))))"

subsection \<open>What the records of a journal have in common\<close>

text \<open>Membership in a set; a list or a dict cannot be hashed.\<close>

definition hashed :: "json \<Rightarrow> json result" where
  "hashed v = (if is_list v \<or> is_obj v then Inl (TypeError ''unhashable'') else Inr v)"

definition py_in :: "json \<Rightarrow> json list \<Rightarrow> bool" where
  "py_in v seen \<longleftrightarrow> (\<exists>x \<in> set seen. py_eq x v)"

definition pair_in :: "json \<times> json \<Rightarrow> (json \<times> json) list \<Rightarrow> bool" where
  "pair_in k seen \<longleftrightarrow> (\<exists>x \<in> set seen. py_eq (fst x) (fst k) \<and> py_eq (snd x) (snd k))"

type_synonym semantics_state = "json option \<times> json list \<times> (json \<times> json) list"

text \<open>One round of the loop: the identity of the journal, the messages and the imports seen so far.\<close>

definition semantics_step :: "string \<Rightarrow> semantics_state \<Rightarrow> json \<Rightarrow> semantics_state result" where
  "semantics_step path st v =
     (case st of (observed, msgs, imported) \<Rightarrow>
     bindE (jidx v ''journal_id'') (\<lambda>jid.
     (let owner = (case observed of None \<Rightarrow> jid | Some o1 \<Rightarrow> o1) in
     bindE (raise_if (\<not> py_eq jid owner)
             (''hierarchy journal identity mismatch in '' @ path @ '': expected '' @ py_str owner @ '', got '' @ py_str jid)) (\<lambda>_.
     bindE (bindE (jidx v ''message_id'') hashed) (\<lambda>msg.
     bindE (raise_if (py_in msg msgs)
             (''duplicate hierarchy journal message_id '' @ py_repr msg @ '': '' @ path)) (\<lambda>_.
     (let source = jget v ''source'' in
      if source = JNull then Inr (Some owner, msg # msgs, imported)
      else
        bindE (jidx source ''journal_id'') (\<lambda>sj. bindE (jidx source ''message_id'') (\<lambda>sm.
        bindE (hashed sj) (\<lambda>_. bindE (hashed sm) (\<lambda>_.
        bindE (raise_if (pair_in (sj, sm) imported)
                (''duplicate imported hierarchy message '' @ py_str sj @ '':'' @ py_str sm @ '' in '' @ path)) (\<lambda>_.
        Inr (Some owner, msg # msgs, (sj, sm) # imported)))))))))))))"

definition validate_records_semantics :: "string \<Rightarrow> string option \<Rightarrow> json list \<Rightarrow> unit result" where
  "validate_records_semantics path expected records =
     bindE (foldE (semantics_step path) (map_option JStr expected, [], []) records) (\<lambda>_. Inr ())"

definition read_journal :: "ext \<Rightarrow> string \<Rightarrow> string option \<Rightarrow> slot \<Rightarrow> json list result" where
  "read_journal X path expected f =
     bindE (case expected of None \<Rightarrow> Inr () | Some j \<Rightarrow> bindE (validate_id j ''journal id'') (\<lambda>_. Inr ())) (\<lambda>_.
     bindE (read_jsonl (hierarchy_cfg path) False (validate_record X) f) (\<lambda>records.
     bindE (validate_records_semantics path expected records) (\<lambda>_. Inr records)))"

subsection \<open>Appending\<close>

text \<open>The arguments of \<open>append_journal_record\<close>; an identifier that is not given is \<open>None\<close>.\<close>

record journal_request =
  jr_journal :: string
  jr_type :: string
  jr_actor :: string
  jr_payload :: json
  jr_team :: "string option"
  jr_message :: "string option"
  jr_correlation :: "string option"
  jr_causation :: "string option"
  jr_source_journal :: "string option"
  jr_source_message :: "string option"
  jr_timestamp :: "string option"

definition opt_id :: "string option \<Rightarrow> string \<Rightarrow> unit result" where
  "opt_id v label = (case v of None \<Rightarrow> Inr () | Some s \<Rightarrow> bindE (validate_id s label) (\<lambda>_. Inr ()))"

definition or_default :: "string option \<Rightarrow> string \<Rightarrow> string" where
  "or_default v d = (case v of None \<Rightarrow> d | Some [] \<Rightarrow> d | Some s \<Rightarrow> s)"

definition request_source :: "journal_request \<Rightarrow> json" where
  "request_source q =
     (case (jr_source_journal q, jr_source_message q) of
        (Some j, Some m) \<Rightarrow> JObj [(''journal_id'', JStr j), (''message_id'', JStr m)]
      | _ \<Rightarrow> JNull)"

definition comparable :: "journal_request \<Rightarrow> json" where
  "comparable q = JObj
     [(''record_type'', JStr (jr_type q)), (''actor'', JStr (jr_actor q)), (''team_id'', opt_str (jr_team q)),
      (''correlation_id'', opt_str (jr_correlation q)), (''causation_id'', opt_str (jr_causation q)),
      (''source'', request_source q), (''payload'', jr_payload q)]"

definition actual :: "json \<Rightarrow> json" where
  "actual r = JObj (map (\<lambda>k. (k, jget r k))
     [''record_type'', ''actor'', ''team_id'', ''correlation_id'', ''causation_id'', ''source'', ''payload''])"

definition journal_record :: "journal_request \<Rightarrow> string \<Rightarrow> string \<Rightarrow> nat \<Rightarrow> json" where
  "journal_record q fresh now n = JObj
     [(''schema'', JStr JOURNAL_RECORD_SCHEMA), (''journal_id'', JStr (jr_journal q)), (''sequence'', JInt (int n)),
      (''message_id'', JStr (or_default (jr_message q) fresh)), (''timestamp'', JStr (or_default (jr_timestamp q) now)),
      (''record_type'', JStr (jr_type q)), (''actor'', JStr (jr_actor q)), (''team_id'', opt_str (jr_team q)),
      (''correlation_id'', opt_str (jr_correlation q)), (''causation_id'', opt_str (jr_causation q)),
      (''source'', request_source q), (''payload'', jr_payload q)]"

definition check_request :: "journal_request \<Rightarrow> string \<Rightarrow> unit result" where
  "check_request q fresh =
     bindE (validate_id (jr_journal q) ''journal id'') (\<lambda>_.
     bindE (raise_if (\<not> PRINCIPAL (jr_actor q)) (''invalid journal actor: '' @ str_repr (jr_actor q))) (\<lambda>_.
     bindE (raise_if (jr_type q \<notin> set RECORD_TYPES) (''invalid hierarchy journal record type: '' @ str_repr (jr_type q))) (\<lambda>_.
     bindE (opt_id (jr_team q) ''team id'') (\<lambda>_.
     bindE (raise_if ((jr_source_journal q = None) \<noteq> (jr_source_message q = None))
             ''source_journal_id and source_message_id must be supplied together'') (\<lambda>_.
     bindE (opt_id (jr_source_journal q) ''source journal id'') (\<lambda>_.
     bindE (opt_id (jr_source_message q) ''source message id'') (\<lambda>_.
     bindE (validate_id (or_default (jr_message q) fresh) ''message id'') (\<lambda>_.
     bindE (opt_id (jr_correlation q) ''correlation id'') (\<lambda>_.
     bindE (opt_id (jr_causation q) ''causation id'') (\<lambda>_.
     raise_if (\<not> is_obj (jr_payload q)) ''hierarchy journal payload must be an object''))))))))))"

definition append_decision ::
  "ext \<Rightarrow> string \<Rightarrow> journal_request \<Rightarrow> string \<Rightarrow> string \<Rightarrow> json list \<Rightarrow> json decision result" where
  "append_decision X path q fresh now existing =
     bindE (validate_records_semantics path (Some (jr_journal q)) existing) (\<lambda>_.
     (let source = request_source q;
          append_new =
            bindE (mapE (\<lambda>r. jidx r ''message_id'') existing) (\<lambda>ids.
            bindE (raise_if (py_in (JStr (or_default (jr_message q) fresh)) ids)
                    (''duplicate hierarchy journal message_id: '' @ or_default (jr_message q) fresh)) (\<lambda>_.
            bindE (validate_record X (journal_record q fresh now (length existing + 1)) (length existing + 1)) (\<lambda>r.
            Inr (r, Some r)))) in
      if source = JNull then append_new
      else
        (case List.find (\<lambda>r. py_eq (jget r ''source'') source) existing of
           None \<Rightarrow> append_new
         | Some r \<Rightarrow>
             bindE (raise_if (dumps False (actual r) \<noteq> dumps False (comparable q))
                     (''conflicting idempotent hierarchy import '' @ py_str (jget source ''journal_id'') @ '':''
                      @ py_str (jget source ''message_id''))) (\<lambda>_.
             Inr (r, None)))))"

definition append_journal_record ::
  "ext \<Rightarrow> string \<Rightarrow> journal_request \<Rightarrow> string \<Rightarrow> string \<Rightarrow> slot \<Rightarrow> slot \<times> json result" where
  "append_journal_record X path q fresh now f =
     (case check_request q fresh of
        Inl e \<Rightarrow> (f, Inl e)
      | Inr _ \<Rightarrow> transact_jsonl (hierarchy_cfg path) (validate_record X) (append_decision X path q fresh now) f)"

subsection \<open>Messages are distinct\<close>

definition source_key :: "json \<Rightarrow> json \<times> json" where
  "source_key v = (jget (jget v ''source'') ''journal_id'', jget (jget v ''source'') ''message_id'')"

text \<open>Two records with different identifiers, which are not imports of the same message.\<close>

definition apart :: "json \<Rightarrow> json \<Rightarrow> bool" where
  "apart a b \<longleftrightarrow>
     \<not> py_eq (jget a ''message_id'') (jget b ''message_id'')
     \<and> \<not> (jget a ''source'' \<noteq> JNull \<and> jget b ''source'' \<noteq> JNull
          \<and> py_eq (fst (source_key a)) (fst (source_key b)) \<and> py_eq (snd (source_key a)) (snd (source_key b)))"

lemma hashed_Inr [simp]: "hashed v = Inr w \<longleftrightarrow> w = v \<and> \<not> is_list v \<and> \<not> is_obj v"
  by (auto simp: hashed_def)

lemma jidx_iff: "jidx v k = Inr x \<longleftrightarrow> jhas v k \<and> x = jget v k"
  by (cases v) (auto simp: jidx_def jhas_def jget_def jget_or_def jlookup_def split: option.splits)

lemma semantics_step_Inr:
  assumes "semantics_step path (observed, msgs, imported) v = Inr st"
  shows "\<exists>owner. st = (Some owner, jget v ''message_id'' # msgs,
            if jget v ''source'' = JNull then imported else source_key v # imported)
    \<and> (observed = None \<or> observed = Some owner) \<and> py_eq (jget v ''journal_id'') owner
    \<and> \<not> py_in (jget v ''message_id'') msgs
    \<and> (jget v ''source'' = JNull \<or> \<not> pair_in (source_key v) imported)
    \<and> jhas v ''message_id''"
  using assms
  by (cases observed) (auto simp: semantics_step_def Let_def source_key_def jidx_iff split: if_splits)

lemma semantics_state:
  assumes "foldE (semantics_step path) (observed, [], []) vs = Inr (owner, msgs, imported)"
  shows "set msgs = (\<lambda>v. jget v ''message_id'') ` set vs
    \<and> set imported = source_key ` {v \<in> set vs. jget v ''source'' \<noteq> JNull}
    \<and> sorted_wrt apart vs \<and> (observed = None \<or> owner = observed)
    \<and> (\<forall>v \<in> set vs. \<exists>o1. owner = Some o1 \<and> py_eq (jget v ''journal_id'') o1)
    \<and> (\<forall>v \<in> set vs. jhas v ''message_id'')"
  using assms
proof (induction vs arbitrary: owner msgs imported rule: rev_induct)
  case (snoc v vs)
  then obtain o1 ms im where b: "foldE (semantics_step path) (observed, [], []) vs = Inr (o1, ms, im)"
    and st: "semantics_step path (o1, ms, im) v = Inr (owner, msgs, imported)"
    by (auto simp: foldE_append)
  from semantics_step_Inr [OF st] snoc.IH [OF b] show ?case
    by (auto simp: sorted_wrt_append apart_def py_in_def pair_in_def split: if_splits)
qed simp

lemma validate_records_semantics_Inr:
  assumes "validate_records_semantics path (Some j) rs = Inr u"
  shows "sorted_wrt apart rs" and "v \<in> set rs \<Longrightarrow> jget v ''journal_id'' = JStr j"
    and "v \<in> set rs \<Longrightarrow> jhas v ''message_id''"
  using assms by (auto simp: validate_records_semantics_def dest!: semantics_state)

subsection \<open>An import is recorded once\<close>

lemma plain_jget: "plain v \<Longrightarrow> plain (jget v k)"
  by (cases v) (auto simp: jget_def jget_or_def jlookup_def list_all_iff split: option.split dest!: map_of_SomeD)

lemma dumps_actual:
  assumes "plain v"
  shows "dumps False (actual (canon v)) = dumps False (actual v)"
proof -
  have "dumps False (jget (canon v) k) = dumps False (jget v k)" for k
    using assms plain_jget by (simp add: jget_canon dumps_canon)
  then show ?thesis by (simp only: actual_def dumps.simps list.map prod.case map_map comp_def)
qed

lemma comparable_record: "actual (journal_record q fresh now n) = comparable q"
  by (simp add: actual_def comparable_def journal_record_def jget_fields)

lemma request_source_canon: "canon (request_source q) = request_source q"
  by (auto simp: request_source_def split: option.split)

lemma check_request_fresh:
  assumes "check_request q fresh = Inr u" and "SAFE_ID fresh'"
  shows "check_request q fresh' = Inr ()"
  using assms by (auto simp: check_request_def or_default_def split: option.splits list.splits)

lemma validate_record_Inr: "validate_record X v n = Inr w \<Longrightarrow> w = v"
  by (auto simp: validate_record_def)

text \<open>What a decision appends, or finds.\<close>

lemma append_decision_Inr:
  assumes "append_decision X path q fresh now existing = Inr (v, rec)" and "request_source q \<noteq> JNull"
  obtains (found) "rec = None" "List.find (\<lambda>r. py_eq (jget r ''source'') (request_source q)) existing = Some v"
      "dumps False (actual v) = dumps False (comparable q)"
  | (appended) "rec = Some v" "List.find (\<lambda>r. py_eq (jget r ''source'') (request_source q)) existing = None"
      "v = journal_record q fresh now (length existing + 1)"
  using assms
  by (auto simp: append_decision_def Let_def split: option.splits dest!: validate_record_Inr)

lemma find_append: "List.find P (xs @ ys) = (case List.find P xs of None \<Rightarrow> List.find P ys | Some x \<Rightarrow> Some x)"
  by (induction xs) simp_all

text \<open>What a journal that was extended by a record reads as, if it reads.\<close>

lemma read_extended:
  assumes "decode_jsonl (hierarchy_cfg path) (validate_record X) d = Inr existing" and "plain r"
    and "utf8_valid (dumps False r)" and "length (canonical_json_line r) \<le> max_record_bytes (hierarchy_cfg path)"
    and "is_obj r" and "jget r ''sequence'' = JInt (int (length existing + 1))"
    and "decode_jsonl (hierarchy_cfg path) (validate_record X) (d @ canonical_json_line r) = Inr rs"
  shows "rs = existing @ [canon r]"
proof (cases "validate_record X (canon r) (length existing + 1)")
  case (Inr x)
  with decode_append [OF _ assms(1,2,3,4), of x] assms(5,6,7) validate_record_Inr [OF this] show ?thesis
    by (simp add: hierarchy_cfg_def)
next
  case (Inl e)
  have nl: "d = [] \<or> last d = CHR 0x0A"
    and dl: "decode_lines (hierarchy_cfg path) (validate_record X) 0 (splitlines d) = Inr existing"
    using assms(1) by (auto simp: decode_jsonl_def hierarchy_cfg_def)
  have sp: "splitlines (d @ canonical_json_line r) = splitlines d @ [dumps False r]"
    unfolding canonical_json_line_def by (rule splitlines_snoc [OF nl dumps_line [OF assms(2)]])
  have "length (dumps False r) \<le> max_record_bytes (hierarchy_cfg path)"
    using assms(4) by (simp add: canonical_json_line_def)
  then have "decode_record (hierarchy_cfg path) (validate_record X) (Suc (length existing)) (dumps False r) = Inl e"
    using decode_record_line [OF assms(2,3), of "hierarchy_cfg path" "Suc (length existing)" "validate_record X"]
      assms(5,6) Inl
    by (simp add: hierarchy_cfg_def)
  with assms(7) dl decode_lines_length [OF dl] have False
    by (auto simp: decode_jsonl_def sp decode_lines_snoc)
  then show ?thesis ..
qed

lemma transact_bytes_steps:
  assumes "transact_bytes cfg V T d = Inr (d', v)"
  obtains existing rec where "decode_jsonl cfg V d = Inr existing" "T existing = Inr (v, rec)"
    "d' = (case rec of None \<Rightarrow> d | Some r \<Rightarrow> d @ canonical_json_line r)"
    "case rec of None \<Rightarrow> True | Some r \<Rightarrow> length (canonical_json_line r) \<le> max_record_bytes cfg"
proof -
  from assms obtain existing rec w where e: "decode_jsonl cfg V d = Inr existing" "T existing = Inr (w, rec)"
    by (auto simp: transact_bytes_def read_locked_bytes_def split: if_splits)
  with assms that show thesis
    by (cases rec) (auto simp: transact_bytes_def read_locked_bytes_def Let_def split: if_splits)
qed

text \<open>
  C31. Importing a message is idempotent. Once an import has been recorded (or found) and the
  journal reads back, every repetition of it, with whatever fresh identifier and at whatever time,
  returns a record of the journal that has this source and the same content, and leaves the file
  exactly as it is.
\<close>

theorem hierarchy_import_once:
  assumes "append_journal_record X path q fresh now f = (f', Inr v)" and "request_source q \<noteq> JNull"
    and "plain v" and "utf8_valid (dumps False v)" and "SAFE_ID fresh'"
    and "read_journal X path (Some (jr_journal q)) f' = Inr rs"
  shows "\<exists>r. append_journal_record X path q fresh' now' f' = (f', Inr r) \<and> r \<in> set rs
    \<and> py_eq (jget r ''source'') (request_source q) \<and> dumps False (actual r) = dumps False (comparable q)"
proof -
  let ?c = "hierarchy_cfg path" and ?V = "validate_record X" and ?T = "append_decision X path q"
  let ?P = "\<lambda>r. py_eq (jget r ''source'') (request_source q)"
  from assms(1) have ck: "check_request q fresh = Inr ()"
    and tr: "transact_jsonl ?c ?V (?T fresh now) f = (f', Inr v)"
    by (auto simp: append_journal_record_def split: sum.splits)
  from tr obtain d d' where f': "f' = Some (Regular d' 1)"
    and tb: "transact_bytes ?c ?V (?T fresh now) d = Inr (d', v)"
    by (cases rule: transact_cases [where cfg = ?c and V = ?V and T = "?T fresh now" and s = f]) auto
  from assms(6) have rd: "decode_jsonl ?c ?V d' = Inr rs" "length d' \<le> max_bytes ?c"
    and sem: "validate_records_semantics path (Some (jr_journal q)) rs = Inr ()"
    by (auto simp: read_journal_def f' read_jsonl_def read_bytes_def locked_file_def read_locked_bytes_def split: if_splits)
  from tb obtain existing rec where ex: "decode_jsonl ?c ?V d = Inr existing"
    and dec: "?T fresh now existing = Inr (v, rec)"
    and out: "d' = (case rec of None \<Rightarrow> d | Some r \<Rightarrow> d @ canonical_json_line r)"
    "case rec of None \<Rightarrow> True | Some r \<Rightarrow> length (canonical_json_line r) \<le> max_record_bytes ?c"
    by (rule transact_bytes_steps)
  have "\<exists>r. List.find ?P rs = Some r \<and> dumps False (actual r) = dumps False (comparable q)"
  proof (rule append_decision_Inr [OF dec assms(2)])
    assume "rec = None" "List.find ?P existing = Some v" "dumps False (actual v) = dumps False (comparable q)"
    with out ex rd(1) show ?thesis by auto
  next
    assume appended: "rec = Some v" "List.find ?P existing = None" "v = journal_record q fresh now (length existing + 1)"
    have o: "is_obj v" "jget v ''sequence'' = JInt (int (length existing + 1))" "jget v ''source'' = request_source q"
      by (simp_all add: appended(3) journal_record_def jget_fields)
    have "rs = existing @ [canon v]"
      by (rule read_extended [OF ex assms(3,4) _ o(1,2)]) (use out rd(1) appended(1) in simp_all)
    moreover have "jget (canon v) ''source'' = request_source q"
      using assms(3) by (simp add: jget_canon o(3) request_source_canon)
    moreover have "py_eq (request_source q) (request_source q)"
      by (auto simp: request_source_def py_eq.simps split: option.split)
    moreover have "dumps False (actual (canon v)) = dumps False (comparable q)"
      using dumps_actual [OF assms(3)] by (simp add: appended(3) comparable_record)
    ultimately show ?thesis by (simp add: find_append appended(2))
  qed
  then obtain r where r: "List.find ?P rs = Some r" "dumps False (actual r) = dumps False (comparable q)" by blast
  then have "r \<in> set rs" "?P r" by (auto simp: find_Some_iff)
  moreover have "append_decision X path q fresh' now' rs = Inr (r, None)"
    using sem r assms(2) by (simp add: append_decision_def Let_def)
  then have "append_journal_record X path q fresh' now' f' = (f', Inr r)"
    using rd check_request_fresh [OF ck assms(5)]
    by (simp add: append_journal_record_def transact_jsonl_def locked_file_def f' transact_bytes_def read_locked_bytes_def)
  ultimately show ?thesis using r(2) by blast
qed

text \<open>An import into an empty journal, repeated later.\<close>

definition demo_request :: journal_request where
  "demo_request = \<lparr>jr_journal = ''j'', jr_type = ''import'', jr_actor = ''root'', jr_payload = JObj [(''k'', JInt 1)],
     jr_team = None, jr_message = None, jr_correlation = None, jr_causation = None,
     jr_source_journal = Some ''k'', jr_source_message = Some ''m'', jr_timestamp = None\<rparr>"

definition demo_message :: json where
  "demo_message = journal_record demo_request ''u1'' ''t1'' 1"

lemma demo_message_line: "plain demo_message" "ascii_json demo_message" "length (canonical_json_line demo_message) \<le> 1000"
  by code_simp+

lemma demo_first: "append_journal_record seal_ext ''p'' demo_request ''u1'' ''t1'' None
    = (Some (Regular (canonical_json_line demo_message) 1), Inr demo_message)"
proof -
  have "check_request demo_request ''u1'' = Inr ()" by code_simp
  moreover have "validate_record seal_ext demo_message 1 = Inr demo_message" by code_simp
  then have "append_decision seal_ext ''p'' demo_request ''u1'' ''t1'' [] = Inr (demo_message, Some demo_message)"
    by (simp add: append_decision_def validate_records_semantics_def py_in_def demo_message_def Let_def)
  moreover have "decode_jsonl (hierarchy_cfg ''p'') (validate_record seal_ext) [] = Inr []"
    by (simp add: decode_jsonl_def splitlines_def)
  ultimately show ?thesis
    using demo_message_line(3)
    by (simp add: append_journal_record_def transact_jsonl_def locked_file_def transact_bytes_def read_locked_bytes_def)
qed

lemma read_single:
  assumes "plain m" and "ascii_json m" and "length (canonical_json_line m) \<le> 1000" and "is_obj m"
    and "jget m ''sequence'' = JInt 1" and "validate_record X (canon m) 1 = Inr (canon m)"
    and "validate_records_semantics p (Some j) [canon m] = Inr ()" and "SAFE_ID j"
  shows "read_journal X p (Some j) (Some (Regular (canonical_json_line m) 1)) = Inr [canon m]"
proof -
  from assms(1-6) have "good_record (hierarchy_cfg p) (validate_record X) m 1"
    using utf8_valid_dumps [OF assms(1,2)] by (simp add: good_record_def)
  then have "decode_jsonl (hierarchy_cfg p) (validate_record X) (canonical_json_line m) = Inr [canon m]"
    using decode_records [of "hierarchy_cfg p" "[m]" "validate_record X"] by simp
  with assms(3,7,8) show ?thesis
    using read_regular [of "canonical_json_line m" "hierarchy_cfg p" False "validate_record X"]
    by (simp add: read_journal_def)
qed

lemma demo_read_back:
  "read_journal seal_ext ''p'' (Some ''j'') (Some (Regular (canonical_json_line demo_message) 1)) = Inr [canon demo_message]"
  by (rule read_single [OF demo_message_line]; code_simp)

theorem hierarchy_import_once_witness:
  "\<exists>f r. append_journal_record seal_ext ''p'' demo_request ''u1'' ''t1'' None = (f, Inr demo_message)
     \<and> append_journal_record seal_ext ''p'' demo_request ''u2'' ''t2'' f = (f, Inr r)"
proof -
  have s: "request_source demo_request \<noteq> JNull" "SAFE_ID ''u2''" "jr_journal demo_request = ''j''" by code_simp+
  note r = demo_read_back [folded s(3)]
  from hierarchy_import_once [OF demo_first s(1) demo_message_line(1) utf8_valid_dumps [OF demo_message_line(1,2)] s(2) r]
    demo_first show ?thesis by blast
qed

subsection \<open>Replay of the authority state\<close>

record team_state =
  ts_state :: string
  ts_last :: "(string \<times> json) list"
  ts_action :: nat
  ts_acknowledgement :: nat
  ts_import :: nat
  ts_diagnostic :: nat

record authority =
  au_orchestration :: json
  au_identity :: json
  au_teams :: "(string \<times> team_state) list"
  au_journals :: "(string \<times> nat) list"

definition contracted :: team_state where
  "contracted = \<lparr>ts_state = ''contracted'', ts_last = [], ts_action = 0, ts_acknowledgement = 0, ts_import = 0,
     ts_diagnostic = 0\<rparr>"

fun replay_contracts :: "ext \<Rightarrow> json \<Rightarrow> string list \<Rightarrow> json list \<Rightarrow> string list result" where
  "replay_contracts X h acc [] = Inr acc"
| "replay_contracts X h acc (c # cs) =
     bindE (validate_team_delegation_contract X c h) (\<lambda>_.
     bindE (bindE (jidx c ''team_id'') as_str) (\<lambda>team_id.
     bindE (raise_if (team_id \<in> set acc) (''duplicate delegation during hierarchy replay: '' @ team_id)) (\<lambda>_.
     replay_contracts X h (acc @ [team_id]) cs)))"

text \<open>The effect of a record on the state of its team.\<close>

definition team_step :: "string \<Rightarrow> json \<Rightarrow> team_state \<Rightarrow> team_state result" where
  "team_step journal_id r ts =
     bindE (jidx r ''sequence'') (\<lambda>q.
     (let ts1 = ts\<lparr>ts_last := AList.update journal_id q (ts_last ts)\<rparr> in
     bindE (jidx r ''record_type'') (\<lambda>ty.
     if ty = JStr ''lifecycle'' then
       bindE (jidx r ''payload'') (\<lambda>payload.
       if \<not> is_obj payload then Inl (TypeError ''get'')
       else
         (let next_state = jget payload ''state'' in
          bindE (raise_if (\<not> is_str next_state \<or> \<not> STATE (str_of next_state))
                  ''hierarchy lifecycle record has no bounded state'') (\<lambda>_.
          Inr (ts1\<lparr>ts_state := str_of next_state\<rparr>))))
     else if ty = JStr ''action'' then Inr (ts1\<lparr>ts_action := ts_action ts1 + 1\<rparr>)
     else if ty = JStr ''acknowledgement'' then Inr (ts1\<lparr>ts_acknowledgement := ts_acknowledgement ts1 + 1\<rparr>)
     else if ty = JStr ''import'' then Inr (ts1\<lparr>ts_import := ts_import ts1 + 1\<rparr>)
     else if ty = JStr ''diagnostic'' then Inr (ts1\<lparr>ts_diagnostic := ts_diagnostic ts1 + 1\<rparr>)
     else Inr ts1)))"

definition replay_record :: "string \<Rightarrow> authority \<Rightarrow> json \<Rightarrow> authority result" where
  "replay_record journal_id st r =
     (let team = jget r ''team_id'' in
      if team = JNull then Inr st
      else
        bindE (hashed team) (\<lambda>_.
        (case (if is_str team then map_of (au_teams st) (str_of team) else None) of
           None \<Rightarrow> Inl (WorkflowError (''hierarchy journal '' @ journal_id @ '' references undeclared team '' @ py_repr team))
         | Some ts \<Rightarrow>
             bindE (team_step journal_id r ts) (\<lambda>ts'.
             Inr (st\<lparr>au_teams := AList.update (str_of team) ts' (au_teams st)\<rparr>)))))"

definition replay_journal :: "ext \<Rightarrow> authority \<Rightarrow> string \<times> string \<times> slot \<Rightarrow> authority result" where
  "replay_journal X st j =
     (case j of (journal_id, path, f) \<Rightarrow>
     bindE (validate_id journal_id ''journal id'') (\<lambda>_.
     bindE (read_journal X path (Some journal_id) f) (\<lambda>records.
     foldE (replay_record journal_id)
       (st\<lparr>au_journals := AList.update journal_id (length records) (au_journals st)\<rparr>) records)))"

text \<open>\<open>journals\<close> gives the identifier, the path and the file of each journal.\<close>

definition replay_authority_state ::
  "ext \<Rightarrow> json \<Rightarrow> json list \<Rightarrow> (string \<times> string \<times> slot) list \<Rightarrow> authority result" where
  "replay_authority_state X h delegations journals =
     bindE (validate_hierarchy_contract X h) (\<lambda>_.
     bindE (team_map h) (\<lambda>declared.
     bindE (replay_contracts X h [] delegations) (\<lambda>contracts.
     bindE (raise_if (set contracts \<noteq> fst ` set declared)
             ''hierarchy replay contract set does not match declared teams'') (\<lambda>_.
     bindE (jidx h ''orchestration_id'') (\<lambda>oid.
     bindE (jidx h ''identity_sha256'') (\<lambda>hid.
     foldE (replay_journal X)
       \<lparr>au_orchestration = oid, au_identity = hid,
        au_teams = map (\<lambda>team. (team, contracted)) (sort (map fst declared)), au_journals = []\<rparr>
       (sort_key fst journals)))))))"

subsection \<open>What the replayed state counts\<close>

text \<open>The records about one team, each with the journal it comes from.\<close>

definition about :: "string \<Rightarrow> (string \<times> json) list \<Rightarrow> (string \<times> json) list" where
  "about team prs = filter (\<lambda>(_, r). jget r ''team_id'' = JStr team) prs"

definition of_type :: "string \<Rightarrow> (string \<times> json) list \<Rightarrow> json list" where
  "of_type ty prs = filter (\<lambda>r. jget r ''record_type'' = JStr ty) (map snd prs)"

definition last_state :: "string \<Rightarrow> (string \<times> json) list \<Rightarrow> string" where
  "last_state start prs =
     last (start # map (\<lambda>r. str_of (jget (jget r ''payload'') ''state'')) (of_type ''lifecycle'' prs))"

text \<open>A team state that sums up some records from a start state.\<close>

definition sums_up :: "team_state \<Rightarrow> (string \<times> json) list \<Rightarrow> team_state \<Rightarrow> bool" where
  "sums_up ts prs ts' \<longleftrightarrow>
     ts_state ts' = last_state (ts_state ts) prs
     \<and> ts_action ts' = ts_action ts + length (of_type ''action'' prs)
     \<and> ts_acknowledgement ts' = ts_acknowledgement ts + length (of_type ''acknowledgement'' prs)
     \<and> ts_import ts' = ts_import ts + length (of_type ''import'' prs)
     \<and> ts_diagnostic ts' = ts_diagnostic ts + length (of_type ''diagnostic'' prs)"

lemma sums_up_Nil: "sums_up ts [] ts"
  by (simp add: sums_up_def last_state_def of_type_def)

lemma sums_up_step:
  assumes "team_step j r ts = Inr ts'"
  shows "sums_up ts [(j, r)] ts'"
  using assms
  by (auto simp: team_step_def sums_up_def last_state_def of_type_def Let_def jidx_iff split: if_splits)

lemma last_state_append: "last_state s (a @ b) = last_state (last_state s a) b"
  by (simp add: last_state_def of_type_def)

lemma sums_up_trans: "sums_up a p b \<Longrightarrow> sums_up b q c \<Longrightarrow> sums_up a (p @ q) c"
  by (simp add: sums_up_def last_state_append) (simp add: of_type_def)

text \<open>Every team of a state has summed up the records about it since an earlier state.\<close>

definition teams_sum :: "authority \<Rightarrow> (string \<times> json) list \<Rightarrow> authority \<Rightarrow> bool" where
  "teams_sum st prs st' \<longleftrightarrow>
     map fst (au_teams st') = map fst (au_teams st)
     \<and> (\<forall>team ts. map_of (au_teams st) team = Some ts \<longrightarrow>
          (\<exists>ts'. map_of (au_teams st') team = Some ts' \<and> sums_up ts (about team prs) ts'))"

lemma teams_sum_trans: "teams_sum a p b \<Longrightarrow> teams_sum b q c \<Longrightarrow> teams_sum a (p @ q) c"
  unfolding teams_sum_def about_def filter_append by (metis (no_types, lifting) sums_up_trans)

lemma replay_record_sum:
  assumes "replay_record j st r = Inr st'"
  shows "teams_sum st [(j, r)] st'"
proof (cases "jget r ''team_id'' = JNull")
  case True
  with assms show ?thesis by (auto simp: replay_record_def teams_sum_def about_def sums_up_Nil)
next
  case False
  with assms obtain team ts ts' where t: "jget r ''team_id'' = JStr team" "map_of (au_teams st) team = Some ts"
    "team_step j r ts = Inr ts'" "st' = st\<lparr>au_teams := AList.update team ts' (au_teams st)\<rparr>"
    by (auto simp: replay_record_def Let_def is_str_conv split: option.splits if_splits)
  then have "team \<in> fst ` set (au_teams st)" by (metis map_of_SomeD fst_conv imageI)
  with t sums_up_step [OF t(3)] show ?thesis
    by (auto simp: teams_sum_def about_def keys_update update_conv' sums_up_Nil)
qed

lemma replay_records_sum: "foldE (replay_record j) st rs = Inr st' \<Longrightarrow> teams_sum st (map (Pair j) rs) st'"
proof (induction rs arbitrary: st)
  case Nil
  then show ?case by (simp add: teams_sum_def about_def sums_up_Nil)
next
  case (Cons r rs)
  then obtain st1 where "replay_record j st r = Inr st1" "foldE (replay_record j) st1 rs = Inr st'" by auto
  from teams_sum_trans [OF replay_record_sum [OF this(1)] Cons.IH [OF this(2)]] show ?case by simp
qed

text \<open>The records of the journals, in the order the replay reads them.\<close>

definition journal_entries :: "ext \<Rightarrow> string \<times> string \<times> slot \<Rightarrow> (string \<times> json) list result" where
  "journal_entries X j = (case j of (journal_id, path, f) \<Rightarrow>
     bindE (read_journal X path (Some journal_id) f) (\<lambda>records. Inr (map (Pair journal_id) records)))"

lemma replay_journals_sum:
  "foldE (replay_journal X) st js = Inr st' \<Longrightarrow>
     \<exists>logs. mapE (journal_entries X) js = Inr logs \<and> teams_sum st (concat logs) st'"
proof (induction js arbitrary: st)
  case Nil
  then show ?case by (simp add: teams_sum_def about_def sums_up_Nil)
next
  case (Cons j js)
  obtain jid path f where j: "j = (jid, path, f)" by (cases j) auto
  from Cons.prems obtain st1 rs where rs: "read_journal X path (Some jid) f = Inr rs"
    and r: "foldE (replay_record jid) (st\<lparr>au_journals := AList.update jid (length rs) (au_journals st)\<rparr>) rs = Inr st1"
    and rest: "foldE (replay_journal X) st1 js = Inr st'"
    by (auto simp: j replay_journal_def [of X st])
  from Cons.IH [OF rest] obtain logs where l: "mapE (journal_entries X) js = Inr logs" "teams_sum st1 (concat logs) st'"
    by blast
  from replay_records_sum [OF r] have "teams_sum st (map (Pair jid) rs) st1" by (simp add: teams_sum_def)
  from teams_sum_trans [OF this l(2)] rs l(1) show ?case
    by (simp add: j journal_entries_def [of X "(jid, path, f)"])
qed

text \<open>
  The replayed authority state is a function of the records alone. It has exactly the teams
  the hierarchy declares, and for each of them the state is that of its last lifecycle record, in
  the order of the journals' identifiers (or \<open>contracted\<close>), and the counters are the numbers of
  its action, acknowledgement, import and diagnostic records.
\<close>

theorem replay_authority_counts:
  assumes "replay_authority_state X h delegations journals = Inr st"
  shows "\<exists>declared logs. team_map h = Inr declared \<and> map fst (au_teams st) = sort (map fst declared)
    \<and> mapE (journal_entries X) (sort_key fst journals) = Inr logs
    \<and> (\<forall>(team, _) \<in> set declared. \<exists>ts. map_of (au_teams st) team = Some ts
         \<and> (let mine = about team (concat logs) in
            ts_state ts = last_state ''contracted'' mine \<and> ts_action ts = length (of_type ''action'' mine)
            \<and> ts_acknowledgement ts = length (of_type ''acknowledgement'' mine)
            \<and> ts_import ts = length (of_type ''import'' mine)
            \<and> ts_diagnostic ts = length (of_type ''diagnostic'' mine)))"
proof -
  from assms obtain declared oid hid where d: "team_map h = Inr declared"
    and f: "foldE (replay_journal X)
       \<lparr>au_orchestration = oid, au_identity = hid,
        au_teams = map (\<lambda>team. (team, contracted)) (sort (map fst declared)), au_journals = []\<rparr>
       (sort_key fst journals) = Inr st"
    by (auto simp: replay_authority_state_def)
  from replay_journals_sum [OF f] obtain logs where l: "mapE (journal_entries X) (sort_key fst journals) = Inr logs"
    and s: "map fst (au_teams st) = map fst (map (\<lambda>team. (team, contracted)) (sort (map fst declared)))"
    "\<And>team ts. map_of (map (\<lambda>team. (team, contracted)) (sort (map fst declared))) team = Some ts \<Longrightarrow>
       \<exists>ts'. map_of (au_teams st) team = Some ts' \<and> sums_up ts (about team (concat logs)) ts'"
    by (auto simp: teams_sum_def)
  have "\<exists>ts. map_of (au_teams st) team = Some ts \<and> sums_up contracted (about team (concat logs)) ts"
    if "(team, lead) \<in> set declared" for team lead
  proof (rule s(2))
    show "map_of (map (\<lambda>team. (team, contracted)) (sort (map fst declared))) team = Some contracted"
      using that by (force simp: map_of_map_restrict restrict_map_def)
  qed
  with d l s(1) show ?thesis
    by (intro exI [of _ declared] exI [of _ logs]) (force simp: sums_up_def contracted_def comp_def)
qed

definition demo_action :: json where
  "demo_action = journal_record
     (demo_request\<lparr>jr_type := ''action'', jr_team := Some ''a'', jr_source_journal := None, jr_source_message := None\<rparr>)
     ''u1'' ''t1'' 1"

lemma demo_action_read:
  "read_journal demo_ext ''p'' (Some ''j'') (Some (Regular (canonical_json_line demo_action) 1)) = Inr [canon demo_action]"
  by (rule read_single; code_simp)

lemma demo_replayed:
  "\<exists>st. replay_authority_state demo_ext set_hierarchy [set_team]
     [(''j'', ''p'', Some (Regular (canonical_json_line demo_action) 1))] = Inr st"
proof -
  have c: "replay_contracts demo_ext set_hierarchy [] [set_team] = Inr [''a'']"
    by (simp add: set_valid set_fields)
  have o: "jidx set_hierarchy ''orchestration_id'' = Inr (JStr ''o'')" by code_simp
  have r: "jget (canon demo_action) ''team_id'' = JStr ''a''" "jidx (canon demo_action) ''sequence'' = Inr (JInt 1)"
    "jidx (canon demo_action) ''record_type'' = Inr (JStr ''action'')" "SAFE_ID ''j''"
    by code_simp+
  then show ?thesis
    by (simp add: replay_authority_state_def set_valid set_fields c o replay_journal_def demo_action_read [unfolded One_nat_def]
        replay_record_def team_step_def hashed_def Let_def)
qed

theorem replay_authority_counts_witness:
  "\<exists>st ts. replay_authority_state demo_ext set_hierarchy [set_team]
       [(''j'', ''p'', Some (Regular (canonical_json_line demo_action) 1))] = Inr st
     \<and> map_of (au_teams st) ''a'' = Some ts \<and> ts_state ts = ''contracted'' \<and> ts_action ts = 1 \<and> ts_import ts = 0"
proof -
  obtain st where st: "replay_authority_state demo_ext set_hierarchy [set_team]
       [(''j'', ''p'', Some (Regular (canonical_json_line demo_action) 1))] = Inr st" using demo_replayed by blast
  have e: "mapE (journal_entries demo_ext) (sort_key fst [(''j'', ''p'', Some (Regular (canonical_json_line demo_action) 1))])
      = Inr [[(''j'', canon demo_action)]]"
    by (simp add: journal_entries_def demo_action_read [unfolded One_nat_def])
  have m: "about ''a'' [(''j'', canon demo_action)] = [(''j'', canon demo_action)]"
    "of_type ''action'' [(''j'', canon demo_action)] = [canon demo_action]"
    "of_type ''import'' [(''j'', canon demo_action)] = []" "of_type ''lifecycle'' [(''j'', canon demo_action)] = []"
    by (code_simp, code_simp, code_simp, code_simp)
  from replay_authority_counts [OF st] e m
  have "\<exists>ts. map_of (au_teams st) ''a'' = Some ts \<and> ts_state ts = ''contracted'' \<and> ts_action ts = 1 \<and> ts_import ts = 0"
    by (auto simp: set_fields last_state_def Let_def)
  with st show ?thesis by blast
qed

end
