(* ===== verification/Hierarchy_Receipts.thy ===== *)
theory Hierarchy_Receipts
  imports Hierarchy_Journal
begin

text \<open>
  \<open>hierarchy/receipts.py\<close>: the receipts that close a hierarchy. A team receipt seals the journals,
  the evidence of the workers and the reviews of one team against its delegation contract; the root
  receipt seals the team receipts, the bindings and the approvals of the whole. Both are written
  once as read-only files and verified file by file. Orchestration root and evidence root are two
  trees of files.
\<close>

subsection \<open>Reading sealed files\<close>

definition TEAM_RECEIPT_SCHEMA :: string where
  "TEAM_RECEIPT_SCHEMA = ''agent-workflow/team-receipt/v1''"

definition ROOT_RECEIPT_SCHEMA :: string where
  "ROOT_RECEIPT_SCHEMA = ''agent-workflow/root-orchestration-receipt/v1''"

definition TEAM_DISPOSITIONS :: "string list" where
  "TEAM_DISPOSITIONS = [''completed'', ''failed'', ''blocked'', ''cancelled'', ''rejected'']"

definition ROOT_OUTCOMES :: "string list" where
  "ROOT_OUTCOMES = [''completed'', ''failed'', ''blocked'', ''cancelled'', ''partial'']"

definition BUDGET_USAGE_KEYS :: "string list" where
  "BUDGET_USAGE_KEYS = [''workers_started'', ''peak_concurrent_workers'', ''retries'', ''wall_seconds'']"

text \<open>\<open>v.get(k)\<close>, which needs a dict, and \<open>[f(x) for x in v[k]]\<close>.\<close>

definition dget :: "json \<Rightarrow> string \<Rightarrow> json result" where
  "dget v k = (if is_obj v then Inr (jget v k) else Inl (TypeError ''get''))"

definition items_of :: "json \<Rightarrow> string \<Rightarrow> json list result" where
  "items_of v k = bindE (jidx v k) py_iter"

text \<open>A sorted set of names for a message; what is no string cannot be joined.\<close>

definition joined :: "json list \<Rightarrow> string result" where
  "joined vs = bindE (mapE as_str vs) (\<lambda>ss. Inr (py_join '', '' (sort (remdups ss))))"

definition raise_names :: "json list \<Rightarrow> string \<Rightarrow> unit result" where
  "raise_names vs prefix =
     (if vs = [] then Inr () else bindE (joined vs) (\<lambda>names. Inl (WorkflowError (prefix @ names))))"

definition relative :: "json \<Rightarrow> string \<Rightarrow> string result" where
  "relative v label = bindE (validate_relative_path v label) (\<lambda>_. Inr (str_of v))"

definition read_readonly_file :: "ext \<Rightarrow> ftree \<Rightarrow> json \<Rightarrow> string \<Rightarrow> (string \<times> string \<times> nat) result" where
  "read_readonly_file X t v label =
     bindE (relative v label) (\<lambda>rel.
     bindE (require_directory t ''.'' (label @ '' root'')) (\<lambda>_.
     bindE (read_tree_file t rel) (\<lambda>(data, writable).
     bindE (raise_if writable (label @ '' must be read-only: '' @ rel)) (\<lambda>_.
     Inr (data, DIGEST_PREFIX @ sha256 X data, length data)))))"

definition read_labelled_json :: "ftree \<Rightarrow> string \<Rightarrow> string \<Rightarrow> json result" where
  "read_labelled_json t p label =
     (let path = tree_path t p in
     bindE (read_tree_file t p) (\<lambda>(data, writable).
     bindE (raise_if writable (label @ '' must be read-only: '' @ path)) (\<lambda>_.
     (case loads_utf8 data of
        None \<Rightarrow> Inl (WorkflowError (''invalid '' @ label @ '' JSON: '' @ path))
      | Some v \<Rightarrow>
          bindE (raise_if (\<not> is_obj v) (label @ '' must be an object: '' @ path)) (\<lambda>_.
          Inr v)))))"

definition install_receipt :: "string \<Rightarrow> json \<Rightarrow> (ftree, unit) op" where
  "install_receipt p v t =
     (let expected = json_document v; path = tree_path t p in
      if tree_entry t p \<noteq> None then
        (t, bindE (read_tree_file t p) (\<lambda>(data, writable).
            bindE (raise_if writable (''hierarchy receipt must be read-only: '' @ path)) (\<lambda>_.
            raise_if (data \<noteq> expected) (''immutable hierarchy receipt already differs: '' @ path))))
      else
        (case require_parent t p ''hierarchy receipt parent'' of
           Inl e \<Rightarrow> (t, Inl e)
         | Inr _ \<Rightarrow>
             (let t' = tree_put t p (RFile expected 1 False) in
              (t', bindE (read_tree_file t' p) (\<lambda>(data, writable).
                   raise_if (writable \<or> data \<noteq> expected)
                     (''failed to install immutable hierarchy receipt: '' @ path))))))"

subsection \<open>Descriptors\<close>

record evidence_ref =
  er_kind :: string
  er_path :: string

record journal_ref =
  jf_label :: string
  jf_journal :: string
  jf_path :: string

definition artifact_descriptor :: "ext \<Rightarrow> ftree \<Rightarrow> evidence_ref \<Rightarrow> json result" where
  "artifact_descriptor X t ref =
     bindE (raise_if (er_kind ref = [] \<or> 128 < length (code_points (er_kind ref)))
             (''invalid hierarchy evidence kind: '' @ str_repr (er_kind ref))) (\<lambda>_.
     bindE (read_readonly_file X t (JStr (er_path ref)) (''hierarchy evidence '' @ er_kind ref)) (\<lambda>(_, dig, sz).
     Inr (JObj [(''kind'', JStr (er_kind ref)), (''path'', JStr (er_path ref)), (''sha256'', JStr dig),
                (''size'', JInt (int sz))])))"

definition verify_artifact_descriptor :: "ext \<Rightarrow> ftree \<Rightarrow> string \<Rightarrow> json \<Rightarrow> unit result" where
  "verify_artifact_descriptor X t label d =
     bindE (dget d ''kind'') (\<lambda>k. bindE (dget d ''path'') (\<lambda>path.
     bindE (raise_if (\<not> is_str k \<or> \<not> is_str path) (''invalid '' @ label @ '' descriptor'')) (\<lambda>_.
     bindE (read_readonly_file X t path (label @ '' '' @ str_of k)) (\<lambda>(_, dig, sz).
     raise_if (jget d ''sha256'' \<noteq> JStr dig \<or> \<not> py_eq (jget d ''size'') (JInt (int sz)))
       (label @ '' digest or size mismatch: '' @ str_of path)))))"

text \<open>The journal file of a tree; its parent directory is walked without following links.\<close>

definition entry_slot :: "rentry option \<Rightarrow> slot" where
  "entry_slot e =
     (case e of
        None \<Rightarrow> None
      | Some (RFile data links _) \<Rightarrow> Some (Regular data links)
      | Some (RLink _) \<Rightarrow> Some Symlink
      | Some RDir \<Rightarrow> Some Directory
      | Some RSpecial \<Rightarrow> Some SpecialFile)"

definition read_tree_journal :: "ext \<Rightarrow> ftree \<Rightarrow> string \<Rightarrow> string \<Rightarrow> json list result" where
  "read_tree_journal X t p journal_id =
     bindE (validate_id journal_id ''journal id'') (\<lambda>_.
     bindE (require_parent t p ''journal parent'') (\<lambda>_.
     read_journal X (tree_path t p) (Some journal_id) (entry_slot (tree_entry t p))))"

definition foreign_teams :: "string list \<Rightarrow> json list \<Rightarrow> json list result" where
  "foreign_teams allowed records =
     bindE (mapE (\<lambda>r. jidx r ''team_id'') records) (\<lambda>teams.
     bindE (mapE hashed (filter (\<lambda>v. v \<noteq> JNull) teams)) (\<lambda>ts.
     Inr (filter (\<lambda>v. \<not> (is_str v \<and> str_of v \<in> set allowed)) ts)))"

definition last_message :: "json list \<Rightarrow> json result" where
  "last_message records = (if records = [] then Inr JNull else jidx (last records) ''message_id'')"

text \<open>The journal with the digest of its file, as a receipt records it and as it is checked again.\<close>

definition journal_evidence ::
  "ext \<Rightarrow> ftree \<Rightarrow> string list \<Rightarrow> string \<Rightarrow> string \<Rightarrow> (json list \<times> string \<times> nat) result" where
  "journal_evidence X t allowed p journal_id =
     bindE (read_tree_journal X t p journal_id) (\<lambda>records.
     bindE (foreign_teams allowed records) (\<lambda>foreign.
     bindE (raise_names foreign ''hierarchy journal contains out-of-scope team identities: '') (\<lambda>_.
     bindE (read_tree_file t p) (\<lambda>(data, _).
     Inr (records, DIGEST_PREFIX @ sha256 X data, length data)))))"

definition journal_descriptor :: "ext \<Rightarrow> ftree \<Rightarrow> string list \<Rightarrow> journal_ref \<Rightarrow> json result" where
  "journal_descriptor X t allowed ref =
     bindE (validate_id (jf_label ref) ''journal label'') (\<lambda>_.
     bindE (validate_id (jf_journal ref) ''journal id'') (\<lambda>_.
     bindE (relative (JStr (jf_path ref)) ''hierarchy journal path'') (\<lambda>rel.
     bindE (require_directory t ''.'' ''orchestration root'') (\<lambda>_.
     bindE (journal_evidence X t allowed rel (jf_journal ref)) (\<lambda>(records, dig, sz).
     bindE (last_message records) (\<lambda>last_id.
     Inr (JObj [(''label'', JStr (jf_label ref)), (''journal_id'', JStr (jf_journal ref)), (''path'', JStr rel),
                (''record_count'', JInt (int (length records))), (''last_message_id'', last_id),
                (''sha256'', JStr dig), (''size'', JInt (int sz))])))))))"

definition verify_journal_descriptor :: "ext \<Rightarrow> ftree \<Rightarrow> string list \<Rightarrow> json \<Rightarrow> unit result" where
  "verify_journal_descriptor X t allowed d =
     bindE (dget d ''journal_id'') (\<lambda>j. bindE (dget d ''path'') (\<lambda>path.
     bindE (raise_if (\<not> is_str j \<or> \<not> is_str path) ''invalid hierarchy journal descriptor'') (\<lambda>_.
     bindE (require_directory t ''.'' ''orchestration root'') (\<lambda>_.
     bindE (relative path ''hierarchy journal path'') (\<lambda>rel.
     bindE (journal_evidence X t allowed rel (str_of j)) (\<lambda>(records, dig, sz).
     bindE (last_message records) (\<lambda>last_id.
     raise_if (\<not> py_eq (jget d ''record_count'') (JInt (int (length records)))
               \<or> \<not> py_eq (jget d ''last_message_id'') last_id
               \<or> jget d ''sha256'' \<noteq> JStr dig \<or> \<not> py_eq (jget d ''size'') (JInt (int sz)))
       (''hierarchy journal changed after receipt sealing: '' @ rel))))))))"

text \<open>Distinct values of one key; the message shows the one-element tuple that repeats.\<close>

fun unique_loop :: "string \<Rightarrow> string \<Rightarrow> json list \<Rightarrow> json list \<Rightarrow> unit result" where
  "unique_loop key label seen [] = Inr ()"
| "unique_loop key label seen (v # vs) =
     bindE (bindE (dget v key) hashed) (\<lambda>k.
     bindE (raise_if (py_in k seen) (''duplicate '' @ label @ '': ('' @ py_repr k @ '',)'')) (\<lambda>_.
     unique_loop key label (k # seen) vs))"

definition unique_descriptors :: "json list \<Rightarrow> string \<Rightarrow> string \<Rightarrow> unit result" where
  "unique_descriptors vs key label = unique_loop key label [] vs"

definition unique_journals :: "json list \<Rightarrow> string \<Rightarrow> unit result" where
  "unique_journals rows who =
     bindE (unique_descriptors rows ''label'' (who @ '' journal label'')) (\<lambda>_.
     bindE (unique_descriptors rows ''journal_id'' (who @ '' journal id'')) (\<lambda>_.
     unique_descriptors rows ''path'' (who @ '' journal path'')))"

definition unique_evidence :: "json list \<Rightarrow> string \<Rightarrow> unit result" where
  "unique_evidence rows who =
     bindE (unique_descriptors rows ''kind'' (who @ '' kind'')) (\<lambda>_.
     unique_descriptors rows ''path'' (who @ '' path''))"

definition validated_text_list :: "json \<Rightarrow> string \<Rightarrow> json result" where
  "validated_text_list v label =
     bindE (raise_if (is_str v) (label @ '' must be a list of strings'')) (\<lambda>_.
     bindE (py_iter v) (\<lambda>items.
     bindE (raise_if (\<exists>item \<in> set items. \<not> nonempty_str item \<or> 8192 < length (code_points (str_of item)))
             (label @ '' must contain bounded non-empty strings'')) (\<lambda>_.
     bindE (raise_if (\<not> distinct items) (label @ '' must not contain duplicates'')) (\<lambda>_.
     Inr (JList items)))))"

subsection \<open>Budgets and evidence\<close>

text \<open>\<open>dict(v)\<close>; of an empty list or string it is the empty dict.\<close>

definition as_dict :: "json \<Rightarrow> json result" where
  "as_dict v =
     (if is_obj v then Inr v else if v = JList [] \<or> v = JStr [] then Inr (JObj []) else Inl (TypeError ''dict''))"

text \<open>\<open>type(v) is int and v >= 0\<close>: a boolean is no such value.\<close>

fun is_count :: "json \<Rightarrow> bool" where
  "is_count (JInt i) = (0 \<le> i)"
| "is_count _ = False"

text \<open>Each usage counter with the budget of the team that bounds it.\<close>

definition USAGE_LIMITS :: "(string \<times> string) list" where
  "USAGE_LIMITS =
     [(''workers_started'', ''max_workers''), (''peak_concurrent_workers'', ''max_concurrent_workers''),
      (''retries'', ''max_retries''), (''wall_seconds'', ''max_wall_seconds'')]"

definition check_usage :: "json \<Rightarrow> json \<Rightarrow> string \<times> string \<Rightarrow> unit result" where
  "check_usage usage limits = (\<lambda>(used_key, limit_key).
     bindE (jidx limits limit_key) (\<lambda>limit.
     raise_if_gt (jget usage used_key) limit (''team receipt budget usage exceeds '' @ limit_key)))"

definition validate_budget_usage :: "json \<Rightarrow> json \<Rightarrow> nat \<Rightarrow> json result" where
  "validate_budget_usage usage team_contract worker_count =
     bindE (as_dict usage) (\<lambda>r.
     bindE (raise_if (fst ` set (obj_items r) \<noteq> set BUDGET_USAGE_KEYS \<or> (\<exists>(_, v) \<in> set (obj_items r). \<not> is_count v))
             ''team receipt budget_usage has invalid fields or values'') (\<lambda>_.
     bindE (raise_if (jget r ''workers_started'' \<noteq> JInt (int worker_count))
             ''team receipt workers_started must equal the exact sealed worker evidence set'') (\<lambda>_.
     bindE (raise_if_gt (jget r ''peak_concurrent_workers'') (jget r ''workers_started'')
             ''team receipt peak_concurrent_workers exceeds workers_started'') (\<lambda>_.
     bindE (jidx team_contract ''budgets'') (\<lambda>limits.
     bindE (mapE (check_usage r limits) USAGE_LIMITS) (\<lambda>_.
     Inr r))))))"

text \<open>
  A product of budgets. Integral floats, which the schema admits as integers, multiply exactly
  below \<open>2 ^ 53\<close>; other values do not pass the schema.
\<close>

definition integral :: "json \<Rightarrow> int option" where
  "integral v =
     (case v of
        JFloat r \<Rightarrow> (if length r > 2 \<and> drop (length r - 2) r = ''.0'' then
                       (case decimal r of (m, _) \<Rightarrow> Some (m div 10)) else None)
      | _ \<Rightarrow> if is_int v then Some (int_of v) else None)"

definition py_mul :: "json \<Rightarrow> json \<Rightarrow> json result" where
  "py_mul a b =
     (case (integral a, integral b) of
        (Some i, Some j) \<Rightarrow>
          Inr (if is_int a \<and> is_int b then JInt (i * j) else JFloat (int_str (i * j) @ ''.0''))
      | _ \<Rightarrow> Inl (TypeError ''*''))"

definition add_usage :: "(string \<Rightarrow> int) \<Rightarrow> json \<Rightarrow> (string \<Rightarrow> int) result" where
  "add_usage sums usage =
     bindE (mapE (\<lambda>key. bindE (dget usage key) (\<lambda>v.
              raise_if (\<not> is_count v) ''team receipt budget_usage has invalid aggregate fields''))
            BUDGET_USAGE_KEYS) (\<lambda>_.
     Inr (\<lambda>key. sums key + int_of (jget usage key)))"

definition check_aggregate :: "(string \<Rightarrow> int) \<Rightarrow> string \<times> json \<Rightarrow> unit result" where
  "check_aggregate sums = (\<lambda>(used_key, limit).
     raise_if_gt (JInt (sums used_key)) limit
       (''aggregate hierarchy budget usage exceeds '' @ used_key @ '': '' @ int_str (sums used_key) @ '' > '' @ py_str limit))"

definition validate_aggregate_budget_usage :: "json list \<Rightarrow> json \<Rightarrow> unit result" where
  "validate_aggregate_budget_usage usages hierarchy =
     bindE (foldE add_usage (\<lambda>_. 0) usages) (\<lambda>sums.
     bindE (jidx hierarchy ''budgets'') (\<lambda>limits.
     bindE (jidx limits ''max_total_workers'') (\<lambda>workers.
     bindE (jidx limits ''max_concurrent_workers'') (\<lambda>concurrent.
     bindE (jidx limits ''max_wall_seconds'') (\<lambda>wall.
     bindE (jidx limits ''max_retries_per_worker'') (\<lambda>per_worker.
     bindE (py_mul workers per_worker) (\<lambda>retries.
     bindE (mapE (check_aggregate sums)
              [(''workers_started'', workers), (''peak_concurrent_workers'', concurrent),
               (''wall_seconds'', wall), (''retries'', retries)]) (\<lambda>_.
     Inr ()))))))))"

text \<open>One worker: the workers and the evidence paths seen before, and after.\<close>

fun path_loop :: "string \<Rightarrow> string list \<Rightarrow> json list \<Rightarrow> string list result" where
  "path_loop rid seen [] = Inr seen"
| "path_loop rid seen (a # rest) =
     bindE (dget a ''path'') (\<lambda>v.
     bindE (raise_if (\<not> is_str v) (''worker '' @ rid @ '' evidence has no string path'')) (\<lambda>_.
     bindE (raise_if (str_of v \<in> set seen) (''evidence path is assigned more than once: '' @ str_of v)) (\<lambda>_.
     path_loop rid (str_of v # seen) rest)))"

definition missing_kinds :: "json list \<Rightarrow> json list \<Rightarrow> json list result" where
  "missing_kinds required_kinds descriptors =
     bindE (mapE (\<lambda>d. bindE (dget d ''kind'') hashed) descriptors) (\<lambda>kinds.
     bindE (mapE hashed required_kinds) (\<lambda>rs.
     Inr (filter (\<lambda>k. \<not> py_in k kinds) rs)))"

definition worker_step :: "json list \<Rightarrow> string list \<times> string list \<Rightarrow> json \<Rightarrow> (string list \<times> string list) result" where
  "worker_step required_outputs st worker =
     (case st of (seen_workers, seen_paths) \<Rightarrow>
     bindE (dget worker ''run_id'') (\<lambda>v.
     bindE (raise_if (\<not> is_str v) ''team receipt worker has no string run_id'') (\<lambda>_.
     bindE (validate_id (str_of v) ''worker run id'') (\<lambda>rid.
     bindE (raise_if (rid \<in> set seen_workers) (''duplicate worker in team receipt: '' @ rid)) (\<lambda>_.
     (let rows = jget worker ''artifacts'' in
     bindE (raise_if (\<not> is_list rows \<or> list_items rows = []) (''worker evidence set is empty: '' @ rid)) (\<lambda>_.
     bindE (unique_evidence (list_items rows) (''worker '' @ rid @ '' evidence'')) (\<lambda>_.
     bindE (missing_kinds required_outputs (list_items rows)) (\<lambda>missing.
     bindE (raise_names missing (''worker '' @ rid @ '' evidence is missing required outputs: '')) (\<lambda>_.
     bindE (path_loop rid seen_paths (list_items rows)) (\<lambda>seen_paths'.
     Inr (rid # seen_workers, seen_paths')))))))))))) "

definition validate_worker_evidence :: "json list \<Rightarrow> json \<Rightarrow> unit result" where
  "validate_worker_evidence workers team_contract =
     bindE (bindE (items_of team_contract ''required_outputs'') (mapE hashed)) (\<lambda>required_outputs.
     bindE (foldE (worker_step required_outputs) ([], []) workers) (\<lambda>_. Inr ()))"

definition validate_required_evidence_kinds :: "json list \<Rightarrow> json list \<Rightarrow> string \<Rightarrow> unit result" where
  "validate_required_evidence_kinds descriptors required_kinds label =
     bindE (missing_kinds required_kinds descriptors) (\<lambda>missing.
     raise_names missing (label @ '' is missing required kinds: ''))"

definition paths_of :: "json list \<Rightarrow> json list result" where
  "paths_of rows = mapE (\<lambda>d. jidx d ''path'') rows"

definition worker_paths :: "json list \<Rightarrow> json list result" where
  "worker_paths workers =
     bindE (mapE (\<lambda>w. bindE (items_of w ''artifacts'') paths_of) workers) (\<lambda>ps. Inr (concat ps))"

definition raise_overlap :: "json list \<Rightarrow> json list \<Rightarrow> string \<Rightarrow> unit result" where
  "raise_overlap ps qs prefix = raise_names (filter (\<lambda>p. py_in p qs) ps) prefix"

subsection \<open>Team receipts\<close>

text \<open>An \<open>or\<close> of comparisons, each evaluated only when the ones before it are false.\<close>

fun any_of :: "bool result list \<Rightarrow> bool result" where
  "any_of [] = Inr False"
| "any_of (m # ms) = bindE m (\<lambda>b. if b then Inr True else any_of ms)"

definition differs :: "json \<Rightarrow> string \<Rightarrow> json \<Rightarrow> bool result" where
  "differs v k w = bindE (jidx v k) (\<lambda>a. Inr (\<not> py_eq a w))"

definition differs_in :: "json \<Rightarrow> json \<Rightarrow> string \<Rightarrow> string \<Rightarrow> bool result" where
  "differs_in v w k k' = bindE (jidx v k) (\<lambda>a. bindE (jidx w k') (\<lambda>b. Inr (\<not> py_eq a b)))"

definition raise_any :: "bool result list \<Rightarrow> string \<Rightarrow> unit result" where
  "raise_any tests msg = bindE (any_of tests) (\<lambda>b. raise_if b msg)"

definition team_receipt_path :: "string \<Rightarrow> string" where
  "team_receipt_path team_id = ''teams/'' @ team_id @ ''/team-receipt.json''"

text \<open>The installed delegation contract, with its digest and size; it must be the one given.\<close>

definition installed_contract ::
  "ext \<Rightarrow> ftree \<Rightarrow> json \<Rightarrow> json \<Rightarrow> string \<Rightarrow> (string \<times> nat) result" where
  "installed_contract X t path c mismatch =
     bindE (read_readonly_file X t path ''team delegation contract'') (\<lambda>(data, dig, sz).
     (case loads_utf8 data of
        None \<Rightarrow> Inl (WorkflowError ''installed team delegation contract is invalid JSON'')
      | Some v \<Rightarrow> bindE (raise_if (\<not> py_eq v c) mismatch) (\<lambda>_. Inr (dig, sz))))"

definition verify_journals :: "ext \<Rightarrow> ftree \<Rightarrow> string list \<Rightarrow> json list \<Rightarrow> string \<Rightarrow> unit result" where
  "verify_journals X t allowed rows who =
     bindE (unique_journals rows who) (\<lambda>_.
     bindE (mapE (\<lambda>d.
         bindE (bindE (jidx d ''label'') (\<lambda>v. validate_json_id v ''journal label'')) (\<lambda>_.
         bindE (bindE (jidx d ''journal_id'') (\<lambda>v. validate_json_id v ''journal id'')) (\<lambda>_.
         verify_journal_descriptor X t allowed d))) rows) (\<lambda>_. Inr ()))"

definition verify_workers :: "ext \<Rightarrow> ftree \<Rightarrow> json list \<Rightarrow> unit result" where
  "verify_workers X ev workers =
     bindE (mapE (\<lambda>w.
         bindE (jidx w ''run_id'') (\<lambda>rid.
         bindE (items_of w ''artifacts'') (\<lambda>rows.
         mapE (verify_artifact_descriptor X ev (''worker '' @ py_str rid @ '' evidence'')) rows))) workers) (\<lambda>_. Inr ())"

definition verify_reviews :: "ext \<Rightarrow> ftree \<Rightarrow> json \<Rightarrow> json list \<Rightarrow> unit result" where
  "verify_reviews X ev c reviews =
     bindE (unique_evidence reviews ''team review evidence'') (\<lambda>_.
     bindE (items_of c ''required_reviews'') (\<lambda>required_reviews.
     bindE (validate_required_evidence_kinds reviews required_reviews ''team review evidence'') (\<lambda>_.
     bindE (mapE (verify_artifact_descriptor X ev ''team review evidence'') reviews) (\<lambda>_. Inr ()))))"

definition check_disjoint_reviews :: "json list \<Rightarrow> json list \<Rightarrow> unit result" where
  "check_disjoint_reviews workers reviews =
     bindE (worker_paths workers) (\<lambda>ws. bindE (paths_of reviews) (\<lambda>rs.
     raise_overlap ws rs ''team review evidence overlaps worker evidence: ''))"

definition verify_team_receipt ::
  "ext \<Rightarrow> ftree \<Rightarrow> ftree \<Rightarrow> json \<Rightarrow> json \<Rightarrow> string option \<Rightarrow> json result" where
  "verify_team_receipt X t ev h c receipt_path =
     bindE (validate_hierarchy_contract X h) (\<lambda>_.
     bindE (validate_team_delegation_contract X c h) (\<lambda>_.
     bindE (require_directory t ''.'' ''orchestration root'') (\<lambda>_.
     bindE (require_directory ev ''.'' ''hierarchy evidence root'') (\<lambda>_.
     bindE (bindE (jidx c ''team_id'') as_str) (\<lambda>team_id.
     bindE (relative (JStr (or_default receipt_path (team_receipt_path team_id))) ''team receipt path'') (\<lambda>rel.
     bindE (read_labelled_json t rel ''team receipt'') (\<lambda>receipt.
     bindE (validate_instance X receipt TEAM_RECEIPT_SCHEMA rel) (\<lambda>_.
     bindE (verify_digest X receipt ''receipt_sha256'' ''team receipt'') (\<lambda>_.
     bindE (raise_any [differs_in receipt h ''orchestration_id'' ''orchestration_id'',
                       differs receipt ''team_id'' (JStr team_id),
                       differs_in receipt h ''hierarchy_identity_sha256'' ''identity_sha256'']
             ''team receipt identity does not match hierarchy contract'') (\<lambda>_.
     bindE (jidx receipt ''delegation_contract'') (\<lambda>cd.
     bindE (jidx cd ''path'') (\<lambda>cpath.
     bindE (raise_if (cpath \<noteq> JStr (delegation_path team_id))
             ''team receipt contains an unexpected delegation contract path'') (\<lambda>_.
     bindE (installed_contract X t cpath c ''team receipt delegation contract does not match expected contract'') (\<lambda>(dig, sz).
     bindE (raise_any [differs_in cd c ''contract_sha256'' ''contract_sha256'',
                       differs cd ''file_sha256'' (JStr dig), differs cd ''size'' (JInt (int sz))]
             ''team receipt delegation contract digest mismatch'') (\<lambda>_.
     bindE (items_of receipt ''journals'') (\<lambda>journals.
     bindE (verify_journals X t [team_id] journals ''team'') (\<lambda>_.
     bindE (items_of receipt ''workers'') (\<lambda>workers.
     bindE (validate_worker_evidence workers c) (\<lambda>_.
     bindE (verify_workers X ev workers) (\<lambda>_.
     bindE (items_of receipt ''review_evidence'') (\<lambda>reviews.
     bindE (verify_reviews X ev c reviews) (\<lambda>_.
     bindE (check_disjoint_reviews workers reviews) (\<lambda>_.
     bindE (jidx receipt ''budget_usage'') (\<lambda>usage.
     bindE (validate_budget_usage usage c (length workers)) (\<lambda>_.
     bindE (bindE (jidx receipt ''terminal_disposition'') hashed) (\<lambda>disposition.
     bindE (raise_if (\<not> (is_str disposition \<and> str_of disposition \<in> set TEAM_DISPOSITIONS))
             ''invalid team terminal disposition'') (\<lambda>_.
     Inr receipt)))))))))))))))))))))))))))"

text \<open>What a caller hands over for a team receipt.\<close>

record team_evidence =
  tv_journals :: "journal_ref list"
  tv_workers :: "(string \<times> evidence_ref list) list"
  tv_reviews :: "evidence_ref list"
  tv_issues :: json
  tv_deviations :: json
  tv_usage :: json
  tv_disposition :: string
  tv_created :: "string option"

definition worker_row :: "ext \<Rightarrow> ftree \<Rightarrow> string \<times> evidence_ref list \<Rightarrow> json result" where
  "worker_row X ev = (\<lambda>(rid, refs).
     bindE (validate_id rid ''worker run id'') (\<lambda>_.
     bindE (mapE (artifact_descriptor X ev) refs) (\<lambda>rows.
     bindE (raise_if (rows = []) (''worker evidence set is empty: '' @ rid)) (\<lambda>_.
     bindE (unique_evidence rows (''worker '' @ rid @ '' evidence'')) (\<lambda>_.
     Inr (JObj [(''run_id'', JStr rid), (''artifacts'', JList rows)]))))))"

text \<open>\<open>sorted\<close> by one string field, or by kind and path.\<close>

definition sort_by_label :: "json list \<Rightarrow> json list" where
  "sort_by_label rows = sort_key (\<lambda>r. str_of (jget r ''label'')) rows"

definition sort_by_kind :: "json list \<Rightarrow> json list" where
  "sort_by_kind rows =
     sort_key (\<lambda>r. str_of (jget r ''kind'')) (sort_key (\<lambda>r. str_of (jget r ''path'')) rows)"

definition sealed_with_digest :: "ext \<Rightarrow> (string \<times> json) list \<Rightarrow> json" where
  "sealed_with_digest X kvs =
     jset ''receipt_sha256'' (JStr (identity_digest X (JObj kvs) ''receipt_sha256'')) (JObj kvs)"

definition build_team_receipt ::
  "ext \<Rightarrow> string \<Rightarrow> ftree \<Rightarrow> ftree \<Rightarrow> json \<Rightarrow> json \<Rightarrow> team_evidence \<Rightarrow> (string \<times> json) result" where
  "build_team_receipt X now t ev h c e =
     bindE (validate_hierarchy_contract X h) (\<lambda>_.
     bindE (validate_team_delegation_contract X c h) (\<lambda>_.
     bindE (bindE (jidx c ''team_id'') as_str) (\<lambda>team_id.
     bindE (require_directory t ''.'' ''orchestration root'') (\<lambda>_.
     bindE (require_directory ev ''.'' ''hierarchy evidence root'') (\<lambda>_.
     bindE (installed_contract X t (JStr (delegation_path team_id)) c
             ''installed team delegation contract does not match receipt input'') (\<lambda>(dig, sz).
     bindE (mapE (journal_descriptor X t [team_id]) (tv_journals e)) (\<lambda>journal_rows.
     bindE (unique_journals journal_rows ''team'') (\<lambda>_.
     bindE (mapE (worker_row X ev) (sort_key fst (tv_workers e))) (\<lambda>worker_rows.
     bindE (validate_worker_evidence worker_rows c) (\<lambda>_.
     bindE (mapE (artifact_descriptor X ev) (tv_reviews e)) (\<lambda>review_rows.
     bindE (unique_evidence review_rows ''team review evidence'') (\<lambda>_.
     bindE (items_of c ''required_reviews'') (\<lambda>required_reviews.
     bindE (validate_required_evidence_kinds review_rows required_reviews ''team review evidence'') (\<lambda>_.
     bindE (check_disjoint_reviews worker_rows review_rows) (\<lambda>_.
     bindE (validated_text_list (tv_issues e) ''team receipt unresolved_issues'') (\<lambda>issues.
     bindE (validated_text_list (tv_deviations e) ''team receipt scope_deviations'') (\<lambda>deviations.
     bindE (validate_budget_usage (tv_usage e) c (length worker_rows)) (\<lambda>usage.
     bindE (raise_if (tv_disposition e \<notin> set TEAM_DISPOSITIONS)
             (''invalid team terminal disposition: '' @ str_repr (tv_disposition e))) (\<lambda>_.
     bindE (jidx h ''orchestration_id'') (\<lambda>oid. bindE (jidx h ''identity_sha256'') (\<lambda>hid.
     bindE (jidx c ''contract_sha256'') (\<lambda>cs.
     (let receipt = sealed_with_digest X
            [(''schema'', JStr TEAM_RECEIPT_SCHEMA), (''version'', JInt 1), (''orchestration_id'', oid),
             (''team_id'', JStr team_id), (''hierarchy_identity_sha256'', hid),
             (''delegation_contract'', JObj
                [(''path'', JStr (delegation_path team_id)), (''contract_sha256'', cs),
                 (''file_sha256'', JStr dig), (''size'', JInt (int sz))]),
             (''journals'', JList (sort_by_label journal_rows)), (''workers'', JList worker_rows),
             (''review_evidence'', JList (sort_by_kind review_rows)), (''unresolved_issues'', issues),
             (''scope_deviations'', deviations), (''budget_usage'', usage),
             (''terminal_disposition'', JStr (tv_disposition e)),
             (''created_at'', JStr (or_default (tv_created e) now))] in
     bindE (validate_instance X receipt TEAM_RECEIPT_SCHEMA (''team receipt '' @ team_id)) (\<lambda>_.
     Inr (team_id, receipt)))))))))))))))))))))))))"

definition create_team_receipt ::
  "ext \<Rightarrow> string \<Rightarrow> ftree \<Rightarrow> json \<Rightarrow> json \<Rightarrow> team_evidence \<Rightarrow> (ftree, json) op" where
  "create_team_receipt X now ev h c e =
     bindS (pureS (\<lambda>t. build_team_receipt X now t ev h c e)) (\<lambda>(team_id, receipt).
     bindS (install_receipt (team_receipt_path team_id) receipt) (\<lambda>_.
     pureS (\<lambda>t. verify_team_receipt X t ev h c None)))"

subsection \<open>The root receipt\<close>

definition teams_by_id :: "json list \<Rightarrow> (string \<times> json) list result" where
  "teams_by_id teams =
     bindE (mapE (\<lambda>c. bindE (bindE (jidx c ''team_id'') as_str) (\<lambda>i. Inr (i, c))) teams) (\<lambda>kvs.
     Inr (dict_of kvs))"

definition evidence_paths :: "json \<Rightarrow> json list result" where
  "evidence_paths receipt =
     bindE (bindE (items_of receipt ''workers'') worker_paths) (\<lambda>ws.
     bindE (bindE (items_of receipt ''review_evidence'') paths_of) (\<lambda>rs.
     Inr (ws @ rs)))"

text \<open>The evidence of a team joins that of the teams before it; no path may be sealed twice.\<close>

definition seal_team_paths :: "json list \<Rightarrow> json \<Rightarrow> json list result" where
  "seal_team_paths sealed receipt =
     bindE (evidence_paths receipt) (\<lambda>ps.
     bindE (raise_overlap sealed ps ''evidence path is sealed by more than one team receipt: '') (\<lambda>_.
     Inr (sealed @ ps)))"

definition required_approvals :: "(string \<times> json) list \<Rightarrow> json list result" where
  "required_approvals teams =
     bindE (mapE (\<lambda>(_, c). bindE (items_of c ''required_approvals'') (mapE hashed)) teams) (\<lambda>xs. Inr (concat xs))"

definition check_root_overlaps :: "json list \<Rightarrow> json list \<Rightarrow> json list \<Rightarrow> unit result" where
  "check_root_overlaps sealed bindings approvals =
     bindE (paths_of bindings) (\<lambda>bs. bindE (paths_of approvals) (\<lambda>as.
     bindE (raise_overlap bs as ''cross-team binding evidence overlaps approval evidence: '') (\<lambda>_.
     raise_overlap sealed (bs @ as) ''root evidence overlaps team-owned evidence: '')))"

definition unique_root_evidence :: "json list \<Rightarrow> json list \<Rightarrow> unit result" where
  "unique_root_evidence bindings approvals =
     bindE (unique_evidence bindings ''cross-team binding'') (\<lambda>_. unique_evidence approvals ''approval evidence'')"

definition still_holds :: "string \<Rightarrow> json \<Rightarrow> string \<Rightarrow> unit result" where
  "still_holds data v changed =
     (case loads_utf8 data of
        None \<Rightarrow> Inl (TypeError ''decode'')
      | Some w \<Rightarrow> raise_if (\<not> py_eq w v) changed)"

definition verify_root_contract :: "ext \<Rightarrow> ftree \<Rightarrow> json \<Rightarrow> string \<times> json \<Rightarrow> unit result" where
  "verify_root_contract X t receipt = (\<lambda>(key, v).
     bindE (jidx receipt key) (\<lambda>d.
     bindE (jidx d ''path'') (\<lambda>path.
     bindE (read_readonly_file X t path key) (\<lambda>(data, dig, sz).
     (case loads_utf8 data of
        None \<Rightarrow> Inl (WorkflowError (''invalid '' @ key @ '' JSON''))
      | Some w \<Rightarrow>
          raise_any [Inr (\<not> py_eq w v), differs d ''file_sha256'' (JStr dig), differs d ''size'' (JInt (int sz))]
            (''root receipt '' @ key @ '' digest mismatch''))))))"

text \<open>One team of a root receipt: the teams seen, their usages and their evidence paths so far.\<close>

type_synonym root_state = "json list \<times> json list \<times> json list"

definition verify_root_team ::
  "ext \<Rightarrow> ftree \<Rightarrow> ftree \<Rightarrow> json \<Rightarrow> (string \<times> json) list \<Rightarrow> root_state \<Rightarrow> json \<Rightarrow> root_state result" where
  "verify_root_team X t ev h teams st entry =
     (case st of (seen, usages, sealed) \<Rightarrow>
     bindE (bindE (jidx entry ''team_id'') hashed) (\<lambda>team.
     (case (if is_str team then map_of teams (str_of team) else None) of
        None \<Rightarrow> Inl (WorkflowError (''duplicate or undeclared team in root receipt: '' @ py_str team))
      | Some c \<Rightarrow>
          (let team_id = str_of team in
          bindE (raise_if (team \<in> set seen) (''duplicate or undeclared team in root receipt: '' @ team_id)) (\<lambda>_.
          bindE (jidx entry ''delegation_contract'') (\<lambda>cd.
          bindE (raise_any [differs cd ''path'' (JStr (delegation_path team_id))]
                  (''unexpected team contract path in root receipt: '' @ team_id)) (\<lambda>_.
          bindE (jidx entry ''team_receipt'') (\<lambda>rd.
          bindE (raise_any [differs rd ''path'' (JStr (team_receipt_path team_id))]
                  (''unexpected team receipt path in root receipt: '' @ team_id)) (\<lambda>_.
          bindE (read_readonly_file X t (JStr (delegation_path team_id)) ''team delegation contract'') (\<lambda>(_, dig, sz).
          bindE (raise_any [differs_in cd c ''contract_sha256'' ''contract_sha256'', differs cd ''file_sha256'' (JStr dig),
                            differs cd ''size'' (JInt (int sz))]
                  (''root receipt team contract mismatch: '' @ team_id)) (\<lambda>_.
          bindE (verify_team_receipt X t ev h c (Some (team_receipt_path team_id))) (\<lambda>verified.
          bindE (jidx verified ''budget_usage'') (\<lambda>usage.
          bindE (read_readonly_file X t (JStr (team_receipt_path team_id)) ''team receipt'') (\<lambda>(_, rdig, rsz).
          bindE (raise_any [differs_in rd verified ''receipt_sha256'' ''receipt_sha256'', differs rd ''file_sha256'' (JStr rdig),
                            differs rd ''size'' (JInt (int rsz))]
                  (''root receipt team receipt mismatch: '' @ team_id)) (\<lambda>_.
          bindE (seal_team_paths sealed verified) (\<lambda>sealed'.
          Inr (seen @ [team], usages @ [usage], sealed')))))))))))))))))"

definition verify_root_receipt :: "ext \<Rightarrow> ftree \<Rightarrow> ftree \<Rightarrow> json result" where
  "verify_root_receipt X t ev =
     bindE (require_directory t ''.'' ''orchestration root'') (\<lambda>_.
     bindE (require_directory ev ''.'' ''hierarchy evidence root'') (\<lambda>_.
     bindE (read_contract_set X t) (\<lambda>(h, delegations, manifest).
     bindE (teams_by_id delegations) (\<lambda>teams.
     bindE (read_labelled_json t ''root-receipt.json'' ''root receipt'') (\<lambda>receipt.
     bindE (validate_instance X receipt ROOT_RECEIPT_SCHEMA ''root-receipt.json'') (\<lambda>_.
     bindE (verify_digest X receipt ''receipt_sha256'' ''root receipt'') (\<lambda>_.
     bindE (raise_any [differs_in receipt h ''orchestration_id'' ''orchestration_id'',
                       differs_in receipt h ''hierarchy_identity_sha256'' ''identity_sha256'']
             ''root receipt identity does not match hierarchy'') (\<lambda>_.
     bindE (mapE (verify_root_contract X t receipt) [(''hierarchy_contract'', h), (''contract_set'', manifest)]) (\<lambda>_.
     bindE (items_of receipt ''root_journals'') (\<lambda>journals.
     bindE (verify_journals X t (map fst teams) journals ''root'') (\<lambda>_.
     bindE (items_of receipt ''teams'') (\<lambda>entries.
     bindE (foldE (verify_root_team X t ev h teams) ([], [], []) entries) (\<lambda>(seen, usages, sealed).
     bindE (raise_if (set seen \<noteq> (JStr \<circ> fst) ` set teams)
             ''root receipt does not contain the exact declared team set'') (\<lambda>_.
     bindE (validate_aggregate_budget_usage usages h) (\<lambda>_.
     bindE (items_of receipt ''cross_team_bindings'') (\<lambda>bindings.
     bindE (mapE (verify_artifact_descriptor X ev ''cross-team binding'') bindings) (\<lambda>_.
     bindE (items_of receipt ''approval_evidence'') (\<lambda>approvals.
     bindE (mapE (verify_artifact_descriptor X ev ''approval evidence'') approvals) (\<lambda>_.
     bindE (unique_root_evidence bindings approvals) (\<lambda>_.
     bindE (required_approvals teams) (\<lambda>needed.
     bindE (validate_required_evidence_kinds approvals needed ''root approval evidence'') (\<lambda>_.
     bindE (check_root_overlaps sealed bindings approvals) (\<lambda>_.
     bindE (bindE (jidx receipt ''outcome'') hashed) (\<lambda>outcome.
     bindE (raise_if (\<not> (is_str outcome \<and> str_of outcome \<in> set ROOT_OUTCOMES)) ''invalid root outcome'') (\<lambda>_.
     Inr receipt)))))))))))))))))))))))))"

record root_evidence =
  rv_journals :: "journal_ref list"
  rv_bindings :: "evidence_ref list"
  rv_approvals :: "evidence_ref list"
  rv_issues :: json
  rv_outcome :: string
  rv_created :: "string option"

definition root_team_row ::
  "ext \<Rightarrow> ftree \<Rightarrow> ftree \<Rightarrow> json \<Rightarrow> root_state \<Rightarrow> string \<times> json \<Rightarrow> root_state result" where
  "root_team_row X t ev h st team =
     (case st of (rows, usages, sealed) \<Rightarrow> (case team of (team_id, c) \<Rightarrow>
     bindE (verify_team_receipt X t ev h c None) (\<lambda>verified.
     bindE (jidx verified ''budget_usage'') (\<lambda>usage.
     bindE (read_readonly_file X t (JStr (delegation_path team_id)) ''team delegation contract'') (\<lambda>(_, dig, sz).
     bindE (read_readonly_file X t (JStr (team_receipt_path team_id)) ''team receipt'') (\<lambda>(_, rdig, rsz).
     bindE (jidx c ''contract_sha256'') (\<lambda>cs. bindE (jidx verified ''receipt_sha256'') (\<lambda>rs.
     (let row = JObj
            [(''team_id'', JStr team_id),
             (''delegation_contract'', JObj
                [(''path'', JStr (delegation_path team_id)), (''contract_sha256'', cs), (''file_sha256'', JStr dig),
                 (''size'', JInt (int sz))]),
             (''team_receipt'', JObj
                [(''path'', JStr (team_receipt_path team_id)), (''receipt_sha256'', rs), (''file_sha256'', JStr rdig),
                 (''size'', JInt (int rsz))])] in
     bindE (seal_team_paths sealed verified) (\<lambda>sealed'.
     Inr (rows @ [row], usages @ [usage], sealed')))))))))))"

definition build_root_receipt :: "ext \<Rightarrow> string \<Rightarrow> ftree \<Rightarrow> ftree \<Rightarrow> root_evidence \<Rightarrow> json result" where
  "build_root_receipt X now t ev e =
     bindE (require_directory t ''.'' ''orchestration root'') (\<lambda>_.
     bindE (require_directory ev ''.'' ''hierarchy evidence root'') (\<lambda>_.
     bindE (read_contract_set X t) (\<lambda>(h, delegations, manifest).
     bindE (teams_by_id delegations) (\<lambda>teams.
     bindE (read_readonly_file X t (JStr ''hierarchy.json'') ''hierarchy contract'') (\<lambda>(hdata, hdig, hsz).
     bindE (read_readonly_file X t (JStr ''contract-set.json'') ''hierarchy contract set'') (\<lambda>(mdata, mdig, msz).
     bindE (still_holds hdata h ''hierarchy contract changed during root receipt creation'') (\<lambda>_.
     bindE (still_holds mdata manifest ''hierarchy contract set changed during root receipt creation'') (\<lambda>_.
     bindE (mapE (journal_descriptor X t (map fst teams)) (rv_journals e)) (\<lambda>journal_rows.
     bindE (unique_journals journal_rows ''root'') (\<lambda>_.
     bindE (foldE (root_team_row X t ev h) ([], [], []) (sort_key fst teams)) (\<lambda>(rows, usages, sealed).
     bindE (validate_aggregate_budget_usage usages h) (\<lambda>_.
     bindE (mapE (artifact_descriptor X ev) (rv_bindings e)) (\<lambda>bindings.
     bindE (mapE (artifact_descriptor X ev) (rv_approvals e)) (\<lambda>approvals.
     bindE (unique_root_evidence bindings approvals) (\<lambda>_.
     bindE (check_root_overlaps sealed bindings approvals) (\<lambda>_.
     bindE (required_approvals teams) (\<lambda>needed.
     bindE (validate_required_evidence_kinds approvals needed ''root approval evidence'') (\<lambda>_.
     bindE (validated_text_list (rv_issues e) ''root receipt unresolved_issues'') (\<lambda>issues.
     bindE (raise_if (rv_outcome e \<notin> set ROOT_OUTCOMES) (''invalid root outcome: '' @ str_repr (rv_outcome e))) (\<lambda>_.
     bindE (jidx h ''orchestration_id'') (\<lambda>oid. bindE (jidx h ''identity_sha256'') (\<lambda>hid.
     (let receipt = sealed_with_digest X
            [(''schema'', JStr ROOT_RECEIPT_SCHEMA), (''version'', JInt 1), (''orchestration_id'', oid),
             (''hierarchy_identity_sha256'', hid),
             (''hierarchy_contract'', JObj
                [(''path'', JStr ''hierarchy.json''), (''schema'', JStr HIERARCHY_SCHEMA), (''file_sha256'', JStr hdig),
                 (''size'', JInt (int hsz))]),
             (''contract_set'', JObj
                [(''path'', JStr ''contract-set.json''), (''file_sha256'', JStr mdig), (''size'', JInt (int msz))]),
             (''root_journals'', JList (sort_by_label journal_rows)), (''teams'', JList rows),
             (''cross_team_bindings'', JList (sort_by_kind bindings)),
             (''approval_evidence'', JList (sort_by_kind approvals)), (''unresolved_issues'', issues),
             (''outcome'', JStr (rv_outcome e)), (''created_at'', JStr (or_default (rv_created e) now))] in
     bindE (validate_instance X receipt ROOT_RECEIPT_SCHEMA ''root orchestration receipt'') (\<lambda>_.
     Inr receipt))))))))))))))))))))))))"

definition create_root_receipt :: "ext \<Rightarrow> string \<Rightarrow> ftree \<Rightarrow> root_evidence \<Rightarrow> (ftree, json) op" where
  "create_root_receipt X now ev e =
     bindS (pureS (\<lambda>t. build_root_receipt X now t ev e)) (\<lambda>receipt.
     bindS (install_receipt ''root-receipt.json'' receipt) (\<lambda>_.
     pureS (\<lambda>t. verify_root_receipt X t ev)))"

subsection \<open>Nothing is written twice\<close>

lemma install_receipt_kept: "tree_kept t (fst (install_receipt p v t))"
  by (auto simp: install_receipt_def tree_kept_def Let_def split: sum.split)

lemma create_team_receipt_kept: "tree_kept t (fst (create_team_receipt X now ev h c e t))"
  unfolding create_team_receipt_def split_def by (intro tk.compose install_receipt_kept)

lemma create_root_receipt_kept: "tree_kept t (fst (create_root_receipt X now ev e t))"
  unfolding create_root_receipt_def by (intro tk.compose install_receipt_kept)

text \<open>The operations that write below an orchestration root, apart from the journals.\<close>

datatype hierarchy_command =
    Install json "json list"
  | Seal_Team string ftree json json team_evidence
  | Seal_Root string ftree root_evidence

fun run_hierarchy :: "ext \<Rightarrow> hierarchy_command \<Rightarrow> (ftree, json) op" where
  "run_hierarchy X (Install h ds) = install_contract_set X h ds"
| "run_hierarchy X (Seal_Team now ev h c e) = create_team_receipt X now ev h c e"
| "run_hierarchy X (Seal_Root now ev e) = create_root_receipt X now ev e"

text \<open>
  C32. A hierarchy is write-once: whatever contract sets are installed and whatever team and root
  receipts are created below a root, in whatever order, and however many of the operations raise
  half way, every file and directory that was there stays as it was, and everything new is a
  directory or a read-only file.
\<close>

theorem hierarchy_write_once: "tree_kept t (run_ops (run_hierarchy X) commands t)"
proof (rule tk.run)
  show "tree_kept t (fst (run_hierarchy X c t))" for c t
    by (cases c) (simp_all add: install_contract_set_kept create_team_receipt_kept create_root_receipt_kept)
qed

subsection \<open>Budgets of receipts\<close>

definition usage_of :: "json \<Rightarrow> string \<Rightarrow> int" where
  "usage_of receipt key = int_of (jget (jget receipt ''budget_usage'') key)"

lemma add_usage_sum:
  "foldE add_usage sums usages = Inr total' \<Longrightarrow>
     total' key = sums key + (\<Sum>u \<leftarrow> usages. int_of (jget u key))"
  by (induction usages arbitrary: sums) (auto simp: add_usage_def)

lemma check_aggregate_Inr: "check_aggregate sums (k, JInt i) = Inr u \<longleftrightarrow> sums k \<le> i"
  by (auto simp: check_aggregate_def)

text \<open>What the aggregated usages of a hierarchy stay below, where its budgets are integers.\<close>

definition within_budget :: "(string \<Rightarrow> int) \<Rightarrow> json \<Rightarrow> bool" where
  "within_budget used h \<longleftrightarrow>
     (\<forall>w c s r. budget_of h ''max_total_workers'' = JInt w \<longrightarrow> budget_of h ''max_concurrent_workers'' = JInt c \<longrightarrow>
        budget_of h ''max_wall_seconds'' = JInt s \<longrightarrow> budget_of h ''max_retries_per_worker'' = JInt r \<longrightarrow>
        used ''workers_started'' \<le> w \<and> used ''peak_concurrent_workers'' \<le> c \<and> used ''wall_seconds'' \<le> s
        \<and> used ''retries'' \<le> w * r)"

lemma aggregate_within:
  assumes "validate_aggregate_budget_usage usages h = Inr u"
  shows "within_budget (\<lambda>key. \<Sum>v \<leftarrow> usages. int_of (jget v key)) h"
  unfolding within_budget_def
proof (intro allI impI)
  fix w c s r
  assume b: "budget_of h ''max_total_workers'' = JInt w" "budget_of h ''max_concurrent_workers'' = JInt c"
    "budget_of h ''max_wall_seconds'' = JInt s" "budget_of h ''max_retries_per_worker'' = JInt r"
  from assms b obtain sums where f: "foldE add_usage (\<lambda>_. 0) usages = Inr sums"
    and l: "sums ''workers_started'' \<le> w" "sums ''peak_concurrent_workers'' \<le> c" "sums ''wall_seconds'' \<le> s"
    "sums ''retries'' \<le> w * r"
    by (auto simp: validate_aggregate_budget_usage_def budget_of_def check_aggregate_Inr py_mul_def integral_def
        dest!: jidx_jget)
  let ?used = "\<lambda>key. \<Sum>v \<leftarrow> usages. int_of (jget v key)"
  have "sums key = ?used key" for key using add_usage_sum [OF f, of key] by simp
  with l show "?used ''workers_started'' \<le> w \<and> ?used ''peak_concurrent_workers'' \<le> c \<and> ?used ''wall_seconds'' \<le> s
      \<and> ?used ''retries'' \<le> w * r" by simp
qed

subsection \<open>What a verified root receipt establishes\<close>

definition shared_path :: "json \<Rightarrow> json \<Rightarrow> bool" where
  "shared_path a b \<longleftrightarrow>
     (\<exists>ps qs p. evidence_paths a = Inr ps \<and> evidence_paths b = Inr qs \<and> JStr p \<in> set ps \<and> JStr p \<in> set qs)"

lemma raise_names_Inr [simp]: "raise_names vs prefix = Inr u \<longleftrightarrow> vs = []"
  by (auto simp: raise_names_def)

lemma seal_team_paths_Inr:
  assumes "seal_team_paths sealed v = Inr sealed'"
  shows "\<exists>ps. evidence_paths v = Inr ps \<and> sealed' = sealed @ ps \<and> (\<forall>p. JStr p \<in> set sealed \<longrightarrow> JStr p \<notin> set ps)"
  using assms
  by (auto simp: seal_team_paths_def raise_overlap_def filter_empty_conv py_in_def) (metis py_eq_JStr)

text \<open>The teams verified so far with their receipts.\<close>

definition team_receipts :: "ext \<Rightarrow> ftree \<Rightarrow> ftree \<Rightarrow> json \<Rightarrow> (string \<times> json) list \<Rightarrow> root_state \<Rightarrow> (string \<times> json) list \<Rightarrow> bool" where
  "team_receipts X t ev h teams st rs \<longleftrightarrow>
     (case st of (seen, usages, sealed) \<Rightarrow>
      seen = map (JStr \<circ> fst) rs \<and> distinct (map fst rs) \<and> usages = map (\<lambda>(_, v). jget v ''budget_usage'') rs
      \<and> (\<forall>(team, v) \<in> set rs. \<exists>c. map_of teams team = Some c
           \<and> verify_team_receipt X t ev h c (Some (team_receipt_path team)) = Inr v)
      \<and> sorted_wrt (\<lambda>a b. \<not> shared_path (snd a) (snd b)) rs
      \<and> (\<forall>(_, v) \<in> set rs. \<exists>ps. evidence_paths v = Inr ps \<and> set ps \<subseteq> set sealed))"

lemma verify_root_team_Inr:
  assumes "verify_root_team X t ev h teams (seen, usages, sealed) entry = Inr st"
  obtains team c v sealed' where "map_of teams team = Some c" "JStr team \<notin> set seen"
    "verify_team_receipt X t ev h c (Some (team_receipt_path team)) = Inr v"
    "seal_team_paths sealed v = Inr sealed'"
    "st = (seen @ [JStr team], usages @ [jget v ''budget_usage''], sealed')"
  using assms
  by (auto simp: verify_root_team_def Let_def is_str_conv split: option.splits if_splits prod.splits dest!: jidx_jget)

lemma verify_root_team_step:
  assumes "verify_root_team X t ev h teams st entry = Inr st'" and "team_receipts X t ev h teams st rs"
  shows "\<exists>rs'. team_receipts X t ev h teams st' rs'"
proof -
  obtain seen usages sealed where st: "st = (seen, usages, sealed)" by (cases st)
  from assms(1) [unfolded st] show ?thesis
  proof (rule verify_root_team_Inr)
    fix team c v sealed'
    assume v: "map_of teams team = Some c" "JStr team \<notin> set seen"
      "verify_team_receipt X t ev h c (Some (team_receipt_path team)) = Inr v"
      and s: "seal_team_paths sealed v = Inr sealed'"
      and st': "st' = (seen @ [JStr team], usages @ [jget v ''budget_usage''], sealed')"
    from s obtain ps where ps: "evidence_paths v = Inr ps" "sealed' = sealed @ ps"
      "\<forall>p. JStr p \<in> set sealed \<longrightarrow> JStr p \<notin> set ps"
      using seal_team_paths_Inr by blast
    from assms(2) v ps show ?thesis
      by (intro exI [of _ "rs @ [(team, v)]"])
        (auto simp: team_receipts_def st st' sorted_wrt_append shared_path_def image_iff split_def; fastforce)
  qed
qed

lemma verify_root_teams:
  assumes "foldE (verify_root_team X t ev h teams) ([], [], []) entries = Inr st"
  shows "\<exists>rs. team_receipts X t ev h teams st rs"
proof (rule foldE_invariant [OF assms])
  show "\<exists>rs. team_receipts X t ev h teams ([], [], []) rs" by (rule exI [of _ "[]"]) (simp add: team_receipts_def)
qed (use verify_root_team_step in blast)

lemma verify_root_receipt_Inr:
  assumes "verify_root_receipt X t ev = Inr r"
  obtains h ds m teams entries seen usages sealed where "read_contract_set X t = Inr (h, ds, m)"
    "teams_by_id ds = Inr teams"
    "foldE (verify_root_team X t ev h teams) ([], [], []) entries = Inr (seen, usages, sealed)"
    "set seen = (JStr \<circ> fst) ` set teams" "validate_aggregate_budget_usage usages h = Inr ()"
    "jget r ''receipt_sha256'' = JStr (identity_digest X r ''receipt_sha256'')"
  using assms unfolding verify_root_receipt_def
  by (auto simp del: mapE.simps foldE.simps as_str_Inr hashed_Inr)


subsection \<open>What a verified team receipt establishes\<close>

lemma verify_team_receipt_Inr:
  assumes "verify_team_receipt X t ev h c path = Inr r"
  obtains workers reviews usage where "items_of r ''workers'' = Inr workers" "items_of r ''review_evidence'' = Inr reviews"
    "validate_team_delegation_contract X c h = Inr ()"
    "validate_worker_evidence workers c = Inr ()" "verify_workers X ev workers = Inr ()"
    "verify_reviews X ev c reviews = Inr ()"
    "validate_budget_usage (jget r ''budget_usage'') c (length workers) = Inr usage"
  using assms unfolding verify_team_receipt_def
  by (auto simp del: mapE.simps foldE.simps as_str_Inr hashed_Inr dest!: jidx_jget)

text \<open>A descriptor whose file is there, read-only, with the digest it names.\<close>

definition sealed_on_disk :: "ext \<Rightarrow> ftree \<Rightarrow> json \<Rightarrow> bool" where
  "sealed_on_disk X ev d \<longleftrightarrow>
     (\<exists>p data. jget d ''path'' = JStr p \<and> read_tree_file ev p = Inr (data, False)
        \<and> jget d ''sha256'' = JStr (DIGEST_PREFIX @ sha256 X data))"

lemma dget_Inr [simp]: "dget v k = Inr x \<longleftrightarrow> is_obj v \<and> x = jget v k"
  by (auto simp: dget_def)

lemma verify_artifact_descriptor_Inr:
  "verify_artifact_descriptor X ev label d = Inr u \<Longrightarrow> sealed_on_disk X ev d"
  by (auto simp: verify_artifact_descriptor_def read_readonly_file_def relative_def sealed_on_disk_def is_str_conv)

lemma worker_step_Inr:
  "worker_step needed (ws, ps) w = Inr st \<Longrightarrow>
     \<exists>rid ps'. jget w ''run_id'' = JStr rid \<and> rid \<notin> set ws \<and> st = (rid # ws, ps')
       \<and> is_list (jget w ''artifacts'') \<and> list_items (jget w ''artifacts'') \<noteq> []"
  by (auto simp: worker_step_def is_str_conv Let_def split: if_splits)

lemma worker_loop_ids:
  "foldE (worker_step needed) (ws, ps) workers = Inr st \<Longrightarrow>
     distinct (map (\<lambda>w. jget w ''run_id'') workers)
     \<and> (\<forall>w \<in> set workers. \<exists>rid. jget w ''run_id'' = JStr rid \<and> rid \<notin> set ws \<and> list_items (jget w ''artifacts'') \<noteq> [])"
proof (induction workers arbitrary: ws ps)
  case (Cons w workers)
  then obtain st1 where s: "worker_step needed (ws, ps) w = Inr st1" "foldE (worker_step needed) st1 workers = Inr st"
    by auto
  from worker_step_Inr [OF s(1)] obtain rid ps' where w: "jget w ''run_id'' = JStr rid" "rid \<notin> set ws"
    "st1 = (rid # ws, ps')" "list_items (jget w ''artifacts'') \<noteq> []" by blast
  from Cons.IH [OF s(2) [unfolded w(3)]] w show ?case by (force simp: image_iff)
qed simp

lemma verify_workers_Inr:
  assumes "verify_workers X ev workers = Inr u" and "w \<in> set workers"
    and "list_items (jget w ''artifacts'') \<noteq> []"
  shows "\<exists>rows. items_of w ''artifacts'' = Inr rows \<and> rows \<noteq> [] \<and> (\<forall>d \<in> set rows. sealed_on_disk X ev d)"
proof -
  from assms(1) obtain us where "mapE (\<lambda>w.
         bindE (jidx w ''run_id'') (\<lambda>rid.
         bindE (items_of w ''artifacts'') (\<lambda>rows.
         mapE (verify_artifact_descriptor X ev (''worker '' @ py_str rid @ '' evidence'')) rows))) workers = Inr us"
    by (auto simp: verify_workers_def)
  from mapE_units [OF this assms(2)] obtain rid rows vs where r: "items_of w ''artifacts'' = Inr rows"
    and v: "mapE (verify_artifact_descriptor X ev (''worker '' @ py_str rid @ '' evidence'')) rows = Inr vs" by auto
  have "sealed_on_disk X ev d" if "d \<in> set rows" for d
    using mapE_units [OF v that] verify_artifact_descriptor_Inr by blast
  moreover have "rows \<noteq> []"
    using r assms(3) by (cases "jget w ''artifacts''") (auto simp: items_of_def py_iter_def dest!: jidx_jget)
  ultimately show ?thesis using r by blast
qed

lemma check_usage_Inr:
  "check_usage usage limits (uk, lk) = Inr u \<Longrightarrow> py_gt (jget usage uk) (jget limits lk) = Inr False"
  by (auto simp: check_usage_def dest!: jidx_jget)

lemma validate_budget_usage_Inr:
  assumes "validate_budget_usage usage c n = Inr r"
  shows "jget usage ''workers_started'' = JInt (int n)"
    and "(uk, lk) \<in> set USAGE_LIMITS \<Longrightarrow> py_gt (jget usage uk) (budget_of c lk) = Inr False"
proof -
  from assms have "is_obj usage"
    by (auto simp: validate_budget_usage_def as_dict_def BUDGET_USAGE_KEYS_def split: if_splits)
  with assms obtain us where m: "mapE (check_usage usage (jget c ''budgets'')) USAGE_LIMITS = Inr us"
    and "jget usage ''workers_started'' = JInt (int n)"
    by (auto simp: validate_budget_usage_def as_dict_def simp del: mapE.simps dest!: jidx_jget)
  then show "jget usage ''workers_started'' = JInt (int n)" by simp
  show "(uk, lk) \<in> set USAGE_LIMITS \<Longrightarrow> py_gt (jget usage uk) (budget_of c lk) = Inr False"
    using mapE_units [OF m, of "(uk, lk)"] by (auto simp: budget_of_def dest: check_usage_Inr)
qed

text \<open>
  C30. A team receipt that verifies is backed by the files it seals and stays within the delegation.
  The contract still narrows the hierarchy; the workers are distinct and each has evidence; every
  file named as evidence of a worker is there, read-only, with the recorded digest; the number of
  workers started is the number of workers sealed; and every usage is at most the budget of the
  team, where both are integers.
\<close>

theorem team_receipt_sound:
  assumes "verify_team_receipt X t ev h c path = Inr r"
  shows "\<exists>workers. items_of r ''workers'' = Inr workers \<and> validate_team_delegation_contract X c h = Inr ()
    \<and> distinct (map (\<lambda>w. jget w ''run_id'') workers)
    \<and> (\<forall>w \<in> set workers. \<exists>rows. items_of w ''artifacts'' = Inr rows \<and> rows \<noteq> [] \<and> (\<forall>d \<in> set rows. sealed_on_disk X ev d))
    \<and> usage_of r ''workers_started'' = int (length workers)
    \<and> (\<forall>(uk, lk) \<in> set USAGE_LIMITS. \<forall>i j. jget (jget r ''budget_usage'') uk = JInt i \<longrightarrow> budget_of c lk = JInt j \<longrightarrow> i \<le> j)"
proof (rule verify_team_receipt_Inr [OF assms], intro exI conjI)
  fix workers reviews usage
  assume w: "items_of r ''workers'' = Inr workers" and c: "validate_team_delegation_contract X c h = Inr ()"
    and e: "validate_worker_evidence workers c = Inr ()" and v: "verify_workers X ev workers = Inr ()"
    and b: "validate_budget_usage (jget r ''budget_usage'') c (length workers) = Inr usage"
  from e obtain needed st where "foldE (worker_step needed) ([], []) workers = Inr st"
    by (auto simp: validate_worker_evidence_def)
  note ids = worker_loop_ids [OF this]
  show "items_of r ''workers'' = Inr workers" "validate_team_delegation_contract X c h = Inr ()" by (fact w c)+
  show "distinct (map (\<lambda>w. jget w ''run_id'') workers)" using ids by blast
  show "\<forall>w \<in> set workers. \<exists>rows. items_of w ''artifacts'' = Inr rows \<and> rows \<noteq> [] \<and> (\<forall>d \<in> set rows. sealed_on_disk X ev d)"
    using verify_workers_Inr [OF v] ids by blast
  show "usage_of r ''workers_started'' = int (length workers)"
    using validate_budget_usage_Inr(1) [OF b] by (simp add: usage_of_def)
  show "\<forall>(uk, lk) \<in> set USAGE_LIMITS. \<forall>i j. jget (jget r ''budget_usage'') uk = JInt i \<longrightarrow> budget_of c lk = JInt j \<longrightarrow> i \<le> j"
    using validate_budget_usage_Inr(2) [OF b] by fastforce
qed

subsection \<open>A closed hierarchy\<close>

definition closed_evidence :: ftree where
  "closed_evidence = \<lparr>t_above = [], t_name = ''e'', t_parent = True,
     t_entries = [(''.'', RDir), (''log.txt'', RFile ''x'' 1 False)]\<rparr>"

definition closed_contract :: json where
  "closed_contract = JObj
     [(''path'', JStr (delegation_path ''a'')), (''contract_sha256'', JStr ''sha256:d''), (''file_sha256'', JStr ''sha256:d''),
      (''size'', JInt 506)]"

definition closed_team :: json where
  "closed_team = canon (JObj
     [(''schema'', JStr TEAM_RECEIPT_SCHEMA), (''orchestration_id'', JStr ''o''), (''team_id'', JStr ''a''),
      (''hierarchy_identity_sha256'', JStr ''sha256:d''), (''delegation_contract'', closed_contract),
      (''journals'', JList []),
      (''workers'', JList [JObj [(''run_id'', JStr ''w1''), (''artifacts'', JList [JObj
         [(''kind'', JStr ''log''), (''path'', JStr ''log.txt''), (''sha256'', JStr ''sha256:d''), (''size'', JInt 1)]])]]),
      (''review_evidence'', JList []),
      (''budget_usage'', JObj [(''workers_started'', JInt 1), (''peak_concurrent_workers'', JInt 1), (''retries'', JInt 0),
                               (''wall_seconds'', JInt 10)]),
      (''terminal_disposition'', JStr ''completed''), (''receipt_sha256'', JStr ''sha256:d'')])"

definition closed_root :: json where
  "closed_root = canon (JObj
     [(''schema'', JStr ROOT_RECEIPT_SCHEMA), (''orchestration_id'', JStr ''o''),
      (''hierarchy_identity_sha256'', JStr ''sha256:d''),
      (''hierarchy_contract'', JObj [(''path'', JStr ''hierarchy.json''), (''file_sha256'', JStr ''sha256:d''),
         (''size'', JInt 422)]),
      (''contract_set'', JObj [(''path'', JStr ''contract-set.json''), (''file_sha256'', JStr ''sha256:d''),
         (''size'', JInt 306)]),
      (''root_journals'', JList []),
      (''teams'', JList [JObj [(''team_id'', JStr ''a''), (''delegation_contract'', closed_contract),
         (''team_receipt'', JObj [(''path'', JStr (team_receipt_path ''a'')), (''receipt_sha256'', JStr ''sha256:d''),
            (''file_sha256'', JStr ''sha256:d''), (''size'', JInt 546)])]]),
      (''cross_team_bindings'', JList []), (''approval_evidence'', JList []), (''outcome'', JStr ''completed''),
      (''receipt_sha256'', JStr ''sha256:d'')])"

definition closed_tree :: ftree where
  "closed_tree = set_tree\<lparr>t_entries := t_entries set_tree
     @ [(team_receipt_path ''a'', set_file closed_team), (''root-receipt.json'', set_file closed_root)]\<rparr>"

lemma closed_values: "settled closed_team" "settled closed_root"
  by code_simp+

lemma closed_entries:
  "tree_entry closed_tree ''.'' = Some RDir" "tree_entry closed_tree ''hierarchy.json'' = Some (set_file set_hierarchy)"
  "tree_entry closed_tree ''contract-set.json'' = Some (set_file set_manifest)"
  "tree_entry closed_tree (delegation_path ''a'') = Some (set_file set_team)"
  "tree_entry closed_tree (team_receipt_path ''a'') = Some (set_file closed_team)"
  "tree_entry closed_tree ''root-receipt.json'' = Some (set_file closed_root)"
  "dirs_real closed_tree ''.''" "dirs_real closed_tree ''hierarchy.json''" "dirs_real closed_tree ''contract-set.json''"
  "dirs_real closed_tree (delegation_path ''a'')" "dirs_real closed_tree (team_receipt_path ''a'')"
  "dirs_real closed_tree ''root-receipt.json''"
  by (simp_all add: tree_entry_def closed_tree_def set_tree_def delegation_path_def team_receipt_path_def dirs_real_def
      parent_dirs_def path_parts_def upt_rec)

lemmas closed_facts = closed_values set_values closed_entries

lemma closed_digest: "DIGEST_PREFIX @ sha256 demo_ext x = ''sha256:d''" "identity_digest demo_ext v k = ''sha256:d''"
  by (simp_all add: DIGEST_PREFIX_def demo_ext_def identity_digest_def)

lemma read_set_labelled:
  assumes "settled v" and "tree_entry t p = Some (set_file v)" and "dirs_real t p"
  shows "read_labelled_json t p label = Inr v" and "loads_utf8 (dumps False v) = Some v"
proof -
  have v: "plain v" "ascii_json v" "is_obj v" "canon v = v" using assms(1) by (simp_all add: settled_def)
  show l: "loads_utf8 (dumps False v) = Some v"
    using v loads_dumps [OF v(1)] by (simp add: loads_utf8_def utf8_valid_dumps)
  with read_set_file [OF assms] v(3) show "read_labelled_json t p label = Inr v" by (simp add: read_labelled_json_def)
qed

lemma closed_readonly:
  assumes "settled v" and "tree_entry closed_tree p = Some (set_file v)" and "dirs_real closed_tree p" and "relative_path_ok (JStr p)"
  shows "read_readonly_file demo_ext closed_tree (JStr p) label = Inr (dumps False v, ''sha256:d'', length (dumps False v))"
  using read_set_file [OF assms(1-3)] assms(4) closed_entries(1,7)
  by (simp add: read_readonly_file_def relative_def validate_relative_path_def require_directory_def closed_digest)

lemma closed_paths:
  "relative_path_ok (JStr (delegation_path ''a''))" "relative_path_ok (JStr (team_receipt_path ''a''))"
  "relative_path_ok (JStr ''hierarchy.json'')" "relative_path_ok (JStr ''contract-set.json'')"
  "relative_path_ok (JStr ''log.txt'')"
  by code_simp+

lemma closed_sizes:
  "length (dumps False set_team) = 506" "length (dumps False set_hierarchy) = 422" "length (dumps False set_manifest) = 306"
  "length (dumps False closed_team) = 546"
  by code_simp+

lemma closed_evidence_entries:
  "tree_entry closed_evidence ''.'' = Some RDir" "tree_entry closed_evidence ''log.txt'' = Some (RFile ''x'' 1 False)"
  "dirs_real closed_evidence ''.''" "dirs_real closed_evidence ''log.txt''"
  by (simp_all add: tree_entry_def closed_evidence_def dirs_real_def parent_dirs_def path_parts_def upt_rec)

lemma closed_log: "read_readonly_file demo_ext closed_evidence (JStr ''log.txt'') label = Inr (''x'', ''sha256:d'', 1)"
  using closed_paths(5) closed_evidence_entries
  by (simp add: read_readonly_file_def relative_def validate_relative_path_def require_directory_def closed_digest
      read_tree_file_def read_regular_file_def entry_writable_def MAX_VALIDATED_FILE_BYTES_def)

definition closed_workers :: "json list" where
  "closed_workers = [JObj
     [(''artifacts'', JList [JObj
         [(''kind'', JStr ''log''), (''path'', JStr ''log.txt''), (''sha256'', JStr ''sha256:d''), (''size'', JInt 1)]]),
      (''run_id'', JStr ''w1'')]]"

definition closed_usage :: json where
  "closed_usage = JObj [(''peak_concurrent_workers'', JInt 1), (''retries'', JInt 0), (''wall_seconds'', JInt 10),
     (''workers_started'', JInt 1)]"

lemma closed_team_fields:
  "raise_any [differs_in closed_team set_hierarchy ''orchestration_id'' ''orchestration_id'',
     differs closed_team ''team_id'' (JStr ''a''),
     differs_in closed_team set_hierarchy ''hierarchy_identity_sha256'' ''identity_sha256''] m = Inr ()"
  "jidx closed_team ''delegation_contract'' = Inr (canon closed_contract)"
  "jidx (canon closed_contract) ''path'' = Inr (JStr (delegation_path ''a''))"
  "raise_any [differs_in (canon closed_contract) set_team ''contract_sha256'' ''contract_sha256'',
     differs (canon closed_contract) ''file_sha256'' (JStr ''sha256:d''), differs (canon closed_contract) ''size'' (JInt 506)] m = Inr ()"
  "items_of closed_team ''journals'' = Inr []" "items_of closed_team ''workers'' = Inr closed_workers"
  "validate_worker_evidence closed_workers set_team = Inr ()"
  "items_of closed_team ''review_evidence'' = Inr []" "verify_reviews demo_ext closed_evidence set_team [] = Inr ()"
  "check_disjoint_reviews closed_workers [] = Inr ()"
  "jidx closed_team ''budget_usage'' = Inr closed_usage"
  "\<exists>u. validate_budget_usage closed_usage set_team 1 = Inr u"
  "jidx closed_team ''terminal_disposition'' = Inr (JStr ''completed'')"
  "jget closed_team ''receipt_sha256'' = JStr ''sha256:d''"
  by (code_simp, code_simp, code_simp, code_simp, code_simp, code_simp, code_simp, code_simp, code_simp, code_simp,
      code_simp, (rule exI [of _ closed_usage], code_simp), code_simp, code_simp)

lemma closed_workers_verified: "verify_workers demo_ext closed_evidence closed_workers = Inr ()"
  using closed_log
  by (simp add: verify_workers_def closed_workers_def items_of_def py_iter_def jaccess verify_artifact_descriptor_def
      dget_def)

lemma closed_contract_installed:
  "installed_contract demo_ext closed_tree (JStr (delegation_path ''a'')) set_team m = Inr (''sha256:d'', 506)"
proof -
  note r = closed_readonly [OF set_values(2) closed_entries(4,10) closed_paths(1)]
  have "py_eq (canon set_team) set_team" using set_values(2) by (intro py_eq_canon) (simp add: settled_def)
  then have "py_eq set_team set_team" using set_values(2) by (simp add: settled_def)
  with read_set_labelled(2) [OF set_values(2) closed_entries(4,10)] show ?thesis
    by (simp add: installed_contract_def r closed_sizes)
qed

lemma closed_team_verified:
  "verify_team_receipt demo_ext closed_tree closed_evidence set_hierarchy set_team (Some (team_receipt_path ''a''))
     = Inr closed_team"
proof -
  obtain u where u: "validate_budget_usage closed_usage set_team (length closed_workers) = Inr u"
    using closed_team_fields(12) by (auto simp: closed_workers_def)
  have d: "or_default (Some (team_receipt_path ''a'')) x = team_receipt_path ''a''" for x
    by (simp add: or_default_def team_receipt_path_def)
  have v: "validate_instance demo_ext closed_team s a = Inr ()" for s a by (simp add: demo_ext_def)
  have j: "verify_journals demo_ext closed_tree [''a''] [] ''team'' = Inr ()"
    by (simp add: verify_journals_def unique_journals_def unique_descriptors_def)
  have t: "''completed'' \<in> set TEAM_DISPOSITIONS" by (simp add: TEAM_DISPOSITIONS_def)
  note r = read_set_labelled(1) [OF closed_values(1) closed_entries(5,11)]
  have g: "verify_digest demo_ext closed_team ''receipt_sha256'' m = Inr ()" for m
    using closed_team_fields(14) by (simp add: closed_digest)
  have dirs: "require_directory closed_tree ''.'' m = Inr ()" "require_directory closed_evidence ''.'' m = Inr ()" for m
    using closed_entries(1,7) closed_evidence_entries(1,3) by (simp_all add: require_directory_def)
  have rel: "relative (JStr (team_receipt_path ''a'')) m = Inr (team_receipt_path ''a'')" for m
    using closed_paths(2) by (simp add: relative_def validate_relative_path_def)
  show ?thesis
    unfolding verify_team_receipt_def
    by (simp only: set_valid dirs set_fields(3) as_str_def bindE_Inr is_str.simps if_True str_of.simps d rel r v g
        closed_team_fields(1-11) closed_team_fields(13) json.inject raise_if_False
        closed_contract_installed closed_workers_verified prod.case j u hashed_def is_list.simps is_obj.simps if_False
        t of_nat_numeral simp_thms)
qed

theorem team_receipt_sound_witness:
  "\<exists>r workers. verify_team_receipt demo_ext closed_tree closed_evidence set_hierarchy set_team (Some (team_receipt_path ''a''))
       = Inr r \<and> items_of r ''workers'' = Inr workers \<and> usage_of r ''workers_started'' = int (length workers)
     \<and> (\<forall>w \<in> set workers. \<exists>rows. items_of w ''artifacts'' = Inr rows \<and> rows \<noteq> [])"
  using team_receipt_sound [OF closed_team_verified] closed_team_verified by blast

lemma closed_set_reads: "read_contract_set demo_ext closed_tree = Inr (set_hierarchy, [set_team], set_manifest)"
proof -
  have e: "read_set_entry demo_ext closed_tree set_hierarchy (JObj
     [(''contract_sha256'', JStr ''sha256:d''), (''file_sha256'', JStr ''sha256:d''),
      (''path'', JStr (delegation_path ''a'')), (''team_id'', JStr ''a'')]) = Inr set_team"
    using read_set_file [OF set_values(2) closed_entries(4,10)] set_fields(2,8) set_valid(2)
    by (simp add: read_set_entry_def jget_fields closed_digest)
  show ?thesis
    using read_set_file [OF set_values(1) closed_entries(2,8)] read_set_file [OF set_values(3) closed_entries(3,9)]
      closed_entries(1,7)
    by (simp add: read_contract_set_def require_directory_def set_valid set_fields set_teams closed_digest e)
qed

lemma closed_root_fields:
  "raise_any [differs_in closed_root set_hierarchy ''orchestration_id'' ''orchestration_id'',
     differs_in closed_root set_hierarchy ''hierarchy_identity_sha256'' ''identity_sha256''] m = Inr ()"
  "items_of closed_root ''root_journals'' = Inr []" "items_of closed_root ''cross_team_bindings'' = Inr []"
  "items_of closed_root ''approval_evidence'' = Inr []" "jidx closed_root ''outcome'' = Inr (JStr ''completed'')"
  "jget closed_root ''receipt_sha256'' = JStr ''sha256:d''"
  "jidx closed_root ''hierarchy_contract'' = Inr (JObj [(''file_sha256'', JStr ''sha256:d''), (''path'', JStr ''hierarchy.json''), (''size'', JInt 422)])"
  "jidx closed_root ''contract_set'' = Inr (JObj [(''file_sha256'', JStr ''sha256:d''), (''path'', JStr ''contract-set.json''), (''size'', JInt 306)])"
  "required_approvals [(''a'', set_team)] = Inr []"
  "teams_by_id [set_team] = Inr [(''a'', set_team)]"
  by code_simp+

definition closed_entry :: json where
  "closed_entry = JObj
     [(''delegation_contract'', canon closed_contract), (''team_id'', JStr ''a''),
      (''team_receipt'', JObj [(''file_sha256'', JStr ''sha256:d''), (''path'', JStr (team_receipt_path ''a'')),
         (''receipt_sha256'', JStr ''sha256:d''), (''size'', JInt 546)])]"

lemma closed_entries_of_root: "items_of closed_root ''teams'' = Inr [closed_entry]"
  by code_simp

lemma closed_usage_within: "validate_aggregate_budget_usage [closed_usage] set_hierarchy = Inr ()"
  by code_simp

lemma closed_seal_paths: "seal_team_paths [] closed_team = Inr [JStr ''log.txt'']"
  by code_simp

lemma closed_entry_fields:
  "jidx closed_entry ''team_id'' = Inr (JStr ''a'')" "jidx closed_entry ''delegation_contract'' = Inr (canon closed_contract)"
  "raise_any [differs (canon closed_contract) ''path'' (JStr (delegation_path ''a''))] m = Inr ()"
  "jidx closed_entry ''team_receipt'' = Inr (JObj [(''file_sha256'', JStr ''sha256:d''), (''path'', JStr (team_receipt_path ''a'')),
     (''receipt_sha256'', JStr ''sha256:d''), (''size'', JInt 546)])"
  by code_simp+

lemma jidx_fields: "jidx (JObj kvs) k = (case map_of kvs k of None \<Rightarrow> Inl (KeyError k) | Some x \<Rightarrow> Inr x)"
  by (simp add: jidx_def jlookup_JObj)

lemma closed_team_step:
  "verify_root_team demo_ext closed_tree closed_evidence set_hierarchy [(''a'', set_team)] ([], [], []) closed_entry
     = Inr ([JStr ''a''], [closed_usage], [JStr ''log.txt''])"
proof -
  have r: "jidx closed_team ''receipt_sha256'' = Inr (JStr ''sha256:d'')" by code_simp
  have contract_digest: "jidx (canon closed_contract) ''contract_sha256'' = Inr (JStr ''sha256:d'')"
    "jidx (canon closed_contract) ''file_sha256'' = Inr (JStr ''sha256:d'')"
    "jidx (canon closed_contract) ''size'' = Inr (JInt 506)" "jidx set_team ''contract_sha256'' = Inr (JStr ''sha256:d'')"
    by code_simp+
  note f = closed_readonly [OF set_values(2) closed_entries(4,10) closed_paths(1)]
    closed_readonly [OF closed_values(1) closed_entries(5,11) closed_paths(2)]
  show ?thesis
    by (simp add: verify_root_team_def closed_entry_fields hashed_def f closed_sizes closed_team_fields(4,11)
        closed_team_verified closed_seal_paths Let_def raise_any_def differs_def differs_in_def r jidx_fields
        closed_team_fields(3) contract_digest)
qed

lemma closed_root_contracts:
  "verify_root_contract demo_ext closed_tree closed_root (''hierarchy_contract'', set_hierarchy) = Inr ()"
  "verify_root_contract demo_ext closed_tree closed_root (''contract_set'', set_manifest) = Inr ()"
proof -
  have p: "py_eq v v" if "settled v" for v
    using that py_eq_canon [of v] by (simp add: settled_def)
  note f = closed_readonly [OF set_values(1) closed_entries(2,8) closed_paths(3)]
    closed_readonly [OF set_values(3) closed_entries(3,9) closed_paths(4)]
    read_set_labelled(2) [OF set_values(1) closed_entries(2,8)] read_set_labelled(2) [OF set_values(3) closed_entries(3,9)]
  show "verify_root_contract demo_ext closed_tree closed_root (''hierarchy_contract'', set_hierarchy) = Inr ()"
    "verify_root_contract demo_ext closed_tree closed_root (''contract_set'', set_manifest) = Inr ()"
    using p [OF set_values(1)] p [OF set_values(3)]
    by (simp_all add: verify_root_contract_def closed_root_fields(7,8) jidx_fields f closed_sizes
        raise_any_def differs_def)
qed

lemma closed_root_verified: "verify_root_receipt demo_ext closed_tree closed_evidence = Inr closed_root"
proof -
  have v: "validate_instance demo_ext closed_root s a = Inr ()" for s a by (simp add: demo_ext_def)
  have dirs: "require_directory closed_tree ''.'' m = Inr ()" "require_directory closed_evidence ''.'' m = Inr ()" for m
    using closed_entries(1,7) closed_evidence_entries(1,3) by (simp_all add: require_directory_def)
  have g: "verify_digest demo_ext closed_root ''receipt_sha256'' m = Inr ()" for m
    using closed_root_fields(6) by (simp add: closed_digest)
  have j: "verify_journals demo_ext closed_tree ids [] ''root'' = Inr ()" for ids
    by (simp add: verify_journals_def unique_journals_def unique_descriptors_def)
  have o: "''completed'' \<in> set ROOT_OUTCOMES" by (simp add: ROOT_OUTCOMES_def)
  have e: "unique_root_evidence [] [] = Inr ()" "check_root_overlaps ps [] [] = Inr ()"
    "validate_required_evidence_kinds [] [] m = Inr ()" for ps m
    by (simp_all add: unique_root_evidence_def unique_evidence_def unique_descriptors_def check_root_overlaps_def
        paths_of_def raise_overlap_def validate_required_evidence_kinds_def missing_kinds_def py_in_def)
  show ?thesis
    unfolding verify_root_receipt_def
    by (simp add: dirs closed_set_reads closed_root_fields(1-5,9,10) g v j closed_root_contracts
        read_set_labelled(1) [OF closed_values(2) closed_entries(6,12)] closed_entries_of_root closed_team_step
        closed_usage_within e hashed_def o del: validate_instance_Inr verify_digest_Inr)
qed


end
