(* ===== verification/Messages.thy ===== *)
theory Messages
  imports Hierarchy_Journal Run_Lifecycle
begin

text \<open>
  \<open>messages.py\<close>: the message log of an agent run, which parent and child append to. The theory
  holds the validation of one message, the conditions on a log as a whole, appending and replay.
  The reading of JSON values (\<open>hashed\<close>, \<open>code_points\<close>) is shared with the hierarchy theories. The
  control bridge of sandboxed children and the waiting loop, which polls \<open>replay_messages\<close>, are
  not modelled; \<open>uuid4\<close> and the clock are arguments.
\<close>

subsection \<open>UUID texts\<close>

definition is_hex :: "char \<Rightarrow> bool" where
  "is_hex c \<longleftrightarrow> is_digit c \<or> (CHR ''a'' \<le> c \<and> c \<le> CHR ''f'') \<or> (CHR ''A'' \<le> c \<and> c \<le> CHR ''F'')"

text \<open>\<open>s.replace(p, "")\<close> for a pattern that is not empty.\<close>

function py_remove :: "string \<Rightarrow> string \<Rightarrow> string" where
  "py_remove p s =
     (case s of
        [] \<Rightarrow> []
      | c # r \<Rightarrow> if p \<noteq> [] \<and> startswith s p then py_remove p (drop (length p) s) else c # py_remove p r)"
  by pat_completeness auto
termination
  by (relation "measure (length \<circ> snd)") (auto simp: neq_Nil_conv)

declare py_remove.simps [simp del]

text \<open>Hexadecimal digits, single underscores between them.\<close>

fun hex_run :: "string \<Rightarrow> bool" where
  "hex_run [] = False"
| "hex_run [c] = is_hex c"
| "hex_run (c # d # r) = (is_hex c \<and> (if d = CHR ''_'' then hex_run r else hex_run (d # r)))"

text \<open>Whether \<open>int(s, 16)\<close> returns, for ASCII text without a minus sign.\<close>

definition int16_parses :: "string \<Rightarrow> bool" where
  "int16_parses s =
     (let t = py_strip s;
          u = (case t of c # r \<Rightarrow> if c = CHR ''+'' then r else t | [] \<Rightarrow> []) in
      case u of
        z # x # r \<Rightarrow>
          if z = CHR ''0'' \<and> (x = CHR ''x'' \<or> x = CHR ''X'')
          then hex_run (case r of c # r' \<Rightarrow> if c = CHR ''_'' then r' else r | [] \<Rightarrow> [])
          else hex_run u
      | _ \<Rightarrow> hex_run u)"

definition strip_braces :: "string \<Rightarrow> string" where
  "strip_braces s =
     (let b = (\<lambda>c. c = CHR ''{'' \<or> c = CHR ''}'') in rev (dropWhile b (rev (dropWhile b s))))"

text \<open>Whether \<open>uuid.UUID(s)\<close> returns.\<close>

definition uuid_parses :: "string \<Rightarrow> bool" where
  "uuid_parses s =
     (let h = py_remove ''-'' (strip_braces (py_remove ''uuid:'' (py_remove ''urn:'' s)))
      in length h = 32 \<and> int16_parses h)"

text \<open>
  \<open>str(uuid.UUID(s)) == s.lower()\<close>: the left side always has the form 8-4-4-4-12 in lower case, so
  the two agree exactly when the right side has it.
\<close>

definition UUID_FORM :: string where
  "UUID_FORM = ''xxxxxxxx-xxxx-xxxx-xxxx-xxxxxxxxxxxx''"

definition uuid_canonical :: "string \<Rightarrow> bool" where
  "uuid_canonical s \<longleftrightarrow> list_all2 (\<lambda>p c. if p = CHR ''-'' then c = CHR ''-'' else is_hex c) UUID_FORM (py_lower s)"

definition uuid_text :: "json \<Rightarrow> string \<Rightarrow> string result" where
  "uuid_text v label =
     (if \<not> is_str v \<or> \<not> uuid_parses (str_of v) then Inl (WorkflowError (label @ '' must be a UUID string''))
      else if \<not> uuid_canonical (str_of v) then Inl (WorkflowError (label @ '' must be a canonical UUID string''))
      else Inr (str_of v))"

subsection \<open>One message\<close>

definition MESSAGE_SCHEMA :: string where
  "MESSAGE_SCHEMA = ''agent-workflow/agent-run-message/v1''"

definition MAX_CONTENT_CHARS :: nat where
  "MAX_CONTENT_CHARS = 16384"

definition MESSAGE_FIELDS :: "string list" where
  "MESSAGE_FIELDS =
     [''schema'', ''sequence'', ''message_id'', ''agent_run_id'', ''timestamp'', ''direction'', ''kind'', ''actor'', ''content'']"

definition DIRECTIONS :: "string list" where
  "DIRECTIONS = [''parent_to_child'', ''child_to_parent'']"

definition KIND_DIRECTIONS :: "(string \<times> string) list" where
  "KIND_DIRECTIONS =
     [(''steer'', ''parent_to_child''), (''progress'', ''child_to_parent''), (''ack'', ''child_to_parent''),
      (''error'', ''child_to_parent''), (''task_complete'', ''child_to_parent'')]"

definition one_of :: "json \<Rightarrow> string list \<Rightarrow> bool result" where
  "one_of v names = bindE (hashed v) (\<lambda>_. Inr (is_str v \<and> str_of v \<in> set names))"

definition check_fields :: "json \<Rightarrow> unit result" where
  "check_fields v =
     (let keys = map fst (obj_items v);
          missing = sort (filter (\<lambda>k. k \<notin> set keys) MESSAGE_FIELDS);
          unknown = sorted_set (filter (\<lambda>k. k \<notin> set MESSAGE_FIELDS \<and> k \<noteq> ''correlation_id'') keys)
      in raise_if (missing \<noteq> [] \<or> unknown \<noteq> [])
           (''invalid Agent Run message fields: missing='' @ py_repr (JList (map JStr missing))
            @ '', unknown='' @ py_repr (JList (map JStr unknown))))"

definition check_correlation :: "json \<Rightarrow> unit result" where
  "check_correlation v =
     (let c = jget v ''correlation_id''; k = jget v ''kind'' in
      bindE (if c = JNull then Inr () else bindE (uuid_text c ''correlation_id'') (\<lambda>_. Inr ())) (\<lambda>_.
      bindE (raise_if (k = JStr ''ack'' \<and> c = JNull) ''ack messages require correlation_id'') (\<lambda>_.
      raise_if (k \<noteq> JStr ''ack'' \<and> k \<noteq> JStr ''error'' \<and> c \<noteq> JNull)
        ''only ack and error messages may include correlation_id'')))"

definition check_content :: "json \<Rightarrow> unit result" where
  "check_content v =
     (let c = jget v ''content'' in
      bindE (raise_if (\<not> nonempty_str c) ''Agent Run message content must be non-empty'') (\<lambda>_.
      raise_if (MAX_CONTENT_CHARS < length (code_points (str_of c)))
        (''Agent Run message content exceeds '' @ nat_str MAX_CONTENT_CHARS @ '' characters'')))"

definition check_sequence :: "json \<Rightarrow> nat option \<Rightarrow> unit result" where
  "check_sequence v expected =
     (let q = jget v ''sequence'' in
      bindE (raise_if (\<not> is_int q \<or> is_bool q \<or> int_of q < 1) ''Agent Run message sequence must be a positive integer'') (\<lambda>_.
      (case expected of
         None \<Rightarrow> Inr ()
       | Some n \<Rightarrow> raise_if (int_of q \<noteq> int n)
           (''Agent Run message sequence mismatch: expected '' @ nat_str n @ '', got '' @ int_str (int_of q)))))"

definition check_identity :: "json \<Rightarrow> unit result" where
  "check_identity v =
     bindE (uuid_text (jget v ''message_id'') ''message_id'') (\<lambda>_.
     bindE (raise_if (\<not> is_str (jget v ''agent_run_id'')) ''agent_run_id must be a string'') (\<lambda>_.
     bindE (raise_if (\<not> is_str (jget v ''actor'')) ''actor must be a string'') (\<lambda>_.
     bindE (validate_id (str_of (jget v ''agent_run_id'')) ''agent run ID'') (\<lambda>_.
     bindE (validate_id (str_of (jget v ''actor'')) ''actor ID'') (\<lambda>_.
     raise_if (\<not> nonempty_str (jget v ''timestamp'')) ''Agent Run message timestamp must be non-empty'')))))"

definition check_kind :: "json \<Rightarrow> unit result" where
  "check_kind v =
     bindE (one_of (jget v ''direction'') DIRECTIONS) (\<lambda>known.
     bindE (raise_if (\<not> known) ''invalid Agent Run message direction'') (\<lambda>_.
     bindE (one_of (jget v ''kind'') (map fst KIND_DIRECTIONS)) (\<lambda>known_kind.
     bindE (raise_if (\<not> known_kind) ''invalid Agent Run message kind'') (\<lambda>_.
     (let k = str_of (jget v ''kind''); needed = the (map_of KIND_DIRECTIONS k) in
      raise_if (jget v ''direction'' \<noteq> JStr needed)
        (k @ '' messages must use '' @ needed @ '' direction''))))))"

definition validate_message :: "json \<Rightarrow> nat option \<Rightarrow> json result" where
  "validate_message v expected =
     bindE (raise_if (\<not> is_obj v) ''Agent Run message must be a JSON object'') (\<lambda>_.
     bindE (check_fields v) (\<lambda>_.
     bindE (raise_if (jget v ''schema'' \<noteq> JStr MESSAGE_SCHEMA)
             (''unsupported Agent Run message schema: '' @ py_repr (jget v ''schema''))) (\<lambda>_.
     bindE (check_sequence v expected) (\<lambda>_.
     bindE (check_identity v) (\<lambda>_.
     bindE (check_kind v) (\<lambda>_.
     bindE (check_content v) (\<lambda>_.
     bindE (check_correlation v) (\<lambda>_. Inr v))))))))"

definition validate_message_record :: "json \<Rightarrow> nat \<Rightarrow> json result" where
  "validate_message_record v line_number = validate_message v (Some line_number)"

definition canonical_message_bytes :: "json \<Rightarrow> string result" where
  "canonical_message_bytes m = bindE (validate_message m None) (\<lambda>_. Inr (dumps False m))"

definition message_digest :: "ext \<Rightarrow> json \<Rightarrow> string result" where
  "message_digest X m = bindE (canonical_message_bytes m) (\<lambda>b. Inr (''sha256:'' @ sha256 X b))"

subsection \<open>The log as a whole\<close>

text \<open>
  The conditions on a message after the ones before it. The check of a stored log and the check of
  an append word their errors differently; \<open>lt\<close> gives the wording.
\<close>

record log_texts =
  lt_mixed :: string
  lt_duplicate :: string
  lt_dangling :: string

definition check_after :: "log_texts \<Rightarrow> json list \<Rightarrow> json \<Rightarrow> unit result" where
  "check_after lt prior m =
     bindE (raise_if (prior \<noteq> [] \<and> jget m ''agent_run_id'' \<noteq> jget (hd prior) ''agent_run_id'') (lt_mixed lt)) (\<lambda>_.
     bindE (raise_if (\<exists>p \<in> set prior. jget p ''message_id'' = jget m ''message_id'') (lt_duplicate lt)) (\<lambda>_.
     (if jget m ''kind'' \<noteq> JStr ''ack'' then Inr ()
      else
        (let c = jget m ''correlation_id'' in
         bindE (raise_if (case List.find (\<lambda>p. jget p ''message_id'' = c) prior of
                            None \<Rightarrow> True | Some steer \<Rightarrow> jget steer ''kind'' \<noteq> JStr ''steer'') (lt_dangling lt)) (\<lambda>_.
         raise_if (\<exists>p \<in> set prior. jget p ''kind'' = JStr ''ack'' \<and> jget p ''correlation_id'' = c)
           ''steer request is already acknowledged'')))))"

definition LOG_TEXTS :: log_texts where
  "LOG_TEXTS = \<lparr>lt_mixed = ''Agent Run message log contains mixed agent run IDs'',
     lt_duplicate = ''Agent Run message log contains duplicate message_id'',
     lt_dangling = ''ack correlation_id must reference an earlier steer request''\<rparr>"

definition APPEND_TEXTS :: log_texts where
  "APPEND_TEXTS = \<lparr>lt_mixed = ''cannot append a different agent run ID to message log'',
     lt_duplicate = ''duplicate message_id'',
     lt_dangling = ''ack correlation_id must reference an existing steer request''\<rparr>"

fun log_loop :: "json list \<Rightarrow> json list \<Rightarrow> unit result" where
  "log_loop prior [] = Inr ()"
| "log_loop prior (m # ms) = bindE (check_after LOG_TEXTS prior m) (\<lambda>_. log_loop (prior @ [m]) ms)"

definition validate_message_log :: "json list \<Rightarrow> json list result" where
  "validate_message_log ms = bindE (log_loop [] ms) (\<lambda>_. Inr ms)"

definition validate_append_semantics :: "json list \<Rightarrow> json \<Rightarrow> unit result" where
  "validate_append_semantics existing m = check_after APPEND_TEXTS existing m"

subsection \<open>Appending and replay\<close>

text \<open>What the path of the run directory names, and its \<open>messages.jsonl\<close>.\<close>

record mailbox =
  mb_dir :: slot
  mb_log :: slot

definition message_log_path :: "(mailbox, unit) op" where
  "message_log_path b =
     (let b1 = (if mb_dir b = None then b\<lparr>mb_dir := Some Directory, mb_log := None\<rparr> else b) in
      if mb_dir b1 \<noteq> Some Directory
      then (b1, Inl (WorkflowError ''message run directory must be a real directory, not a symlink''))
      else
        (case mb_log b1 of
           None \<Rightarrow> (b1, Inr ())
         | Some (Regular d n) \<Rightarrow> (b1, Inr ())
         | Some _ \<Rightarrow> (b1, Inl (WorkflowError ''Agent Run message log must be a regular non-symlink file''))))"

definition message_cfg :: "string \<Rightarrow> jcfg" where
  "message_cfg dir = default_cfg (dir @ ''/messages.jsonl'') (Some ''sequence'')"

record message_request =
  mr_run :: string
  mr_direction :: string
  mr_kind :: string
  mr_actor :: string
  mr_content :: string
  mr_correlation :: "string option"

definition message_record :: "message_request \<Rightarrow> string \<Rightarrow> string \<Rightarrow> nat \<Rightarrow> json" where
  "message_record q fresh now n =
     JObj ([(''schema'', JStr MESSAGE_SCHEMA), (''sequence'', JInt (int n)), (''message_id'', JStr fresh),
       (''agent_run_id'', JStr (mr_run q)), (''timestamp'', JStr now), (''direction'', JStr (mr_direction q)),
       (''kind'', JStr (mr_kind q)), (''actor'', JStr (mr_actor q)), (''content'', JStr (mr_content q))]
       @ (case mr_correlation q of None \<Rightarrow> [] | Some c \<Rightarrow> [(''correlation_id'', JStr c)]))"

definition message_decision :: "message_request \<Rightarrow> string \<Rightarrow> string \<Rightarrow> json list \<Rightarrow> json decision result" where
  "message_decision q fresh now existing =
     bindE (validate_message_log existing) (\<lambda>_.
     bindE (raise_if (\<exists>p \<in> set existing. jget p ''agent_run_id'' \<noteq> JStr (mr_run q))
             ''cannot append a different agent run ID to message log'') (\<lambda>_.
     (let n = length existing + 1; m = message_record q fresh now n in
     bindE (validate_message m (Some n)) (\<lambda>_.
     bindE (validate_append_semantics existing m) (\<lambda>_. Inr (m, Some m))))))"

definition append_message :: "string \<Rightarrow> message_request \<Rightarrow> string \<Rightarrow> string \<Rightarrow> (mailbox, json) op" where
  "append_message dir q fresh now =
     bindS message_log_path (\<lambda>_ b.
       (case transact_jsonl (message_cfg dir) validate_message_record (message_decision q fresh now) (mb_log b) of
          (f, r) \<Rightarrow> (b\<lparr>mb_log := f\<rparr>, r)))"

definition check_after_sequence :: "json \<Rightarrow> unit result" where
  "check_after_sequence v =
     raise_if (\<not> is_int v \<or> is_bool v \<or> int_of v < 0) ''after_sequence must be a non-negative integer''"

definition messages_after :: "json \<Rightarrow> json list \<Rightarrow> json list result" where
  "messages_after seen ms =
     bindE (validate_message_log ms) (\<lambda>_. Inr (filter (\<lambda>m. int_of seen < int_of (jget m ''sequence'')) ms))"

definition replay_messages :: "string \<Rightarrow> json \<Rightarrow> (mailbox, json list) op" where
  "replay_messages dir seen =
     bindS (pureS (\<lambda>_. check_after_sequence seen)) (\<lambda>_.
     bindS message_log_path (\<lambda>_.
     pureS (\<lambda>b. bindE (read_jsonl (message_cfg dir) True validate_message_record (mb_log b)) (messages_after seen))))"

text \<open>The same over the bytes of an open descriptor.\<close>

definition replay_messages_descriptor :: "string \<Rightarrow> json \<Rightarrow> json list result" where
  "replay_messages_descriptor data seen =
     bindE (check_after_sequence seen) (\<lambda>_.
     (let cfg = default_cfg ''<message-descriptor>'' (Some ''sequence'') in
     bindE (read_locked_bytes cfg data) (\<lambda>d.
     bindE (decode_jsonl cfg validate_message_record d) (messages_after seen))))"


subsection \<open>What validation accepts\<close>

lemma uuid_text_Inr [simp]:
  "uuid_text v label = Inr s \<longleftrightarrow> v = JStr s \<and> uuid_parses s \<and> uuid_canonical s"
  by (cases v) (auto simp: uuid_text_def)

lemma one_of_Inr [simp]: "one_of v names = Inr b \<longleftrightarrow> \<not> is_list v \<and> \<not> is_obj v \<and> b = (\<exists>s \<in> set names. v = JStr s)"
  by (cases v) (auto simp: one_of_def)

lemma nonempty_str_conv: "nonempty_str v \<longleftrightarrow> (\<exists>s. v = JStr s \<and> s \<noteq> [])"
  by (cases v) (auto simp: nonempty_str_def)

definition has_fields :: "string set \<Rightarrow> bool" where
  "has_fields ks \<longleftrightarrow> set MESSAGE_FIELDS \<subseteq> ks \<and> ks \<subseteq> insert ''correlation_id'' (set MESSAGE_FIELDS)"

lemma sort_Nil_iff: "sort xs = [] \<longleftrightarrow> xs = []"
  by (metis set_empty set_sort)

lemma check_fields_Inr: "check_fields v = Inr u \<longleftrightarrow> has_fields (set (map fst (obj_items v)))"
  unfolding check_fields_def Let_def raise_if_eq_Inr de_Morgan_disj not_not sort_Nil_iff sorted_set_empty_iff
    filter_empty_conv has_fields_def by blast

definition correlated :: "json \<Rightarrow> json \<Rightarrow> bool" where
  "correlated k c \<longleftrightarrow>
     (c = JNull \<and> k \<noteq> JStr ''ack''
      \<or> (k = JStr ''ack'' \<or> k = JStr ''error'') \<and> (\<exists>s. c = JStr s \<and> uuid_parses s \<and> uuid_canonical s))"

lemma check_correlation_Inr: "check_correlation v = Inr u \<longleftrightarrow> correlated (jget v ''kind'') (jget v ''correlation_id'')"
  by (cases "jget v ''correlation_id''") (auto simp: check_correlation_def correlated_def Let_def)

lemma check_sequence_Inr:
  "check_sequence v e = Inr u \<longleftrightarrow>
     (\<exists>n. jget v ''sequence'' = JInt (int n) \<and> 0 < n \<and> (e = None \<or> e = Some n))"
proof (cases "jget v ''sequence''")
  case (JInt i)
  show ?thesis
  proof (cases "i < 1")
    case False
    then obtain n where "i = int n" "0 < n" by (metis int_one_le_iff_zero_less not_less pos_int_cases zero_less_imp_eq_int)
    with JInt show ?thesis by (cases e) (auto simp: check_sequence_def Let_def)
  qed (auto simp: check_sequence_def Let_def JInt)
qed (auto simp: check_sequence_def Let_def)

lemma check_content_Inr:
  "check_content v = Inr u \<longleftrightarrow>
     (\<exists>s. jget v ''content'' = JStr s \<and> s \<noteq> [] \<and> length (code_points s) \<le> MAX_CONTENT_CHARS)"
  by (auto simp: check_content_def Let_def nonempty_str_conv not_less)

text \<open>The atoms of a message that passes.\<close>

definition message_atoms :: "(string \<Rightarrow> json) \<Rightarrow> nat option \<Rightarrow> bool" where
  "message_atoms get e \<longleftrightarrow>
     get ''schema'' = JStr MESSAGE_SCHEMA
     \<and> (\<exists>n. get ''sequence'' = JInt (int n) \<and> 0 < n \<and> (e = None \<or> e = Some n))
     \<and> (\<exists>s. get ''message_id'' = JStr s \<and> uuid_parses s \<and> uuid_canonical s)
     \<and> (\<exists>s. get ''agent_run_id'' = JStr s \<and> SAFE_ID s) \<and> (\<exists>s. get ''actor'' = JStr s \<and> SAFE_ID s)
     \<and> (\<exists>s. get ''timestamp'' = JStr s \<and> s \<noteq> [])
     \<and> (\<exists>(k, d) \<in> set KIND_DIRECTIONS. get ''kind'' = JStr k \<and> get ''direction'' = JStr d)
     \<and> (\<exists>s. get ''content'' = JStr s \<and> s \<noteq> [] \<and> length (code_points s) \<le> MAX_CONTENT_CHARS)
     \<and> correlated (get ''kind'') (get ''correlation_id'')"

lemma check_identity_Inr:
  "check_identity v = Inr u \<longleftrightarrow>
     (\<exists>s. jget v ''message_id'' = JStr s \<and> uuid_parses s \<and> uuid_canonical s)
     \<and> (\<exists>s. jget v ''agent_run_id'' = JStr s \<and> SAFE_ID s) \<and> (\<exists>s. jget v ''actor'' = JStr s \<and> SAFE_ID s)
     \<and> (\<exists>s. jget v ''timestamp'' = JStr s \<and> s \<noteq> [])"
  by (auto simp: check_identity_def is_str_conv nonempty_str_conv)

lemma kind_directions:
  "distinct (map fst KIND_DIRECTIONS)" "(k, d) \<in> set KIND_DIRECTIONS \<Longrightarrow> d \<in> set DIRECTIONS"
  by (auto simp: KIND_DIRECTIONS_def DIRECTIONS_def)

lemma check_kind_Inr:
  "check_kind v = Inr u \<longleftrightarrow>
     (\<exists>(k, d) \<in> set KIND_DIRECTIONS. jget v ''kind'' = JStr k \<and> jget v ''direction'' = JStr d)"
proof (cases "\<exists>k d. jget v ''kind'' = JStr k \<and> jget v ''direction'' = JStr d")
  case True
  then obtain k d where kd: "jget v ''kind'' = JStr k" "jget v ''direction'' = JStr d" by blast
  have "check_kind v = Inr u \<longleftrightarrow>
      d \<in> set DIRECTIONS \<and> k \<in> set (map fst KIND_DIRECTIONS) \<and> d = the (map_of KIND_DIRECTIONS k)"
    by (auto simp: check_kind_def kd Let_def image_iff)
  also have "\<dots> \<longleftrightarrow> (k, d) \<in> set KIND_DIRECTIONS"
  proof (cases "map_of KIND_DIRECTIONS k")
    case None
    then have "k \<notin> set (map fst KIND_DIRECTIONS)" by (simp only: map_of_eq_None_iff list.set_map) simp
    moreover from this have "(k, d) \<notin> set KIND_DIRECTIONS" by (auto simp: image_iff)
    ultimately show ?thesis by blast
  next
    case (Some d')
    with map_of_eq_Some_iff [OF kind_directions(1)] have in_k: "(k, d) \<in> set KIND_DIRECTIONS \<longleftrightarrow> d = d'" for d
      by (metis option.inject)
    moreover from Some have "k \<in> set (map fst KIND_DIRECTIONS)" by (metis map_of_eq_None_iff list.set_map option.distinct(1))
    ultimately show ?thesis using Some kind_directions(2) [of k d] by auto
  qed
  finally show ?thesis by (auto simp: kd)
next
  case False
  then have "check_kind v \<noteq> Inr u" by (auto simp: check_kind_def)
  with False show ?thesis by auto
qed

lemma validate_message_Inr:
  "validate_message v e = Inr w \<longleftrightarrow>
     w = v \<and> is_obj v \<and> has_fields (set (map fst (obj_items v))) \<and> message_atoms (jget v) e"
proof -
  have "validate_message v e = Inr w \<longleftrightarrow>
    is_obj v \<and> (\<exists>u. check_fields v = Inr u) \<and> jget v ''schema'' = JStr MESSAGE_SCHEMA
    \<and> (\<exists>u. check_sequence v e = Inr u) \<and> (\<exists>u. check_identity v = Inr u) \<and> (\<exists>u. check_kind v = Inr u)
    \<and> (\<exists>u. check_content v = Inr u) \<and> (\<exists>u. check_correlation v = Inr u) \<and> v = w"
    by (simp add: validate_message_def)
  then show ?thesis
    unfolding check_fields_Inr check_sequence_Inr check_content_Inr check_correlation_Inr check_identity_Inr check_kind_Inr
    unfolding message_atoms_def by blast
qed

lemma message_atoms_canon:
  assumes "plain v" and "message_atoms (jget v) e"
  shows "message_atoms (jget (canon v)) e"
  using assms(2) by (simp add: message_atoms_def correlated_def jget_canon [OF assms(1)])

lemma validate_message_canon:
  "validate_message v e = Inr v \<Longrightarrow> plain v \<Longrightarrow> validate_message (canon v) e = Inr (canon v)"
  unfolding validate_message_Inr keys_canon by (simp add: message_atoms_canon)

interpretation mj: numbered_journal "message_cfg dir" validate_message_record for dir
  by unfold_locales (auto simp: message_cfg_def default_cfg_def validate_message_record_def validate_message_Inr)

subsection \<open>What a log is\<close>

text \<open>An acknowledgement and the steer request it answers; the log as the code means it.\<close>

definition is_ack :: "json \<Rightarrow> bool" where
  "is_ack m \<longleftrightarrow> jget m ''kind'' = JStr ''ack''"

definition answers :: "json \<Rightarrow> json \<Rightarrow> bool" where
  "answers a s \<longleftrightarrow> is_ack a \<and> jget s ''kind'' = JStr ''steer'' \<and> jget s ''message_id'' = jget a ''correlation_id''"

definition consistent_log :: "json list \<Rightarrow> bool" where
  "consistent_log ms \<longleftrightarrow>
     (\<exists>run. \<forall>m \<in> set ms. jget m ''agent_run_id'' = run)
     \<and> distinct (map (\<lambda>m. jget m ''message_id'') ms)
     \<and> (\<forall>i < length ms. is_ack (ms ! i) \<longrightarrow> (\<exists>s \<in> set (take i ms). answers (ms ! i) s))
     \<and> distinct (map (\<lambda>m. jget m ''correlation_id'') (filter is_ack ms))"

lemma find_sound: "List.find P xs = Some x \<Longrightarrow> x \<in> set xs \<and> P x"
  by (auto simp: find_Some_iff)

lemma find_key:
  assumes "distinct (map f xs)"
  shows "List.find (\<lambda>x. f x = c) xs = Some y \<longleftrightarrow> y \<in> set xs \<and> f y = c"
  using assms by (induction xs) (auto simp: image_iff)

lemma log_loop_snoc:
  "log_loop prior (ms @ [m]) = bindE (log_loop prior ms) (\<lambda>_. check_after LOG_TEXTS (prior @ ms) m)"
proof (induction ms arbitrary: prior)
  case Nil
  show ?case by (cases "check_after LOG_TEXTS prior m") simp_all
next
  case (Cons x ms)
  show ?case by (cases "check_after LOG_TEXTS prior x") (simp_all add: Cons)
qed

lemma check_after_Inr:
  assumes "distinct (map (\<lambda>p. jget p ''message_id'') prior)"
  shows "check_after lt prior m = Inr u \<longleftrightarrow>
     (prior \<noteq> [] \<longrightarrow> jget m ''agent_run_id'' = jget (hd prior) ''agent_run_id'')
     \<and> (\<forall>p \<in> set prior. jget p ''message_id'' \<noteq> jget m ''message_id'')
     \<and> (is_ack m \<longrightarrow> (\<exists>p \<in> set prior. answers m p)
         \<and> (\<forall>p \<in> set prior. is_ack p \<longrightarrow> jget p ''correlation_id'' \<noteq> jget m ''correlation_id''))"
proof -
  let ?find = "List.find (\<lambda>p. jget p ''message_id'' = jget m ''correlation_id'') prior"
  have "(case ?find of None \<Rightarrow> True | Some steer \<Rightarrow> jget steer ''kind'' \<noteq> JStr ''steer'')
      \<longleftrightarrow> \<not> (\<exists>p. ?find = Some p \<and> jget p ''kind'' = JStr ''steer'')"
    by (auto split: option.split)
  also have "\<dots> \<longleftrightarrow> \<not> (\<exists>p \<in> set prior. jget p ''kind'' = JStr ''steer'' \<and> jget p ''message_id'' = jget m ''correlation_id'')"
    unfolding find_key [OF assms] by blast
  finally have found: "(case ?find of None \<Rightarrow> True | Some steer \<Rightarrow> jget steer ''kind'' \<noteq> JStr ''steer'')
      \<longleftrightarrow> \<not> (\<exists>p \<in> set prior. jget p ''kind'' = JStr ''steer'' \<and> jget p ''message_id'' = jget m ''correlation_id'')" .
  show ?thesis
    unfolding check_after_def Let_def is_ack_def answers_def found
    by (cases "jget m ''kind'' = JStr ''ack''") (simp; blast)+
qed

lemma consistent_acks:
  "(\<forall>i < length (ms @ [m]). is_ack ((ms @ [m]) ! i) \<longrightarrow> (\<exists>s \<in> set (take i (ms @ [m])). answers ((ms @ [m]) ! i) s))
   \<longleftrightarrow> (is_ack m \<longrightarrow> (\<exists>s \<in> set ms. answers m s))
     \<and> (\<forall>i < length ms. is_ack (ms ! i) \<longrightarrow> (\<exists>s \<in> set (take i ms). answers (ms ! i) s))"
proof -
  let ?P = "\<lambda>ms i. is_ack (ms ! i) \<longrightarrow> (\<exists>s \<in> set (take i ms). answers (ms ! i) s)"
  have "(\<forall>i < length (ms @ [m]). ?P (ms @ [m]) i) \<longleftrightarrow> ?P (ms @ [m]) (length ms) \<and> (\<forall>i < length ms. ?P (ms @ [m]) i)"
    by (simp only: length_append_singleton All_less_Suc)
  moreover have "(\<forall>i < length ms. ?P (ms @ [m]) i) \<longleftrightarrow> (\<forall>i < length ms. ?P ms i)"
    by (intro all_cong) (simp add: nth_append)
  moreover have "?P (ms @ [m]) (length ms) \<longleftrightarrow> (is_ack m \<longrightarrow> (\<exists>s \<in> set ms. answers m s))"
    by simp
  ultimately show ?thesis by (simp only:)
qed

lemma consistent_butlast: "consistent_log (ms @ [m]) \<Longrightarrow> consistent_log ms"
  unfolding consistent_log_def consistent_acks by auto

lemma consistent_snoc:
  assumes "consistent_log ms"
  shows "consistent_log (ms @ [m]) \<longleftrightarrow> (\<exists>u. check_after lt ms m = Inr u)"
proof -
  from assms obtain run where run: "\<forall>m \<in> set ms. jget m ''agent_run_id'' = run"
    unfolding consistent_log_def by blast
  have runs: "(\<exists>run. \<forall>m \<in> set (ms @ [m]). jget m ''agent_run_id'' = run)
      \<longleftrightarrow> (ms \<noteq> [] \<longrightarrow> jget m ''agent_run_id'' = jget (hd ms) ''agent_run_id'')"
    using run by (cases ms) auto
  have d: "distinct (map (\<lambda>p. jget p ''message_id'') ms)" "distinct (map (\<lambda>m. jget m ''correlation_id'') (filter is_ack ms))"
    using assms by (auto simp: consistent_log_def)
  show ?thesis
    unfolding check_after_Inr [OF d(1)] consistent_log_def [of "ms @ [m]"] runs consistent_acks
    using assms d by (auto simp: consistent_log_def image_iff)
qed

lemma log_exact: "log_loop [] ms = Inr () \<longleftrightarrow> consistent_log ms"
proof (induction ms rule: rev_induct)
  case (snoc m ms)
  then show ?case
    using consistent_butlast [of ms m] consistent_snoc [of ms m LOG_TEXTS] by (auto simp: log_loop_snoc)
qed (simp add: consistent_log_def)

lemma consistent_canon:
  assumes "consistent_log (ms @ [m])" and "plain m"
    and "validate_message m e = Inr m"
  shows "consistent_log (ms @ [canon m])"
proof -
  from assms(3) have "message_atoms (jget m) e" by (simp add: validate_message_Inr)
  then have same: "jget (canon m) ''agent_run_id'' = jget m ''agent_run_id''" "jget (canon m) ''message_id'' = jget m ''message_id''"
    "jget (canon m) ''kind'' = jget m ''kind''" "jget (canon m) ''correlation_id'' = jget m ''correlation_id''"
    using assms(2) by (auto simp: message_atoms_def correlated_def jget_canon)
  have "check_after LOG_TEXTS ms (canon m) = check_after LOG_TEXTS ms m"
    by (simp only: check_after_def same)
  then show ?thesis
    using assms(1) consistent_butlast [OF assms(1)] by (simp add: consistent_snoc [where lt = LOG_TEXTS])
qed

text \<open>
  C12. The check of a message log is exact: it accepts a sequence of messages precisely when all are
  of one agent run, no message identifier occurs twice, every acknowledgement answers a steer
  request that stands before it, and no request is acknowledged twice.
\<close>

theorem message_log_exact: "validate_message_log ms = Inr ms \<longleftrightarrow> consistent_log ms"
  unfolding log_exact [symmetric] by (simp add: validate_message_log_def)

subsection \<open>Appending and reading back\<close>

lemma read_messages_nth:
  assumes "read_jsonl cfg ok validate_message_record s = Inr ms" and "i < length ms"
  shows "validate_message (ms ! i) (Some (i + 1)) = Inr (ms ! i)"
proof -
  from assms(1) obtain d where "decode_lines cfg validate_message_record 0 (splitlines d) = Inr ms"
    by (auto simp: read_jsonl_def decode_jsonl_def)
  from decode_lines_nth [OF this assms(2)] show ?thesis
    by (auto simp: decode_record_def Let_def validate_message_record_def validate_message_Inr split: option.splits)
qed

lemma messages_positive:
  assumes "read_jsonl cfg ok validate_message_record s = Inr ms" and "m \<in> set ms"
  shows "0 < int_of (jget m ''sequence'')"
proof -
  from assms(2) obtain i where i: "i < length ms" "m = ms ! i" by (auto simp: in_set_conv_nth)
  from read_messages_nth [OF assms(1) i(1)] show ?thesis
    by (auto simp: validate_message_Inr message_atoms_def i(2))
qed

lemma replay_all:
  "replay_messages dir (JInt 0) b = (b1, Inr ms) \<longleftrightarrow>
     message_log_path b = (b1, Inr ())
     \<and> read_jsonl (message_cfg dir) True validate_message_record (mb_log b1) = Inr ms \<and> consistent_log ms"
proof -
  have "messages_after (JInt 0) vs = Inr ms \<longleftrightarrow> vs = ms \<and> consistent_log ms"
    if "read_jsonl (message_cfg dir) True validate_message_record (mb_log b1) = Inr vs" for vs
  proof -
    have "filter (\<lambda>m. 0 < int_of (jget m ''sequence'')) vs = vs"
      using messages_positive [OF that] by (simp add: filter_id_conv)
    moreover have "(\<exists>w. validate_message_log vs = Inr w) \<longleftrightarrow> validate_message_log vs = Inr vs"
      by (auto simp: validate_message_log_def)
    ultimately show ?thesis
      by (auto simp: messages_after_def validate_message_log_def log_exact)
  qed
  then show ?thesis
    by (auto simp: replay_messages_def bindS_eq_Inr check_after_sequence_def pureS_def)
qed

lemma message_log_path_Inr:
  assumes "message_log_path b = (b1, Inr ())"
  shows "message_log_path b1 = (b1, Inr ())" and "mb_dir b1 = Some Directory"
    and "mb_log b1 = None \<or> (\<exists>d n. mb_log b1 = Some (Regular d n))"
  using assms by (auto simp: message_log_path_def Let_def split: if_splits option.splits fentry.splits)

text \<open>Every decision of an append, in terms of the log as a whole.\<close>

lemma message_decision_Inr:
  assumes "message_decision q fresh now ms = Inr (v, rec)"
  shows "v = message_record q fresh now (length ms + 1)" and "rec = Some v"
    and "validate_message v (Some (length ms + 1)) = Inr v" and "consistent_log (ms @ [v])"
proof -
  from assms have d: "v = message_record q fresh now (length ms + 1)" "rec = Some v"
    "validate_message v (Some (length ms + 1)) = Inr v" "\<exists>u. log_loop [] ms = Inr u"
    "\<exists>u. check_after APPEND_TEXTS ms v = Inr u"
    by (auto simp: message_decision_def Let_def validate_message_log_def validate_append_semantics_def validate_message_Inr)
  show "v = message_record q fresh now (length ms + 1)" "rec = Some v"
    "validate_message v (Some (length ms + 1)) = Inr v" by (rule d)+
  from d(4) have "consistent_log ms" by (simp add: log_exact)
  with d(5) show "consistent_log (ms @ [v])" by (simp add: consistent_snoc [where lt = APPEND_TEXTS])
qed

lemma plain_message: "plain (message_record q fresh now n)"
  by (simp add: message_record_def split: option.split)

lemma message_sequence: "jget (message_record q fresh now n) ''sequence'' = JInt (int n)"
  by (simp add: message_record_def jget_fields)

lemma append_message_steps:
  assumes "message_log_path b = (b, Inr ())"
  shows "append_message dir q fresh now b
    = (let r = transact_jsonl (message_cfg dir) validate_message_record (message_decision q fresh now) (mb_log b)
       in (b\<lparr>mb_log := fst r\<rparr>, snd r))"
  using assms by (simp add: append_message_def bindS_def split: prod.split)

text \<open>A decision that was taken on a readable log was taken on its records.\<close>

lemma transact_decided:
  assumes "read_jsonl cfg True V s = Inr existing" and "transact_jsonl cfg V T s = (s', Inr v)"
  shows "\<exists>rec. T existing = Inr (v, rec)"
proof -
  from read_jsonl_Inr [OF assms(1)]
  have d: "length (slot_bytes s) \<le> max_bytes cfg" "decode_jsonl cfg V (slot_bytes s) = Inr existing"
    "s = None \<or> s = Some (Regular (slot_bytes s) 1)" by auto
  from assms(2) transact_open [OF d(3), of cfg V T] obtain d' where
    "transact_bytes cfg V T (slot_bytes s) = Inr (d', v)" by (auto split: sum.splits)
  then show ?thesis by (rule transact_bytes_steps) (use d(2) in auto)
qed

text \<open>
  What is appended to a message log is what a replay then gives. After an append that returns,
  a replay returns the messages it returned before, in the same order, followed by the new one,
  which carries the next sequence number and the contents that were asked for.
\<close>

theorem append_then_replay:
  assumes "replay_messages dir (JInt 0) b = (b1, Inr ms)"
    and "append_message dir q fresh now b1 = (b2, Inr m)"
    and "utf8_valid (dumps False m)"
  shows "m = message_record q fresh now (length ms + 1)
    \<and> replay_messages dir (JInt 0) b2 = (b2, Inr (ms @ [canon m]))"
proof -
  let ?c = "message_cfg dir" and ?V = validate_message_record and ?T = "message_decision q fresh now"
  from assms(1) have p: "message_log_path b = (b1, Inr ())"
    and rd: "read_jsonl ?c True ?V (mb_log b1) = Inr ms" by (simp_all add: replay_all)
  note p1 = message_log_path_Inr [OF p]
  from assms(2) append_message_steps [OF p1(1)] have
    tr: "transact_jsonl ?c ?V ?T (mb_log b1) = (mb_log b2, Inr m)" and b2: "b2 = b1\<lparr>mb_log := mb_log b2\<rparr>"
    by (cases "transact_jsonl ?c ?V ?T (mb_log b1)"; force simp: Let_def)+
  from transact_decided [OF rd tr] obtain rec where "?T ms = Inr (m, rec)" by blast
  note dec = message_decision_Inr [OF this] and this
  then have T: "?T ms = Inr (m, Some m)" by simp
  have m: "plain m" "jget m ''sequence'' = JInt (int (length ms + 1))"
    by (simp_all only: dec(1) plain_message message_sequence)
  have "?V (canon m) (length ms + 1) = Inr (canon m)"
    using validate_message_canon [OF dec(3) m(1)] by (simp add: validate_message_record_def)
  moreover have "is_obj m" using dec(3) by (simp add: validate_message_Inr)
  ultimately have "read_jsonl ?c True ?V (mb_log b2) = Inr (ms @ [canon m])"
    using transact_read_back [OF rd _ T tr m(1) assms(3)] m(2) by (simp add: message_cfg_def default_cfg_def)
  moreover have "consistent_log (ms @ [canon m])"
    by (rule consistent_canon [OF dec(4) m(1) dec(3)])
  moreover have "message_log_path b2 = (b2, Inr ())"
    using p1(2) tr read_jsonl_Inr [OF calculation(1)]
    by (subst (1 2) b2) (auto simp: message_log_path_def Let_def split: option.splits fentry.splits)
  ultimately show ?thesis using dec(1) by (simp add: replay_all)
qed


text \<open>
  C29. A steer request is answered once. When the log already holds an acknowledgement of a request,
  an append of another one raises and leaves the log as it is, whoever sends it.
\<close>

theorem second_ack_refused:
  assumes "replay_messages dir (JInt 0) b = (b1, Inr ms)"
    and "a \<in> set ms" and "is_ack a" and "jget a ''correlation_id'' = JStr c"
    and "mr_kind q = ''ack''" and "mr_correlation q = Some c"
  shows "\<exists>e. snd (append_message dir q fresh now b1) = Inl e
    \<and> slot_bytes (mb_log (fst (append_message dir q fresh now b1))) = slot_bytes (mb_log b1)"
proof -
  let ?c = "message_cfg dir" and ?V = validate_message_record and ?T = "message_decision q fresh now"
  let ?r = "transact_jsonl ?c ?V ?T (mb_log b1)"
  from assms(1) have p: "message_log_path b = (b1, Inr ())"
    and rd: "read_jsonl ?c True ?V (mb_log b1) = Inr ms" by (simp_all add: replay_all)
  note ap = append_message_steps [OF message_log_path_Inr(1) [OF p], of dir q fresh now, unfolded Let_def]
  have no: "?T ms \<noteq> Inr (v, rec)" for v rec
  proof
    assume "?T ms = Inr (v, rec)"
    note dec = message_decision_Inr [OF this]
    have "is_ack v" "jget v ''correlation_id'' = JStr c"
      using assms(5,6) by (simp_all add: dec(1) message_record_def is_ack_def jget_fields)
    with dec(4) assms(2-4) show False by (auto simp: consistent_log_def image_iff)
  qed
  show ?thesis
  proof (cases rule: transact_cases [where cfg = ?c and V = ?V and T = ?T and s = "mb_log b1"])
    case (err e)
    then show ?thesis by (simp add: ap)
  next
    case (ok d d' v)
    with transact_decided [OF rd, of ?T] no show ?thesis by blast
  qed
qed

subsection \<open>A request and its acknowledgement\<close>

definition demo_uuid :: "char \<Rightarrow> string" where
  "demo_uuid c = ''00000000-0000-4000-8000-00000000000'' @ [c]"

definition demo_steering :: message_request where
  "demo_steering = \<lparr>mr_run = ''r1'', mr_direction = ''parent_to_child'', mr_kind = ''steer'', mr_actor = ''lead'',
     mr_content = ''go'', mr_correlation = None\<rparr>"

definition demo_answer :: message_request where
  "demo_answer = \<lparr>mr_run = ''r1'', mr_direction = ''child_to_parent'', mr_kind = ''ack'', mr_actor = ''r1'',
     mr_content = ''done'', mr_correlation = Some (demo_uuid (CHR ''1''))\<rparr>"

definition demo_log :: "json list" where
  "demo_log = [message_record demo_steering (demo_uuid (CHR ''1'')) ''t1'' 1, message_record demo_answer (demo_uuid (CHR ''2'')) ''t2'' 2]"

definition demo_box :: mailbox where
  "demo_box = \<lparr>mb_dir = Some Directory, mb_log = Some (Regular (concat (map canonical_json_line demo_log)) 1)\<rparr>"

lemma demo_log_texts: "list_all (\<lambda>m. plain m \<and> ascii_json m \<and> length (canonical_json_line m) \<le> 1000) demo_log"
  "length (concat (map canonical_json_line demo_log)) \<le> 2000"
  by code_simp+

text \<open>When the message of a request passes.\<close>

lemma message_record_valid:
  "validate_message (message_record q fresh now n) (Some n) = Inr (message_record q fresh now n) \<longleftrightarrow>
     0 < n \<and> uuid_parses fresh \<and> uuid_canonical fresh \<and> SAFE_ID (mr_run q) \<and> SAFE_ID (mr_actor q) \<and> now \<noteq> []
     \<and> (mr_kind q, mr_direction q) \<in> set KIND_DIRECTIONS
     \<and> mr_content q \<noteq> [] \<and> length (code_points (mr_content q)) \<le> MAX_CONTENT_CHARS
     \<and> correlated (JStr (mr_kind q)) (opt_str (mr_correlation q))"
proof -
  let ?m = "message_record q fresh now n"
  have "jget ?m ''correlation_id'' = opt_str (mr_correlation q)"
    by (simp add: message_record_def jget_fields split: option.split)
  moreover have "jget ?m k = (case map_of [(''schema'', JStr MESSAGE_SCHEMA), (''sequence'', JInt (int n)), (''message_id'', JStr fresh),
       (''agent_run_id'', JStr (mr_run q)), (''timestamp'', JStr now), (''direction'', JStr (mr_direction q)),
       (''kind'', JStr (mr_kind q)), (''actor'', JStr (mr_actor q)), (''content'', JStr (mr_content q))] k of
         None \<Rightarrow> JNull | Some x \<Rightarrow> x)" if "k \<noteq> ''correlation_id''" for k
    using that by (auto simp: message_record_def jget_fields split: option.split)
  moreover have "has_fields (set (map fst (obj_items ?m)))"
    by (auto simp: message_record_def has_fields_def MESSAGE_FIELDS_def split: option.split)
  moreover have "is_obj ?m" by (simp add: message_record_def)
  ultimately show ?thesis
    unfolding validate_message_Inr message_atoms_def by (simp add: split_beta) (metis fst_conv snd_conv surjective_pairing)
qed

lemma demo_requests:
  "list_all (\<lambda>c. uuid_parses (demo_uuid c) \<and> uuid_canonical (demo_uuid c)) ''123''"
  "list_all (\<lambda>q. SAFE_ID (mr_run q) \<and> SAFE_ID (mr_actor q) \<and> (mr_kind q, mr_direction q) \<in> set KIND_DIRECTIONS
     \<and> mr_content q \<noteq> [] \<and> length (code_points (mr_content q)) \<le> 10) [demo_steering, demo_answer]"
  by code_simp+

lemma demo_message_valid:
  assumes "q \<in> {demo_steering, demo_answer}" and "c \<in> set ''123''" and "0 < n" and "now \<noteq> []"
  shows "validate_message (message_record q (demo_uuid c) now n) (Some n) = Inr (message_record q (demo_uuid c) now n)"
  using assms demo_requests
  by (auto simp: message_record_valid correlated_def demo_steering_def demo_answer_def MAX_CONTENT_CHARS_def)

lemma demo_log_valid: "i < length demo_log \<Longrightarrow> validate_message (demo_log ! i) (Some (i + 1)) = Inr (demo_log ! i)"
  using demo_message_valid [of demo_steering "CHR ''1''" 1 "''t1''"] demo_message_valid [of demo_answer "CHR ''2''" 2 "''t2''"]
  by (auto simp: demo_log_def less_Suc_eq numeral_2_eq_2)

lemma message_limits [simp]:
  "max_record_bytes (message_cfg dir) = 131072" "max_bytes (message_cfg dir) = 33554432"
  "max_records (message_cfg dir) = None" "require_trailing_newline (message_cfg dir)"
  "sequence_field (message_cfg dir) = Some ''sequence''"
  by (simp_all add: message_cfg_def default_cfg_def DEFAULT_MAX_JOURNAL_BYTES_def DEFAULT_MAX_RECORD_BYTES_def)

lemma good_message:
  assumes "plain m" "ascii_json m" "length (canonical_json_line m) \<le> 1000" "validate_message m (Some n) = Inr m"
  shows "good_record (message_cfg dir) validate_message_record m n"
  using assms validate_message_canon [OF assms(4,1)] utf8_valid_dumps [OF assms(1,2)]
  by (auto simp: good_record_def validate_message_record_def validate_message_Inr message_atoms_def)

lemma demo_box_read: "replay_messages dir (JInt 0) demo_box = (demo_box, Inr (map canon demo_log))"
proof -
  have "good_record (message_cfg dir) validate_message_record (demo_log ! i) (i + 1)" if i: "i < length demo_log" for i
  proof -
    have "demo_log ! i \<in> set demo_log" using i by simp
    with demo_log_texts(1) have "plain (demo_log ! i)" "ascii_json (demo_log ! i)" "length (canonical_json_line (demo_log ! i)) \<le> 1000"
      by (auto simp: list_all_iff)
    then show ?thesis by (rule good_message) (rule demo_log_valid [OF i])
  qed
  then have "decode_jsonl (message_cfg dir) validate_message_record (concat (map canonical_json_line demo_log))
      = Inr (map canon demo_log)"
    by (intro decode_records) simp_all
  then have "read_jsonl (message_cfg dir) True validate_message_record (mb_log demo_box) = Inr (map canon demo_log)"
    using demo_log_texts(2)
      read_regular [of "concat (map canonical_json_line demo_log)" "message_cfg dir" True validate_message_record]
    by (simp add: demo_box_def)
  moreover have "log_loop [] (map canon demo_log) = Inr ()" by code_simp
  ultimately show ?thesis
    unfolding replay_all by (simp add: log_exact message_log_path_def demo_box_def)
qed

theorem append_then_replay_witness:
  "\<exists>b m. append_message ''d'' demo_steering (demo_uuid (CHR ''3'')) ''t3'' demo_box = (b, Inr m)
     \<and> replay_messages ''d'' (JInt 0) b = (b, Inr (map canon demo_log @ [canon m]))"
proof -
  let ?q = demo_steering and ?u = "demo_uuid (CHR ''3'')" and ?ms = "map canon demo_log"
  let ?m = "message_record ?q ?u ''t3'' 3"
  from demo_box_read have rd: "read_jsonl (message_cfg ''d'') True validate_message_record (mb_log demo_box) = Inr ?ms"
    and p: "message_log_path demo_box = (demo_box, Inr ())" by (simp_all add: replay_all)
  have "length ?ms = 2" by (simp add: demo_log_def)
  moreover have "log_loop [] ?ms = Inr ()" "check_after APPEND_TEXTS ?ms ?m = Inr ()"
    "list_all (\<lambda>p. jget p ''agent_run_id'' = JStr (mr_run ?q)) ?ms" by code_simp+
  ultimately have "message_decision ?q ?u ''t3'' ?ms = Inr (?m, Some ?m)"
    using demo_message_valid [of ?q "CHR ''3''" 3 "''t3''"]
    by (auto simp: message_decision_def validate_message_log_def validate_append_semantics_def Let_def list_all_iff)
  moreover have m: "plain ?m" "ascii_json ?m" "length (canonical_json_line ?m) \<le> 1000" by code_simp+
  ultimately have "snd (transact_jsonl (message_cfg ''d'') validate_message_record (message_decision ?q ?u ''t3'') (mb_log demo_box)) = Inr ?m"
    using read_jsonl_Inr [OF rd] demo_log_texts(2)
    by (simp add: transact_open transact_bytes_def read_locked_bytes_def demo_box_def slot_bytes_def)
  then obtain b where "append_message ''d'' ?q ?u ''t3'' demo_box = (b, Inr ?m)"
    by (simp add: append_message_steps [OF p] Let_def)
  with append_then_replay [OF demo_box_read this utf8_valid_dumps [OF m(1,2)]] show ?thesis by blast
qed

theorem second_ack_refused_witness:
  "\<exists>e. snd (append_message ''d'' demo_answer (demo_uuid (CHR ''3'')) ''t3'' demo_box) = Inl e"
proof -
  let ?a = "canon (demo_log ! 1)"
  have "?a \<in> set (map canon demo_log)" by (simp add: demo_log_def)
  moreover have "is_ack ?a" "jget ?a ''correlation_id'' = JStr (demo_uuid (CHR ''1''))"
    "mr_kind demo_answer = ''ack''" "mr_correlation demo_answer = Some (demo_uuid (CHR ''1''))"
    by code_simp+
  ultimately show ?thesis using second_ack_refused [OF demo_box_read, of ?a] by blast
qed


subsection \<open>What a transaction leaves behind\<close>

text \<open>
  Without any assumption on the record: if the journal still reads after a transaction then it read
  before, and it holds the records it held, followed at most by the record of the decision.
\<close>

lemma read_extension:
  assumes "decode_jsonl cfg V (d @ canonical_json_line r) = Inr rs" and "decode_jsonl cfg V d = Inr existing"
    and "plain r" and "require_trailing_newline cfg" and "\<And>v n w. V v n = Inr w \<Longrightarrow> w = v"
  shows "rs = existing @ [canon r]"
proof -
  have nl: "d = [] \<or> last d = CHR 0x0A" and dl: "decode_lines cfg V 0 (splitlines d) = Inr existing"
    using assms(2,4) by (auto simp: decode_jsonl_def)
  have "splitlines (d @ canonical_json_line r) = splitlines d @ [dumps False r]"
    unfolding canonical_json_line_def by (rule splitlines_snoc [OF nl dumps_line [OF assms(3)]])
  with assms(1) dl obtain v n where v: "rs = existing @ [v]" "decode_record cfg V n (dumps False r) = Inr v"
    by (auto simp: decode_jsonl_def decode_lines_snoc)
  from v(2) assms(5) have "v = canon r"
    by (auto simp: decode_record_def Let_def loads_utf8_def loads_dumps [OF assms(3)] split: option.splits if_splits)
  with v(1) show ?thesis by simp
qed

lemma transact_leaves:
  assumes "read_jsonl cfg True V (fst (transact_jsonl cfg V T s)) = Inr rs"
    and "require_trailing_newline cfg" and "\<And>v n w. V v n = Inr w \<Longrightarrow> w = v"
    and "\<And>es v r. T es = Inr (v, Some r) \<Longrightarrow> plain r"
  obtains (kept) "read_jsonl cfg True V s = Inr rs" "\<And>v. snd (transact_jsonl cfg V T s) = Inr v \<Longrightarrow> T rs = Inr (v, None)"
  | (added) es v r where "read_jsonl cfg True V s = Inr es" "T es = Inr (v, Some r)" "rs = es @ [canon r]"
      "snd (transact_jsonl cfg V T s) = Inr v"
proof (cases rule: transact_cases [where cfg = cfg and V = V and T = T and s = s])
  case (err e)
  have "read_jsonl cfg True V s = Inr rs"
  proof (cases "s = None")
    case True
    with err(2) have "slot_bytes (fst (transact_jsonl cfg V T s)) = []" by (simp add: slot_bytes_def)
    with read_jsonl_Inr [OF assms(1)] have "decode_jsonl cfg V [] = Inr rs" by simp
    then show ?thesis by (simp add: True read_jsonl_def read_bytes_def)
  next
    case False
    with err(3) assms(1) show ?thesis by simp
  qed
  then show ?thesis using err(1) by (intro kept) simp_all
next
  case (ok d d' v)
  from ok(2) have rd: "read_jsonl cfg True V s = decode_jsonl cfg V d" if "length d \<le> max_bytes cfg"
    using that by (auto simp: read_jsonl_def read_bytes_def locked_file_def read_locked_bytes_def)
  from ok(3) have len: "length d \<le> max_bytes cfg"
    by (auto simp: transact_bytes_def read_locked_bytes_def split: if_splits)
  from ok(1) assms(1) have d': "decode_jsonl cfg V d' = Inr rs"
    by (auto simp: read_jsonl_def read_bytes_def locked_file_def read_locked_bytes_def split: if_splits)
  from ok(3) obtain es rec where e: "decode_jsonl cfg V d = Inr es" "T es = Inr (v, rec)"
    "d' = (case rec of None \<Rightarrow> d | Some r \<Rightarrow> d @ canonical_json_line r)"
    by (rule transact_bytes_steps)
  show ?thesis
  proof (cases rec)
    case None
    with e d' have "read_jsonl cfg True V s = Inr rs" "T rs = Inr (v, None)" by (simp_all add: rd [OF len])
    then show ?thesis using ok(1) by (intro kept) simp_all
  next
    case (Some r)
    with e d' have "decode_jsonl cfg V (d @ canonical_json_line r) = Inr rs" "plain r" using assms(4) by auto
    from read_extension [OF this(1) e(1) this(2) assms(2,3)] have "rs = es @ [canon r]" .
    with e(1,2) Some ok(1) show ?thesis by (intro added [of es v r]) (simp_all add: rd [OF len])
  qed
qed

end
