(* ===== verification/Launch_Contract.thy ===== *)
theory Launch_Contract
  imports Hierarchy_Store
begin

text \<open>
  The last part of \<open>contracts.py\<close>: \<open>read_agent_run_contract\<close>, which reads the contract an agent run
  was launched with and checks what it binds: the schemas, the worktree, the handoff directory, the
  command artifacts next to it and the files of its prompt pack. The file system is a parameter: the
  entry at an absolute path, \<open>Path.expanduser\<close> with the working directory, and \<open>Path.resolve\<close>; so
  is the digest of each packaged schema.
\<close>

record host =
  h_entry :: "string \<Rightarrow> rentry option"
  h_absolute :: "string \<Rightarrow> string"
  h_resolve :: "string \<Rightarrow> string"
  h_schema :: "string \<Rightarrow> string option"

subsection \<open>Paths\<close>

definition root_path :: "string list \<Rightarrow> string" where
  "root_path parts = CHR ''/'' # py_join ''/'' parts"

definition host_parts :: "host \<Rightarrow> string \<Rightarrow> string list" where
  "host_parts h p = path_parts (h_absolute h p)"

definition host_lexical :: "host \<Rightarrow> string \<Rightarrow> string" where
  "host_lexical h p = root_path (host_parts h p)"

text \<open>The first \<open>n\<close> components and the root are real directories.\<close>

definition host_walk :: "host \<Rightarrow> string list \<Rightarrow> nat \<Rightarrow> bool" where
  "host_walk h parts n \<longleftrightarrow> list_all (\<lambda>i. h_entry h (root_path (take i parts)) = Some RDir) [0..<Suc n]"

definition no_dotdot :: "host \<Rightarrow> string \<Rightarrow> unit result" where
  "no_dotdot h p =
     raise_if (''..'' \<in> set (host_parts h p))
       (''path contains unresolved '' @ str_repr ''..'' @ '' component: '' @ host_lexical h p)"

definition host_require_directory :: "host \<Rightarrow> string \<Rightarrow> string \<Rightarrow> unit result" where
  "host_require_directory h p label =
     bindE (no_dotdot h p) (\<lambda>_.
     raise_if (\<not> host_walk h (host_parts h p) (length (host_parts h p)))
       (label @ '' is not a regular directory: '' @ host_lexical h p))"

definition host_read_file :: "host \<Rightarrow> string \<Rightarrow> string result" where
  "host_read_file h p =
     bindE (no_dotdot h p) (\<lambda>_.
     bindE (raise_if (host_parts h p = []) (''expected regular file, got directory: '' @ host_lexical h p)) (\<lambda>_.
     if \<not> host_walk h (host_parts h p) (length (host_parts h p) - 1) then Inl (OSError (host_lexical h p))
     else read_regular_file (host_lexical h p) (h_entry h (host_lexical h p))))"

subsection \<open>The parts of the check\<close>

definition as_items :: "json \<Rightarrow> (string \<times> json) list result" where
  "as_items v = (if is_obj v then Inr (obj_items v) else Inl (TypeError ''items''))"

definition schema_descriptor :: "host \<Rightarrow> string \<Rightarrow> string result" where
  "schema_descriptor h schema_id =
     (case h_schema h schema_id of
        None \<Rightarrow> Inl (WorkflowError (''unknown contract schema: '' @ schema_id))
      | Some digest_text \<Rightarrow> Inr digest_text)"

definition check_schema :: "host \<Rightarrow> string \<times> json \<Rightarrow> unit result" where
  "check_schema h = (\<lambda>(name, descriptor).
     if descriptor = JNull then Inr ()
     else
       bindE (raise_if (\<not> is_obj descriptor) ''launch contract contains an invalid schema descriptor'') (\<lambda>_.
       bindE (raise_if (\<not> is_str (jget descriptor ''id'')) ''launch contract schema descriptor has no ID'') (\<lambda>_.
       if name = ''task_result'' then Inr ()
       else
         bindE (schema_descriptor h (str_of (jget descriptor ''id''))) (\<lambda>expected.
         raise_if (jget descriptor ''sha256'' \<noteq> JStr expected)
           (''launch contract schema digest changed: '' @ str_of (jget descriptor ''id''))))))"

definition field2 :: "json \<Rightarrow> string \<Rightarrow> string \<Rightarrow> json result" where
  "field2 v a b = bindE (jidx v a) (\<lambda>x. jidx x b)"

definition check_places :: "host \<Rightarrow> json \<Rightarrow> string \<Rightarrow> unit result" where
  "check_places h v dir =
     bindE (bindE (field2 v ''worktree'' ''path'') as_str) (\<lambda>worktree.
     bindE (host_require_directory h worktree ''launch worktree'') (\<lambda>_.
     bindE (bindE (field2 v ''paths'' ''handoff_dir'') as_str) (\<lambda>raw_handoff.
     (let handoff = h_resolve h raw_handoff in
     bindE (raise_if (handoff \<noteq> h_resolve h (h_resolve h dir @ ''/handoff''))
             ''launch handoff is outside the authorized runtime boundary'') (\<lambda>_.
     bindE (host_require_directory h handoff ''launch handoff'') (\<lambda>_.
     bindE (field2 v ''paths'' ''workdir'') (\<lambda>workdir.
     raise_if (\<not> py_eq workdir (JStr worktree)) ''launch contract has conflicting worktree paths'')))))))"

definition check_command_artifacts :: "host \<Rightarrow> ext \<Rightarrow> json \<Rightarrow> string \<Rightarrow> unit result" where
  "check_command_artifacts h X v dir =
     (let cc = jget v ''command_catalog'' in
     bindE (raise_if (\<not> is_obj cc) ''launch contract has no command catalog binding'') (\<lambda>_.
     bindE (raise_if (jget cc ''catalog_path'' \<noteq> JStr ''command-catalog.json'' \<or> jget cc ''card_path'' \<noteq> JStr ''command-card.md'')
             ''launch command artifacts use unexpected paths'') (\<lambda>_.
     bindE (host_read_file h (dir @ ''/command-catalog.json'')) (\<lambda>catalog.
     bindE (host_read_file h (dir @ ''/command-card.md'')) (\<lambda>card.
     bindE (raise_if (jget cc ''catalog_sha256'' \<noteq> JStr (sha256 X catalog))
             ''launch command catalog changed after contract creation'') (\<lambda>_.
     bindE (raise_if (jget cc ''card_sha256'' \<noteq> JStr (sha256 X card))
             ''launch command card changed after contract creation'') (\<lambda>_.
     (case loads_utf8 catalog of
        None \<Rightarrow> Inl (WorkflowError ''launch command catalog is not valid JSON'')
      | Some cv \<Rightarrow>
          validate_instance X cv (py_str (jget cc ''catalog_schema'')) (dir @ ''/command-catalog.json'')))))))))"

definition check_result_schema :: "host \<Rightarrow> ext \<Rightarrow> json \<Rightarrow> string \<Rightarrow> unit result" where
  "check_result_schema h X v pack_root =
     bindE (jidx v ''paths'') (\<lambda>paths.
     (let rc = jget paths ''result_contract''; sp = jget rc ''schema''; p = str_of sp in
      if \<not> is_obj rc then Inr ()
      else
        bindE (raise_if (\<not> nonempty_str sp) ''launch result contract has no schema path'') (\<lambda>_.
        bindE (raise_if (startswith p ''/'' \<or> ''..'' \<in> set (path_parts p) \<or> path_str p \<noteq> p)
                ''launch result schema path is not pack-contained'') (\<lambda>_.
        bindE (host_read_file h (pack_root @ ''/'' @ p)) (\<lambda>data.
        bindE (jidx v ''schemas'') (\<lambda>schemas.
        (let expected = jget schemas ''task_result'' in
         raise_if (\<not> is_obj expected \<or> jget expected ''sha256'' \<noteq> JStr (sha256 X data))
           ''launch result schema changed after contract creation'')))))))"

definition check_pack :: "host \<Rightarrow> ext \<Rightarrow> json \<Rightarrow> unit result" where
  "check_pack h X v =
     bindE (bindE (jidx v ''pack'') as_items) (\<lambda>pack.
     (let raw_root = jget (JObj pack) ''root''; manifest_digest = jget (JObj pack) ''manifest_sha256'' in
      if raw_root = JNull then Inr ()
      else
        bindE (as_str raw_root) (\<lambda>pack_root.
        bindE (host_require_directory h pack_root ''launch pack root'') (\<lambda>_.
        bindE (check_result_schema h X v pack_root) (\<lambda>_.
        if manifest_digest = JNull then Inr ()
        else
          bindE (host_read_file h (pack_root @ ''/MANIFEST.sha256'')) (\<lambda>manifest.
          raise_if (manifest_digest \<noteq> JStr (sha256 X manifest))
            ''launch pack manifest changed after contract creation''))))))"

text \<open>\<open>dir\<close> and \<open>name\<close> make up the path. A file that cannot be walked to reads as absent.\<close>

definition host_entry_at :: "host \<Rightarrow> string \<Rightarrow> rentry option" where
  "host_entry_at h p =
     (if ''..'' \<notin> set (host_parts h p) \<and> host_parts h p \<noteq> [] \<and> host_walk h (host_parts h p) (length (host_parts h p) - 1)
      then h_entry h (host_lexical h p) else None)"

definition read_agent_run_contract :: "host \<Rightarrow> ext \<Rightarrow> string \<Rightarrow> string \<Rightarrow> json result" where
  "read_agent_run_contract h X dir name =
     bindE (read_contract X dir name (host_entry_at h (dir @ ''/'' @ name)) None) (\<lambda>v.
     bindE (validate_agent_run_contract_value X v (dir @ ''/'' @ name)) (\<lambda>_.
     bindE (bindE (jidx v ''schemas'') as_items) (\<lambda>schemas.
     bindE (mapE (check_schema h) schemas) (\<lambda>_.
     bindE (check_places h v dir) (\<lambda>_.
     bindE (check_command_artifacts h X v dir) (\<lambda>_.
     bindE (check_pack h X v) (\<lambda>_. Inr v)))))))"

end
