(* ===== verification/Steering.thy ===== *)
theory Steering
  imports Messages Launch_Contract
begin

text \<open>
  \<open>steering.py\<close>: the delivery of steer requests to a running agent. The message log stays the
  authority for the requests; a second journal, \<open>steering-delivery.jsonl\<close>, records what became of
  each: queued, delivered, expired, failed, and in the end applied or rejected. The cooperative
  adapter publishes a request as a file of the handoff inbox. The clock, \<open>uuid4\<close> and
  \<open>datetime.fromisoformat\<close> are arguments; texts of the operating system are reduced to the path.
\<close>

subsection \<open>Events\<close>

record moment =
  at_text :: string
  at_instant :: int
  at_fresh :: "nat \<Rightarrow> string"

definition STEERING_SCHEMA :: string where
  "STEERING_SCHEMA = ''agent-workflow/steering-delivery/v1''"

definition STEERING_REQUEST_SCHEMA :: string where
  "STEERING_REQUEST_SCHEMA = ''agent-workflow/steering-request/v1''"

definition SUPPORTED_ADAPTERS :: "string list" where
  "SUPPORTED_ADAPTERS = [''unsupported'', ''control-file-v1'', ''external-host-v1'']"

definition ACK_TERMINAL_OUTCOMES :: "string list" where
  "ACK_TERMINAL_OUTCOMES = [''applied'', ''rejected'', ''expired'']"

definition DELIVERY_STOP_OUTCOMES :: "string list" where
  "DELIVERY_STOP_OUTCOMES = ACK_TERMINAL_OUTCOMES @ [''unsupported'', ''failed'']"

definition OUTCOMES :: "string list" where
  "OUTCOMES = [''queued'', ''delivered''] @ DELIVERY_STOP_OUTCOMES"

definition EVENT_FIELDS :: "string list" where
  "EVENT_FIELDS = [''schema'', ''sequence'', ''event_id'', ''agent_run_id'', ''correlation_id'', ''message_sha256'',
     ''at'', ''adapter'', ''outcome'', ''attempt'', ''reason'', ''executor'']"

type_synonym timestamps = "string \<Rightarrow> int option"

definition parse_timestamp :: "timestamps \<Rightarrow> json \<Rightarrow> int result" where
  "parse_timestamp parse v =
     (if \<not> nonempty_str v then Inl (WorkflowError ''steering timestamp must be non-empty'')
      else (case parse (str_of v) of
              None \<Rightarrow> Inl (WorkflowError ''invalid steering timestamp'')
            | Some instant \<Rightarrow> Inr instant))"

definition check_event_uuid :: "json \<Rightarrow> string \<Rightarrow> unit result" where
  "check_event_uuid v field =
     (let s = py_str (jget v field) in
      bindE (raise_if (\<not> uuid_parses s) (field @ '' must be a UUID'')) (\<lambda>_.
      raise_if (\<not> uuid_canonical s) (field @ '' must be canonical'')))"

definition counts :: "json \<Rightarrow> int \<Rightarrow> bool" where
  "counts v least \<longleftrightarrow> is_int v \<and> \<not> is_bool v \<and> least \<le> int_of v"

definition check_event_values :: "timestamps \<Rightarrow> json \<Rightarrow> unit result" where
  "check_event_values parse v =
     bindE (raise_if (\<not> nonempty_str (jget v ''agent_run_id'')) ''steering agent_run_id must be non-empty'') (\<lambda>_.
     bindE (raise_if (\<not> is_str (jget v ''message_sha256'') \<or> \<not> startswith (str_of (jget v ''message_sha256'')) ''sha256:'')
             ''invalid steering message digest'') (\<lambda>_.
     bindE (parse_timestamp parse (jget v ''at'')) (\<lambda>_.
     bindE (one_of (jget v ''adapter'') SUPPORTED_ADAPTERS) (\<lambda>adapter_known.
     bindE (raise_if (\<not> adapter_known) ''invalid steering adapter'') (\<lambda>_.
     bindE (one_of (jget v ''outcome'') OUTCOMES) (\<lambda>outcome_known.
     bindE (raise_if (\<not> outcome_known) ''invalid steering outcome'') (\<lambda>_.
     bindE (raise_if (\<not> counts (jget v ''attempt'') 0) ''invalid steering attempt'') (\<lambda>_.
     bindE (raise_if (\<not> nonempty_str (jget v ''reason'')) ''steering reason must be non-empty'') (\<lambda>_.
     raise_if (jget v ''executor'' \<noteq> JNull \<and> \<not> is_str (jget v ''executor'')) ''steering executor must be a string or null'')))))))))"

definition validate_delivery_event :: "timestamps \<Rightarrow> json \<Rightarrow> nat \<Rightarrow> json result" where
  "validate_delivery_event parse v n =
     bindE (raise_if (\<not> is_obj v) ''steering delivery record must be a JSON object'') (\<lambda>_.
     bindE (raise_if (set (map fst (obj_items v)) \<noteq> set EVENT_FIELDS) ''invalid steering delivery record fields'') (\<lambda>_.
     bindE (raise_if (jget v ''schema'' \<noteq> JStr STEERING_SCHEMA) ''unsupported steering delivery schema'') (\<lambda>_.
     bindE (raise_if (\<not> counts (jget v ''sequence'') 1) ''steering delivery sequence must be positive'') (\<lambda>_.
     bindE (raise_if (int_of (jget v ''sequence'') \<noteq> int n) ''steering delivery sequence mismatch'') (\<lambda>_.
     bindE (check_event_uuid v ''event_id'') (\<lambda>_.
     bindE (check_event_uuid v ''correlation_id'') (\<lambda>_.
     bindE (check_event_values parse v) (\<lambda>_. Inr v))))))))"

subsection \<open>The delivery journal\<close>

text \<open>
  A run directory as steering sees it: the message log, the delivery journal, and the inbox below the
  handoff directory with its files.
\<close>

record steer_dir =
  sd_box :: mailbox
  sd_delivery :: slot
  sd_inbox :: slot
  sd_files :: "(string \<times> rentry) list"

record place =
  pl_host :: host
  pl_ext :: ext
  pl_dir :: string
  pl_parse :: timestamps

definition delivery_cfg :: "string \<Rightarrow> jcfg" where
  "delivery_cfg dir = default_cfg (dir @ ''/steering-delivery.jsonl'') (Some ''sequence'')"

definition mixed_runs :: "json list \<Rightarrow> bool" where
  "mixed_runs es \<longleftrightarrow> (\<exists>e \<in> set es. jget e ''agent_run_id'' \<noteq> jget (hd es) ''agent_run_id'')"

definition replay_delivery_events :: "place \<Rightarrow> steer_dir \<Rightarrow> json list result" where
  "replay_delivery_events p d =
     bindE (read_jsonl (delivery_cfg (pl_dir p)) True (validate_delivery_event (pl_parse p)) (sd_delivery d)) (\<lambda>es.
     bindE (raise_if (mixed_runs es) ''steering journal contains mixed agent run IDs'') (\<lambda>_. Inr es))"

record delivery_request =
  dr_run :: string
  dr_correlation :: string
  dr_digest :: string
  dr_adapter :: string
  dr_outcome :: string
  dr_attempt :: int
  dr_reason :: string
  dr_executor :: "string option"

definition delivery_event :: "moment \<Rightarrow> delivery_request \<Rightarrow> nat \<Rightarrow> json" where
  "delivery_event m q n =
     JObj [(''schema'', JStr STEERING_SCHEMA), (''sequence'', JInt (int n)), (''event_id'', JStr (at_fresh m n)),
       (''agent_run_id'', JStr (dr_run q)), (''correlation_id'', JStr (dr_correlation q)),
       (''message_sha256'', JStr (dr_digest q)), (''at'', JStr (at_text m)), (''adapter'', JStr (dr_adapter q)),
       (''outcome'', JStr (dr_outcome q)), (''attempt'', JInt (dr_attempt q)), (''reason'', JStr (dr_reason q)),
       (''executor'', opt_str (dr_executor q))]"

definition has_outcome :: "string list \<Rightarrow> json \<Rightarrow> bool" where
  "has_outcome names e \<longleftrightarrow> (\<exists>s \<in> set names. jget e ''outcome'' = JStr s)"

definition about_request :: "string \<Rightarrow> json list \<Rightarrow> json list" where
  "about_request cid es = filter (\<lambda>e. jget e ''correlation_id'' = JStr cid) es"

definition delivery_decision :: "timestamps \<Rightarrow> moment \<Rightarrow> delivery_request \<Rightarrow> json list \<Rightarrow> json decision result" where
  "delivery_decision parse m q existing =
     (let current = about_request (dr_correlation q) existing; latest = rev current; n = length existing + 1 in
     bindE (raise_if (mixed_runs existing) ''steering journal contains mixed agent run IDs'') (\<lambda>_.
     bindE (raise_if (\<exists>e \<in> set current. jget e ''agent_run_id'' \<noteq> JStr (dr_run q)
               \<or> jget e ''message_sha256'' \<noteq> JStr (dr_digest q) \<or> jget e ''adapter'' \<noteq> JStr (dr_adapter q))
             ''steering correlation identity conflicts with existing evidence'') (\<lambda>_.
     (case List.find (has_outcome ACK_TERMINAL_OUTCOMES) latest of
        Some e \<Rightarrow> Inr (e, None)
      | None \<Rightarrow>
     (case (if dr_outcome q \<in> {''applied'', ''rejected''} then None
            else List.find (has_outcome DELIVERY_STOP_OUTCOMES) latest) of
        Some e \<Rightarrow> Inr (e, None)
      | None \<Rightarrow>
     (case List.find (\<lambda>e. jget e ''outcome'' = JStr (dr_outcome q) \<and> py_eq (jget e ''attempt'') (JInt (dr_attempt q))) latest of
        Some e \<Rightarrow> Inr (e, None)
      | None \<Rightarrow>
          bindE (validate_delivery_event parse (delivery_event m q n) n) (\<lambda>event. Inr (event, Some event))))))))"

definition append_delivery_event :: "place \<Rightarrow> moment \<Rightarrow> delivery_request \<Rightarrow> (steer_dir, json) op" where
  "append_delivery_event p m q d =
     (if dr_adapter q \<notin> set SUPPORTED_ADAPTERS \<or> dr_outcome q \<notin> set OUTCOMES
      then (d, Inl (WorkflowError ''invalid steering delivery event''))
      else
        (case transact_jsonl (delivery_cfg (pl_dir p)) (validate_delivery_event (pl_parse p)) (delivery_decision (pl_parse p) m q) (sd_delivery d) of
           (f, r) \<Rightarrow> (d\<lparr>sd_delivery := f\<rparr>, r)))"

definition current_delivery :: "place \<Rightarrow> string \<Rightarrow> steer_dir \<Rightarrow> json option result" where
  "current_delivery p cid d =
     bindE (replay_delivery_events p d) (\<lambda>es.
     Inr (case about_request cid es of [] \<Rightarrow> None | ms \<Rightarrow> Some (last ms)))"

subsection \<open>The policy of a run\<close>

record policy =
  po_adapter :: string
  po_deadline :: int
  po_attempts :: int
  po_executable :: "string option"

definition steering_policy :: "json \<Rightarrow> policy result" where
  "steering_policy launch =
     (let raw = jget (jget launch ''runtime_policy'') ''steering'';
          deadline = jget raw ''deadline_seconds''; attempts = jget raw ''max_attempts'';
          wp = jget launch ''worker_plan'' in
      bindE (one_of (jget_or raw ''adapter'' (JStr ''unsupported'')) SUPPORTED_ADAPTERS) (\<lambda>known.
      Inr \<lparr>po_adapter = (if jget wp ''mode'' = JStr ''external'' then ''external-host-v1''
                         else if known then str_of (jget_or raw ''adapter'' (JStr ''unsupported'')) else ''unsupported''),
           po_deadline = (if counts deadline 1 then int_of deadline else 300),
           po_attempts = (if counts attempts 1 then int_of attempts else 1),
           po_executable = (case jget wp ''argv'' of JList (JStr s # _) \<Rightarrow> Some s | _ \<Rightarrow> None)\<rparr>))"

definition read_launch :: "place \<Rightarrow> json result" where
  "read_launch p = read_agent_run_contract (pl_host p) (pl_ext p) (pl_dir p) ''agent-run-contract.json''"

text \<open>\<open>str(launch["agent_run"]["id"])\<close>.\<close>

definition launch_run_id :: "json \<Rightarrow> string result" where
  "launch_run_id launch = bindE (field2 launch ''agent_run'' ''id'') (\<lambda>i. Inr (py_str i))"

definition read_policy :: "place \<Rightarrow> (json \<times> policy) result" where
  "read_policy p = bindE (read_launch p) (\<lambda>launch. bindE (steering_policy launch) (\<lambda>po. Inr (launch, po)))"

text \<open>What the operations record about a message of the log.\<close>

definition delivery_of ::
  "place \<Rightarrow> json \<Rightarrow> policy \<Rightarrow> json \<Rightarrow> string \<Rightarrow> string \<Rightarrow> int \<Rightarrow> string \<Rightarrow> delivery_request result" where
  "delivery_of p launch po message adapter outcome attempt reason =
     bindE (launch_run_id launch) (\<lambda>run.
     bindE (message_digest (pl_ext p) message) (\<lambda>dg.
     Inr \<lparr>dr_run = run, dr_correlation = py_str (jget message ''message_id''), dr_digest = dg, dr_adapter = adapter,
          dr_outcome = outcome, dr_attempt = attempt, dr_reason = reason, dr_executor = po_executable po\<rparr>))"

definition record_delivery ::
  "place \<Rightarrow> moment \<Rightarrow> json \<Rightarrow> policy \<Rightarrow> json \<Rightarrow> string \<Rightarrow> string \<Rightarrow> int \<Rightarrow> string \<Rightarrow> (steer_dir, json) op" where
  "record_delivery p m launch po message adapter outcome attempt reason =
     bindS (pureS (\<lambda>_. delivery_of p launch po message adapter outcome attempt reason)) (append_delivery_event p m)"

subsection \<open>Queueing and delivery\<close>

definition queue_request :: "place \<Rightarrow> moment \<Rightarrow> json \<Rightarrow> (steer_dir, json) op" where
  "queue_request p m message =
     bindS (pureS (\<lambda>_. read_policy p)) (\<lambda>(launch, po).
     bindS (pureS (current_delivery p (py_str (jget message ''message_id'')))) (\<lambda>existing.
     (case existing of
        Some e \<Rightarrow> returnS e
      | None \<Rightarrow>
          bindS (record_delivery p m launch po message (po_adapter po) ''queued'' 0
                  ''durable steer request queued for adapter delivery'') (\<lambda>queued.
          if po_adapter po = ''unsupported''
          then record_delivery p m launch po message ''unsupported'' ''unsupported'' 0
                 ''executor has no configured evidence-capable late-steering adapter''
          else returnS queued))))"

definition expired :: "place \<Rightarrow> moment \<Rightarrow> json \<Rightarrow> int \<Rightarrow> bool result" where
  "expired p m message deadline_seconds =
     bindE (parse_timestamp (pl_parse p) (jget message ''timestamp'')) (\<lambda>sent.
     Inr (sent + deadline_seconds * 1000000 \<le> at_instant m))"

definition steering_payload :: "string \<Rightarrow> string \<Rightarrow> policy \<Rightarrow> json \<Rightarrow> json" where
  "steering_payload run dg po message =
     JObj [(''schema'', JStr STEERING_REQUEST_SCHEMA), (''agent_run_id'', JStr run),
       (''message_id'', JStr (py_str (jget message ''message_id''))), (''message_sha256'', JStr dg),
       (''actor'', jget message ''actor''), (''content'', jget message ''content''),
       (''queued_at'', jget message ''timestamp''), (''deadline_seconds'', JInt (po_deadline po))]"

text \<open>Publication of a request in the inbox; an existing file must hold the same payload.\<close>

definition open_inbox :: "(steer_dir, unit) op" where
  "open_inbox d =
     (case sd_inbox d of
        Some Symlink \<Rightarrow> (d, Inl (WorkflowError ''steering inbox must not be a symlink''))
      | Some Directory \<Rightarrow> (d, Inr ())
      | None \<Rightarrow> (d\<lparr>sd_inbox := Some Directory, sd_files := []\<rparr>, Inr ())
      | Some _ \<Rightarrow> (d, Inl (OSError ''steering-inbox'')))"

definition publish_request :: "string \<Rightarrow> json \<Rightarrow> (steer_dir, unit) op" where
  "publish_request name payload d =
     (let mismatch = WorkflowError ''existing steering request does not match immutable payload'' in
      case map_of (sd_files d) name of
        None \<Rightarrow> (d\<lparr>sd_files := AList.update name (RFile (json_document payload) 1 False) (sd_files d)\<rparr>, Inr ())
      | Some (RLink _) \<Rightarrow> (d, Inl mismatch)
      | Some (RFile data _ _) \<Rightarrow>
          (d, case loads_utf8 data of
                None \<Rightarrow> Inl (OSError name)
              | Some v \<Rightarrow> if py_eq v payload then Inr () else Inl mismatch)
      | Some _ \<Rightarrow> (d, Inl (OSError name)))"

text \<open>\<open>except (OSError, UnicodeDecodeError, JSONDecodeError, WorkflowError) as exc\<close>.\<close>

definition catch_delivery :: "('s, 'a) op \<Rightarrow> (string \<Rightarrow> ('s, 'a) op) \<Rightarrow> ('s, 'a) op" where
  "catch_delivery m handler = (\<lambda>s. case m s of
       (s', Inl (WorkflowError t)) \<Rightarrow> handler t s'
     | (s', Inl (JournalCapacityError t)) \<Rightarrow> handler t s'
     | (s', Inl (InboxError t)) \<Rightarrow> handler t s'
     | (s', Inl (OSError t)) \<Rightarrow> handler t s'
     | (s', r) \<Rightarrow> (s', r))"

definition publish_and_record :: "place \<Rightarrow> moment \<Rightarrow> json \<Rightarrow> string \<Rightarrow> policy \<Rightarrow> json \<Rightarrow> (steer_dir, json) op" where
  "publish_and_record p m launch run po message =
     catch_delivery
       (bindS open_inbox (\<lambda>_.
        bindS (pureS (\<lambda>_. message_digest (pl_ext p) message)) (\<lambda>dg.
        bindS (publish_request (''steer-'' @ py_str (jget message ''message_id'') @ ''.json'')
                (steering_payload run dg po message)) (\<lambda>_.
        record_delivery p m launch po message ''control-file-v1'' ''delivered'' 1
          ''immutable steering request published to cooperative executor inbox''))))
       (\<lambda>reason. record_delivery p m launch po message ''control-file-v1'' ''failed'' 1 reason)"

definition deliver_one ::
  "place \<Rightarrow> moment \<Rightarrow> bool \<Rightarrow> json \<Rightarrow> string \<Rightarrow> policy \<Rightarrow> json list \<Rightarrow> json \<Rightarrow> (steer_dir, json option) op" where
  "deliver_one p m active launch run po events message =
     (let current = about_request (py_str (jget message ''message_id'')) events;
          one = (\<lambda>c. bindS c (\<lambda>e. returnS (Some e))) in
      if jget message ''kind'' \<noteq> JStr ''steer'' then returnS None
      else if \<exists>e \<in> set current. has_outcome DELIVERY_STOP_OUTCOMES e then returnS None
      else if \<exists>e \<in> set current. has_outcome [''delivered''] e then returnS None
      else if po_adapter po = ''unsupported'' then one (queue_request p m message)
      else
        bindS (pureS (\<lambda>_. expired p m message (po_deadline po))) (\<lambda>late.
        if late then one (record_delivery p m launch po message (po_adapter po) ''expired'' 0
                            ''steering delivery deadline elapsed before delivery'')
        else if \<not> active then one (record_delivery p m launch po message (po_adapter po) ''failed'' 0
                                    ''executor exited before steering could be delivered'')
        else if po_adapter po \<noteq> ''control-file-v1'' then returnS None
        else one (publish_and_record p m launch run po message)))"

text \<open>An operation on the message log of the run directory.\<close>

definition on_box :: "(mailbox, 'a) op \<Rightarrow> (steer_dir, 'a) op" where
  "on_box f d = (case f (sd_box d) of (b, r) \<Rightarrow> (d\<lparr>sd_box := b\<rparr>, r))"

definition deliver_pending :: "place \<Rightarrow> moment \<Rightarrow> bool \<Rightarrow> (steer_dir, json list) op" where
  "deliver_pending p m active =
     bindS (pureS (\<lambda>_. read_launch p)) (\<lambda>launch.
     bindS (pureS (\<lambda>_. launch_run_id launch)) (\<lambda>run.
     bindS (pureS (\<lambda>_. steering_policy launch)) (\<lambda>po.
     bindS (pureS (\<lambda>_. field2 launch ''paths'' ''handoff_dir'')) (\<lambda>_.
     bindS (on_box (replay_messages (pl_dir p) (JInt 0))) (\<lambda>ms.
     bindS (pureS (replay_delivery_events p)) (\<lambda>events.
     bindS (mapS (deliver_one p m active launch run po events) ms) (\<lambda>results.
     returnS (concat (map (\<lambda>r. case r of None \<Rightarrow> [] | Some e \<Rightarrow> [e]) results)))))))))"

subsection \<open>External hosts and acknowledgements\<close>

definition require_external :: "policy \<Rightarrow> unit result" where
  "require_external po = raise_if (po_adapter po \<noteq> ''external-host-v1'') ''external delivery requires worker_mode=external''"

definition pending_external_deliveries :: "place \<Rightarrow> moment \<Rightarrow> (steer_dir, json list) op" where
  "pending_external_deliveries p m =
     bindS (pureS (\<lambda>_. read_policy p)) (\<lambda>(_, po).
     bindS (pureS (\<lambda>_. require_external po)) (\<lambda>_.
     bindS (pureS (replay_delivery_events p)) (\<lambda>events.
     bindS (on_box (replay_messages (pl_dir p) (JInt 0))) (\<lambda>ms.
     pureS (\<lambda>_. bindE
       (mapE (\<lambda>message.
          (let current = about_request (py_str (jget message ''message_id'')) events in
           if jget message ''direction'' \<noteq> JStr ''parent_to_child''
              \<or> (current \<noteq> [] \<and> jget (last current) ''outcome'' \<noteq> JStr ''queued'') then Inr []
           else bindE (message_digest (pl_ext p) message) (\<lambda>dg.
             Inr [JObj [(''message'', message), (''message_sha256'', JStr dg),
                        (''delivery'', if current = [] then JNull else last current)]]))) ms)
       (\<lambda>rows. Inr (concat rows)))))))"

definition find_message :: "string \<Rightarrow> json list \<Rightarrow> json option" where
  "find_message cid ms = List.find (\<lambda>message. jget message ''message_id'' = JStr cid) ms"

definition record_external_delivery ::
  "place \<Rightarrow> moment \<Rightarrow> string \<Rightarrow> string \<Rightarrow> int \<Rightarrow> string \<Rightarrow> (steer_dir, json) op" where
  "record_external_delivery p m cid outcome attempt reason =
     bindS (pureS (\<lambda>_.
       bindE (raise_if (outcome \<notin> {''delivered'', ''failed''}) ''external delivery outcome must be delivered or failed'') (\<lambda>_.
       bindE (raise_if (attempt < 1) ''external delivery attempt must be >= 1'') (\<lambda>_.
       bindE (raise_if (py_strip reason = []) ''external delivery reason must be non-empty'') (\<lambda>_.
       bindE (read_policy p) (\<lambda>(launch, po).
       bindE (require_external po) (\<lambda>_. Inr (launch, po)))))))) (\<lambda>(launch, po).
     bindS (on_box (replay_messages (pl_dir p) (JInt 0))) (\<lambda>ms.
     (case find_message cid ms of
        None \<Rightarrow> pureS (\<lambda>_. Inl (WorkflowError ''external delivery must reference a durable parent-to-child message''))
      | Some message \<Rightarrow>
          if jget message ''direction'' \<noteq> JStr ''parent_to_child''
          then pureS (\<lambda>_. Inl (WorkflowError ''external delivery must reference a durable parent-to-child message''))
          else
            bindS (pureS (current_delivery p cid)) (\<lambda>current.
            (case current of
               Some e \<Rightarrow>
                 if has_outcome ACK_TERMINAL_OUTCOMES e then returnS e
                 else record_delivery p m launch (po\<lparr>po_executable := None\<rparr>) message ''external-host-v1'' outcome attempt (py_strip reason)
             | None \<Rightarrow>
                 record_delivery p m launch (po\<lparr>po_executable := None\<rparr>) message ''external-host-v1'' outcome attempt (py_strip reason))))))"

definition record_acknowledgement :: "place \<Rightarrow> moment \<Rightarrow> string \<Rightarrow> string \<Rightarrow> string \<Rightarrow> (steer_dir, json) op" where
  "record_acknowledgement p m cid outcome reason =
     bindS (pureS (\<lambda>_.
       bindE (raise_if (outcome \<notin> {''applied'', ''rejected''}) ''acknowledgement outcome must be applied or rejected'') (\<lambda>_.
       read_policy p))) (\<lambda>(launch, po).
     bindS (on_box (replay_messages (pl_dir p) (JInt 0))) (\<lambda>ms.
     (case find_message cid ms of
        None \<Rightarrow> pureS (\<lambda>_. Inl (WorkflowError ''acknowledgement must reference a durable steer request''))
      | Some message \<Rightarrow>
          if jget message ''kind'' \<noteq> JStr ''steer''
          then pureS (\<lambda>_. Inl (WorkflowError ''acknowledgement must reference a durable steer request''))
          else record_delivery p m launch po message (po_adapter po) outcome 1 reason)))"

text \<open>The operations of the component.\<close>

datatype steer_command =
    Queue json
  | Deliver bool
  | Pending
  | External string string int string
  | Acknowledge string string string

fun run_steering :: "place \<Rightarrow> moment \<times> steer_command \<Rightarrow> (steer_dir, json list) op" where
  "run_steering p (m, Queue message) = bindS (queue_request p m message) (\<lambda>e. returnS [e])"
| "run_steering p (m, Deliver active) = deliver_pending p m active"
| "run_steering p (m, Pending) = pending_external_deliveries p m"
| "run_steering p (m, External cid outcome attempt reason) =
     bindS (record_external_delivery p m cid outcome attempt reason) (\<lambda>e. returnS [e])"
| "run_steering p (m, Acknowledge cid outcome reason) =
     bindS (record_acknowledgement p m cid outcome reason) (\<lambda>e. returnS [e])"


subsection \<open>What a journal of deliveries keeps\<close>

text \<open>
  What an earlier event of a request means for a later one: an applied, rejected or expired request
  has no later event, one whose delivery has stopped can only be acknowledged, and all events of a
  request name the same run, message and adapter and differ in outcome or attempt.
\<close>

definition settles :: "json \<Rightarrow> json \<Rightarrow> bool" where
  "settles a b \<longleftrightarrow> jget a ''correlation_id'' = jget b ''correlation_id'' \<longrightarrow>
     \<not> has_outcome ACK_TERMINAL_OUTCOMES a
     \<and> (has_outcome DELIVERY_STOP_OUTCOMES a \<longrightarrow> has_outcome [''applied'', ''rejected''] b)
     \<and> jget a ''agent_run_id'' = jget b ''agent_run_id'' \<and> jget a ''message_sha256'' = jget b ''message_sha256''
     \<and> jget a ''adapter'' = jget b ''adapter''
     \<and> \<not> (jget a ''outcome'' = jget b ''outcome'' \<and> py_eq (jget a ''attempt'') (jget b ''attempt''))"

definition delivery_events :: "place \<Rightarrow> steer_dir \<Rightarrow> json list result" where
  "delivery_events p d = read_jsonl (delivery_cfg (pl_dir p)) True (validate_delivery_event (pl_parse p)) (sd_delivery d)"

definition steer_kept :: "place \<Rightarrow> steer_dir \<Rightarrow> steer_dir \<Rightarrow> bool" where
  "steer_kept p d d' \<longleftrightarrow>
     (\<forall>es'. delivery_events p d' = Inr es' \<longrightarrow>
        (\<exists>es more. delivery_events p d = Inr es \<and> es' = es @ more
           \<and> (sorted_wrt settles es \<longrightarrow> sorted_wrt settles es')))"

lemma validate_delivery_event_same: "validate_delivery_event parse v n = Inr w \<Longrightarrow> w = v"
  by (auto simp: validate_delivery_event_def)

lemma plain_delivery_event: "plain (delivery_event m q n)"
  by (cases "dr_executor q") (simp_all add: delivery_event_def)

lemma delivery_event_fields:
  "jget (canon (delivery_event m q n)) ''correlation_id'' = JStr (dr_correlation q)"
  "jget (canon (delivery_event m q n)) ''agent_run_id'' = JStr (dr_run q)"
  "jget (canon (delivery_event m q n)) ''message_sha256'' = JStr (dr_digest q)"
  "jget (canon (delivery_event m q n)) ''adapter'' = JStr (dr_adapter q)"
  "jget (canon (delivery_event m q n)) ''outcome'' = JStr (dr_outcome q)"
  "jget (canon (delivery_event m q n)) ''attempt'' = JInt (dr_attempt q)"
  unfolding jget_canon [OF plain_delivery_event] by (simp_all add: delivery_event_def jget_fields)

lemma delivery_decision_Inr:
  assumes "delivery_decision parse m q es = Inr (v, Some r)"
  shows "v = r" and "r = delivery_event m q (length es + 1)"
    and "\<And>e. e \<in> set es \<Longrightarrow> settles e (canon r)"
proof -
  from assms have r: "validate_delivery_event parse (delivery_event m q (length es + 1)) (length es + 1) = Inr r"
    and v: "v = r"
    and same: "\<And>e. e \<in> set (about_request (dr_correlation q) es) \<Longrightarrow> jget e ''agent_run_id'' = JStr (dr_run q)
       \<and> jget e ''message_sha256'' = JStr (dr_digest q) \<and> jget e ''adapter'' = JStr (dr_adapter q)"
    and ack: "List.find (has_outcome ACK_TERMINAL_OUTCOMES) (rev (about_request (dr_correlation q) es)) = None"
    and stop: "dr_outcome q \<in> {''applied'', ''rejected''}
       \<or> List.find (has_outcome DELIVERY_STOP_OUTCOMES) (rev (about_request (dr_correlation q) es)) = None"
    and dup: "List.find (\<lambda>e. jget e ''outcome'' = JStr (dr_outcome q) \<and> py_eq (jget e ''attempt'') (JInt (dr_attempt q)))
       (rev (about_request (dr_correlation q) es)) = None"
    by (auto simp: delivery_decision_def Let_def split: option.splits if_splits)
  show "v = r" by (rule v)
  show event: "r = delivery_event m q (length es + 1)" using validate_delivery_event_same [OF r] .
  show "settles e (canon r)" if "e \<in> set es" for e
  proof (cases "jget e ''correlation_id'' = JStr (dr_correlation q)")
    case True
    with that have e: "e \<in> set (about_request (dr_correlation q) es)" by (simp add: about_request_def)
    from e ack stop dup have "\<not> has_outcome ACK_TERMINAL_OUTCOMES e"
      "has_outcome DELIVERY_STOP_OUTCOMES e \<Longrightarrow> dr_outcome q \<in> {''applied'', ''rejected''}"
      "\<not> (jget e ''outcome'' = JStr (dr_outcome q) \<and> py_eq (jget e ''attempt'') (JInt (dr_attempt q)))"
      by (auto simp: find_None_iff)
    with same [OF e] show ?thesis
      by (auto simp: settles_def event delivery_event_fields has_outcome_def)
  next
    case False
    then show ?thesis by (simp add: settles_def event delivery_event_fields)
  qed
qed

interpretation sk: kept_relation "steer_kept p" for p
proof (unfold_locales, goal_cases)
  case (1 s)
  show ?case by (simp add: steer_kept_def)
next
  case (2 a b c)
  show ?case unfolding steer_kept_def
  proof (intro allI impI)
    fix es'' assume "delivery_events p c = Inr es''"
    with 2(2) obtain es' more' where b: "delivery_events p b = Inr es'" "es'' = es' @ more'"
      "sorted_wrt settles es' \<longrightarrow> sorted_wrt settles es''" unfolding steer_kept_def by blast
    with 2(1) obtain es more where "delivery_events p a = Inr es" "es' = es @ more"
      "sorted_wrt settles es \<longrightarrow> sorted_wrt settles es'" unfolding steer_kept_def by blast
    with b show "\<exists>es more. delivery_events p a = Inr es \<and> es'' = es @ more
        \<and> (sorted_wrt settles es \<longrightarrow> sorted_wrt settles es'')" by auto
  qed
qed

lemma steer_kept_same: "sd_delivery d' = sd_delivery d \<Longrightarrow> steer_kept p d d'"
  by (simp add: steer_kept_def delivery_events_def)

lemma append_delivery_kept: "steer_kept p d (fst (append_delivery_event p m q d))"
  unfolding steer_kept_def
proof (intro allI impI)
  fix es' assume es': "delivery_events p (fst (append_delivery_event p m q d)) = Inr es'"
  let ?c = "delivery_cfg (pl_dir p)" and ?V = "validate_delivery_event (pl_parse p)"
    and ?T = "delivery_decision (pl_parse p) m q"
  show "\<exists>es more. delivery_events p d = Inr es \<and> es' = es @ more \<and> (sorted_wrt settles es \<longrightarrow> sorted_wrt settles es')"
  proof (cases "dr_adapter q \<notin> set SUPPORTED_ADAPTERS \<or> dr_outcome q \<notin> set OUTCOMES")
    case True
    with es' show ?thesis by (simp add: append_delivery_event_def)
  next
    case False
    with es' have rd: "read_jsonl ?c True ?V (fst (transact_jsonl ?c ?V ?T (sd_delivery d))) = Inr es'"
      by (simp add: append_delivery_event_def delivery_events_def split: prod.splits)
    show ?thesis
    proof (rule transact_leaves [OF rd], goal_cases)
      case 1
      show ?case by (simp add: delivery_cfg_def default_cfg_def)
    next
      case (2 v n w)
      then show ?case by (rule validate_delivery_event_same)
    next
      case (3 es v r)
      from delivery_decision_Inr(2) [OF this] show ?case by (simp add: plain_delivery_event)
    next
      case 4
      then show ?case by (simp add: delivery_events_def)
    next
      case (5 es v r)
      with delivery_decision_Inr(3) [OF 5(2)] show ?case
        by (simp add: delivery_events_def sorted_wrt_append)
    qed
  qed
qed

lemma on_box_kept: "steer_kept p d (fst (on_box f d))"
  by (rule steer_kept_same) (simp add: on_box_def split: prod.split)

lemma record_delivery_kept: "steer_kept p d (fst (record_delivery p m launch po message a o' n r d))"
  unfolding record_delivery_def by (intro sk.compose append_delivery_kept)

lemma queue_request_kept: "steer_kept p d (fst (queue_request p m message d))"
  unfolding queue_request_def
  by (auto intro!: sk.compose record_delivery_kept simp: sk.same split: option.split prod.split)

lemma open_inbox_kept: "steer_kept p d (fst (open_inbox d))"
  by (rule steer_kept_same) (simp add: open_inbox_def split: option.split fentry.split)

lemma publish_request_kept: "steer_kept p d (fst (publish_request name payload d))"
  by (rule steer_kept_same) (simp add: publish_request_def Let_def split: option.split rentry.split)

lemma catch_delivery_kept:
  assumes "\<And>s. steer_kept p s (fst (f s))" and "\<And>t s. steer_kept p s (fst (h t s))"
  shows "steer_kept p s (fst (catch_delivery f h s))"
  using assms(1) [of s] assms(2) by (auto simp: catch_delivery_def intro: sk.chain split: prod.split sum.split error.split)

lemma publish_and_record_kept: "steer_kept p d (fst (publish_and_record p m launch run po message d))"
  unfolding publish_and_record_def
  by (intro catch_delivery_kept sk.compose open_inbox_kept publish_request_kept record_delivery_kept)

lemma deliver_one_kept: "steer_kept p d (fst (deliver_one p m active launch run po events message d))"
  unfolding deliver_one_def Let_def
  by (auto intro!: sk.compose queue_request_kept record_delivery_kept publish_and_record_kept simp: sk.same)

lemma deliver_pending_kept: "steer_kept p d (fst (deliver_pending p m active d))"
  unfolding deliver_pending_def by (intro sk.compose on_box_kept deliver_one_kept)

lemma pending_kept: "steer_kept p d (fst (pending_external_deliveries p m d))"
  unfolding pending_external_deliveries_def by (auto intro!: sk.compose on_box_kept split: prod.split)

lemma external_kept: "steer_kept p d (fst (record_external_delivery p m cid o' n r d))"
  unfolding record_external_delivery_def
  by (auto intro!: sk.compose on_box_kept record_delivery_kept simp: sk.same split: prod.split option.split)

lemma acknowledgement_kept: "steer_kept p d (fst (record_acknowledgement p m cid o' r d))"
  unfolding record_acknowledgement_def
  by (auto intro!: sk.compose on_box_kept record_delivery_kept simp: sk.same split: prod.split option.split)

lemma run_steering_kept: "steer_kept p d (fst (run_steering p c d))"
proof (cases c)
  case (Pair m op)
  show ?thesis unfolding Pair
    by (cases op) (auto intro!: sk.compose queue_request_kept deliver_pending_kept pending_kept external_kept acknowledgement_kept)
qed


text \<open>
  C13. The outcome of a steer request is final. Whatever sequence of operations runs on a run
  directory (queueing, delivery rounds, reports of an external host, acknowledgements), in whatever
  order and whether they return or raise: the delivery journal only grows, and if it was orderly
  before, then after an applied, rejected or expired event there is no later event of that request,
  after a stopped delivery there are only acknowledgements, no event is recorded twice, and all
  events of a request agree on the run, the message and the adapter.
\<close>

theorem steering_outcomes_final:
  assumes "replay_delivery_events p d = Inr es" and "sorted_wrt settles es"
    and "replay_delivery_events p (run_ops (run_steering p) cmds d) = Inr es'"
  shows "(\<exists>more. es' = es @ more) \<and> sorted_wrt settles es'"
proof -
  have "steer_kept p d (run_ops (run_steering p) cmds d)"
    by (rule sk.run) (rule run_steering_kept)
  moreover have "delivery_events p d = Inr es" "delivery_events p (run_ops (run_steering p) cmds d) = Inr es'"
    using assms(1,3) by (auto simp: replay_delivery_events_def delivery_events_def)
  ultimately show ?thesis using assms(2) by (force simp: steer_kept_def)
qed

subsection \<open>No request stays pending\<close>

text \<open>A record that stops a delivery, or finds it stopped, is in the journal afterwards.\<close>

lemma append_delivery_stops:
  assumes "append_delivery_event p m q d = (d', Inr v)" and "delivery_events p d' = Inr es'"
    and "dr_outcome q \<in> set DELIVERY_STOP_OUTCOMES"
  shows "\<exists>e \<in> set es'. jget e ''correlation_id'' = JStr (dr_correlation q) \<and> has_outcome DELIVERY_STOP_OUTCOMES e"
proof -
  let ?c = "delivery_cfg (pl_dir p)" and ?V = "validate_delivery_event (pl_parse p)"
    and ?T = "delivery_decision (pl_parse p) m q"
  from assms(1,2) have rd: "read_jsonl ?c True ?V (fst (transact_jsonl ?c ?V ?T (sd_delivery d))) = Inr es'"
    and val: "snd (transact_jsonl ?c ?V ?T (sd_delivery d)) = Inr v"
    by (auto simp: append_delivery_event_def delivery_events_def split: if_splits prod.splits)
  show ?thesis
  proof (rule transact_leaves [OF rd], goal_cases)
    case 1
    show ?case by (simp add: delivery_cfg_def default_cfg_def)
  next
    case (2 v n w)
    then show ?case by (rule validate_delivery_event_same)
  next
    case (3 es v r)
    from delivery_decision_Inr(2) [OF this] show ?case by (simp add: plain_delivery_event)
  next
    case 4
    from 4(2) [OF val] have "v \<in> set (about_request (dr_correlation q) es')
        \<and> (has_outcome DELIVERY_STOP_OUTCOMES v \<or> jget v ''outcome'' = JStr (dr_outcome q))"
      by (auto simp: delivery_decision_def Let_def has_outcome_def DELIVERY_STOP_OUTCOMES_def
          split: option.splits if_splits dest!: find_sound)
    with assms(3) show ?case by (intro bexI [of _ v]) (auto simp: about_request_def has_outcome_def)
  next
    case (5 es v r)
    from delivery_decision_Inr(2) [OF 5(2)] 5(3) assms(3) show ?case
      by (intro bexI [of _ "canon r"]) (auto simp: delivery_event_fields has_outcome_def)
  qed
qed


context kept_relation begin

lemma mapped_at:
  assumes "mapS f xs s = (s', Inr ys)" and "x \<in> set xs" and "\<And>x s. R s (fst (f x s))"
  shows "\<exists>s1 s2 y. f x s1 = (s2, Inr y) \<and> R s2 s'"
  using assms(1,2)
proof (induction xs arbitrary: s ys)
  case (Cons z xs)
  then obtain t y zs where t: "f z s = (t, Inr y)" "mapS f xs t = (s', Inr zs)"
    by (auto simp: bindS_eq_Inr)
  show ?case
  proof (cases "x = z")
    case True
    have "R t (fst (mapS f xs t))" by (rule mapped [OF assms(3)])
    with True t show ?thesis by auto
  next
    case False
    with Cons.prems(2) Cons.IH [OF t(2)] show ?thesis by simp
  qed
qed simp

end

lemma steer_keptD:
  assumes "steer_kept p d d'" and "delivery_events p d' = Inr es'"
  obtains es where "delivery_events p d = Inr es" "set es \<subseteq> set es'"
  using assms unfolding steer_kept_def by auto

lemma record_delivery_stops:
  assumes "record_delivery p m launch po message a outcome n reason d = (d', Inr v)"
    and "delivery_events p d' = Inr es'" and "outcome \<in> set DELIVERY_STOP_OUTCOMES"
  shows "\<exists>e \<in> set es'. jget e ''correlation_id'' = JStr (py_str (jget message ''message_id'')) \<and> has_outcome DELIVERY_STOP_OUTCOMES e"
proof -
  from assms(1) obtain q where "append_delivery_event p m q d = (d', Inr v)" "dr_outcome q = outcome"
    "dr_correlation q = py_str (jget message ''message_id'')"
    by (auto simp: record_delivery_def bindS_eq_Inr delivery_of_def pureS_def)
  with append_delivery_stops [OF this(1) assms(2)] assms(3) show ?thesis by simp
qed

lemma bindS_pureS: "bindS (pureS g) f s = (s', Inr y) \<longleftrightarrow> (\<exists>x. g s = Inr x \<and> f x s = (s', Inr y))"
  by (auto simp: bindS_eq_Inr)

lemma deliver_inactive:
  assumes "deliver_one p m False launch run po events message s = (s', Inr y)"
    and "jget message ''kind'' = JStr ''steer''" and "po_adapter po \<noteq> ''unsupported''"
    and "\<not> (\<exists>e \<in> set (about_request (py_str (jget message ''message_id'')) events). has_outcome DELIVERY_STOP_OUTCOMES e)"
    and "\<not> (\<exists>e \<in> set (about_request (py_str (jget message ''message_id'')) events). has_outcome [''delivered''] e)"
  shows "\<exists>outcome n reason v. outcome \<in> set DELIVERY_STOP_OUTCOMES
    \<and> record_delivery p m launch po message (po_adapter po) outcome n reason s = (s', Inr v)"
proof -
  have names: "''expired'' \<in> set DELIVERY_STOP_OUTCOMES" "''failed'' \<in> set DELIVERY_STOP_OUTCOMES"
    by (simp_all add: DELIVERY_STOP_OUTCOMES_def ACK_TERMINAL_OUTCOMES_def)
  from assms(1) obtain late where
    "(if late then bindS (record_delivery p m launch po message (po_adapter po) ''expired'' 0
          ''steering delivery deadline elapsed before delivery'') (\<lambda>e. returnS (Some e))
      else bindS (record_delivery p m launch po message (po_adapter po) ''failed'' 0
          ''executor exited before steering could be delivered'') (\<lambda>e. returnS (Some e))) s = (s', Inr y)"
    unfolding deliver_one_def Let_def assms(2) if_not_P [OF assms(3)] if_not_P [OF assms(4)] if_not_P [OF assms(5)]
    by (simp only: not_False_eq_True if_True if_False simp_thms bindS_pureS) blast
  then show ?thesis using names by (cases late) (auto simp: bindS_eq_Inr)
qed

text \<open>
  C14. When the executor has exited, no steer request is left waiting. A delivery round that runs
  with the executor inactive and returns leaves for every steer request of the message log an event
  that it was delivered, expired, failed or answered, whatever events the journal held before; the
  adapter has to be one of the two that can deliver.
\<close>

theorem inactive_round_settles:
  assumes "deliver_pending p m False d = (d', Inr results)"
    and "read_policy p = Inr (launch, po)" and "po_adapter po \<noteq> ''unsupported''"
    and "replay_messages (pl_dir p) (JInt 0) (sd_box d) = (b, Inr ms)"
    and "replay_delivery_events p d' = Inr es'"
    and "message \<in> set ms" and "jget message ''kind'' = JStr ''steer''"
  shows "\<exists>e \<in> set es'. jget e ''correlation_id'' = jget message ''message_id''
    \<and> has_outcome (''delivered'' # DELIVERY_STOP_OUTCOMES) e"
proof -
  let ?cid = "py_str (jget message ''message_id'')"
  from assms(5) have es': "delivery_events p d' = Inr es'"
    by (auto simp: replay_delivery_events_def delivery_events_def)
  from assms(4) have "read_jsonl (message_cfg (pl_dir p)) True validate_message_record (mb_log b) = Inr ms"
    by (simp add: replay_all)
  with assms(6) obtain s where cid: "jget message ''message_id'' = JStr s"
    by (auto simp: in_set_conv_nth validate_message_Inr message_atoms_def dest!: read_messages_nth)
  from assms(2) have l: "read_launch p = Inr launch" "steering_policy launch = Inr po"
    by (auto simp: read_policy_def)
  let ?d1 = "d\<lparr>sd_box := b\<rparr>"
  from assms(1,4) l obtain run events out where ev: "replay_delivery_events p ?d1 = Inr events"
    and loop: "mapS (deliver_one p m False launch run po events) ms ?d1 = (d', Inr out)"
    by (auto simp: deliver_pending_def bindS_eq_Inr on_box_def pureS_def)
  have kept: "\<And>x s. steer_kept p s (fst (deliver_one p m False launch run po events x s))"
    by (rule deliver_one_kept)
  from sk.mapped_at [OF loop assms(6) kept] obtain s1 s2 y where
    one: "deliver_one p m False launch run po events message s1 = (s2, Inr y)" and s2: "steer_kept p s2 d'" by blast
  have "steer_kept p ?d1 (fst (mapS (deliver_one p m False launch run po events) ms ?d1))"
    by (rule sk.mapped) (rule deliver_one_kept)
  then have "steer_kept p ?d1 d'" by (simp add: loop)
  from steer_keptD [OF this es'] ev have events: "set events \<subseteq> set es'"
    by (auto simp: replay_delivery_events_def delivery_events_def)
  from steer_keptD [OF s2 es'] obtain es2 where es2: "delivery_events p s2 = Inr es2" "set es2 \<subseteq> set es'" .
  show ?thesis
  proof (cases "\<exists>e \<in> set (about_request ?cid events). has_outcome DELIVERY_STOP_OUTCOMES e \<or> has_outcome [''delivered''] e")
    case True
    with events cid show ?thesis by (auto simp: about_request_def has_outcome_def)
  next
    case False
    then have "\<not> (\<exists>e \<in> set (about_request ?cid events). has_outcome DELIVERY_STOP_OUTCOMES e)"
      "\<not> (\<exists>e \<in> set (about_request ?cid events). has_outcome [''delivered''] e)" by blast+
    from deliver_inactive [OF one assms(7,3) this] have "\<exists>outcome n reason v. outcome \<in> set DELIVERY_STOP_OUTCOMES
        \<and> record_delivery p m launch po message (po_adapter po) outcome n reason s1 = (s2, Inr v)" .
    then obtain outcome n reason v where "outcome \<in> set DELIVERY_STOP_OUTCOMES"
      "record_delivery p m launch po message (po_adapter po) outcome n reason s1 = (s2, Inr v)" by blast
    from record_delivery_stops [OF this(2) es2(1) this(1)] es2(2) cid show ?thesis
      by (auto simp: has_outcome_def)
  qed
qed


subsection \<open>A round on a small run directory\<close>

definition demo_launch :: json where
  "demo_launch = JObj [(''schema'', JStr AGENT_RUN_CONTRACT_SCHEMA), (''schemas'', JObj []),
     (''worktree'', JObj [(''path'', JStr ''/w'')]), (''agent_run'', JObj [(''id'', JStr ''r1'')]),
     (''paths'', JObj [(''handoff_dir'', JStr ''/r/handoff''), (''workdir'', JStr ''/w'')]), (''pack'', JObj []),
     (''runtime_policy'', JObj [(''steering'', JObj [(''adapter'', JStr ''control-file-v1'')])]),
     (''command_catalog'', JObj [(''catalog_path'', JStr ''command-catalog.json''), (''card_path'', JStr ''command-card.md''),
        (''catalog_sha256'', JStr ''d''), (''card_sha256'', JStr ''d''), (''catalog_schema'', JStr ''c'')])]"

definition demo_host :: host where
  "demo_host = \<lparr>h_entry = map_of [(''/'', RDir), (''/w'', RDir), (''/r'', RDir), (''/r/handoff'', RDir),
       (''/r/command-catalog.json'', RFile ''{}'' 1 False), (''/r/command-card.md'', RFile ''c'' 1 False),
       (''/r/agent-run-contract.json'', RFile (dumps False demo_launch) 1 False)],
     h_absolute = (\<lambda>p. p), h_resolve = (\<lambda>p. p), h_schema = (\<lambda>_. None)\<rparr>"

definition demo_place :: place where
  "demo_place = \<lparr>pl_host = demo_host, pl_ext = demo_ext, pl_dir = ''/r'', pl_parse = (\<lambda>_. Some 0)\<rparr>"

lemma demo_files:
  "host_entry_at demo_host ''/r/agent-run-contract.json'' = Some (RFile (dumps False demo_launch) 1 False)"
  "no_dotdot demo_host ''/r/command-catalog.json'' = Inr ()" "no_dotdot demo_host ''/r/command-card.md'' = Inr ()"
  "host_parts demo_host ''/r/command-catalog.json'' = [''r'', ''command-catalog.json'']"
  "host_parts demo_host ''/r/command-card.md'' = [''r'', ''command-card.md'']"
  "host_walk demo_host [''r'', ''command-catalog.json''] 1" "host_walk demo_host [''r'', ''command-card.md''] 1"
  "h_entry demo_host (host_lexical demo_host ''/r/command-catalog.json'') = Some (RFile ''{}'' 1 False)"
  "h_entry demo_host (host_lexical demo_host ''/r/command-card.md'') = Some (RFile ''c'' 1 False)"
  by code_simp+

lemma demo_launch_text: "plain demo_launch" "ascii_json demo_launch" "length (dumps False demo_launch) \<le> 1000"
  by code_simp+

lemma demo_launch_parts:
  "is_obj (canon demo_launch)" "jget (canon demo_launch) ''schema'' = JStr AGENT_RUN_CONTRACT_SCHEMA"
  "validate_agent_run_contract_value demo_ext (canon demo_launch) ''/r/agent-run-contract.json'' = Inr AGENT_RUN_CONTRACT_SCHEMA"
  "jidx (canon demo_launch) ''schemas'' = Inr (JObj [])"
  "check_places demo_host (canon demo_launch) ''/r'' = Inr ()" "check_pack demo_host demo_ext (canon demo_launch) = Inr ()"
  "jget (canon demo_launch) ''command_catalog'' = canon (jget demo_launch ''command_catalog'')"
  "schema_errors demo_ext s v = []" "loads_utf8 ''{}'' = Some (JObj [])" "sha256 demo_ext x = ''d''"
  by code_simp+


lemma demo_launch_read: "read_launch demo_place = Inr (canon demo_launch)"
proof -
  have "length (dumps False demo_launch) \<le> MAX_VALIDATED_FILE_BYTES"
    using demo_launch_text(3) by (simp add: MAX_VALIDATED_FILE_BYTES_def)
  then have rc: "read_contract demo_ext ''/r'' ''agent-run-contract.json'' (Some (RFile (dumps False demo_launch) 1 False)) None
      = Inr (canon demo_launch)"
    using demo_launch_parts(1,2,8) utf8_valid_dumps [OF demo_launch_text(1,2)] loads_dumps [OF demo_launch_text(1)]
    by (simp add: read_contract_def read_regular_file_def Let_def AGENT_RUN_CONTRACT_SCHEMA_def)
  have "host_read_file demo_host ''/r/command-catalog.json'' = Inr ''{}''"
    "host_read_file demo_host ''/r/command-card.md'' = Inr ''c''"
    using demo_files by (simp_all add: host_read_file_def read_regular_file_def MAX_VALIDATED_FILE_BYTES_def)
  then have "check_command_artifacts demo_host demo_ext (canon demo_launch) ''/r'' = Inr ()"
    using demo_launch_parts(8-10)
    by (simp add: check_command_artifacts_def demo_launch_parts(7)) (simp add: demo_launch_def jget_fields Let_def)
  with rc demo_launch_parts demo_files(1) show ?thesis
    by (simp add: read_launch_def demo_place_def read_agent_run_contract_def as_items_def)
qed


definition demo_moment :: moment where
  "demo_moment = \<lparr>at_text = ''t'', at_instant = 0, at_fresh = (\<lambda>n. demo_uuid (CHR ''9''))\<rparr>"

definition demo_dir :: steer_dir where
  "demo_dir = \<lparr>sd_box = demo_box, sd_delivery = None, sd_inbox = None, sd_files = []\<rparr>"

definition demo_policy :: policy where
  "demo_policy = \<lparr>po_adapter = ''control-file-v1'', po_deadline = 300, po_attempts = 1, po_executable = None\<rparr>"

definition demo_delivery :: delivery_request where
  "demo_delivery = \<lparr>dr_run = ''r1'', dr_correlation = demo_uuid (CHR ''1''), dr_digest = ''sha256:d'',
     dr_adapter = ''control-file-v1'', dr_outcome = ''failed'', dr_attempt = 0,
     dr_reason = ''executor exited before steering could be delivered'', dr_executor = None\<rparr>"

definition demo_failed :: json where
  "demo_failed = delivery_event demo_moment demo_delivery 1"

lemma delivery_limits [simp]:
  "max_record_bytes (delivery_cfg dir) = 131072" "max_bytes (delivery_cfg dir) = 33554432"
  "max_records (delivery_cfg dir) = None" "require_trailing_newline (delivery_cfg dir)"
  "sequence_field (delivery_cfg dir) = Some ''sequence''"
  by (simp_all add: delivery_cfg_def default_cfg_def DEFAULT_MAX_JOURNAL_BYTES_def DEFAULT_MAX_RECORD_BYTES_def)

lemma demo_failed_text: "plain demo_failed" "ascii_json demo_failed" "length (canonical_json_line demo_failed) \<le> 1000"
  "validate_delivery_event (pl_parse demo_place) demo_failed 1 = Inr demo_failed"
  "validate_delivery_event (pl_parse demo_place) (canon demo_failed) 1 = Inr (canon demo_failed)"
  "is_obj demo_failed" "jget demo_failed ''sequence'' = JInt 1"
  by code_simp+

lemma demo_policy_of:
  "read_policy demo_place = Inr (canon demo_launch, demo_policy)"
  "steering_policy (canon demo_launch) = Inr demo_policy" "launch_run_id (canon demo_launch) = Inr ''r1''"
  "field2 (canon demo_launch) ''paths'' ''handoff_dir'' = Inr (JStr ''/r/handoff'')"
proof -
  show p: "steering_policy (canon demo_launch) = Inr demo_policy" by code_simp
  show "read_policy demo_place = Inr (canon demo_launch, demo_policy)"
    by (simp add: read_policy_def demo_launch_read p)
qed code_simp+

text \<open>The steer request of the log, and what is recorded about it.\<close>

definition demo_request_message :: json where
  "demo_request_message = canon (demo_log ! 0)"

lemma demo_request_facts:
  "demo_request_message \<in> set (map canon demo_log)" "jget demo_request_message ''kind'' = JStr ''steer''"
  "jget demo_request_message ''message_id'' = JStr (demo_uuid (CHR ''1''))"
  "map canon demo_log = [demo_request_message, canon (demo_log ! 1)]" "jget (canon (demo_log ! 1)) ''kind'' = JStr ''ack''"
  by (code_simp | simp add: demo_request_message_def demo_log_def)+

lemma demo_request_digest: "message_digest demo_ext demo_request_message = Inr ''sha256:d''"
proof -
  have "validate_message (demo_log ! 0) (Some 1) = Inr (demo_log ! 0)" "plain (demo_log ! 0)"
    using demo_log_valid [of 0] demo_log_texts(1) by (simp_all add: demo_log_def list_all_iff)
  from validate_message_canon [OF this] have "validate_message demo_request_message None = Inr demo_request_message"
    by (auto simp: demo_request_message_def validate_message_Inr message_atoms_def)
  then show ?thesis by (simp add: message_digest_def canonical_message_bytes_def demo_launch_parts(10))
qed


definition demo_after :: steer_dir where
  "demo_after = demo_dir\<lparr>sd_delivery := Some (Regular (canonical_json_line demo_failed) 1)\<rparr>"

lemma demo_append: "append_delivery_event demo_place demo_moment demo_delivery demo_dir = (demo_after, Inr demo_failed)"
proof -
  have "delivery_decision (pl_parse demo_place) demo_moment demo_delivery [] = Inr (demo_failed, Some demo_failed)"
    using demo_failed_text(4) by (simp add: delivery_decision_def mixed_runs_def about_request_def demo_failed_def)
  moreover have "decode_jsonl (delivery_cfg (pl_dir demo_place)) (validate_delivery_event (pl_parse demo_place)) [] = Inr []"
    by (simp add: decode_jsonl_def splitlines_def)
  ultimately have "transact_jsonl (delivery_cfg (pl_dir demo_place)) (validate_delivery_event (pl_parse demo_place))
      (delivery_decision (pl_parse demo_place) demo_moment demo_delivery) None
    = (Some (Regular (canonical_json_line demo_failed) 1), Inr demo_failed)"
    using demo_failed_text(3)
    by (simp add: transact_jsonl_def locked_file_def transact_bytes_def read_locked_bytes_def)
  moreover have "dr_adapter demo_delivery \<in> set SUPPORTED_ADAPTERS" "dr_outcome demo_delivery \<in> set OUTCOMES"
    by code_simp+
  ultimately show ?thesis by (simp add: append_delivery_event_def demo_dir_def demo_after_def)
qed

lemma demo_events:
  "replay_delivery_events demo_place demo_dir = Inr []" "replay_delivery_events demo_place demo_after = Inr [canon demo_failed]"
proof -
  have "good_record (delivery_cfg (pl_dir demo_place)) (validate_delivery_event (pl_parse demo_place)) demo_failed 1"
    using demo_failed_text utf8_valid_dumps [OF demo_failed_text(1,2)] by (simp add: good_record_def)
  then have "decode_jsonl (delivery_cfg (pl_dir demo_place)) (validate_delivery_event (pl_parse demo_place))
      (canonical_json_line demo_failed) = Inr [canon demo_failed]"
    using decode_records [of "delivery_cfg (pl_dir demo_place)" "[demo_failed]" "validate_delivery_event (pl_parse demo_place)"]
    by simp
  then show "replay_delivery_events demo_place demo_after = Inr [canon demo_failed]"
    using demo_failed_text(3) read_regular [of "canonical_json_line demo_failed" "delivery_cfg (pl_dir demo_place)" True
      "validate_delivery_event (pl_parse demo_place)"]
    by (simp add: replay_delivery_events_def demo_after_def demo_dir_def mixed_runs_def)
  show "replay_delivery_events demo_place demo_dir = Inr []"
    by (simp add: replay_delivery_events_def demo_dir_def read_jsonl_def read_bytes_def decode_jsonl_def splitlines_def mixed_runs_def)
qed

lemma demo_round: "deliver_pending demo_place demo_moment False demo_dir = (demo_after, Inr [demo_failed])"
proof -
  have "delivery_of demo_place (canon demo_launch) demo_policy demo_request_message (po_adapter demo_policy) ''failed'' 0
      ''executor exited before steering could be delivered'' = Inr demo_delivery"
    using demo_request_digest
    by (simp add: delivery_of_def demo_policy_of(3) demo_request_facts(3) demo_delivery_def demo_policy_def demo_place_def)
  then have rec: "record_delivery demo_place demo_moment (canon demo_launch) demo_policy demo_request_message
      (po_adapter demo_policy) ''failed'' 0 ''executor exited before steering could be delivered'' demo_dir = (demo_after, Inr demo_failed)"
    by (simp add: record_delivery_def bindS_def demo_append)
  have "expired demo_place demo_moment demo_request_message 300 = Inr False"
    by code_simp
  then have one: "deliver_one demo_place demo_moment False (canon demo_launch) ''r1'' demo_policy [] demo_request_message demo_dir
      = (demo_after, Inr (Some demo_failed))"
    using rec by (simp add: deliver_one_def demo_request_facts(2) about_request_def bindS_def demo_policy_def)
  have box: "on_box (replay_messages ''/r'' (JInt 0)) demo_dir = (demo_dir, Inr (map canon demo_log))"
    using demo_box_read [of "''/r''"] by (simp add: on_box_def demo_dir_def)
  have two: "deliver_one demo_place demo_moment False (canon demo_launch) ''r1'' demo_policy [] (canon (demo_log ! 1)) s
      = (s, Inr None)" for s
    using demo_request_facts(5) by (simp add: deliver_one_def Let_def)
  have dir: "pl_dir demo_place = ''/r''" by (simp add: demo_place_def)
  show ?thesis
    unfolding deliver_pending_def
    by (simp add: bindS_def demo_launch_read demo_policy_of demo_events(1) dir box one two [unfolded One_nat_def] demo_request_facts(4) [unfolded One_nat_def])
qed

theorem steering_outcomes_final_witness:
  "replay_delivery_events demo_place (run_ops (run_steering demo_place) [(demo_moment, Deliver False), (demo_moment, Pending)] demo_dir)
     = Inr [canon demo_failed] \<and> sorted_wrt settles [canon demo_failed]"
proof -
  have "pending_external_deliveries demo_place demo_moment demo_after
      = (demo_after, Inl (WorkflowError ''external delivery requires worker_mode=external''))"
    by (simp add: pending_external_deliveries_def bindS_def demo_policy_of(1) require_external_def demo_policy_def)
  then have "run_ops (run_steering demo_place) [(demo_moment, Deliver False), (demo_moment, Pending)] demo_dir = demo_after"
    by (simp add: demo_round)
  with steering_outcomes_final [OF demo_events(1), of "[(demo_moment, Deliver False), (demo_moment, Pending)]" "[canon demo_failed]"]
    demo_events(2) show ?thesis by simp
qed

theorem inactive_round_settles_witness:
  "\<exists>d' results es'. deliver_pending demo_place demo_moment False demo_dir = (d', Inr results)
     \<and> replay_delivery_events demo_place d' = Inr es'
     \<and> (\<exists>e \<in> set es'. jget e ''correlation_id'' = jget demo_request_message ''message_id''
          \<and> has_outcome (''delivered'' # DELIVERY_STOP_OUTCOMES) e)"
proof -
  have "po_adapter demo_policy \<noteq> ''unsupported''" by (simp add: demo_policy_def)
  moreover have "replay_messages (pl_dir demo_place) (JInt 0) (sd_box demo_dir) = (demo_box, Inr (map canon demo_log))"
    using demo_box_read by (simp add: demo_dir_def)
  ultimately show ?thesis
    using inactive_round_settles [OF demo_round demo_policy_of(1) _ _ demo_events(2) demo_request_facts(1,2)]
      demo_round demo_events(2) by blast
qed

end
