(* ===== verification/Consumer_Cursors.thy ===== *)
theory Consumer_Cursors
  imports Messages Launch_Contract Json_Pretty
begin

text \<open>
  \<open>consumer_cursors.py\<close>: cursors of the consumers of a message log. A consumer commits the effect of
  a message at its target and then advances its cursor, one message at a time; after a crash it
  starts again at the cursor, or rebuilds it from the evidence the target kept. The cursor file is
  an entry of the store, the target and the fault hook are arguments, and the lock of a cursor is
  the atomicity of an operation. The trusted configuration of an orchestrator and the creation of
  the store's directories are not modelled.
\<close>

subsection \<open>Identities\<close>

definition CURSOR_SCHEMA :: string where
  "CURSOR_SCHEMA = ''agent-workflow/consumer-cursor/v1''"

definition DISPOSITION_SCHEMA :: string where
  "DISPOSITION_SCHEMA = ''agent-workflow/handling-disposition/v1''"

definition DISPOSITIONS :: "string list" where
  "DISPOSITIONS = [''applied'', ''rejected'', ''ignored'', ''deferred'', ''security_error'']"

definition MAX_RECONSTRUCTION_RECORDS :: nat where
  "MAX_RECONSTRUCTION_RECORDS = 100000"

definition json_digest :: "ext \<Rightarrow> json \<Rightarrow> string" where
  "json_digest X v = ''sha256:'' @ sha256 X (dumps False v)"

definition safe_token :: "json \<Rightarrow> string \<Rightarrow> string result" where
  "safe_token v label =
     bindE (raise_if (\<not> nonempty_str v \<or> 256 < length (code_points (str_of v))) (label @ '' must be a bounded identifier'')) (\<lambda>_.
     bindE (raise_if (\<exists>c \<in> set (str_of v). c = CHR ''/'' \<or> c = CHR 0x5C \<or> c = CHR 0x00)
             (label @ '' cannot contain a path separator'')) (\<lambda>_. Inr (str_of v)))"

definition real_regular_file :: "rentry option \<Rightarrow> string \<Rightarrow> unit result" where
  "real_regular_file entry label =
     (case entry of
        None \<Rightarrow> Inl (WorkflowError (label @ '' does not exist''))
      | Some (RFile _ _ _) \<Rightarrow> Inr ()
      | Some _ \<Rightarrow> Inl (WorkflowError (label @ '' must be a regular non-symlink file'')))"

definition source_journal_identity :: "host \<Rightarrow> ext \<Rightarrow> string \<Rightarrow> string result" where
  "source_journal_identity h X path =
     bindE (real_regular_file (h_entry h (host_lexical h path)) ''source journal'') (\<lambda>_.
     Inr (json_digest X (JObj [(''schema'', JStr ''agent-workflow/source-journal/v1''), (''path'', JStr (h_resolve h path))])))"

record consumer =
  cb_consumer :: string
  cb_principal :: string
  cb_source :: string
  cb_identity :: string

definition consumer_binding :: "ext \<Rightarrow> string \<Rightarrow> string \<Rightarrow> string \<Rightarrow> bool \<Rightarrow> consumer result" where
  "consumer_binding X consumer_id role source_id trusted =
     bindE (validate_id consumer_id ''consumer identity'') (\<lambda>_.
     bindE (raise_if (role \<notin> {''child'', ''orchestrator''}) ''consumer principal is not trusted'') (\<lambda>_.
     bindE (raise_if (role = ''orchestrator'' \<and> \<not> trusted) ''orchestrator identity requires trusted configuration'') (\<lambda>_.
     bindE (raise_if (\<not> startswith source_id ''sha256:'') ''source journal identity is not a digest'') (\<lambda>_.
     Inr \<lparr>cb_consumer = consumer_id, cb_principal = role, cb_source = source_id,
          cb_identity = json_digest X (JObj [(''schema'', JStr ''agent-workflow/consumer-identity/v1''),
            (''consumer_id'', JStr consumer_id), (''principal'', JStr role), (''source_journal_id'', JStr source_id)])\<rparr>))))"

definition binding_from_launch :: "host \<Rightarrow> ext \<Rightarrow> string \<Rightarrow> string \<Rightarrow> string \<Rightarrow> consumer result" where
  "binding_from_launch h X dir name source_path =
     bindE (read_agent_run_contract h X dir name) (\<lambda>contract.
     bindE (jidx contract ''agent_run'') (\<lambda>agent_run.
     bindE (if is_obj agent_run then Inr () else Inl (TypeError ''get'')) (\<lambda>_.
     bindE (raise_if (\<not> is_str (jget agent_run ''id'')) ''launch contract has no consumer Agent Run identity'') (\<lambda>_.
     bindE (raise_if (h_resolve h source_path \<noteq> h_resolve h (dir @ ''/messages.jsonl''))
             ''launch-bound child consumer may only consume its launch journal'') (\<lambda>_.
     bindE (source_journal_identity h X source_path) (\<lambda>source_id.
     consumer_binding X (str_of (jget agent_run ''id'')) ''child'' source_id False))))))"

subsection \<open>Receipts of effects\<close>

record effect_receipt =
  er_id :: string
  er_message :: string
  er_digest :: string
  er_effect :: "string option"

definition receipt_from_value :: "json \<Rightarrow> string \<Rightarrow> string \<Rightarrow> effect_receipt result" where
  "receipt_from_value v message_id dg =
     bindE (raise_if (\<not> is_obj v \<or> jget v ''committed'' \<noteq> JBool True) ''target effect must return a committed receipt'') (\<lambda>_.
     bindE (safe_token (jget v ''receipt_id'') ''target receipt ID'') (\<lambda>rid.
     bindE (raise_if (jget v ''source_message_id'' \<noteq> JStr message_id) ''target receipt source message ID mismatch'') (\<lambda>_.
     bindE (raise_if (jget v ''source_message_digest'' \<noteq> JStr dg) ''target receipt source digest mismatch'') (\<lambda>_.
     bindE (if jget v ''effect_digest'' = JNull then Inr None
            else bindE (safe_token (jget v ''effect_digest'') ''target effect digest'') (\<lambda>e. Inr (Some e))) (\<lambda>effect.
     Inr \<lparr>er_id = rid, er_message = message_id, er_digest = dg, er_effect = effect\<rparr>)))))"

definition effect_value :: "effect_receipt \<Rightarrow> json" where
  "effect_value r =
     JObj [(''committed'', JBool True), (''receipt_id'', JStr (er_id r)), (''source_message_id'', JStr (er_message r)),
       (''source_message_digest'', JStr (er_digest r)), (''effect_digest'', opt_str (er_effect r))]"

subsection \<open>The source journal and the evidence about it\<close>

fun source_loop :: "ext \<Rightarrow> nat \<Rightarrow> (json \<times> string) list \<Rightarrow> json list \<Rightarrow> unit result" where
  "source_loop X n seen [] = Inr ()"
| "source_loop X n seen (r # rs) =
     bindE (raise_if (\<not> is_obj r) ''source journal record must be an object'') (\<lambda>_.
     bindE (validate_message r (Some (Suc n))) (\<lambda>_.
     bindE (message_digest X r) (\<lambda>dg.
     bindE (case map_of seen (jget r ''message_id'') of
              None \<Rightarrow> Inr ()
            | Some prior \<Rightarrow>
                Inl (WorkflowError (if prior \<noteq> dg then ''source message ID was reused with different bytes''
                                    else ''source journal contains duplicate message ID''))) (\<lambda>_.
     source_loop X (Suc n) ((jget r ''message_id'', dg) # seen) rs))))"

definition validate_source_records :: "ext \<Rightarrow> json list \<Rightarrow> json list result" where
  "validate_source_records X rs =
     bindE (raise_if (MAX_RECONSTRUCTION_RECORDS < length rs) ''source journal replay exceeds the bounded reconstruction limit'') (\<lambda>_.
     bindE (source_loop X 0 [] rs) (\<lambda>_. Inr rs))"

definition build_disposition_evidence ::
  "ext \<Rightarrow> string \<Rightarrow> consumer \<Rightarrow> json \<Rightarrow> string \<Rightarrow> effect_receipt \<Rightarrow> json result" where
  "build_disposition_evidence X now b r disposition receipt =
     bindE (validate_message r None) (\<lambda>_.
     bindE (raise_if (disposition \<notin> set DISPOSITIONS) (''unknown handling disposition: '' @ disposition)) (\<lambda>_.
     bindE (message_digest X r) (\<lambda>dg.
     bindE (raise_if (JStr (er_message receipt) \<noteq> jget r ''message_id'' \<or> er_digest receipt \<noteq> dg)
             ''target receipt is not bound to the source record'') (\<lambda>_.
     (let evidence = JObj [(''schema'', JStr DISPOSITION_SCHEMA), (''schema_version'', JInt 1),
            (''consumer_id'', JStr (cb_consumer b)), (''consumer_identity_digest'', JStr (cb_identity b)),
            (''source_journal_id'', JStr (cb_source b)), (''source_sequence'', jget r ''sequence''),
            (''source_message_id'', jget r ''message_id''), (''source_message_digest'', JStr dg),
            (''disposition'', JStr disposition), (''target_receipt_id'', JStr (er_id receipt)), (''updated_at'', JStr now)] in
     bindE (validate_instance X evidence DISPOSITION_SCHEMA ''handling disposition'') (\<lambda>_. Inr evidence))))))"

subsection \<open>Cursors\<close>

definition cursor_value :: "string \<Rightarrow> consumer \<Rightarrow> json \<Rightarrow> json \<Rightarrow> json \<Rightarrow> json \<Rightarrow> json" where
  "cursor_value now b q mid dg disposition =
     JObj [(''schema'', JStr CURSOR_SCHEMA), (''schema_version'', JInt 1), (''consumer_id'', JStr (cb_consumer b)),
       (''consumer_identity_digest'', JStr (cb_identity b)), (''source_journal_id'', JStr (cb_source b)),
       (''last_committed_source_sequence'', q), (''last_committed_source_message_id'', mid),
       (''last_committed_source_digest'', dg), (''disposition'', disposition), (''updated_at'', JStr now)]"

definition empty_cursor :: "string \<Rightarrow> consumer \<Rightarrow> json" where
  "empty_cursor now b = cursor_value now b (JInt 0) JNull JNull (JStr ''deferred'')"

text \<open>
  A cursor that cannot be trusted (\<open>CursorCorruptError\<close>) is told apart from one of another identity
  (\<open>CursorIntegrityError\<close>): only the first is rebuilt.
\<close>

datatype 'a reading = Corrupt string | Good 'a

fun demand :: "'a reading \<Rightarrow> 'a result" where
  "demand (Corrupt t) = Inl (WorkflowError t)"
| "demand (Good x) = Inr x"

definition same_identity :: "json \<Rightarrow> consumer \<Rightarrow> bool" where
  "same_identity v b \<longleftrightarrow>
     jget v ''consumer_id'' = JStr (cb_consumer b) \<and> jget v ''consumer_identity_digest'' = JStr (cb_identity b)
     \<and> jget v ''source_journal_id'' = JStr (cb_source b)"

definition validate_cursor :: "ext \<Rightarrow> json \<Rightarrow> consumer \<Rightarrow> json reading result" where
  "validate_cursor X v b =
     (if \<not> is_obj v then Inr (Corrupt ''consumer cursor must be a JSON object'')
      else (case validate_instance X v CURSOR_SCHEMA ''consumer cursor'' of
              Inl _ \<Rightarrow> Inr (Corrupt ''consumer cursor failed schema validation'')
            | Inr _ \<Rightarrow>
                bindE (raise_if (\<not> same_identity v b) ''consumer cursor identity does not match trusted binding'') (\<lambda>_.
                Inr (Good v))))"

definition validate_disposition_evidence :: "ext \<Rightarrow> json \<Rightarrow> consumer \<Rightarrow> json result" where
  "validate_disposition_evidence X v b =
     (case validate_instance X v DISPOSITION_SCHEMA ''handling disposition'' of
        Inl _ \<Rightarrow> Inl (WorkflowError ''handling disposition failed schema validation'')
      | Inr _ \<Rightarrow>
          bindE (jidx v ''consumer_id'') (\<lambda>c.
          bindE (raise_if (c \<noteq> JStr (cb_consumer b)) ''handling disposition identity mismatch'') (\<lambda>_.
          bindE (jidx v ''consumer_identity_digest'') (\<lambda>i.
          bindE (raise_if (i \<noteq> JStr (cb_identity b)) ''handling disposition identity mismatch'') (\<lambda>_.
          bindE (jidx v ''source_journal_id'') (\<lambda>s.
          bindE (raise_if (s \<noteq> JStr (cb_source b)) ''handling disposition identity mismatch'') (\<lambda>_. Inr v)))))))"

subsection \<open>Rebuilding a cursor\<close>

fun evidence_loop :: "ext \<Rightarrow> consumer \<Rightarrow> (json \<times> json) list \<Rightarrow> json list \<Rightarrow> (json \<times> json) list result" where
  "evidence_loop X b by_id [] = Inr by_id"
| "evidence_loop X b by_id (raw # rest) =
     bindE (validate_disposition_evidence X raw b) (\<lambda>e.
     bindE (bindE (jidx e ''source_message_id'') hashed) (\<lambda>sid.
     bindE (case map_of by_id sid of
              None \<Rightarrow> Inr ()
            | Some prior \<Rightarrow>
                bindE (jidx prior ''source_message_digest'') (\<lambda>a.
                bindE (jidx e ''source_message_digest'') (\<lambda>c.
                raise_if (\<not> py_eq a c) ''target evidence reuses a source ID with different bytes''))) (\<lambda>_.
     evidence_loop X b (AList.update sid e by_id) rest)))"

fun prefix_loop :: "ext \<Rightarrow> consumer \<Rightarrow> (json \<times> json) list \<Rightarrow> json \<Rightarrow> json list \<Rightarrow> json result" where
  "prefix_loop X b by_id cur [] = Inr cur"
| "prefix_loop X b by_id cur (r # rs) =
     bindE (message_digest X r) (\<lambda>dg.
     (case map_of by_id (jget r ''message_id'') of
        None \<Rightarrow> Inr cur
      | Some e \<Rightarrow>
          bindE (jidx e ''source_message_digest'') (\<lambda>d.
          bindE (raise_if (d \<noteq> JStr dg) ''target evidence digest conflicts with source journal'') (\<lambda>_.
          bindE (jidx e ''source_sequence'') (\<lambda>q.
          bindE (raise_if (\<not> py_eq q (jget r ''sequence'')) ''target evidence sequence conflicts with source journal'') (\<lambda>_.
          bindE (jidx e ''disposition'') (\<lambda>disposition.
          bindE (jidx e ''updated_at'') (\<lambda>updated.
          prefix_loop X b by_id
            (jupdate cur [(''last_committed_source_sequence'', jget r ''sequence''),
               (''last_committed_source_message_id'', jget r ''message_id''), (''last_committed_source_digest'', JStr dg),
               (''disposition'', disposition), (''updated_at'', updated)]) rs))))))))"

definition reconstruct_cursor :: "ext \<Rightarrow> string \<Rightarrow> consumer \<Rightarrow> json list \<Rightarrow> json list \<Rightarrow> json result" where
  "reconstruct_cursor X now b source evidence =
     bindE (validate_source_records X source) (\<lambda>rs.
     bindE (raise_if (MAX_RECONSTRUCTION_RECORDS < length evidence) ''target evidence exceeds the bounded reconstruction limit'') (\<lambda>_.
     bindE (evidence_loop X b [] evidence) (\<lambda>by_id.
     bindE (prefix_loop X b by_id (empty_cursor now b) rs) (\<lambda>cur.
     bindE (validate_instance X cur CURSOR_SCHEMA ''reconstructed consumer cursor'') (\<lambda>_. Inr cur)))))"

subsection \<open>The store\<close>

text \<open>The cursor file of one consumer, and the state of the target its effects go to.\<close>

record 't cursor_state =
  cs_file :: "rentry option"
  cs_target :: 't

text \<open>
  \<open>locked\<close> converts every \<open>WorkflowError\<close> of the block it guards, not only those of the lock.
\<close>

definition locked :: "('s, 'a) op \<Rightarrow> ('s, 'a) op" where
  "locked m = (\<lambda>s. case m s of
       (s', Inl e) \<Rightarrow> (s', Inl (if is_WorkflowError e then WorkflowError ''cannot lock consumer cursor'' else e))
     | (s', Inr x) \<Rightarrow> (s', Inr x))"

definition read_unlocked :: "ext \<Rightarrow> consumer \<Rightarrow> 't cursor_state \<Rightarrow> json reading option result" where
  "read_unlocked X b s =
     (case cs_file s of
        None \<Rightarrow> Inr None
      | Some entry \<Rightarrow>
          bindE (real_regular_file (Some entry) ''consumer cursor'') (\<lambda>_.
          (case (case entry of RFile data _ _ \<Rightarrow> loads_utf8 data | _ \<Rightarrow> None) of
             None \<Rightarrow> Inr (Some (Corrupt ''consumer cursor is truncated or invalid''))
           | Some v \<Rightarrow> bindE (validate_cursor X v b) (\<lambda>r. Inr (Some r)))))"

definition read_cursor :: "ext \<Rightarrow> consumer \<Rightarrow> 't cursor_state \<Rightarrow> json option result" where
  "read_cursor X b s =
     bindE (read_unlocked X b s) (\<lambda>r.
     (case r of None \<Rightarrow> Inr None | Some x \<Rightarrow> bindE (demand x) (\<lambda>v. Inr (Some v))))"

text \<open>\<open>CursorStore.read\<close>: the same, under the lock.\<close>

definition store_read :: "ext \<Rightarrow> consumer \<Rightarrow> ('t cursor_state, json option) op" where
  "store_read X b = locked (pureS (read_cursor X b))"

definition current_cursor :: "ext \<Rightarrow> string \<Rightarrow> consumer \<Rightarrow> 't cursor_state \<Rightarrow> json result" where
  "current_cursor X now b s =
     bindE (read_cursor X b s) (\<lambda>r. Inr (case r of None \<Rightarrow> empty_cursor now b | Some v \<Rightarrow> v))"

definition replace_cursor :: "ext \<Rightarrow> consumer \<Rightarrow> json \<Rightarrow> ('t cursor_state, json) op" where
  "replace_cursor X b v =
     bindS (pureS (\<lambda>_. bindE (validate_cursor X v b) demand)) (\<lambda>cur s.
       (case (case cs_file s of None \<Rightarrow> Inr () | e \<Rightarrow> real_regular_file e ''consumer cursor'') of
          Inl e \<Rightarrow> (s, Inl e)
        | Inr _ \<Rightarrow> (s\<lparr>cs_file := Some (RFile (json_document cur) 1 True)\<rparr>, Inr cur)))"

definition committed_sequence :: "json \<Rightarrow> int result" where
  "committed_sequence cur =
     bindE (jidx cur ''last_committed_source_sequence'') (\<lambda>q.
     if is_int q then Inr (int_of q) else Inl (TypeError ''sequence''))"

definition next_cursor :: "string \<Rightarrow> consumer \<Rightarrow> json \<Rightarrow> string \<Rightarrow> string \<Rightarrow> json" where
  "next_cursor now b r dg disposition =
     cursor_value now b (jget r ''sequence'') (jget r ''message_id'') (JStr dg) (JStr disposition)"

definition not_next :: "'a result" where
  "not_next = Inl (WorkflowError ''source sequence is not the next FIFO record'')"

definition compare_and_update ::
  "ext \<Rightarrow> string \<Rightarrow> consumer \<Rightarrow> int \<Rightarrow> json \<Rightarrow> string \<Rightarrow> effect_receipt \<Rightarrow> ('t cursor_state, json) op" where
  "compare_and_update X now b expected r disposition receipt =
     bindS (pureS (\<lambda>_. validate_message r None)) (\<lambda>_.
     bindS (pureS (\<lambda>_. raise_if (disposition \<notin> set DISPOSITIONS) (''unknown handling disposition: '' @ disposition))) (\<lambda>_.
     bindS (pureS (\<lambda>_. message_digest X r)) (\<lambda>dg.
     locked
       (bindS (pureS (current_cursor X now b)) (\<lambda>cur.
        bindS (pureS (\<lambda>_. jidx cur ''last_committed_source_sequence'')) (\<lambda>q.
        bindS (pureS (\<lambda>_. raise_if (\<not> py_eq q (JInt expected)) ''consumer cursor compare failed'')) (\<lambda>_.
        bindS (pureS (\<lambda>_. if int_of (jget r ''sequence'') \<noteq> expected + 1 then not_next else Inr ())) (\<lambda>_.
        bindS (pureS (\<lambda>_. receipt_from_value (effect_value receipt) (str_of (jget r ''message_id'')) dg)) (\<lambda>_.
        replace_cursor X b (next_cursor now b r dg disposition))))))))))"

text \<open>What \<open>process\<close> reports.\<close>

datatype processed =
    Duplicate json
  | Already json
  | Advanced json effect_receipt json

type_synonym 't commit = "json \<Rightarrow> string \<Rightarrow> string \<Rightarrow> ('t, json) op"

definition on_target :: "('t, 'a) op \<Rightarrow> ('t cursor_state, 'a) op" where
  "on_target f s = (case f (cs_target s) of (t, r) \<Rightarrow> (s\<lparr>cs_target := t\<rparr>, r))"

record 't handling =
  hd_record :: json
  hd_disposition :: string
  hd_hook :: "effect_receipt \<Rightarrow> unit result"
  hd_now :: string

definition advance :: "ext \<Rightarrow> consumer \<Rightarrow> 't commit \<Rightarrow> 't handling \<Rightarrow> string \<Rightarrow> ('t cursor_state, processed) op" where
  "advance X b commit c dg =
     (let r = hd_record c; mid = str_of (jget r ''message_id'') in
     bindS (on_target (commit r mid dg)) (\<lambda>raw.
     bindS (pureS (\<lambda>_. receipt_from_value raw mid dg)) (\<lambda>receipt.
     bindS (pureS (\<lambda>_. hd_hook c receipt)) (\<lambda>_.
     bindS (replace_cursor X b (next_cursor (hd_now c) b r dg (hd_disposition c))) (\<lambda>committed.
     pureS (\<lambda>_. bindE (build_disposition_evidence X (hd_now c) b r (hd_disposition c) receipt) (\<lambda>e.
       Inr (Advanced committed receipt e))))))))"

definition process_message :: "ext \<Rightarrow> consumer \<Rightarrow> 't commit \<Rightarrow> 't handling \<Rightarrow> ('t cursor_state, processed) op" where
  "process_message X b commit c =
     (let r = hd_record c in
     bindS (pureS (\<lambda>_. validate_message r None)) (\<lambda>_.
     bindS (pureS (\<lambda>_. message_digest X r)) (\<lambda>dg.
     locked
       (bindS (pureS (current_cursor X (hd_now c) b)) (\<lambda>cur.
        bindS (pureS (\<lambda>_. jidx cur ''last_committed_source_message_id'')) (\<lambda>current_id.
        if current_id = jget r ''message_id'' then
          pureS (\<lambda>_. bindE (jidx cur ''last_committed_source_digest'') (\<lambda>d.
            if d \<noteq> JStr dg then Inl (WorkflowError ''source message ID was reused with different bytes'')
            else Inr (Duplicate cur)))
        else
          bindS (pureS (\<lambda>_. committed_sequence cur)) (\<lambda>n.
          if int_of (jget r ''sequence'') \<le> n then returnS (Already cur)
          else if int_of (jget r ''sequence'') \<noteq> n + 1 then pureS (\<lambda>_. not_next)
          else advance X b commit c dg)))))))"

fun differs_any :: "json \<Rightarrow> json \<Rightarrow> string list \<Rightarrow> bool result" where
  "differs_any v w [] = Inr False"
| "differs_any v w (k # ks) =
     bindE (jidx v k) (\<lambda>a. bindE (jidx w k) (\<lambda>c. if \<not> py_eq a c then Inr True else differs_any v w ks))"

definition CURSOR_PROGRESS :: "string list" where
  "CURSOR_PROGRESS = [''last_committed_source_sequence'', ''last_committed_source_message_id'',
     ''last_committed_source_digest'', ''disposition'']"

definition read_or_reconstruct ::
  "ext \<Rightarrow> string \<Rightarrow> consumer \<Rightarrow> json list \<Rightarrow> json list \<Rightarrow> ('t cursor_state, json) op" where
  "read_or_reconstruct X now b source evidence =
     bindS (pureS (\<lambda>_. reconstruct_cursor X now b source evidence)) (\<lambda>rebuilt.
     locked
       (bindS (pureS (read_unlocked X b)) (\<lambda>stored.
        (case stored of
           Some (Good cur) \<Rightarrow>
             bindS (pureS (\<lambda>_. differs_any cur rebuilt CURSOR_PROGRESS)) (\<lambda>stale.
             if stale then replace_cursor X b rebuilt else returnS cur)
         | _ \<Rightarrow> replace_cursor X b rebuilt))))"


subsection \<open>A validated source\<close>

definition message_id_of :: "json \<Rightarrow> string" where
  "message_id_of r = str_of (jget r ''message_id'')"

lemma source_loop_Inr:
  "source_loop X n seen rs = Inr u \<Longrightarrow>
     (\<forall>i < length rs. validate_message (rs ! i) (Some (Suc (n + i))) = Inr (rs ! i))
     \<and> distinct (map (\<lambda>r. jget r ''message_id'') rs)
     \<and> (\<forall>r \<in> set rs. map_of seen (jget r ''message_id'') = None)"
proof (induction X n seen rs rule: source_loop.induct)
  case (2 X n seen r rs)
  then obtain dg w where v: "validate_message r (Some (Suc n)) = Inr w" and fresh: "map_of seen (jget r ''message_id'') = None"
    and rest: "source_loop X (Suc n) ((jget r ''message_id'', dg) # seen) rs = Inr u"
    and d: "message_digest X r = Inr dg" and o: "is_obj r"
    by (auto split: option.splits)
  have "(\<forall>i < length rs. validate_message (rs ! i) (Some (Suc (Suc n + i))) = Inr (rs ! i))
     \<and> distinct (map (\<lambda>r. jget r ''message_id'') rs)
     \<and> (\<forall>r' \<in> set rs. map_of ((jget r ''message_id'', dg) # seen) (jget r' ''message_id'') = None)"
    using o v d fresh rest by (intro "2.IH" [of "()" w dg "()"]) (auto simp: validate_message_Inr)
  moreover from v have "validate_message r (Some (Suc n)) = Inr r" by (simp add: validate_message_Inr)
  ultimately show ?case using fresh
    by (auto simp: nth_Cons split: nat.split if_splits)
qed simp

lemma validate_source_Inr:
  assumes "validate_source_records X source = Inr out"
  shows "out = source" and "distinct (map message_id_of source)"
    and "\<And>i. i < length source \<Longrightarrow> jget (source ! i) ''sequence'' = JInt (int (i + 1))"
    and "\<And>r. r \<in> set source \<Longrightarrow> \<exists>s. jget r ''message_id'' = JStr s \<and> uuid_canonical s"
proof -
  from assms have "source_loop X 0 [] source = Inr ()" "out = source"
    by (auto simp: validate_source_records_def)
  note l = source_loop_Inr [OF this(1)] and this(2)
  then show "out = source" by blast
  from l have at: "message_atoms (jget (source ! i)) (Some (i + 1))" if "i < length source" for i
    using that by (simp add: validate_message_Inr)
  show "jget (source ! i) ''sequence'' = JInt (int (i + 1))" if "i < length source" for i
    using at [OF that] by (auto simp: message_atoms_def)
  show ids: "\<exists>s. jget r ''message_id'' = JStr s \<and> uuid_canonical s" if r: "r \<in> set source" for r
  proof -
    from r obtain i where "i < length source" "r = source ! i" by (auto simp: in_set_conv_nth)
    with at [of i] show ?thesis by (auto simp: message_atoms_def)
  qed
  have "inj_on JStr (set (map message_id_of source))" by (simp add: inj_on_def)
  moreover have "map (\<lambda>r. jget r ''message_id'') source = map JStr (map message_id_of source)"
    by (auto simp: message_id_of_def dest!: ids)
  ultimately show "distinct (map message_id_of source)" using l(1) by (metis distinct_map)
qed


lemma hex_ascii: "is_hex (ascii_lower c) \<or> ascii_lower c = CHR ''-'' \<Longrightarrow> ascii c"
  by (auto simp: is_hex_def is_digit_def ascii_lower_def ascii_def char_le_iff split: if_splits)

lemma uuid_ascii: "uuid_canonical s \<Longrightarrow> list_all ascii s"
proof -
  assume "uuid_canonical s"
  then have "\<forall>c \<in> set (py_lower s). is_hex c \<or> c = CHR ''-''"
    unfolding uuid_canonical_def by (auto simp: list_all2_conv_all_nth in_set_conv_nth split: if_splits)
  then show ?thesis by (auto simp: py_lower_def list_all_iff intro: hex_ascii)
qed

subsection \<open>Effects happen once, in order\<close>

text \<open>
  What the code asks of a target: an effect it has already committed is not committed again, and a
  receipt is only returned for a committed effect. It may raise before or after committing.
\<close>

definition commits_once :: "('t \<Rightarrow> string list) \<Rightarrow> 't commit \<Rightarrow> bool" where
  "commits_once applied commit \<longleftrightarrow>
     (\<forall>r mid dg t. (case commit r mid dg t of (t', out) \<Rightarrow>
        (if mid \<in> set (applied t) then applied t' = applied t else applied t' \<in> {applied t, applied t @ [mid]})
        \<and> (\<forall>v. out = Inr v \<longrightarrow> mid \<in> set (applied t'))))"

definition ascii_consumer :: "ext \<Rightarrow> consumer \<Rightarrow> bool" where
  "ascii_consumer X b \<longleftrightarrow> list_all ascii (cb_consumer b) \<and> list_all ascii (cb_identity b) \<and> list_all ascii (cb_source b)
     \<and> (\<forall>s. list_all ascii (sha256 X s))"

definition position :: "json option \<Rightarrow> int" where
  "position r = (case r of None \<Rightarrow> 0 | Some v \<Rightarrow> int_of (jget v ''last_committed_source_sequence''))"

lemma locked_fst [simp]: "fst (locked m s) = fst (m s)"
  by (simp add: locked_def split: prod.split sum.split)

lemma fst_bind_pure: "fst (bindS (pureS g) f s) = (case g s of Inl e \<Rightarrow> s | Inr x \<Rightarrow> fst (f x s))"
  by (simp add: bindS_def split: sum.split)

lemma process_state:
  "fst (process_message X b commit c s) = s
   \<or> (\<exists>cur dg. current_cursor X (hd_now c) b s = Inr cur \<and> message_digest X (hd_record c) = Inr dg
        \<and> committed_sequence cur = Inr (int_of (jget (hd_record c) ''sequence'') - 1)
        \<and> fst (process_message X b commit c s) = fst (advance X b commit c dg s))"
  unfolding process_message_def Let_def fst_bind_pure locked_fst
  by (auto split: sum.split simp: fst_bind_pure)

lemma replace_cursor_state:
  "fst (replace_cursor X b v s) = s \<or> fst (replace_cursor X b v s) = s\<lparr>cs_file := Some (RFile (json_document v) 1 True)\<rparr>"
  by (auto simp: replace_cursor_def bindS_def validate_cursor_def split: sum.splits if_splits prod.splits)

lemma advance_state:
  assumes "commit (hd_record c) (message_id_of (hd_record c)) dg (cs_target s) = (t, out)"
  shows "fst (advance X b commit c dg s) = s\<lparr>cs_target := t\<rparr>
   \<or> (\<exists>v. out = Inr v) \<and> fst (advance X b commit c dg s)
        = s\<lparr>cs_target := t, cs_file := Some (RFile (json_document (next_cursor (hd_now c) b (hd_record c) dg (hd_disposition c))) 1 True)\<rparr>"
proof (cases out)
  case (Inl e)
  with assms show ?thesis by (simp add: advance_def Let_def bindS_def on_target_def message_id_of_def)
next
  case (Inr raw)
  let ?v = "next_cursor (hd_now c) b (hd_record c) dg (hd_disposition c)" and ?s = "s\<lparr>cs_target := t\<rparr>"
  have "fst (advance X b commit c dg s) = ?s \<or> fst (advance X b commit c dg s) = fst (replace_cursor X b ?v ?s)"
    using assms Inr
    by (auto simp: advance_def Let_def bindS_def on_target_def message_id_of_def pureS_def split: sum.splits prod.splits)
  with replace_cursor_state [of X b ?v ?s] Inr show ?thesis by auto
qed


definition cursor_at :: "consumer \<Rightarrow> json list \<Rightarrow> nat \<Rightarrow> 't cursor_state \<Rightarrow> bool" where
  "cursor_at b source p s \<longleftrightarrow>
     p = 0 \<and> cs_file s = None
     \<or> (\<exists>i now dg d. p = Suc i \<and> i < length source \<and> list_all ascii now \<and> list_all ascii dg \<and> list_all ascii d
          \<and> cs_file s = Some (RFile (json_document (next_cursor now b (source ! i) dg d)) 1 True))"

lemma cursor_at_read:
  assumes "validate_source_records X source = Inr source" and "ascii_consumer X b" and "cursor_at b source p s"
    and "read_cursor X b s = Inr r"
  shows "position r = int p" and "\<And>v. r = Some v \<Longrightarrow> jget v ''last_committed_source_sequence'' = JInt (int p)"
proof -
  have "position r = int p \<and> (\<forall>v. r = Some v \<longrightarrow> jget v ''last_committed_source_sequence'' = JInt (int p))"
  proof (cases "cs_file s")
    case None
    with assms(3,4) show ?thesis
      by (auto simp: cursor_at_def read_cursor_def read_unlocked_def position_def)
  next
    case (Some entry)
    with assms(3) obtain i now dg d where i: "p = Suc i" "i < length source"
      and a: "list_all ascii now" "list_all ascii dg" "list_all ascii d"
      and e: "entry = RFile (json_document (next_cursor now b (source ! i) dg d)) 1 True"
      by (auto simp: cursor_at_def)
    let ?v = "next_cursor now b (source ! i) dg d"
    have q: "jget (source ! i) ''sequence'' = JInt (int (i + 1))" using validate_source_Inr(3) [OF assms(1) i(2)] .
    obtain mid where m: "jget (source ! i) ''message_id'' = JStr mid" "uuid_canonical mid"
      using validate_source_Inr(4) [OF assms(1), of "source ! i"] i(2) by auto
    have v: "plain ?v" "ascii_json ?v"
      using assms(2) a m q uuid_ascii [OF m(2)]
      by (simp_all add: next_cursor_def cursor_value_def ascii_consumer_def CURSOR_SCHEMA_def ascii_def)
    have g: "jget (canon ?v) ''last_committed_source_sequence'' = JInt (int p)"
      using q i(1) by (simp add: jget_canon [OF v(1)]) (simp add: next_cursor_def cursor_value_def jaccess)
    have l: "loads_utf8 (json_document ?v) = Some (canon ?v)" using loads_utf8_document [OF v] by (simp add: loads_utf8_def)
    from assms(4) Some e l have "r = Some (canon ?v)"
      by (auto simp: read_cursor_def read_unlocked_def validate_cursor_def real_regular_file_def split: if_splits sum.splits)
    with g show ?thesis by (simp add: position_def)
  qed
  then show "position r = int p" and "\<And>v. r = Some v \<Longrightarrow> jget v ''last_committed_source_sequence'' = JInt (int p)"
    by blast+
qed


lemma current_cursor_at:
  assumes "validate_source_records X source = Inr source" and "ascii_consumer X b" and "cursor_at b source p s"
    and "current_cursor X now b s = Inr cur" and "committed_sequence cur = Inr n"
  shows "n = int p"
proof -
  from assms(4) obtain r where r: "read_cursor X b s = Inr r" "cur = (case r of None \<Rightarrow> empty_cursor now b | Some v \<Rightarrow> v)"
    by (auto simp: current_cursor_def split: sum.splits)
  have "jget cur ''last_committed_source_sequence'' = JInt (int p)"
  proof (cases r)
    case None
    moreover have "p = 0"
      using cursor_at_read(1) [OF assms(1-3) r(1)] None by (simp add: position_def)
    ultimately show ?thesis using r(2) by (simp add: empty_cursor_def cursor_value_def jaccess)
  next
    case (Some v)
    with r(2) cursor_at_read(2) [OF assms(1-3) r(1) Some] show ?thesis by simp
  qed
  with assms(5) show ?thesis
    by (auto simp: committed_sequence_def jaccess split: if_splits option.splits sum.splits)
qed

definition in_step :: "consumer \<Rightarrow> ('t \<Rightarrow> string list) \<Rightarrow> json list \<Rightarrow> 't cursor_state \<Rightarrow> bool" where
  "in_step b applied source s \<longleftrightarrow>
     (\<exists>p k. cursor_at b source p s \<and> applied (cs_target s) = take k (map message_id_of source)
        \<and> k \<le> length source \<and> (k = p \<or> k = p + 1))"

lemma process_in_step:
  assumes once: "commits_once applied commit" and valid: "validate_source_records X source = Inr source"
    and ascii: "ascii_consumer X b" "list_all ascii (hd_disposition c)" "list_all ascii (hd_now c)"
    and r: "hd_record c \<in> set source" and s: "in_step b applied source s"
  shows "in_step b applied source (fst (process_message X b commit c s))"
  using process_state [of X b commit c s]
proof (elim disjE exE conjE)
  assume "fst (process_message X b commit c s) = s"
  with s show ?thesis by simp
next
  fix cur dg
  assume cur: "current_cursor X (hd_now c) b s = Inr cur" "committed_sequence cur = Inr (int_of (jget (hd_record c) ''sequence'') - 1)"
    and dg: "message_digest X (hd_record c) = Inr dg"
    and step: "fst (process_message X b commit c s) = fst (advance X b commit c dg s)"
  let ?ids = "map message_id_of source" and ?id = "message_id_of (hd_record c)"
  from s obtain p k where p: "cursor_at b source p s" and k: "applied (cs_target s) = take k ?ids" "k \<le> length source" "k = p \<or> k = p + 1"
    by (auto simp: in_step_def)
  from r obtain i where i: "i < length source" "hd_record c = source ! i" by (auto simp: in_set_conv_nth)
  have "int i = int p"
    using current_cursor_at [OF valid ascii(1) p cur] validate_source_Inr(3) [OF valid i(1)] i(2) by simp
  with i have rp: "p < length source" "hd_record c = source ! p" by auto
  have id: "?id = ?ids ! p" using rp by simp
  have dist: "distinct ?ids" by (rule validate_source_Inr(2) [OF valid])
  have mem: "?id \<in> set (take k ?ids) \<longleftrightarrow> k = p + 1"
    using k(2,3) rp(1) nth_eq_iff_index_eq [OF dist, of _ p] unfolding id by (auto simp: in_set_conv_nth)
  obtain t out where t: "commit (hd_record c) ?id dg (cs_target s) = (t, out)" by (cases "commit (hd_record c) ?id dg (cs_target s)")
  have snoc: "take p ?ids @ [?id] = take (p + 1) ?ids" using id rp(1) by (simp add: take_Suc_conv_app_nth)
  have "\<exists>k'. applied t = take k' ?ids \<and> k' \<le> length source \<and> (k' = p \<or> k' = p + 1)
      \<and> ((\<exists>v. out = Inr v) \<longrightarrow> k' = p + 1)"
  proof (cases "k = p + 1")
    case True
    with once t mem k(1) have "applied t = take k ?ids" unfolding commits_once_def by (smt (verit) prod.case)
    with True k(2) show ?thesis by blast
  next
    case False
    with k(3) have kp: "k = p" by simp
    with once t mem k(1) False have "applied t = take p ?ids \<or> applied t = take p ?ids @ [?id]"
      and o: "(\<exists>v. out = Inr v) \<Longrightarrow> ?id \<in> set (applied t)"
      unfolding commits_once_def by (smt (verit) prod.case insertE singletonD)+
    then consider "applied t = take p ?ids" | "applied t = take (p + 1) ?ids" using snoc by auto
    then show ?thesis
    proof cases
      case 1
      with o mem kp False have "\<not> (\<exists>v. out = Inr v)" by auto
      with 1 rp(1) show ?thesis by (intro exI [of _ p]) simp
    qed (use rp(1) in \<open>auto intro: exI [of _ "p + 1"]\<close>)
  qed
  then obtain k' where k': "applied t = take k' ?ids" "k' \<le> length source" "k' = p \<or> k' = p + 1"
    "(\<exists>v. out = Inr v) \<longrightarrow> k' = p + 1" by blast
  have moved: "cursor_at b source (p + 1) (s\<lparr>cs_target := t, cs_file := Some (RFile (json_document (next_cursor (hd_now c) b (hd_record c) dg (hd_disposition c))) 1 True)\<rparr>)"
  proof -
    have "list_all ascii dg" using dg ascii(1)
      by (auto simp: message_digest_def ascii_consumer_def ascii_def split: sum.splits)
    with rp ascii(2,3) show ?thesis by (auto simp: cursor_at_def)
  qed
  have kept: "cursor_at b source p (s\<lparr>cs_target := t\<rparr>)" using p by (simp add: cursor_at_def)
  from advance_state [where X = X and b = b and commit = commit and c = c and dg = dg and s = s, OF t] show ?thesis
  proof (elim disjE conjE exE)
    assume "fst (advance X b commit c dg s) = s\<lparr>cs_target := t\<rparr>"
    with kept k' step show ?thesis unfolding in_step_def by (intro exI [of _ p] exI [of _ k']) simp
  next
    fix v assume "out = Inr v" and "fst (advance X b commit c dg s)
        = s\<lparr>cs_target := t, cs_file := Some (RFile (json_document (next_cursor (hd_now c) b (hd_record c) dg (hd_disposition c))) 1 True)\<rparr>"
    with moved k' step show ?thesis unfolding in_step_def by (intro exI [of _ "p + 1"] exI [of _ k']) simp
  qed
qed


text \<open>
  C15. Effects at a target happen once and in the order of the log, whatever crashes. Take any
  sequence of \<open>CursorStore.process\<close> calls on records of a validated source log, in any order, with
  repetitions, with a target that may fail before or after it commits and a hook that may raise
  between the commit and the cursor, from a store with no cursor. If the target commits an effect at
  most once per message, the effects it has applied are exactly those of a prefix of the log, and the
  stored cursor names the last of them or the one before it.
\<close>

theorem effects_once_in_order:
  assumes "commits_once applied commit" and "validate_source_records X source = Inr source" and "ascii_consumer X b"
    and "cs_file s = None" and "applied (cs_target s) = []"
    and "\<forall>c \<in> set calls. hd_record c \<in> set source \<and> list_all ascii (hd_disposition c) \<and> list_all ascii (hd_now c)"
  shows "\<exists>k \<le> length source. applied (cs_target (fold (\<lambda>c s. fst (process_message X b commit c s)) calls s))
             = take k (map message_id_of source)
           \<and> (\<forall>r. read_cursor X b (fold (\<lambda>c s. fst (process_message X b commit c s)) calls s) = Inr r
                \<longrightarrow> position r = int k \<or> position r + 1 = int k)"
proof -
  have "in_step b applied source s" using assms(4,5) by (auto simp: in_step_def cursor_at_def)
  with assms(6) have "in_step b applied source (fold (\<lambda>c s. fst (process_message X b commit c s)) calls s)"
    by (induction calls arbitrary: s) (auto intro: process_in_step [OF assms(1-3)])
  then show ?thesis
    unfolding in_step_def using cursor_at_read(1) [OF assms(2,3)] by fastforce
qed

text \<open>A log of two messages; the first effect is committed, the hook raises, and the call is repeated.\<close>

definition demo_consumer :: consumer where
  "demo_consumer = \<lparr>cb_consumer = ''worker'', cb_principal = ''child'', cb_source = ''sha256:s'', cb_identity = ''sha256:i''\<rparr>"

definition demo_commit :: "string list commit" where
  "demo_commit r mid dg t =
     (if mid \<in> set t then t else t @ [mid], Inr (effect_value \<lparr>er_id = ''r'', er_message = mid, er_digest = dg, er_effect = None\<rparr>))"

definition demo_call :: "json \<Rightarrow> unit result \<Rightarrow> string list handling" where
  "demo_call r hook = \<lparr>hd_record = r, hd_disposition = ''applied'', hd_hook = (\<lambda>_. hook), hd_now = ''t''\<rparr>"

definition demo_calls :: "string list handling list" where
  "demo_calls = [demo_call (demo_log ! 0) (Inl (WorkflowError ''crash'')), demo_call (demo_log ! 1) (Inr ()),
     demo_call (demo_log ! 0) (Inr ()), demo_call (demo_log ! 0) (Inr ()), demo_call (demo_log ! 1) (Inr ())]"

lemma demo_log_at: "demo_log = [demo_log ! 0, demo_log ! 1]"
  by (simp add: demo_log_def)

lemma demo_digest:
  assumes "m = demo_log ! 0 \<or> m = demo_log ! 1"
  shows "message_digest demo_ext m = Inr ''sha256:d''"
proof -
  have "validate_message (demo_log ! 0) (Some (Suc 0)) = Inr (demo_log ! 0)"
    "validate_message (demo_log ! 1) (Some (Suc (Suc 0))) = Inr (demo_log ! 1)"
    using demo_log_valid [of 0] demo_log_valid [of 1] by (simp_all add: demo_log_def)
  with assms have "validate_message m None = Inr m"
    by (auto simp: validate_message_Inr message_atoms_def simp del: One_nat_def)
  then show ?thesis by (simp add: message_digest_def canonical_message_bytes_def demo_ext_def)
qed

lemma demo_source: "validate_source_records demo_ext demo_log = Inr demo_log"
proof -
  have v: "validate_message (demo_log ! 0) (Some (Suc 0)) = Inr (demo_log ! 0)"
    "validate_message (demo_log ! 1) (Some (Suc (Suc 0))) = Inr (demo_log ! 1)"
    using demo_log_valid [of 0] demo_log_valid [of 1] by (simp_all add: demo_log_def)
  have "jget (demo_log ! 1) ''message_id'' \<noteq> jget (demo_log ! 0) ''message_id''"
    "is_obj (demo_log ! 0)" "is_obj (demo_log ! 1)" by code_simp+
  with v demo_digest have "source_loop demo_ext 0 [] [demo_log ! 0, demo_log ! 1] = Inr ()" by simp
  then have "source_loop demo_ext 0 [] demo_log = Inr ()" using demo_log_at by metis
  then show ?thesis by (simp add: validate_source_records_def MAX_RECONSTRUCTION_RECORDS_def demo_log_def)
qed

lemma demo_consumer_ascii: "ascii_consumer demo_ext demo_consumer"
  by (simp add: ascii_consumer_def demo_consumer_def demo_ext_def ascii_def)

theorem effects_once_in_order_witness:
  "\<exists>k \<le> length demo_log.
     cs_target (fold (\<lambda>c s. fst (process_message demo_ext demo_consumer demo_commit c s)) demo_calls \<lparr>cs_file = None, cs_target = []\<rparr>)
       = take k (map message_id_of demo_log)"
proof -
  have "commits_once (\<lambda>t. t) demo_commit" by (simp add: commits_once_def demo_commit_def)
  moreover have "\<forall>c \<in> set demo_calls. hd_record c \<in> set demo_log \<and> list_all ascii (hd_disposition c) \<and> list_all ascii (hd_now c)"
    by (simp add: demo_calls_def demo_call_def demo_log_def ascii_def)
  ultimately show ?thesis
    using effects_once_in_order [of "\<lambda>t. t" demo_commit demo_ext demo_log demo_consumer "\<lparr>cs_file = None, cs_target = []\<rparr>" demo_calls]
      demo_source demo_consumer_ascii by auto
qed


subsection \<open>A rebuilt cursor is the contiguous prefix\<close>

lemma evidence_loop_keys:
  "evidence_loop X b by_id es = Inr out \<Longrightarrow>
     set (map fst out) = set (map fst by_id) \<union> (\<lambda>e. jget e ''source_message_id'') ` set es"
proof (induction X b by_id es arbitrary: out rule: evidence_loop.induct)
  case (2 X b by_id raw rest)
  from 2(2) obtain e sid y where v: "validate_disposition_evidence X raw b = Inr e"
    and h: "bindE (jidx e ''source_message_id'') hashed = Inr sid"
    and d: "(case map_of by_id sid of None \<Rightarrow> Inr ()
            | Some prior \<Rightarrow>
                bindE (jidx prior ''source_message_digest'') (\<lambda>a.
                bindE (jidx e ''source_message_digest'') (\<lambda>c.
                raise_if (\<not> py_eq a c) ''target evidence reuses a source ID with different bytes''))) = Inr y"
    and r: "evidence_loop X b (AList.update sid e by_id) rest = Inr out"
    by auto
  from v have e: "e = raw" by (auto simp: validate_disposition_evidence_def split: sum.splits)
  from h e have sid: "sid = jget raw ''source_message_id''"
    by (auto simp: jaccess hashed_def split: if_splits option.splits)
  have "set (map fst out) = set (map fst (AList.update sid e by_id)) \<union> (\<lambda>e. jget e ''source_message_id'') ` set rest"
    by (rule "2.IH" [OF v h d r])
  then show ?case using sid by (auto simp: keys_update)
qed simp

definition covered :: "json list \<Rightarrow> json \<Rightarrow> bool" where
  "covered evidence r \<longleftrightarrow> jget r ''message_id'' \<in> (\<lambda>e. jget e ''source_message_id'') ` set evidence"

lemma jupdate_committed:
  assumes "is_obj cur"
  shows "is_obj (jupdate cur [(''last_committed_source_sequence'', q), (''last_committed_source_message_id'', m),
           (''last_committed_source_digest'', g), (''disposition'', d), (''updated_at'', u)])"
    and "jget (jupdate cur [(''last_committed_source_sequence'', q), (''last_committed_source_message_id'', m),
           (''last_committed_source_digest'', g), (''disposition'', d), (''updated_at'', u)]) ''last_committed_source_sequence'' = q"
  using assms by (cases cur; simp add: jupdate_def)+

lemma prefix_loop_last:
  assumes "prefix_loop X b by_id cur rs = Inr out" and "is_obj cur"
  shows "jget out ''last_committed_source_sequence''
      = (case takeWhile (\<lambda>r. jget r ''message_id'' \<in> set (map fst by_id)) rs of
           [] \<Rightarrow> jget cur ''last_committed_source_sequence''
         | p # ps \<Rightarrow> jget (last (p # ps)) ''sequence'')"
  using assms
proof (induction rs arbitrary: cur)
  case (Cons r rs)
  show ?case
  proof (cases "map_of by_id (jget r ''message_id'')")
    case None
    with Cons.prems show ?thesis by (auto simp: map_of_eq_None_iff split: sum.splits)
  next
    case (Some e)
    then have m: "jget r ''message_id'' \<in> set (map fst by_id)" by (metis domI dom_map_of_conv_image_fst set_map)
    from Cons.prems(1) Some obtain dg d u where rest: "prefix_loop X b by_id
            (jupdate cur [(''last_committed_source_sequence'', jget r ''sequence''),
               (''last_committed_source_message_id'', jget r ''message_id''), (''last_committed_source_digest'', JStr dg),
               (''disposition'', d), (''updated_at'', u)]) rs = Inr out"
      by (auto split: sum.splits)
    from Cons.IH [OF rest jupdate_committed(1) [OF Cons.prems(2)]] m show ?thesis
      by (simp only: jupdate_committed(2) [OF Cons.prems(2)]) (simp split: list.split)
  qed
qed simp

text \<open>
  C24. A cursor rebuilt from the source log and the target's evidence stands at the end of the longest
  prefix of the log every record of which has evidence: \<open>reconstruct_cursor\<close> never counts a record
  after the first one whose effect the target does not show.
\<close>

theorem reconstruct_is_prefix:
  assumes "reconstruct_cursor X now b source evidence = Inr cur"
  shows "jget cur ''last_committed_source_sequence'' = JInt (int (length (takeWhile (covered evidence) source)))"
proof -
  from assms obtain rs by_id where v: "validate_source_records X source = Inr rs"
    and l: "evidence_loop X b [] evidence = Inr by_id"
    and p: "prefix_loop X b by_id (empty_cursor now b) rs = Inr cur"
    by (auto simp: reconstruct_cursor_def)
  note rs = validate_source_Inr(1) [OF v]
  note at = validate_source_Inr(3) [OF v [unfolded rs]]
  have "set (map fst by_id) = (\<lambda>e. jget e ''source_message_id'') ` set evidence"
    using evidence_loop_keys [OF l] by simp
  with prefix_loop_last [OF p] have q: "jget cur ''last_committed_source_sequence''
      = (case takeWhile (covered evidence) source of
           [] \<Rightarrow> JInt 0 | p # ps \<Rightarrow> jget (last (p # ps)) ''sequence'')"
    by (simp add: rs covered_def [abs_def] empty_cursor_def cursor_value_def jaccess split: list.split)
  let ?tw = "takeWhile (covered evidence) source"
  show ?thesis
  proof (cases ?tw)
    case (Cons a ps)
    have n: "length ?tw - 1 < length source"
      using Cons length_takeWhile_le [of "covered evidence" source] by (cases "length ?tw") auto
    have "last ?tw = source ! (length ?tw - 1)"
      using Cons takeWhile_nth [of "length ?tw - 1" "covered evidence" source] last_conv_nth [of ?tw] by force
    with q at [OF n] Cons show ?thesis by simp
  qed (use q in simp)
qed

text \<open>Evidence about the first of the two messages only.\<close>

definition first_evidence :: json where
  "first_evidence = JObj [(''consumer_id'', JStr ''worker''), (''consumer_identity_digest'', JStr ''sha256:i''),
     (''source_journal_id'', JStr ''sha256:s''), (''source_sequence'', JInt 1), (''source_message_id'', JStr (demo_uuid (CHR ''1''))),
     (''source_message_digest'', JStr ''sha256:d''), (''disposition'', JStr ''applied''), (''updated_at'', JStr ''t'')]"

lemma demo_rebuilt: "\<exists>cur. reconstruct_cursor demo_ext ''t'' demo_consumer demo_log [first_evidence] = Inr cur"
proof -
  let ?by = "[(JStr (demo_uuid (CHR ''1'')), first_evidence)]"
  have l: "evidence_loop demo_ext demo_consumer [] [first_evidence] = Inr ?by" by code_simp
  have ids: "jget (demo_log ! 0) ''message_id'' = JStr (demo_uuid (CHR ''1''))"
    "jget (demo_log ! 1) ''message_id'' \<noteq> JStr (demo_uuid (CHR ''1''))" "jget (demo_log ! 0) ''sequence'' = JInt 1" by code_simp+
  have e: "jidx first_evidence ''source_message_digest'' = Inr (JStr ''sha256:d'')" "jidx first_evidence ''source_sequence'' = Inr (JInt 1)"
    "jidx first_evidence ''disposition'' = Inr (JStr ''applied'')" "jidx first_evidence ''updated_at'' = Inr (JStr ''t'')"
    by code_simp+
  have "\<exists>cur. prefix_loop demo_ext demo_consumer ?by (empty_cursor ''t'' demo_consumer) [demo_log ! 0, demo_log ! 1] = Inr cur"
    using ids e demo_digest by simp
  then have "\<exists>cur. prefix_loop demo_ext demo_consumer ?by (empty_cursor ''t'' demo_consumer) demo_log = Inr cur"
    using demo_log_at by metis
  with l show ?thesis
    by (auto simp: reconstruct_cursor_def demo_source MAX_RECONSTRUCTION_RECORDS_def validate_instance_def)
       (simp add: demo_ext_def)
qed

theorem reconstruct_is_prefix_witness:
  "\<exists>cur. reconstruct_cursor demo_ext ''t'' demo_consumer demo_log [first_evidence] = Inr cur
     \<and> jget cur ''last_committed_source_sequence'' = JInt (int (length (takeWhile (covered [first_evidence]) demo_log)))"
  using demo_rebuilt reconstruct_is_prefix [of demo_ext "''t''" demo_consumer demo_log "[first_evidence]"] by blast

end
