(* ===== verification/Orchestrator_Inbox.thy ===== *)
theory Orchestrator_Inbox
  imports Consumer_Cursors Input_Bindings
begin

text \<open>
  \<open>orchestrator_inbox.py\<close>: the registry of the child runs of an orchestrator and its aggregate
  inbox. Messages of registered children are verified against the children's own journals and
  evidence and imported once each; \<open>replay_registered\<close> walks the journals round-robin in bounded
  batches. The state is what the orchestrator's directory holds; run directories, the packaged
  schemas, SHA-256 and \<open>uuid5\<close> are parameters, and the clock is an argument. The state root and the
  directories below it are real directories once they exist.
\<close>

subsection \<open>Constants and errors\<close>

definition REGISTRY_SCHEMA :: string where
  "REGISTRY_SCHEMA = ''agent-workflow/orchestrator-registry/v1''"

definition EVENT_SCHEMA :: string where
  "EVENT_SCHEMA = ''agent-workflow/orchestrator-event/v1''"

definition LIFECYCLE_EVIDENCE_SCHEMA :: string where
  "LIFECYCLE_EVIDENCE_SCHEMA = ''agent-workflow/lifecycle-event/v1''"

definition ASSIGNMENT_SCHEMA :: string where
  "ASSIGNMENT_SCHEMA = ''agent-workflow/assignment-event/v1''"

definition SOURCE_CURSOR_SCHEMA :: string where
  "SOURCE_CURSOR_SCHEMA = ''agent-workflow/orchestrator-source-cursor/v1''"

definition MAX_RECORD_BYTES :: nat where
  "MAX_RECORD_BYTES = 64 * 1024"

definition MAX_JOURNAL_BYTES :: nat where
  "MAX_JOURNAL_BYTES = 64 * 1024 * 1024"

definition MAX_REGISTRY_BYTES :: nat where
  "MAX_REGISTRY_BYTES = 8 * 1024 * 1024"

definition MAX_SUMMARY_CHARS :: nat where
  "MAX_SUMMARY_CHARS = 16384"

definition MAX_CHILDREN :: nat where
  "MAX_CHILDREN = 10000"

definition MAX_READ_EVENTS :: int where
  "MAX_READ_EVENTS = 1000"

definition MAX_SOURCE_RECORDS :: nat where
  "MAX_SOURCE_RECORDS = 100000"

definition EVENT_KINDS :: "(string \<times> string) list" where
  "EVENT_KINDS = [(''progress'', ''agent_progress''), (''task_complete'', ''agent_idle''), (''error'', ''agent_error'')]"

text \<open>\<open>raise OrchestratorInboxError\<close>; other workflow errors are wrapped where the code wraps them.\<close>

definition refuse_if :: "bool \<Rightarrow> string \<Rightarrow> unit result" where
  "refuse_if b t = (if b then Inl (InboxError t) else Inr ())"

definition wrap_errors :: "string \<Rightarrow> 'a result \<Rightarrow> 'a result" where
  "wrap_errors t r = (case r of Inr x \<Rightarrow> Inr x | Inl e \<Rightarrow> Inl (if is_WorkflowError e then InboxError t else e))"

definition wrap_foreign :: "string \<Rightarrow> 'a result \<Rightarrow> 'a result" where
  "wrap_foreign t r =
     (case r of Inr x \<Rightarrow> Inr x | Inl e \<Rightarrow> Inl (if is_WorkflowError e \<and> \<not> is_InboxError e then InboxError t else e))"

definition inbox_uuid :: "json \<Rightarrow> string \<Rightarrow> string result" where
  "inbox_uuid v label = wrap_errors (case uuid_text v label of Inl e \<Rightarrow> error_text e | Inr _ \<Rightarrow> []) (uuid_text v label)"

definition bounded_text :: "json \<Rightarrow> string \<Rightarrow> string result" where
  "bounded_text v label =
     bindE (refuse_if (\<not> nonempty_str v \<or> MAX_SUMMARY_CHARS < length (code_points (str_of v)))
             (label @ '' must be a bounded text value'')) (\<lambda>_. Inr (str_of v))"

lemma refuse_if_Inr [simp]: "refuse_if b t = Inr u \<longleftrightarrow> \<not> b"
  by (simp add: refuse_if_def)

lemma wrap_Inr [simp]: "wrap_errors t r = Inr x \<longleftrightarrow> r = Inr x" "wrap_foreign t r = Inr x \<longleftrightarrow> r = Inr x"
  by (auto simp: wrap_errors_def wrap_foreign_def split: sum.split)

subsection \<open>The orchestrator's directory\<close>

record inbox_env =
  ie_root :: string
  ie_runs :: string
  ie_host :: host
  ie_ext :: ext
  ie_seal :: "string \<Rightarrow> rundir"
  ie_uuid5 :: "string \<Rightarrow> string"

text \<open>
  Whether the directory exists, its registry and inbox, and its source cursors by file name. A link
  (\<open>RLink f\<close>) at a cursor's path leads to a file or, when \<open>f\<close> is false, nowhere.
\<close>

record inbox_dir =
  ob_present :: bool
  ob_registry :: "rentry option"
  ob_inbox :: slot
  ob_cursors :: "string \<Rightarrow> rentry option"

definition orchestrator_key :: "ext \<Rightarrow> string \<Rightarrow> string result" where
  "orchestrator_key X oid = bindE (validate_id oid ''orchestrator ID'') (\<lambda>_. Inr (sha256 X oid))"

definition orchestrator_dir :: "inbox_env \<Rightarrow> string \<Rightarrow> bool \<Rightarrow> (inbox_dir, string) op" where
  "orchestrator_dir e oid create s =
     (case orchestrator_key (ie_ext e) oid of
        Inl x \<Rightarrow> (s, Inl x)
      | Inr key \<Rightarrow>
          (let path = ie_root e @ ''/'' @ key in
           if ob_present s then (s, Inr path)
           else if create then (\<lparr>ob_present = True, ob_registry = None, ob_inbox = None, ob_cursors = (\<lambda>_. None)\<rparr>, Inr path)
           else (s, Inl (InboxError (''orchestrator directory does not exist: '' @ path)))))"

fun slot_of :: "rentry option \<Rightarrow> slot" where
  "slot_of None = None"
| "slot_of (Some (RFile data links w)) = Some (Regular data links)"
| "slot_of (Some (RLink f)) = Some Symlink"
| "slot_of (Some RDir) = Some Directory"
| "slot_of (Some RSpecial) = Some SpecialFile"

definition regular_file :: "slot \<Rightarrow> string \<Rightarrow> string \<Rightarrow> unit result" where
  "regular_file s label path =
     (case s of
        None \<Rightarrow> Inl (InboxError (label @ '' does not exist: '' @ path))
      | Some (Regular data links) \<Rightarrow> refuse_if (links \<noteq> 1) (label @ '' must be a regular non-symlink file'')
      | Some _ \<Rightarrow> Inl (InboxError (label @ '' must be a regular non-symlink file'')))"

definition read_limited :: "nat \<Rightarrow> string \<Rightarrow> rentry option \<Rightarrow> string result" where
  "read_limited limit path entry =
     bindE (read_regular_file path entry) (\<lambda>data.
     bindE (raise_if (limit < length data) (''file exceeds validation limit: '' @ path)) (\<lambda>_. Inr data))"

definition host_read_limited :: "host \<Rightarrow> nat \<Rightarrow> string \<Rightarrow> string result" where
  "host_read_limited h limit p =
     bindE (host_read_file h p) (\<lambda>data.
     bindE (raise_if (limit < length data) (''file exceeds validation limit: '' @ host_lexical h p)) (\<lambda>_. Inr data))"

subsection \<open>The registry\<close>

definition registry_identity :: "ext \<Rightarrow> string \<Rightarrow> json \<Rightarrow> string" where
  "registry_identity X oid workflow =
     json_digest X (JObj [(''schema'', JStr ''agent-workflow/orchestrator-identity/v1''),
       (''orchestrator_id'', JStr oid), (''workflow_id'', workflow)])"

definition validate_registry :: "ext \<Rightarrow> json \<Rightarrow> json result" where
  "validate_registry X v =
     bindE (refuse_if (\<not> is_obj v) ''orchestrator registry must be a JSON object'') (\<lambda>_.
     bindE (validate_instance X v REGISTRY_SCHEMA ''orchestrator registry'') (\<lambda>_. Inr v))"

definition read_registry :: "inbox_env \<Rightarrow> string \<Rightarrow> (inbox_dir, json) op" where
  "read_registry e oid =
     bindS (orchestrator_dir e oid False) (\<lambda>dir.
     pureS (\<lambda>s.
       (let path = dir @ ''/registry.json'' in
       bindE (regular_file (slot_of (ob_registry s)) ''orchestrator registry'' path) (\<lambda>_.
       bindE (wrap_errors ''cannot read orchestrator registry'' (read_limited MAX_REGISTRY_BYTES path (ob_registry s))) (\<lambda>data.
       (case loads_utf8 data of
          None \<Rightarrow> Inl (InboxError ''cannot read orchestrator registry'')
        | Some v \<Rightarrow>
            bindE (validate_registry (ie_ext e) v) (\<lambda>registry.
            bindE (jidx registry ''identity_digest'') (\<lambda>identity.
            bindE (refuse_if (identity \<noteq> JStr (registry_identity (ie_ext e) oid (jget registry ''workflow_id'')))
                    ''orchestrator registry identity digest does not match'') (\<lambda>_. Inr registry)))))))))"

definition new_registry :: "ext \<Rightarrow> string \<Rightarrow> string option \<Rightarrow> string \<Rightarrow> json" where
  "new_registry X oid workflow now =
     JObj [(''schema'', JStr REGISTRY_SCHEMA), (''schema_version'', JInt 1), (''orchestrator_id'', JStr oid),
       (''workflow_id'', opt_str workflow), (''principal'', JStr ''orchestrator''),
       (''identity_digest'', JStr (registry_identity X oid (opt_str workflow))), (''state'', JStr ''active''),
       (''created_at'', JStr now), (''updated_at'', JStr now), (''children'', JList [])]"

definition put_registry :: "json \<Rightarrow> inbox_dir \<Rightarrow> inbox_dir" where
  "put_registry registry s = s\<lparr>ob_registry := Some (RFile (json_document registry) 1 True)\<rparr>"

definition create_inbox :: "string \<Rightarrow> (inbox_dir, unit) op" where
  "create_inbox dir s =
     (case locked_file True (dir @ ''/inbox.jsonl'') (ob_inbox s) of
        (f, Inl x) \<Rightarrow> (s\<lparr>ob_inbox := f\<rparr>, Inl x)
      | (f, Inr _) \<Rightarrow> (s\<lparr>ob_inbox := f\<rparr>, Inr ()))"

definition create_registry :: "inbox_env \<Rightarrow> string \<Rightarrow> string option \<Rightarrow> string \<Rightarrow> (inbox_dir, json) op" where
  "create_registry e oid workflow now =
     bindS (pureS (\<lambda>_. validate_id oid ''orchestrator ID'')) (\<lambda>_.
     bindS (pureS (\<lambda>_. case workflow of None \<Rightarrow> Inr [] | Some w \<Rightarrow> validate_id w ''workflow ID'')) (\<lambda>_.
     bindS (orchestrator_dir e oid True) (\<lambda>dir.
     bindS (pureS (\<lambda>s. if ob_registry s = None then Inr ()
              else regular_file (slot_of (ob_registry s)) ''orchestrator registry'' (dir @ ''/registry.json''))) (\<lambda>_ s.
     (if ob_registry s \<noteq> None then
        bindS (read_registry e oid) (\<lambda>prior.
        bindS (pureS (\<lambda>_. refuse_if (jget prior ''workflow_id'' \<noteq> opt_str workflow)
                ''orchestrator registry already exists with a different identity'')) (\<lambda>_. returnS prior)) s
      else
        bindS (pureS (\<lambda>_. validate_registry (ie_ext e) (new_registry (ie_ext e) oid workflow now))) (\<lambda>registry s.
        bindS (create_inbox dir) (\<lambda>_. returnS registry) (put_registry registry s)) s)))))"

text \<open>
  The directory written is the one the registry names; that of another orchestrator is not part of
  this state, and counts as missing.
\<close>

definition write_registry :: "inbox_env \<Rightarrow> string \<Rightarrow> json \<Rightarrow> (inbox_dir, unit) op" where
  "write_registry e oid registry =
     bindS (pureS (\<lambda>_. validate_registry (ie_ext e) registry)) (\<lambda>_.
     bindS (pureS (\<lambda>_. bindE (jidx registry ''orchestrator_id'') as_str)) (\<lambda>owner.
     bindS (if owner = oid then orchestrator_dir e oid False
            else pureS (\<lambda>_. bindE (orchestrator_key (ie_ext e) owner) (\<lambda>key.
              Inl (InboxError (''orchestrator directory does not exist: '' @ ie_root e @ ''/'' @ key))))) (\<lambda>_ s.
     (put_registry registry s, Inr ()))))"

fun find_child :: "string \<Rightarrow> json list \<Rightarrow> json option result" where
  "find_child rid [] = Inr None"
| "find_child rid (c # cs) =
     bindE (jidx c ''agent_run_id'') (\<lambda>x. if x = JStr rid then Inr (Some c) else find_child rid cs)"

definition children_of :: "json \<Rightarrow> json list result" where
  "children_of registry =
     bindE (jidx registry ''children'') (\<lambda>cs. if is_list cs then Inr (list_items cs) else Inl (TypeError ''children''))"

definition registered :: "json \<Rightarrow> string \<Rightarrow> json option result" where
  "registered registry rid = bindE (children_of registry) (find_child rid)"

fun replace_child :: "string \<Rightarrow> json \<Rightarrow> json list \<Rightarrow> json list" where
  "replace_child rid child [] = []"
| "replace_child rid child (c # cs) =
     (if jget c ''agent_run_id'' = JStr rid then child # cs else c # replace_child rid child cs)"


subsection \<open>Reading journals\<close>

definition validate_inbox_event :: "ext \<Rightarrow> json \<Rightarrow> json result" where
  "validate_inbox_event X v =
     bindE (refuse_if (\<not> is_obj v) ''orchestrator event must be a JSON object'') (\<lambda>_.
     bindE (validate_instance X v EVENT_SCHEMA ''orchestrator inbox event'') (\<lambda>_.
     bindE (jidx v ''event_id'') (\<lambda>i.
     bindE (inbox_uuid i ''event_id'') (\<lambda>_.
     bindE (jidx v ''source_message_id'') (\<lambda>m.
     bindE (inbox_uuid m ''source_message_id'') (\<lambda>_.
     bindE (if jget v ''assignment_id'' = JNull then Inr [] else inbox_uuid (jget v ''assignment_id'') ''assignment_id'') (\<lambda>_.
     Inr v)))))))"

definition validate_inbox_record :: "ext \<Rightarrow> string \<Rightarrow> json \<Rightarrow> nat \<Rightarrow> json result" where
  "validate_inbox_record X name v n =
     bindE (refuse_if (\<not> is_obj v) (name @ '' line '' @ int_str (int n) @ '' is not an object'')) (\<lambda>_.
     bindE (validate_inbox_event X v) (\<lambda>_.
     bindE (jidx v ''sequence'') (\<lambda>q.
     bindE (refuse_if (\<not> py_eq q (JInt (int n))) (''inbox sequence mismatch at line '' @ int_str (int n))) (\<lambda>_. Inr v))))"

definition validate_source_record :: "string \<Rightarrow> json \<Rightarrow> nat \<Rightarrow> json result" where
  "validate_source_record name v n =
     bindE (refuse_if (\<not> is_obj v) (name @ '' line '' @ int_str (int n) @ '' is not an object'')) (\<lambda>_.
     validate_message v (Some n))"

definition LIFECYCLE_FIELDS :: "string list" where
  "LIFECYCLE_FIELDS = [''schema'', ''sequence'', ''timestamp'', ''dimension'', ''prior'', ''new'', ''actor'', ''reason'', ''receipt_refs'']"

definition validate_lifecycle_evidence :: "string \<Rightarrow> json \<Rightarrow> nat \<Rightarrow> json result" where
  "validate_lifecycle_evidence name v n =
     (let at = int_str (int n); refs = jget v ''receipt_refs'' in
      bindE (refuse_if (\<not> is_obj v) (name @ '' line '' @ at @ '' is not an object'')) (\<lambda>_.
      bindE (refuse_if (set (map fst (obj_items v)) \<noteq> set LIFECYCLE_FIELDS \<or> jget v ''schema'' \<noteq> JStr LIFECYCLE_EVIDENCE_SCHEMA
               \<or> \<not> py_eq (jget v ''sequence'') (JInt (int n))) (''invalid lifecycle evidence at line '' @ at)) (\<lambda>_.
      bindE (refuse_if (\<not> is_list refs \<or> \<not> list_all is_str (list_items refs))
              (''invalid lifecycle evidence references at line '' @ at)) (\<lambda>_. Inr v))))"

definition validate_assignment_record :: "ext \<Rightarrow> string \<Rightarrow> json \<Rightarrow> nat \<Rightarrow> json result" where
  "validate_assignment_record X name v n =
     bindE (refuse_if (\<not> is_obj v) (name @ '' line '' @ int_str (int n) @ '' is not an object'')) (\<lambda>_.
     bindE (validate_instance X v ASSIGNMENT_SCHEMA (name @ '' record'')) (\<lambda>_. Inr v))"

definition inbox_cfg :: "string \<Rightarrow> bool \<Rightarrow> jcfg" where
  "inbox_cfg path numbered =
     \<lparr>jpath = path, max_bytes = MAX_JOURNAL_BYTES, max_record_bytes = MAX_RECORD_BYTES,
      max_records = Some MAX_SOURCE_RECORDS, require_trailing_newline = True,
      sequence_field = (if numbered then Some ''sequence'' else None)\<rparr>"

definition read_inbox_journal :: "string \<Rightarrow> string \<Rightarrow> bool \<Rightarrow> (json \<Rightarrow> nat \<Rightarrow> json result) \<Rightarrow> slot \<Rightarrow> json list result" where
  "read_inbox_journal path name numbered validator s =
     bindE (regular_file s (name @ '' journal'') path) (\<lambda>_.
     wrap_foreign (''cannot read '' @ name) (read_jsonl (inbox_cfg path numbered) False validator s))"

definition file_name :: "string \<Rightarrow> string" where
  "file_name p = (if path_parts p = [] then [] else last (path_parts p))"

definition source_records :: "inbox_env \<Rightarrow> string \<Rightarrow> json list result" where
  "source_records e path =
     read_inbox_journal path (file_name path) True (validate_source_record (file_name path))
       (slot_of (h_entry (ie_host e) (host_lexical (ie_host e) path)))"

subsection \<open>The evidence of a child\<close>

definition run_path :: "inbox_env \<Rightarrow> string \<Rightarrow> string result" where
  "run_path e rid = bindE (validate_id rid ''agent run ID'') (\<lambda>_. Inr (ie_runs e @ ''/'' @ rid))"

definition run_slot :: "inbox_env \<Rightarrow> string \<Rightarrow> slot" where
  "run_slot e path = slot_of (h_entry (ie_host e) (host_lexical (ie_host e) path))"

definition assignment_evidence :: "inbox_env \<Rightarrow> string \<Rightarrow> string \<Rightarrow> json \<Rightarrow> (json \<times> json) result" where
  "assignment_evidence e run rid assignment =
     bindE (read_inbox_journal (run @ ''/assignments.jsonl'') ''assignments.jsonl'' False
              (validate_assignment_record (ie_ext e) ''assignments.jsonl'') (run_slot e (run @ ''/assignments.jsonl''))) (\<lambda>records.
     (let completed = filter (\<lambda>r. jget r ''agent_run_id'' = JStr rid \<and> py_eq (jget r ''assignment_id'') assignment
                                  \<and> jget r ''event'' = JStr ''task_completed'') records in
     bindE (refuse_if (completed = []) ''child assignment has no immutable task completion evidence'') (\<lambda>_.
     bindE (read_inbox_journal (run @ ''/events.jsonl'') ''events.jsonl'' True (validate_lifecycle_evidence ''events.jsonl'')
              (run_slot e (run @ ''/events.jsonl''))) (\<lambda>lifecycle.
     (let events = filter (\<lambda>v. jget v ''dimension'' = JStr ''assignment'') lifecycle in
     bindE (refuse_if (events = []) ''child completion lacks current assignment lifecycle evidence'') (\<lambda>_.
     bindE (refuse_if (jget (last events) ''new'' \<noteq> JStr ''closed'')
             ''child completion lacks current closed assignment lifecycle evidence'') (\<lambda>_.
     bindE (wrap_errors ''completed child lacks a valid sealed receipt''
              (verify_seal_details (ie_ext e) (ie_seal e rid) None)) (\<lambda>(receipt, _).
     bindE (refuse_if (jget receipt ''agent_run_id'' \<noteq> JStr rid) ''completed child receipt belongs to another Agent Run'') (\<lambda>_.
     Inr (last completed, last events))))))))))"

definition contract_run_id :: "json \<Rightarrow> json result" where
  "contract_run_id contract = field2 contract ''agent_run'' ''id''"

definition read_context :: "inbox_env \<Rightarrow> string \<Rightarrow> json result" where
  "read_context e run =
     bindE (regular_file (run_slot e (run @ ''/agent-context.json'')) ''child agent context'' (run @ ''/agent-context.json'')) (\<lambda>_.
     read_contract (ie_ext e) run ''agent-context.json'' (host_entry_at (ie_host e) (run @ ''/agent-context.json''))
       (Some ''agent-workflow/agent-context/v1''))"

definition contract_writable :: "rentry option \<Rightarrow> bool" where
  "contract_writable entry = (case entry of Some (RFile _ _ w) \<Rightarrow> w | _ \<Rightarrow> False)"

definition child_evidence :: "inbox_env \<Rightarrow> json \<Rightarrow> (json \<times> string \<times> json) result" where
  "child_evidence e child =
     (let h = ie_host e; X = ie_ext e in
     bindE (bindE (jidx child ''agent_run_id'') as_str) (\<lambda>rid.
     bindE (run_path e rid) (\<lambda>run.
     (let path = run @ ''/agent-run-contract.json'' in
     bindE (regular_file (run_slot e path) ''child launch contract'' path) (\<lambda>_.
     bindE (host_read_limited h MAX_RECORD_BYTES path) (\<lambda>data.
     bindE (refuse_if (contract_writable (h_entry h (host_lexical h path)))
             ''child launch contract is writable and cannot be trusted'') (\<lambda>_.
     bindE (jidx child ''launch_contract_digest'') (\<lambda>dg.
     bindE (refuse_if (dg \<noteq> JStr (''sha256:'' @ sha256 X data)) ''child launch contract changed after registration'') (\<lambda>_.
     bindE (read_agent_run_contract h X run ''agent-run-contract.json'') (\<lambda>contract.
     bindE (contract_run_id contract) (\<lambda>i.
     bindE (refuse_if (i \<noteq> JStr rid) ''Agent Run contract identity does not match registered child'') (\<lambda>_.
     bindE (regular_file (run_slot e (run @ ''/agent-context.json'')) ''child agent context'' (run @ ''/agent-context.json'')) (\<lambda>_.
     bindE (wrap_errors ''child agent context is not immutable evidence'' (read_context e run)) (\<lambda>context.
     bindE (refuse_if (jget context ''agent_run_id'' \<noteq> JStr rid)
             ''agent context Agent Run identity does not match registered child'') (\<lambda>_.
     Inr (contract, run, context))))))))))))))))"

definition child_identity :: "inbox_env \<Rightarrow> string \<Rightarrow> (string \<times> string \<times> json \<times> json \<times> string) result" where
  "child_identity e rid =
     (let h = ie_host e; X = ie_ext e in
     bindE (validate_id rid ''child agent run ID'') (\<lambda>_.
     bindE (run_path e rid) (\<lambda>run.
     (let path = run @ ''/agent-run-contract.json'' in
     bindE (regular_file (run_slot e path) ''child launch contract'' path) (\<lambda>_.
     bindE (host_read_limited h MAX_RECORD_BYTES path) (\<lambda>data.
     bindE (read_agent_run_contract h X run ''agent-run-contract.json'') (\<lambda>contract.
     bindE (contract_run_id contract) (\<lambda>i.
     bindE (refuse_if (i \<noteq> JStr rid) ''Agent Run contract identity does not match child agent run ID'') (\<lambda>_.
     bindE (read_context e run) (\<lambda>context.
     bindE (refuse_if (jget context ''agent_run_id'' \<noteq> JStr rid)
             ''agent context Agent Run identity does not match child agent run ID'') (\<lambda>_.
     (let current = jget context ''current_assignment'';
          assignment = (if is_obj current then current else jget context ''completed_assignment'') in
     bindE (refuse_if (\<not> is_obj assignment \<or> \<not> is_str (jget assignment ''assignment_id''))
             ''child has no launch-bound assignment identity'') (\<lambda>_.
     bindE (inbox_uuid (jget assignment ''assignment_id'') ''assignment_id'') (\<lambda>assignment_id.
     Inr (assignment_id, run, contract, context, ''sha256:'' @ sha256 X data)))))))))))))))"


subsection \<open>Registering children\<close>

definition register_child :: "inbox_env \<Rightarrow> string \<Rightarrow> string \<Rightarrow> string \<Rightarrow> (inbox_dir, json \<times> json) op" where
  "register_child e oid rid now =
     (let h = ie_host e; X = ie_ext e in
     bindS (read_registry e oid) (\<lambda>registry.
     bindS (pureS (\<lambda>_. child_identity e rid)) (\<lambda>(assignment_id, run, contract, context, launch).
     (let source = run @ ''/messages.jsonl'';
          source_id = json_digest X (JObj [(''schema'', JStr ''agent-workflow/source-journal/v1''), (''path'', JStr (h_resolve h source))]);
          identity = json_digest X (JObj [(''schema'', JStr ''agent-workflow/orchestrator-child/v1''), (''agent_run_id'', JStr rid),
            (''assignment_id'', JStr assignment_id), (''launch_contract_digest'', JStr launch), (''source_journal_id'', JStr source_id)]) in
     bindS (pureS (\<lambda>_. registered registry rid)) (\<lambda>prior.
     (case prior of
        Some p \<Rightarrow>
          pureS (\<lambda>_. bindE (jidx p ''identity_digest'') (\<lambda>i.
            bindE (refuse_if (i \<noteq> JStr identity) ''child Agent Run is already registered with conflicting immutable evidence'') (\<lambda>_.
            Inr (registry, p))))
      | None \<Rightarrow>
          bindS (pureS (\<lambda>_. children_of registry)) (\<lambda>children.
          bindS (pureS (\<lambda>_. refuse_if (MAX_CHILDREN \<le> length children) ''orchestrator child registry is full'')) (\<lambda>_.
          bindS (pureS (\<lambda>_. field2 contract ''worktree'' ''path'')) (\<lambda>worktree.
          (let child = JObj [(''schema'', JStr ''agent-workflow/orchestrator-child/v1''), (''agent_run_id'', JStr rid),
                 (''assignment_id'', JStr assignment_id), (''launch_contract_path'', JStr (run @ ''/agent-run-contract.json'')),
                 (''launch_contract_digest'', JStr launch), (''source_journal_path'', JStr source),
                 (''source_journal_id'', JStr source_id), (''worktree'', JStr (py_str worktree)),
                 (''agent_name'', jget context ''agent_name''), (''registered_at'', JStr now), (''state'', JStr ''active''),
                 (''unregistered_at'', JNull), (''identity_digest'', JStr identity)];
               updated = jupdate registry [(''children'', JList (children @ [child])), (''updated_at'', JStr now)] in
          bindS (write_registry e oid updated) (\<lambda>_. returnS (updated, child))))))))))))"

definition unregister_child :: "inbox_env \<Rightarrow> string \<Rightarrow> string \<Rightarrow> string \<Rightarrow> string \<Rightarrow> (inbox_dir, json \<times> json) op" where
  "unregister_child e oid rid final now =
     bindS (pureS (\<lambda>_. refuse_if (final \<notin> {''completed'', ''abandoned''}) ''unregistration state must be completed or abandoned'')) (\<lambda>_.
     bindS (read_registry e oid) (\<lambda>registry.
     bindS (pureS (\<lambda>_. registered registry rid)) (\<lambda>found.
     (case found of
        None \<Rightarrow> pureS (\<lambda>_. Inl (InboxError ''child Agent Run is not registered''))
      | Some c \<Rightarrow>
          bindS (pureS (\<lambda>_. bindE (jidx c ''state'') (\<lambda>st.
            refuse_if (st \<notin> {JStr ''active'', JStr final}) ''child Agent Run has a conflicting terminal registration state''))) (\<lambda>_.
          bindS (pureS (\<lambda>_. if final \<noteq> ''completed'' then Inr ()
            else
              bindE (child_evidence e c) (\<lambda>(_, run, context).
              bindE (refuse_if (jget context ''state'' \<noteq> JStr ''closed'') ''completed child unregister requires closed assignment evidence'') (\<lambda>_.
              bindE (jidx c ''assignment_id'') (\<lambda>assignment.
              bindE (assignment_evidence e run rid assignment) (\<lambda>_. Inr ())))))) (\<lambda>_.
          bindS (pureS (\<lambda>_. children_of registry)) (\<lambda>children.
          (let since = (if truthy (jget c ''unregistered_at'') then jget c ''unregistered_at'' else JStr now);
               child = jupdate c [(''state'', JStr final), (''unregistered_at'', since)];
               updated = jupdate registry [(''children'', JList (replace_child rid child children)), (''updated_at'', JStr now)] in
          bindS (write_registry e oid updated) (\<lambda>_. returnS (updated, child))))))))))"

subsection \<open>Importing messages\<close>

definition same_path :: "string \<Rightarrow> string \<Rightarrow> bool" where
  "same_path p q \<longleftrightarrow> startswith p ''/'' = startswith q ''/'' \<and> path_parts p = path_parts q"

definition verify_source :: "inbox_env \<Rightarrow> json \<Rightarrow> json \<Rightarrow> (json \<times> json \<times> bool) result" where
  "verify_source e child source =
     bindE (validate_message source None) (\<lambda>_.
     bindE (jidx child ''agent_run_id'') (\<lambda>rid.
     bindE (refuse_if (jget source ''agent_run_id'' \<noteq> rid) ''source record claims another registered Agent Run identity'') (\<lambda>_.
     (let k = str_of (jget source ''kind'') in
     bindE (refuse_if (k \<notin> fst ` set EVENT_KINDS) (''source message kind is not allowed for aggregate delivery: '' @ k)) (\<lambda>_.
     bindE (child_evidence e child) (\<lambda>(contract, run, context).
     bindE (bindE (jidx child ''source_journal_path'') as_str) (\<lambda>source_path.
     bindE (refuse_if (\<not> same_path source_path (run @ ''/messages.jsonl''))
             ''registered source journal does not match child launch run'') (\<lambda>_.
     bindE (source_records e source_path) (\<lambda>records.
     (let exact = filter (\<lambda>r. jget r ''message_id'' = jget source ''message_id'') records in
     bindE (refuse_if (exact = [] \<or> \<not> py_eq (hd exact) source)
             ''source record is not the immutable bytes in the registered journal'') (\<lambda>_.
     if k \<noteq> ''task_complete'' then Inr (source, contract, False)
     else
       bindE (refuse_if (jget context ''state'' \<noteq> JStr ''closed'' \<or> jget context ''current_assignment'' \<noteq> JNull)
               ''agent completion source lacks closed assignment evidence'') (\<lambda>_.
       bindE (jidx child ''assignment_id'') (\<lambda>assignment.
       bindE (assignment_evidence e run (str_of rid) assignment) (\<lambda>(completed, lifecycle).
       bindE (refuse_if (jget completed ''summary'' \<noteq> jget source ''content'')
               ''completion summary does not match assignment evidence'') (\<lambda>_.
       Inr (source, contract, jget lifecycle ''new'' = JStr ''closed''))))))))))))))))"

definition workflow_of :: "json \<Rightarrow> json \<Rightarrow> json result" where
  "workflow_of registry contract =
     (if truthy (jget registry ''workflow_id'') then Inr (jget registry ''workflow_id'')
      else
        (let pack = jget_or contract ''pack'' (JObj []) in
         if is_obj pack then Inr (jget pack ''id'') else Inl (TypeError ''get'')))"

definition source_identity :: "json \<Rightarrow> string" where
  "source_identity source = str_of (jget source ''agent_run_id'') @ '':'' @ str_of (jget source ''message_id'')"

definition event_id :: "inbox_env \<Rightarrow> string \<Rightarrow> json \<Rightarrow> string" where
  "event_id e oid source =
     ie_uuid5 e (''agent-workflow/'' @ sha256 (ie_ext e) oid @ ''/'' @ str_of (jget source ''agent_run_id'') @ ''/''
       @ str_of (jget source ''message_id''))"

definition inbox_event :: "inbox_env \<Rightarrow> string \<Rightarrow> json \<Rightarrow> json \<Rightarrow> json \<Rightarrow> json \<Rightarrow> bool \<Rightarrow> string \<Rightarrow> string \<Rightarrow> nat \<Rightarrow> json" where
  "inbox_event e oid workflow assignment journal_id source closed summary dg n =
     JObj [(''schema'', JStr EVENT_SCHEMA), (''schema_version'', JInt 1), (''sequence'', JInt (int n)),
       (''event_id'', JStr (event_id e oid source)), (''workflow_id'', workflow),
       (''sender_agent_run_id'', jget source ''agent_run_id''), (''recipient_id'', JStr oid),
       (''kind'', JStr (the (map_of EVENT_KINDS (str_of (jget source ''kind''))))), (''assignment_id'', assignment),
       (''source_journal_id'', journal_id), (''source_identity'', JStr (source_identity source)),
       (''source_message_id'', jget source ''message_id''), (''source_sequence'', jget source ''sequence''),
       (''state'', if closed then JStr ''closed'' else JNull), (''summary'', JStr summary),
       (''created_at'', jget source ''timestamp''), (''source_digest'', JStr dg)]"

definition import_result :: "json \<Rightarrow> bool \<Rightarrow> json" where
  "import_result ev duplicate = JObj [(''event'', ev), (''duplicate'', JBool duplicate), (''content_available'', JBool True)]"

definition same_event :: "json \<Rightarrow> json \<Rightarrow> bool" where
  "same_event prior ev \<longleftrightarrow> (\<forall>k \<in> set (map fst (obj_items ev)). k \<noteq> ''sequence'' \<longrightarrow> py_eq (jget prior k) (jget ev k))"

definition import_decision :: "ext \<Rightarrow> (nat \<Rightarrow> json) \<Rightarrow> json list \<Rightarrow> json decision result" where
  "import_decision X mk existing =
     (let ev = mk 1; n = length existing + 1 in
      case List.find (\<lambda>p. jget p ''source_identity'' = jget ev ''source_identity'') existing of
        Some prior \<Rightarrow>
          bindE (refuse_if (jget prior ''source_digest'' \<noteq> jget ev ''source_digest'') ''source ID is reused with a different digest'') (\<lambda>_.
          bindE (refuse_if (\<not> py_eq (jget prior ''source_journal_id'') (jget ev ''source_journal_id''))
                  ''source identity conflicts with another journal'') (\<lambda>_.
          bindE (refuse_if (\<not> same_event prior ev) ''duplicate source identity has conflicting normalized bytes'') (\<lambda>_.
          Inr (import_result prior True, None))))
      | None \<Rightarrow> bindE (validate_inbox_event X (mk n)) (\<lambda>_. Inr (import_result (mk n) False, Some (mk n))))"

definition import_event :: "inbox_env \<Rightarrow> string \<Rightarrow> (nat \<Rightarrow> json) \<Rightarrow> (inbox_dir, json) op" where
  "import_event e dir mk s =
     (let path = dir @ ''/inbox.jsonl'' in
      case transact_jsonl (inbox_cfg path True) (validate_inbox_record (ie_ext e) ''inbox.jsonl'') (import_decision (ie_ext e) mk) (ob_inbox s) of
        (f, r) \<Rightarrow> (s\<lparr>ob_inbox := f\<rparr>, wrap_foreign ''cannot update orchestrator inbox'' r))"

definition import_message :: "inbox_env \<Rightarrow> string \<Rightarrow> string \<Rightarrow> json \<Rightarrow> (inbox_dir, json) op" where
  "import_message e oid rid message =
     bindS (read_registry e oid) (\<lambda>registry.
     bindS (pureS (\<lambda>_. registered registry rid)) (\<lambda>found.
     bindS (pureS (\<lambda>_. case found of None \<Rightarrow> Inr True | Some c \<Rightarrow> bindE (jidx c ''state'') (\<lambda>st. Inr (st \<noteq> JStr ''active'')))) (\<lambda>inactive.
     bindS (pureS (\<lambda>_. refuse_if inactive ''child Agent Run is not an active registered source'')) (\<lambda>_.
     (let child = the found in
     bindS (pureS (\<lambda>_. verify_source e child message)) (\<lambda>(source, contract, closed).
     bindS (pureS (\<lambda>_. message_digest (ie_ext e) source)) (\<lambda>dg.
     bindS (pureS (\<lambda>_. workflow_of registry contract)) (\<lambda>workflow.
     bindS (pureS (\<lambda>_. jidx child ''assignment_id'')) (\<lambda>assignment.
     bindS (pureS (\<lambda>_. jidx child ''source_journal_id'')) (\<lambda>journal_id.
     bindS (pureS (\<lambda>_. bounded_text (jget source ''content'') ''event summary'')) (\<lambda>summary.
     (let mk = inbox_event e oid workflow assignment journal_id source closed summary dg in
     bindS (pureS (\<lambda>_. validate_inbox_event (ie_ext e) (mk 1))) (\<lambda>_.
     bindS (orchestrator_dir e oid False) (\<lambda>dir.
     bindS (pureS (\<lambda>s. regular_file (ob_inbox s) ''orchestrator inbox'' (dir @ ''/inbox.jsonl''))) (\<lambda>_.
     import_event e dir mk)))))))))))))))"


definition metadata :: "bool \<Rightarrow> json \<Rightarrow> json" where
  "metadata include_content ev = (if include_content then ev else jset ''content_available'' (JBool True) (jpop ''summary'' ev))"

definition reported :: "bool \<Rightarrow> json \<Rightarrow> json" where
  "reported include_content out = jset ''duplicate'' (jget out ''duplicate'') (metadata include_content (jget out ''event''))"

definition aggregated :: "json \<Rightarrow> bool" where
  "aggregated message \<longleftrightarrow> jget message ''kind'' \<in> JStr ` fst ` set EVENT_KINDS"

definition active_children :: "json \<Rightarrow> string option \<Rightarrow> json list result" where
  "active_children registry wanted =
     bindE (children_of registry) (\<lambda>cs.
     bindE (mapE (\<lambda>c. bindE (jidx c ''state'') (\<lambda>st.
       if st \<noteq> JStr ''active'' then Inr (False, c)
       else (case wanted of
          None \<Rightarrow> Inr (True, c)
        | Some rid \<Rightarrow> bindE (jidx c ''agent_run_id'') (\<lambda>x. Inr (x = JStr rid, c))))) cs) (\<lambda>marked.
     Inr (map snd (filter fst marked))))"

definition child_run :: "json \<Rightarrow> string result" where
  "child_run child = bindE (jidx child ''agent_run_id'') as_str"

definition child_records :: "inbox_env \<Rightarrow> json \<Rightarrow> json list result" where
  "child_records e child = bindE (bindE (jidx child ''source_journal_path'') as_str) (source_records e)"

definition import_child :: "inbox_env \<Rightarrow> string \<Rightarrow> int \<Rightarrow> json \<Rightarrow> (inbox_dir, json list) op" where
  "import_child e oid limit child =
     bindS (pureS (\<lambda>_. child_records e child)) (\<lambda>records.
     bindS (pureS (\<lambda>_. refuse_if (limit < int (length records)) ''source journal exceeds the bounded import limit'')) (\<lambda>_.
     mapS (\<lambda>source.
       bindS (pureS (\<lambda>_. child_run child)) (\<lambda>rid.
       bindS (import_message e oid rid source) (\<lambda>out. returnS (reported False out)))) (filter aggregated records)))"

definition import_registered :: "inbox_env \<Rightarrow> string \<Rightarrow> string option \<Rightarrow> int \<Rightarrow> (inbox_dir, json list) op" where
  "import_registered e oid wanted limit =
     bindS (pureS (\<lambda>_. refuse_if (limit < 1 \<or> int MAX_SOURCE_RECORDS < limit) ''max_per_child is outside the bounded import limit'')) (\<lambda>_.
     bindS (read_registry e oid) (\<lambda>registry.
     bindS (pureS (\<lambda>_. active_children registry wanted)) (\<lambda>children.
     bindS (pureS (\<lambda>_. refuse_if (wanted \<noteq> None \<and> children = []) ''child Agent Run is not an active registered source'')) (\<lambda>_.
     bindS (mapS (import_child e oid limit) children) (\<lambda>outs. returnS (concat outs))))))"

subsection \<open>Source cursors\<close>

definition cursor_key :: "ext \<Rightarrow> json \<Rightarrow> string result" where
  "cursor_key X child = bindE (bindE (jidx child ''identity_digest'') as_str) (\<lambda>i. Inr (sha256 X i @ ''.json''))"

definition target_exists :: "rentry option \<Rightarrow> bool" where
  "target_exists entry = (case entry of None \<Rightarrow> False | Some (RLink f) \<Rightarrow> f | Some _ \<Rightarrow> True)"

definition read_source_cursor :: "inbox_env \<Rightarrow> string \<Rightarrow> json \<Rightarrow> inbox_dir \<Rightarrow> int result" where
  "read_source_cursor e dir child s =
     bindE (cursor_key (ie_ext e) child) (\<lambda>key.
     (let entry = ob_cursors s key; path = dir @ ''/cursors/'' @ key in
      if \<not> target_exists entry then Inr 0
      else
        bindE (regular_file (slot_of entry) ''orchestrator source cursor'' path) (\<lambda>_.
        bindE (wrap_errors ''orchestrator source cursor is invalid'' (read_limited MAX_RECORD_BYTES path entry)) (\<lambda>data.
        (case loads_utf8 data of
           None \<Rightarrow> Inl (InboxError ''orchestrator source cursor is invalid'')
         | Some v \<Rightarrow>
             bindE (refuse_if (\<not> is_obj v \<or> jget v ''schema'' \<noteq> JStr SOURCE_CURSOR_SCHEMA)
                     ''orchestrator source cursor has an unsupported schema'') (\<lambda>_.
             bindE (jidx child ''identity_digest'') (\<lambda>identity.
             bindE (jidx child ''source_journal_id'') (\<lambda>journal_id.
             bindE (refuse_if (\<not> py_eq (jget v ''child_identity_digest'') identity \<or> \<not> py_eq (jget v ''source_journal_id'') journal_id)
                     ''orchestrator source cursor identity does not match registry'') (\<lambda>_.
             (let q = jget v ''last_source_sequence'' in
             bindE (refuse_if (\<not> is_int q \<or> is_bool q \<or> int_of q < 0) ''orchestrator source cursor sequence is invalid'') (\<lambda>_.
             Inr (int_of q))))))))))))"

definition source_cursor :: "json \<Rightarrow> json \<Rightarrow> string \<Rightarrow> json" where
  "source_cursor child message now =
     JObj [(''schema'', JStr SOURCE_CURSOR_SCHEMA), (''schema_version'', JInt 1),
       (''child_identity_digest'', jget child ''identity_digest''), (''source_journal_id'', jget child ''source_journal_id''),
       (''last_source_sequence'', jget message ''sequence''), (''last_source_message_id'', jget message ''message_id''),
       (''updated_at'', JStr now)]"

definition write_source_cursor :: "inbox_env \<Rightarrow> json \<Rightarrow> json \<Rightarrow> string \<Rightarrow> (inbox_dir, unit) op" where
  "write_source_cursor e child message now =
     bindS (pureS (\<lambda>_. cursor_key (ie_ext e) child)) (\<lambda>key.
     bindS (pureS (\<lambda>_. jidx child ''source_journal_id'')) (\<lambda>_ s.
     (s\<lparr>ob_cursors := (ob_cursors s)(key := Some (RFile (json_document (source_cursor child message now)) 1 True))\<rparr>, Inr ())))"

subsection \<open>Fair replay\<close>

text \<open>
  The variables of the loop of \<open>replay_registered\<close>: the dictionaries \<open>cursors\<close> and
  \<open>processed_by_child\<close> by run identifier, \<open>position\<close> (which equals \<open>advanced\<close>), and the report.
\<close>

record batch =
  bt_cursors :: "(string \<times> int) list"
  bt_done :: "(string \<times> nat) list"
  bt_position :: nat
  bt_imported :: "json list"

type_synonym sources = "(string \<times> json list) list"

definition at :: "(string \<times> 'a::zero) list \<Rightarrow> string \<Rightarrow> 'a" where
  "at d k = (case map_of d k of None \<Rightarrow> 0 | Some x \<Rightarrow> x)"

definition records_at :: "sources \<Rightarrow> string \<Rightarrow> json list" where
  "records_at d k = (case map_of d k of None \<Rightarrow> [] | Some x \<Rightarrow> x)"

definition replay_one ::
  "inbox_env \<Rightarrow> string \<Rightarrow> nat \<Rightarrow> nat \<Rightarrow> string \<Rightarrow> sources \<Rightarrow> string \<times> json \<Rightarrow> batch \<Rightarrow> (inbox_dir, batch) op" where
  "replay_one e oid lim per now src = (\<lambda>(sid, child) b.
     if lim \<le> bt_position b \<or> per \<le> at (bt_done b) sid \<or> int (length (records_at src sid)) \<le> at (bt_cursors b) sid then returnS b
     else
       (let message = records_at src sid ! nat (at (bt_cursors b) sid) in
        bindS (if aggregated message
               then bindS (import_message e oid sid message) (\<lambda>out. returnS [reported True out])
               else returnS []) (\<lambda>news.
        bindS (write_source_cursor e child message now) (\<lambda>_.
        returnS \<lparr>bt_cursors = AList.update sid (int_of (jget message ''sequence'')) (bt_cursors b),
                 bt_done = AList.update sid (at (bt_done b) sid + 1) (bt_done b),
                 bt_position = bt_position b + 1, bt_imported = bt_imported b @ news\<rparr>))))"

primrec foldS :: "('x \<Rightarrow> 'b \<Rightarrow> ('s, 'b) op) \<Rightarrow> 'x list \<Rightarrow> 'b \<Rightarrow> ('s, 'b) op" where
  "foldS f [] b = returnS b"
| "foldS f (x # xs) b = bindS (f x b) (foldS f xs)"

text \<open>
  The \<open>while\<close> loop: one round visits every child in turn; a round that advances no child ends it.
\<close>

function replay_loop ::
  "inbox_env \<Rightarrow> string \<Rightarrow> nat \<Rightarrow> nat \<Rightarrow> string \<Rightarrow> sources \<Rightarrow> (string \<times> json) list \<Rightarrow> batch \<Rightarrow> inbox_dir \<Rightarrow> inbox_dir \<times> batch result" where
  "replay_loop e oid lim per now src children b s =
     (if lim \<le> bt_position b \<or> children = [] then (s, Inr b)
      else
        (case foldS (replay_one e oid lim per now src) children b s of
           (s', Inl x) \<Rightarrow> (s', Inl x)
         | (s', Inr b') \<Rightarrow>
             if bt_position b' \<le> bt_position b then (s', Inr b')
             else replay_loop e oid lim per now src children b' s'))"
  by pat_completeness auto
termination by (relation "measure (\<lambda>(e, oid, lim, per, now, src, children, b, s). lim - bt_position b)") auto

record replay_report =
  rr_children :: nat
  rr_advanced :: nat
  rr_imported :: "json list"
  rr_remaining :: int

definition dict_from :: "(string \<times> 'a) list \<Rightarrow> (string \<times> 'a) list" where
  "dict_from kvs = foldl (\<lambda>d (k, v). AList.update k v d) [] kvs"

definition remaining_of :: "sources \<Rightarrow> (string \<times> int) list \<Rightarrow> string list \<Rightarrow> int" where
  "remaining_of src cursors ids = (\<Sum>i\<leftarrow>ids. max 0 (int (length (records_at src i)) - at cursors i))"

definition replay_registered :: "inbox_env \<Rightarrow> string \<Rightarrow> int \<Rightarrow> int \<Rightarrow> string \<Rightarrow> (inbox_dir, replay_report) op" where
  "replay_registered e oid lim per now =
     bindS (pureS (\<lambda>_. refuse_if (lim < 1 \<or> int MAX_SOURCE_RECORDS < lim \<or> per < 1 \<or> int MAX_SOURCE_RECORDS < per)
             ''replay batch limits are outside the bounded range'')) (\<lambda>_.
     bindS (read_registry e oid) (\<lambda>registry.
     bindS (pureS (\<lambda>_. active_children registry None)) (\<lambda>children.
     bindS (orchestrator_dir e oid False) (\<lambda>dir.
     bindS (pureS (\<lambda>_. mapE child_run children)) (\<lambda>ids.
     bindS (pureS (\<lambda>s. mapE (\<lambda>c. read_source_cursor e dir c s) children)) (\<lambda>starts.
     bindS (pureS (\<lambda>_. mapE (child_records e) children)) (\<lambda>records.
     (let cursors = dict_from (zip ids starts); src = dict_from (zip ids records) in
     bindS (pureS (\<lambda>_. refuse_if (\<exists>i \<in> set ids. int (length (records_at src i)) < at cursors i)
             ''orchestrator source cursor is ahead of its journal'')) (\<lambda>_.
     (let start = nat (sum_list (map snd cursors) mod int (length children));
          named = rotate start (zip ids children) in
     bindS (replay_loop e oid (nat lim) (nat per) now src named
              \<lparr>bt_cursors = cursors, bt_done = [], bt_position = 0, bt_imported = []\<rparr>) (\<lambda>b.
     returnS \<lparr>rr_children = length children, rr_advanced = bt_position b, rr_imported = bt_imported b,
              rr_remaining = remaining_of src (bt_cursors b) ids\<rparr>)))))))))))"

subsection \<open>Reading the inbox\<close>

definition read_inbox :: "inbox_env \<Rightarrow> string \<Rightarrow> json \<Rightarrow> int \<Rightarrow> json \<Rightarrow> bool \<Rightarrow> (inbox_dir, json list) op" where
  "read_inbox e oid seen limit wanted include_content =
     bindS (pureS (\<lambda>_. refuse_if (\<not> is_int seen \<or> is_bool seen \<or> int_of seen < 0) ''after_sequence must be a non-negative integer'')) (\<lambda>_.
     bindS (pureS (\<lambda>_. refuse_if (limit < 1 \<or> MAX_READ_EVENTS < limit) (''limit must be between 1 and '' @ int_str MAX_READ_EVENTS))) (\<lambda>_.
     bindS (pureS (\<lambda>_. if wanted = JNull then Inr [] else inbox_uuid wanted ''event_id'')) (\<lambda>_.
     bindS (orchestrator_dir e oid False) (\<lambda>dir.
     pureS (\<lambda>s.
       bindE (read_inbox_journal (dir @ ''/inbox.jsonl'') ''inbox.jsonl'' True (validate_inbox_record (ie_ext e) ''inbox.jsonl'') (ob_inbox s)) (\<lambda>events.
       Inr (map (metadata include_content)
         (if wanted \<noteq> JNull then filter (\<lambda>v. jget v ''event_id'' = wanted) events
          else take (nat limit) (filter (\<lambda>v. int_of seen < int_of (jget v ''sequence'')) events)))))))))"

definition read_child_registry :: "inbox_env \<Rightarrow> string \<Rightarrow> (inbox_dir, json) op" where
  "read_child_registry e oid = read_registry e oid"


subsection \<open>The commands\<close>

datatype inbox_command =
    Create_registry "string option"
  | Register_child string
  | Unregister_child string string
  | Import_message string json
  | Import_registered "string option" int
  | Replay_registered int int
  | Read_inbox json int json bool

fun run_inbox :: "inbox_env \<Rightarrow> string \<Rightarrow> string \<times> inbox_command \<Rightarrow> (inbox_dir, unit) op" where
  "run_inbox e oid (now, Create_registry w) = bindS (create_registry e oid w now) (\<lambda>_. returnS ())"
| "run_inbox e oid (now, Register_child rid) = bindS (register_child e oid rid now) (\<lambda>_. returnS ())"
| "run_inbox e oid (now, Unregister_child rid st) = bindS (unregister_child e oid rid st now) (\<lambda>_. returnS ())"
| "run_inbox e oid (now, Import_message rid m) = bindS (import_message e oid rid m) (\<lambda>_. returnS ())"
| "run_inbox e oid (now, Import_registered rid n) = bindS (import_registered e oid rid n) (\<lambda>_. returnS ())"
| "run_inbox e oid (now, Replay_registered lim per) = bindS (replay_registered e oid lim per now) (\<lambda>_. returnS ())"
| "run_inbox e oid (now, Read_inbox q n i c) = bindS (read_inbox e oid q n i c) (\<lambda>_. returnS ())"

subsection \<open>Every message is imported once\<close>

text \<open>What the packaged schema of an inbox event says of its fields: they are strings, integers or null.\<close>

definition event_schema :: "ext \<Rightarrow> bool" where
  "event_schema X \<longleftrightarrow> (\<forall>v k. schema_errors X EVENT_SCHEMA v = [] \<longrightarrow> jget v k = JNull \<or> is_str (jget v k) \<or> is_int (jget v k))"

definition inbox_home :: "inbox_env \<Rightarrow> string \<Rightarrow> string" where
  "inbox_home e oid = ie_root e @ ''/'' @ sha256 (ie_ext e) oid"

definition inbox_events :: "inbox_env \<Rightarrow> string \<Rightarrow> inbox_dir \<Rightarrow> json list result" where
  "inbox_events e oid s =
     (if ob_present s
      then read_jsonl (inbox_cfg (inbox_home e oid @ ''/inbox.jsonl'') True) True (validate_inbox_record (ie_ext e) ''inbox.jsonl'') (ob_inbox s)
      else Inr [])"

definition sources_of :: "json list \<Rightarrow> json list" where
  "sources_of es = map (\<lambda>v. jget v ''source_identity'') es"

definition inbox_kept :: "inbox_env \<Rightarrow> string \<Rightarrow> inbox_dir \<Rightarrow> inbox_dir \<Rightarrow> bool" where
  "inbox_kept e oid s t \<longleftrightarrow>
     (\<forall>es'. inbox_events e oid t = Inr es' \<longrightarrow>
        (\<exists>es more. inbox_events e oid s = Inr es \<and> es' = es @ more \<and> (distinct (sources_of es) \<longrightarrow> distinct (sources_of es'))))"

lemma validate_inbox_event_Inr:
  assumes "validate_inbox_event X v = Inr w"
  shows "w = v" and "schema_errors X EVENT_SCHEMA v = []" and "is_obj v"
  using assms by (auto simp: validate_inbox_event_def validate_instance_Inr)

lemma validate_inbox_record_Inr: "validate_inbox_record X name v n = Inr w \<Longrightarrow> w = v"
  by (auto simp: validate_inbox_record_def)

lemma orchestrator_dir_Inr: "orchestrator_dir e oid create s = (t, Inr dir) \<Longrightarrow> dir = inbox_home e oid"
  by (auto simp: orchestrator_dir_def orchestrator_key_def inbox_home_def Let_def split: sum.splits if_splits)

lemma atom_plain: "v = JNull \<or> is_str v \<or> is_int v \<Longrightarrow> plain v"
  by (cases v) auto

lemma plain_inbox_event:
  assumes "event_schema X" and "validate_inbox_event X (inbox_event e oid w a j source closed summary dg n) = Inr u"
  shows "plain (inbox_event e oid w a j source closed summary dg n)"
proof -
  let ?v = "inbox_event e oid w a j source closed summary dg n"
  have p: "plain (jget ?v k)" for k
    using assms validate_inbox_event_Inr(2) [OF assms(2)] by (intro atom_plain) (simp add: event_schema_def)
  from p [of "''workflow_id''"] p [of "''assignment_id''"] p [of "''source_journal_id''"] p [of "''sender_agent_run_id''"]
    p [of "''source_message_id''"] p [of "''source_sequence''"] p [of "''created_at''"]
  show ?thesis by (simp add: inbox_event_def jget_fields)
qed

lemma inbox_event_source:
  "jget (inbox_event e oid w a j source closed summary dg n) ''source_identity'' = JStr (source_identity source)"
  by (simp add: inbox_event_def jget_fields)

lemma import_decision_Inr:
  assumes "import_decision X (inbox_event e oid w a j source closed summary dg) es = Inr (v, Some r)" and "event_schema X"
  shows "plain r" and "jget (canon r) ''source_identity'' \<notin> set (sources_of es)"
proof -
  from assms(1) have f: "List.find (\<lambda>p. jget p ''source_identity'' = JStr (source_identity source)) es = None"
    and r: "r = inbox_event e oid w a j source closed summary dg (length es + 1)"
    and u: "\<exists>u. validate_inbox_event X r = Inr u"
    by (auto simp: import_decision_def Let_def inbox_event_source split: option.splits)
  from u r show p: "plain r" using plain_inbox_event [OF assms(2)] by auto
  show "jget (canon r) ''source_identity'' \<notin> set (sources_of es)"
    using f p unfolding r by (auto simp: jget_canon inbox_event_source find_None_iff sources_of_def)
qed


interpretation ik: kept_relation "inbox_kept e oid" for e oid
proof (unfold_locales, goal_cases)
  case (1 s)
  show ?case by (simp add: inbox_kept_def)
next
  case (2 a b c)
  show ?case unfolding inbox_kept_def
  proof (intro allI impI)
    fix es'' assume "inbox_events e oid c = Inr es''"
    with 2(2) obtain es' more' where b: "inbox_events e oid b = Inr es'" "es'' = es' @ more'"
      "distinct (sources_of es') \<longrightarrow> distinct (sources_of es'')" unfolding inbox_kept_def by blast
    with 2(1) obtain es more where "inbox_events e oid a = Inr es" "es' = es @ more"
      "distinct (sources_of es) \<longrightarrow> distinct (sources_of es')" unfolding inbox_kept_def by blast
    with b show "\<exists>es more. inbox_events e oid a = Inr es \<and> es'' = es @ more
        \<and> (distinct (sources_of es) \<longrightarrow> distinct (sources_of es''))" by auto
  qed
qed

lemma inbox_kept_same: "ob_present t = ob_present s \<Longrightarrow> ob_inbox t = ob_inbox s \<Longrightarrow> inbox_kept e oid s t"
  by (simp add: inbox_kept_def inbox_events_def)

lemma orchestrator_dir_kept: "inbox_kept e oid s (fst (orchestrator_dir e oid c s))"
  by (auto simp: orchestrator_dir_def Let_def ik.same inbox_kept_def inbox_events_def read_jsonl_def read_bytes_def
      decode_jsonl_def splitlines_def split: sum.split)

lemma create_inbox_kept: "inbox_kept e oid s (fst (create_inbox dir s))"
proof (cases "ob_inbox s")
  case None
  then show ?thesis
    by (simp add: create_inbox_def inbox_kept_def inbox_events_def read_jsonl_def read_bytes_def locked_file_def
        read_locked_bytes_def split: prod.split)
next
  case (Some f)
  then show ?thesis
    by (cases f) (simp_all add: create_inbox_def locked_file_def inbox_kept_same)
qed

lemma import_event_kept:
  assumes "event_schema (ie_ext e)" and "dir = inbox_home e oid"
  shows "inbox_kept e oid s (fst (import_event e dir (inbox_event e oid w a j source closed summary dg) s))"
  unfolding inbox_kept_def
proof (intro allI impI)
  let ?c = "inbox_cfg (dir @ ''/inbox.jsonl'') True" and ?V = "validate_inbox_record (ie_ext e) ''inbox.jsonl''"
    and ?T = "import_decision (ie_ext e) (inbox_event e oid w a j source closed summary dg)"
  fix es' assume es': "inbox_events e oid (fst (import_event e dir (inbox_event e oid w a j source closed summary dg) s)) = Inr es'"
  show "\<exists>es more. inbox_events e oid s = Inr es \<and> es' = es @ more \<and> (distinct (sources_of es) \<longrightarrow> distinct (sources_of es'))"
  proof (cases "ob_present s")
    case True
    with es' assms(2) have rd: "read_jsonl ?c True ?V (fst (transact_jsonl ?c ?V ?T (ob_inbox s))) = Inr es'"
      by (simp add: import_event_def inbox_events_def split: prod.splits)
    show ?thesis
    proof (rule transact_leaves [OF rd], goal_cases)
      case 1
      show ?case by (simp add: inbox_cfg_def)
    next
      case (2 v n u)
      then show ?case by (rule validate_inbox_record_Inr)
    next
      case (3 es v r)
      from import_decision_Inr(1) [OF this assms(1)] show ?case .
    next
      case 4
      with True assms(2) show ?case by (simp add: inbox_events_def)
    next
      case (5 es v r)
      with True assms(2) import_decision_Inr(2) [OF 5(2) assms(1)] show ?case
        by (simp add: inbox_events_def sources_of_def)
    qed
  next
    case False
    with es' show ?thesis by (simp add: import_event_def inbox_events_def split: prod.splits)
  qed
qed

lemma put_registry_kept: "inbox_kept e oid s (put_registry r s)"
  by (rule inbox_kept_same) (simp_all add: put_registry_def)

lemma read_registry_kept: "inbox_kept e oid s (fst (read_registry e oid s))"
  unfolding read_registry_def by (intro ik.compose orchestrator_dir_kept)

lemma write_registry_kept: "inbox_kept e oid s (fst (write_registry e oid r s))"
proof -
  have "inbox_kept e oid s (fst ((\<lambda>s. (put_registry r s, Inr ())) s))" for s by (simp add: put_registry_kept)
  then show ?thesis unfolding write_registry_def
    by (intro ik.compose) (auto simp: orchestrator_dir_kept ik.same)
qed


lemma create_registry_kept: "inbox_kept e oid s (fst (create_registry e oid w now s))"
proof -
  have install: "inbox_kept e oid s (fst (bindS (create_inbox dir) (\<lambda>_. returnS r) (put_registry r s)))" for dir r s
    by (rule ik.chain [OF put_registry_kept [where r = r]]) (intro ik.compose create_inbox_kept)
  show ?thesis unfolding create_registry_def
    by (intro ik.pure_bind ik.bind orchestrator_dir_kept)
      (auto intro!: ik.compose read_registry_kept install split: option.split simp: ik.same)
qed

lemma register_child_kept: "inbox_kept e oid s (fst (register_child e oid rid now s))"
  unfolding register_child_def Let_def
  by (auto intro!: ik.compose read_registry_kept write_registry_kept split: prod.split option.split simp: ik.same)

lemma unregister_child_kept: "inbox_kept e oid s (fst (unregister_child e oid rid st now s))"
  unfolding unregister_child_def Let_def
  by (auto intro!: ik.compose read_registry_kept write_registry_kept split: prod.split option.split simp: ik.same)

lemma import_message_kept:
  assumes "event_schema (ie_ext e)"
  shows "inbox_kept e oid s (fst (import_message e oid rid m s))"
proof -
  have last: "inbox_kept e oid s (fst (bindS (orchestrator_dir e oid False) (\<lambda>dir.
       bindS (pureS (g dir)) (\<lambda>_. import_event e dir (inbox_event e oid w a j source closed summary dg))) s))"
    for s g w a j source closed summary dg
  proof (cases "orchestrator_dir e oid False s")
    case (Pair t r)
    have t: "inbox_kept e oid s t" using orchestrator_dir_kept [where e = e and oid = oid and s = s] Pair by (metis fst_conv)
    show ?thesis
    proof (cases r)
      case (Inr dir)
      have "dir = inbox_home e oid" using orchestrator_dir_Inr Pair Inr by blast
      then have "inbox_kept e oid t (fst (bindS (pureS (g dir)) (\<lambda>_. import_event e dir (inbox_event e oid w a j source closed summary dg)) t))"
        by (intro ik.compose import_event_kept [OF assms])
      with t Pair Inr show ?thesis by (auto simp: bindS_def intro: ik.chain)
    qed (use t Pair in \<open>simp add: bindS_def\<close>)
  qed
  show ?thesis unfolding import_message_def Let_def
    by (auto intro!: ik.pure_bind ik.bind read_registry_kept last split: prod.split)
qed

lemma import_registered_kept:
  assumes "event_schema (ie_ext e)"
  shows "inbox_kept e oid s (fst (import_registered e oid w n s))"
  unfolding import_registered_def import_child_def
  by (intro ik.compose read_registry_kept import_message_kept [OF assms])

lemma write_source_cursor_kept: "inbox_kept e oid s (fst (write_source_cursor e c m now s))"
proof -
  have "inbox_kept e oid s (s\<lparr>ob_cursors := f\<rparr>)" for s f by (rule inbox_kept_same) simp_all
  then show ?thesis unfolding write_source_cursor_def by (intro ik.pure_bind) auto
qed

lemma replay_one_kept:
  assumes "event_schema (ie_ext e)"
  shows "inbox_kept e oid s (fst (replay_one e oid lim per now src x b s))"
  unfolding replay_one_def Let_def
  by (auto intro!: ik.compose import_message_kept [OF assms] write_source_cursor_kept split: prod.split simp: ik.same)

lemma foldS_kept:
  assumes "\<And>x b s. inbox_kept e oid s (fst (f x b s))"
  shows "inbox_kept e oid s (fst (foldS f xs b s))"
  by (induction xs arbitrary: b s) (auto intro!: ik.compose assms simp: ik.same)

declare replay_loop.simps [simp del]

lemma replay_loop_kept:
  assumes "event_schema (ie_ext e)"
  shows "inbox_kept e oid s (fst (replay_loop e oid lim per now src children b s))"
  using assms
proof (induction e oid lim per now src children b s rule: replay_loop.induct)
  case (1 e oid lim per now src children b s)
  let ?r = "foldS (replay_one e oid lim per now src) children b s"
  have k: "inbox_kept e oid s (fst ?r)" by (intro foldS_kept replay_one_kept 1)
  show ?case
  proof (cases "lim \<le> bt_position b \<or> children = []")
    case True
    then show ?thesis by (subst replay_loop.simps) (simp add: ik.same)
  next
    case False
    obtain t r where r: "?r = (t, r)" by (cases ?r)
    show ?thesis
    proof (cases r)
      case (Inl x)
      with k r False show ?thesis by (subst replay_loop.simps) simp
    next
      case (Inr b')
      show ?thesis
      proof (cases "bt_position b' \<le> bt_position b")
        case True
        with Inr k r False show ?thesis by (subst replay_loop.simps) simp
      next
        case more: False
        have "inbox_kept e oid t (fst (replay_loop e oid lim per now src children b' t))"
          using 1(1) [OF False r [symmetric] Inr more 1(2)] .
        with Inr k r False more show ?thesis
          by (subst replay_loop.simps) (auto intro: ik.chain)
      qed
    qed
  qed
qed

lemma replay_registered_kept:
  assumes "event_schema (ie_ext e)"
  shows "inbox_kept e oid s (fst (replay_registered e oid lim per now s))"
  unfolding replay_registered_def Let_def
  by (intro ik.compose read_registry_kept orchestrator_dir_kept replay_loop_kept [OF assms])

lemma run_inbox_kept:
  assumes "event_schema (ie_ext e)"
  shows "inbox_kept e oid s (fst (run_inbox e oid c s))"
proof (cases c)
  case (Pair now op)
  show ?thesis unfolding Pair
    by (cases op) (auto intro!: ik.compose create_registry_kept register_child_kept unregister_child_kept
        import_message_kept [OF assms] import_registered_kept [OF assms] replay_registered_kept [OF assms] orchestrator_dir_kept
        simp: read_inbox_def)
qed



subsection \<open>Replay ends, and ends with nothing left\<close>

text \<open>A child has nothing to do in a batch when its journal is read to the end or its share is used.\<close>

definition satisfied :: "nat \<Rightarrow> sources \<Rightarrow> batch \<Rightarrow> string \<Rightarrow> bool" where
  "satisfied per src b sid \<longleftrightarrow> per \<le> at (bt_done b) sid \<or> int (length (records_at src sid)) \<le> at (bt_cursors b) sid"

definition in_bounds :: "nat \<Rightarrow> batch \<Rightarrow> bool" where
  "in_bounds lim b \<longleftrightarrow> bt_position b \<le> lim \<and> (\<forall>sid. at (bt_done b) sid \<le> bt_position b)"

lemma at_update [simp]: "at (AList.update k x d) k' = (if k' = k then x else at d k')"
  by (simp add: at_def update_conv')

lemma replay_one_step:
  assumes "replay_one e oid lim per now src (sid, child) b s = (t, Inr b')" and "in_bounds lim b"
  shows "in_bounds lim b' \<and> (b' = b \<and> (bt_position b = lim \<or> satisfied per src b sid) \<or> bt_position b' = bt_position b + 1)"
proof (cases "lim \<le> bt_position b \<or> satisfied per src b sid")
  case True
  with assms have "b' = b" by (auto simp: replay_one_def satisfied_def)
  with True assms(2) show ?thesis by (auto simp: in_bounds_def)
next
  case False
  with assms(1) have "bt_position b' = bt_position b + 1" "bt_done b' = AList.update sid (at (bt_done b) sid + 1) (bt_done b)"
    by (auto simp: replay_one_def satisfied_def Let_def bindS_eq_Inr split: if_splits)
  moreover have "at (bt_done b) k \<le> bt_position b" for k using assms(2) by (simp add: in_bounds_def)
  ultimately show ?thesis using False by (auto simp: in_bounds_def intro: le_SucI)
qed

lemma replay_round:
  assumes "foldS (replay_one e oid lim per now src) children b s = (t, Inr b')" and "in_bounds lim b"
  shows "in_bounds lim b' \<and> bt_position b \<le> bt_position b'
     \<and> (bt_position b' = bt_position b \<longrightarrow> b' = b \<and> (bt_position b = lim \<or> (\<forall>sid \<in> fst ` set children. satisfied per src b sid)))"
  using assms
proof (induction children arbitrary: b s)
  case (Cons x xs)
  obtain sid child where x: "x = (sid, child)" by (cases x)
  from Cons.prems(1) obtain t1 b1 where one: "replay_one e oid lim per now src (sid, child) b s = (t1, Inr b1)"
    and rest: "foldS (replay_one e oid lim per now src) xs b1 t1 = (t, Inr b')"
    by (auto simp: x bindS_eq_Inr)
  note step = replay_one_step [OF one Cons.prems(2)]
  note ih = Cons.IH [OF rest conjunct1 [OF step]]
  from step ih show ?case by (auto simp: x)
qed (simp add: returnS_def)

lemma replay_loop_done:
  assumes "replay_loop e oid lim per now src children b s = (t, Inr b')" and "in_bounds lim b"
  shows "in_bounds lim b' \<and> (bt_position b' = lim \<or> (\<forall>sid \<in> fst ` set children. satisfied per src b' sid))"
  using assms
proof (induction e oid lim per now src children b s rule: replay_loop.induct)
  case (1 e oid lim per now src children b s)
  show ?case
  proof (cases "lim \<le> bt_position b \<or> children = []")
    case True
    with 1(2,3) show ?thesis by (subst (asm) replay_loop.simps) (auto simp: in_bounds_def)
  next
    case False
    with 1(2) obtain s1 b1 where r: "foldS (replay_one e oid lim per now src) children b s = (s1, Inr b1)"
      and more: "if bt_position b1 \<le> bt_position b then (s1, Inr b1) = (t, Inr b')
                 else replay_loop e oid lim per now src children b1 s1 = (t, Inr b')"
      by (subst (asm) replay_loop.simps) (auto split: prod.splits sum.splits if_splits)
    note round = replay_round [OF r 1(3)]
    show ?thesis
    proof (cases "bt_position b1 \<le> bt_position b")
      case True
      with round more False show ?thesis by auto
    next
      case go: False
      with more have "replay_loop e oid lim per now src children b1 s1 = (t, Inr b')" by simp
      from 1(1) [OF False r [symmetric] refl go this conjunct1 [OF round]] show ?thesis .
    qed
  qed
qed

lemma remaining_nothing:
  assumes "\<forall>i \<in> set ids. int (length (records_at src i)) \<le> at cursors i"
  shows "remaining_of src cursors ids = 0"
  using assms unfolding remaining_of_def by (induction ids) auto

text \<open>
  C17. A replay of the registered children always ends, within its batch, and makes progress. When
  \<open>replay_registered\<close> returns, it has advanced at most \<open>batch_size\<close> records; if it advanced fewer and
  the share of a child was no smaller than the batch, every journal has been read to its end; and a
  replay that advanced nothing left nothing behind. The loop itself is a total function: a round that
  advances no child ends it.
\<close>

theorem replay_ends_drained:
  assumes "replay_registered e oid lim per now s = (t, Inr r)"
  shows "rr_advanced r \<le> nat lim
     \<and> (rr_advanced r < nat lim \<and> lim \<le> per \<longrightarrow> rr_remaining r = 0)
     \<and> (rr_advanced r = 0 \<longrightarrow> rr_remaining r = 0)"
proof -
  from assms obtain ids children src cursors start s1 b where lim: "1 \<le> lim" "1 \<le> per"
    and ids: "mapE child_run children = Inr ids"
    and loop: "replay_loop e oid (nat lim) (nat per) now src (rotate start (zip ids children))
         \<lparr>bt_cursors = cursors, bt_done = [], bt_position = 0, bt_imported = []\<rparr> s1 = (t, Inr b)"
    and r: "rr_advanced r = bt_position b" "rr_remaining r = remaining_of src (bt_cursors b) ids"
    by (auto simp: replay_registered_def Let_def bindS_eq_Inr)
  have "in_bounds (nat lim) \<lparr>bt_cursors = cursors, bt_done = [], bt_position = 0, bt_imported = []\<rparr>"
    by (simp add: in_bounds_def at_def)
  note b = replay_loop_done [OF loop this]
  have named: "fst ` set (rotate start (zip ids children)) = set ids"
    using mapE_length [OF ids] by (simp add: set_map [symmetric] del: set_map)
  have drained: "rr_remaining r = 0" if "bt_position b < nat lim" and "bt_position b < nat per"
  proof -
    from b that(1) have "\<forall>sid \<in> fst ` set (rotate start (zip ids children)). satisfied (nat per) src b sid" by (metis less_irrefl)
    then have "\<forall>sid \<in> set ids. satisfied (nat per) src b sid" unfolding named .
    moreover have "\<not> nat per \<le> at (bt_done b) sid" for sid using b that by (auto simp: in_bounds_def not_le intro: le_less_trans)
    ultimately show ?thesis unfolding r(2) satisfied_def by (intro remaining_nothing) blast
  qed
  show ?thesis
    using b drained lim unfolding r(1) in_bounds_def by auto
qed


subsection \<open>An orchestrator with one child\<close>

text \<open>
  A registry with one active child whose journal holds a steering request and its answer: neither is
  delivered to the aggregate, so a replay only moves the child's source cursor.
\<close>

definition inbox_ext :: ext where
  "inbox_ext = \<lparr>schema_errors = (\<lambda>s v. if s = EVENT_SCHEMA then [''not an event''] else []), sha256 = (\<lambda>s. ''d'')\<rparr>"

definition child_entry :: json where
  "child_entry = JObj [(''agent_run_id'', JStr ''worker''), (''state'', JStr ''active''), (''identity_digest'', JStr ''sha256:c''),
     (''source_journal_id'', JStr ''sha256:j''), (''source_journal_path'', JStr ''/r/worker/messages.jsonl'')]"

definition child_registry :: json where
  "child_registry = JObj [(''orchestrator_id'', JStr ''orch''), (''workflow_id'', JNull), (''identity_digest'', JStr ''sha256:d''),
     (''children'', JList [child_entry])]"

definition inbox_host :: host where
  "inbox_host = \<lparr>h_entry = [''/r/worker/messages.jsonl'' \<mapsto> RFile (concat (map canonical_json_line demo_log)) 1 True],
     h_absolute = (\<lambda>p. p), h_resolve = (\<lambda>p. p), h_schema = (\<lambda>_. None)\<rparr>"

definition inbox_demo :: inbox_env where
  "inbox_demo = \<lparr>ie_root = ''/s'', ie_runs = ''/r'', ie_host = inbox_host, ie_ext = inbox_ext,
     ie_seal = (\<lambda>_. \<lparr>run_name = ''worker'', run_path = ''/r/worker'', tree = [], lifecycle_log = None\<rparr>), ie_uuid5 = (\<lambda>s. s)\<rparr>"

definition inbox_start :: inbox_dir where
  "inbox_start = \<lparr>ob_present = True, ob_registry = Some (RFile (json_document child_registry) 1 True),
     ob_inbox = Some (Regular [] 1), ob_cursors = (\<lambda>_. None)\<rparr>"

lemma demo_registry_read:
  "read_registry inbox_demo ''orch'' inbox_start = (inbox_start, Inr (canon child_registry))"
proof -
  have p: "plain child_registry" "ascii_json child_registry"
    by (simp_all add: child_registry_def child_entry_def ascii_def)
  have l: "length (json_document child_registry) \<le> 1000" by code_simp
  have f: "is_obj (canon child_registry)" "jidx (canon child_registry) ''identity_digest'' = Inr (JStr ''sha256:d'')" by code_simp+
  have k: "orchestrator_key inbox_ext ''orch'' = Inr ''d''" by code_simp
  have m: "length (json_document child_registry) \<le> MAX_VALIDATED_FILE_BYTES" "\<not> MAX_REGISTRY_BYTES < length (json_document child_registry)"
    using l by (simp_all add: MAX_VALIDATED_FILE_BYTES_def MAX_REGISTRY_BYTES_def)
  show ?thesis
    using loads_utf8_document [OF p] f k m
    by (simp add: read_registry_def orchestrator_dir_def inbox_demo_def inbox_start_def bindS_def pureS_def regular_file_def
        read_limited_def read_regular_file_def loads_utf8_def validate_registry_def refuse_if_def wrap_errors_def
        registry_identity_def json_digest_def)
       (simp add: inbox_ext_def REGISTRY_SCHEMA_def EVENT_SCHEMA_def)
qed


lemma decode_lines_bounded:
  "decode_lines (cfg\<lparr>max_records := None\<rparr>) V n raws = Inr vs \<Longrightarrow> n + length vs \<le> m \<Longrightarrow>
   decode_lines (cfg\<lparr>max_records := Some m\<rparr>) V n raws = Inr vs"
proof (induction raws arbitrary: n vs)
  case (Cons raw raws)
  have "decode_record (cfg\<lparr>max_records := None\<rparr>) V k raw = decode_record (cfg\<lparr>max_records := Some m\<rparr>) V k raw" for k
    by (simp add: decode_record_def cong: option.case_cong bindE_cong)
  with Cons show ?case by auto
qed simp

lemma decode_jsonl_bounded:
  "decode_jsonl (cfg\<lparr>max_records := None\<rparr>) V d = Inr vs \<Longrightarrow> length vs \<le> m \<Longrightarrow>
   decode_jsonl (cfg\<lparr>max_records := Some m\<rparr>) V d = Inr vs"
  using decode_lines_bounded [of cfg V 0 "splitlines d" vs m] by (auto simp: decode_jsonl_def)

lemma demo_child_records: "child_records inbox_demo (canon child_entry) = Inr (map canon demo_log)"
proof -
  let ?p = "''/r/worker/messages.jsonl''" and ?d = "concat (map canonical_json_line demo_log)"
  let ?c = "inbox_cfg ?p True" and ?V = "validate_source_record ''messages.jsonl''"
  have "good_record (?c\<lparr>max_records := None\<rparr>) ?V (demo_log ! i) (i + 1)" if i: "i < length demo_log" for i
  proof -
    have "demo_log ! i \<in> set demo_log" using i by simp
    with demo_log_texts(1) have t: "plain (demo_log ! i)" "ascii_json (demo_log ! i)" "length (canonical_json_line (demo_log ! i)) \<le> 1000"
      by (auto simp: list_all_iff)
    from good_message [OF t demo_log_valid [OF i]] t(3) show ?thesis
      by (auto simp: good_record_def inbox_cfg_def MAX_RECORD_BYTES_def validate_source_record_def refuse_if_def
          validate_message_record_def validate_message_Inr message_atoms_def)
  qed
  then have "decode_jsonl (?c\<lparr>max_records := None\<rparr>) ?V ?d = Inr (map canon demo_log)"
    by (intro decode_records) (simp_all add: inbox_cfg_def)
  moreover have "length (map canon demo_log) \<le> MAX_SOURCE_RECORDS" by (simp add: demo_log_def MAX_SOURCE_RECORDS_def)
  ultimately have "decode_jsonl (?c\<lparr>max_records := Some MAX_SOURCE_RECORDS\<rparr>) ?V ?d = Inr (map canon demo_log)"
    by (rule decode_jsonl_bounded)
  moreover have "?c\<lparr>max_records := Some MAX_SOURCE_RECORDS\<rparr> = ?c" by (simp add: inbox_cfg_def)
  ultimately have d: "decode_jsonl ?c ?V ?d = Inr (map canon demo_log)" by simp
  have "length ?d \<le> max_bytes ?c" using demo_log_texts(2) by (simp add: inbox_cfg_def MAX_JOURNAL_BYTES_def)
  with d have rd: "read_jsonl ?c False ?V (Some (Regular ?d 1)) = Inr (map canon demo_log)"
    by (simp add: read_jsonl_def read_bytes_def locked_file_def read_locked_bytes_def)
  have names: "file_name ?p = ''messages.jsonl''" "host_lexical inbox_host ?p = ?p"
    "jidx (canon child_entry) ''source_journal_path'' = Inr (JStr ?p)" by code_simp+
  have e: "h_entry inbox_host ?p = Some (RFile ?d 1 True)" by (simp add: inbox_host_def)
  show ?thesis using rd names e
    by (simp add: child_records_def as_str_def source_records_def inbox_demo_def read_inbox_journal_def regular_file_def refuse_if_def
        wrap_foreign_def)
qed

text \<open>A batch of one record: the replay advances one, and one remains.\<close>

lemma demo_inbox_replayed:
  "\<exists>t r. replay_registered inbox_demo ''orch'' 1 5 ''t'' inbox_start = (t, Inr r) \<and> rr_advanced r = 1 \<and> rr_remaining r = 1
     \<and> ob_present t \<and> ob_inbox t = Some (Regular [] 1)"
proof -
  let ?c = "canon child_entry" and ?ms = "map canon demo_log"
  have facts: "active_children (canon child_registry) None = Inr [?c]" "child_run ?c = Inr ''worker''"
    "orchestrator_key inbox_ext ''orch'' = Inr ''d''"
    by code_simp+
  from facts(3) have dir: "orchestrator_dir inbox_demo ''orch'' False inbox_start = (inbox_start, Inr ''/s/d'')"
    by (simp add: orchestrator_dir_def inbox_demo_def inbox_start_def)
  have cur: "cursor_key inbox_ext ?c = Inr ''d.json''" "jidx ?c ''source_journal_id'' = Inr (JStr ''sha256:j'')" by code_simp+
  have z: "read_source_cursor inbox_demo ''/s/d'' ?c inbox_start = Inr 0"
    using cur(1) by (simp add: read_source_cursor_def inbox_demo_def inbox_start_def target_exists_def)
  have n: "\<not> aggregated (?ms ! 0)" "jget (?ms ! 0) ''sequence'' = JInt 1" "length ?ms = 2" by code_simp+
  define b0 where "b0 = \<lparr>bt_cursors = [(''worker'', 0)], bt_done = [], bt_position = 0, bt_imported = []\<rparr>"
  define b1 where "b1 = \<lparr>bt_cursors = [(''worker'', 1)], bt_done = [(''worker'', 1)], bt_position = 1, bt_imported = []\<rparr>"
  have "\<exists>t. replay_one inbox_demo ''orch'' 1 5 ''t'' [(''worker'', ?ms)] (''worker'', ?c) b0 inbox_start = (t, Inr b1)
      \<and> ob_present t \<and> ob_inbox t = Some (Regular [] 1)"
    using n cur by (simp add: replay_one_def b0_def b1_def at_def records_at_def write_source_cursor_def bindS_def inbox_demo_def
        returnS_def inbox_start_def)
  then obtain t where one: "replay_one inbox_demo ''orch'' 1 5 ''t'' [(''worker'', ?ms)] (''worker'', ?c) b0 inbox_start = (t, Inr b1)"
    and t: "ob_present t" "ob_inbox t = Some (Regular [] 1)" by blast
  have "replay_loop inbox_demo ''orch'' 1 5 ''t'' [(''worker'', ?ms)] [(''worker'', ?c)] b1 t = (t, Inr b1)"
    by (subst replay_loop.simps) (simp add: b1_def)
  moreover have "bt_position b0 = 0" "bt_position b1 = 1" by (simp_all add: b0_def b1_def)
  ultimately have loop: "replay_loop inbox_demo ''orch'' 1 5 ''t'' [(''worker'', ?ms)] [(''worker'', ?c)] b0 inbox_start = (t, Inr b1)"
    using one by (subst replay_loop.simps) (simp add: bindS_def)
  have "dict_from (zip [''worker''] [0 :: int]) = [(''worker'', 0)]" "dict_from (zip [''worker''] [?ms]) = [(''worker'', ?ms)]"
    by (simp_all add: dict_from_def)
  with loop n t show ?thesis
    by (simp add: replay_registered_def bindS_def demo_registry_read facts dir z demo_child_records b0_def [symmetric]
        refuse_if_def MAX_SOURCE_RECORDS_def Let_def at_def records_at_def)
       (simp add: b1_def remaining_of_def at_def records_at_def)
qed

theorem replay_ends_drained_witness:
  "\<exists>t r. replay_registered inbox_demo ''orch'' 1 5 ''t'' inbox_start = (t, Inr r)
     \<and> rr_advanced r \<le> 1 \<and> (rr_advanced r = 0 \<longrightarrow> rr_remaining r = 0)"
proof -
  from demo_inbox_replayed obtain t r where r: "replay_registered inbox_demo ''orch'' 1 5 ''t'' inbox_start = (t, Inr r)" by blast
  from replay_ends_drained [OF r] r show ?thesis by auto
qed


end
