(* ===== verification/Decision_Checkpoint.thy ===== *)
theory Decision_Checkpoint
  imports Hierarchy
begin

text \<open>
  \<open>decision_checkpoint.py\<close>: a semantic checkpoint on the selection of one of several proposals. A
  draft names the candidates and the agent's own choice; a provider is asked, without being told that
  choice, and its evidence and a reconciliation decide whether the selection may advance. Numbers are
  JSON numbers, floats by their \<open>repr\<close>; the provider, the elapsed time and the subtraction of two
  floats are arguments.
\<close>

subsection \<open>Constants\<close>

definition PROPOSAL_SELECTION_DECISION_ID :: string where
  "PROPOSAL_SELECTION_DECISION_ID = ''implementation.proposal_selection/v1''"

definition DECISION_DRAFT_SCHEMA :: string where
  "DECISION_DRAFT_SCHEMA = ''agent-workflow/decision-draft/v1''"

definition DECISION_RESOLUTION_SCHEMA :: string where
  "DECISION_RESOLUTION_SCHEMA = ''agent-workflow/decision-resolution/v1''"

definition SEMANTIC_CHECKPOINT_RECEIPT_SCHEMA :: string where
  "SEMANTIC_CHECKPOINT_RECEIPT_SCHEMA = ''agent-workflow/semantic-checkpoint-receipt/v1''"

definition QUESTION_SET_VERSION :: string where
  "QUESTION_SET_VERSION = ''implementation-proposal-selection/v1''"

definition PROJECTOR_VERSION :: string where
  "PROJECTOR_VERSION = ''implementation-proposal-selection-state/v1''"

definition MAX_CANDIDATES :: nat where
  "MAX_CANDIDATES = 16"

definition MAX_PROJECTED_STATE_BYTES :: nat where
  "MAX_PROJECTED_STATE_BYTES = 64 * 1024"

subsection \<open>Policy and evidence\<close>

record checkpoint_policy =
  cp_confidence :: json
  cp_margin :: json
  cp_failure :: string

definition in_unit :: "json \<Rightarrow> bool" where
  "in_unit v \<longleftrightarrow> is_number v \<and> \<not> is_bool v \<and> v \<noteq> JFloat ''nan'' \<and> \<not> num_less v (JInt 0) \<and> \<not> num_less (JInt 1) v"

text \<open>\<open>CheckpointPolicy.__post_init__\<close> raises unless this holds.\<close>

definition policy_valid :: "checkpoint_policy \<Rightarrow> bool" where
  "policy_valid p \<longleftrightarrow> in_unit (cp_confidence p) \<and> in_unit (cp_margin p) \<and> cp_failure p \<in> {''block'', ''fallback_initial''}"

text \<open>\<open>plugin_api.DecisionEvidence\<close>; an optional field that is absent is null.\<close>

record decision_evidence =
  de_decision :: string
  de_status :: string
  de_type :: string
  de_value :: json
  de_confidence :: json
  de_probability :: json
  de_distribution :: "(string \<times> json) list"
  de_model :: json
  de_questions :: json
  de_request :: json
  de_request_id :: json
  de_projector :: json
  de_usage :: "(string \<times> json) list"
  de_refs :: "string list"
  de_error :: json

subsection \<open>The draft\<close>

definition unique_strings :: "json \<Rightarrow> string \<Rightarrow> nat \<Rightarrow> string list result" where
  "unique_strings v field minimum =
     bindE (raise_if (\<not> is_list v \<or> \<not> list_all nonempty_str (list_items v)) (field @ '' must be a list of non-empty strings'')) (\<lambda>_.
     (let items = map str_of (list_items v) in
     bindE (raise_if (length items < minimum) (field @ '' requires at least '' @ int_str (int minimum) @ '' entries'')) (\<lambda>_.
     bindE (raise_if (\<not> distinct items) (field @ '' contains duplicate entries'')) (\<lambda>_. Inr items))))"

definition normalize_decision_draft :: "ext \<Rightarrow> json \<Rightarrow> json result" where
  "normalize_decision_draft X draft =
     bindE (validate_instance X draft DECISION_DRAFT_SCHEMA ''decision draft'') (\<lambda>_.
     bindE (raise_if (jget draft ''decision_id'' \<noteq> JStr PROPOSAL_SELECTION_DECISION_ID)
             (''unsupported checkpoint decision: '' @ py_repr (jget draft ''decision_id''))) (\<lambda>_.
     bindE (unique_strings (jget draft ''candidate_ids'') ''candidate_ids'' 2) (\<lambda>ids.
     bindE (raise_if (MAX_CANDIDATES < length ids) (''candidate_ids exceeds '' @ int_str (int MAX_CANDIDATES) @ '' entries'')) (\<lambda>_.
     bindE (raise_if (jget draft ''initial_agent_choice'' \<notin> JStr ` set ids) ''initial_agent_choice must name one candidate_id'') (\<lambda>_.
     bindE (unique_strings (jget draft ''evidence_refs'') ''evidence_refs'' 1) (\<lambda>_. Inr draft))))))"

definition candidate_ids :: "json \<Rightarrow> string list" where
  "candidate_ids draft = map str_of (list_items (jget draft ''candidate_ids''))"

subsection \<open>What the provider is shown\<close>

fun candidate_loop :: "(string \<times> json) list \<Rightarrow> json list \<Rightarrow> (string \<times> json) list result" where
  "candidate_loop by_id [] = Inr by_id"
| "candidate_loop by_id (raw # rest) =
     bindE (raise_if (\<not> is_obj raw) ''checkpoint candidate context entries must be objects'') (\<lambda>_.
     (let cid = jget raw ''candidate_id'' in
     bindE (raise_if (\<not> nonempty_str cid) ''checkpoint candidate_id must be non-empty'') (\<lambda>_.
     bindE (raise_if (str_of cid \<in> fst ` set by_id) (''duplicate checkpoint candidate context: '' @ str_of cid)) (\<lambda>_.
     candidate_loop (by_id @ [(str_of cid, raw)]) rest))))"

definition project_candidate :: "(string \<times> json) list \<Rightarrow> string \<Rightarrow> (json \<times> string list) result" where
  "project_candidate by_id cid =
     (let raw = the (map_of by_id cid); artifact = jget raw ''artifact'' in
      bindE (unique_strings (jget raw ''source_refs'') (''candidates['' @ cid @ ''].source_refs'') 1) (\<lambda>refs.
      bindE (raise_if (\<not> nonempty_str artifact) (''candidate '' @ cid @ '' artifact must be non-empty'')) (\<lambda>_.
      Inr (JObj [(''candidate_id'', JStr cid), (''artifact'', artifact), (''source_refs'', JList (map JStr refs))], refs))))"

definition project_evidence :: "nat \<times> json \<Rightarrow> (json \<times> string) result" where
  "project_evidence = (\<lambda>(index, raw).
     bindE (raise_if (\<not> is_obj raw) ''deterministic_evidence entries must be objects'') (\<lambda>_.
     (let ref = jget raw ''source_ref''; sort_of = jget raw ''kind''; content = jget raw ''content''; scope = jget raw ''scope'';
          at = ''deterministic_evidence['' @ int_str (int index) @ '']'' in
     bindE (raise_if (\<not> nonempty_str ref \<or> \<not> nonempty_str sort_of \<or> \<not> nonempty_str content)
             (at @ '' requires source_ref, kind, and content'')) (\<lambda>_.
     bindE (raise_if (scope \<noteq> JNull \<and> \<not> nonempty_str scope) (at @ ''.scope must be non-empty'')) (\<lambda>_.
     Inr (JObj ([(''source_ref'', ref), (''kind'', sort_of), (''content'', content)]
                @ (if scope = JNull then [] else [(''scope'', scope)])), str_of ref))))))"

text \<open>\<open>dict.fromkeys\<close>: the first occurrence of each.\<close>

definition firsts :: "'a list \<Rightarrow> 'a list" where
  "firsts xs = foldl (\<lambda>acc x. if x \<in> set acc then acc else acc @ [x]) [] xs"

definition normalize_context :: "string list \<Rightarrow> json \<Rightarrow> (json \<times> string list) result" where
  "normalize_context ids context =
     (let requirement = jget context ''requirement''; wanted = jget requirement ''text''; ref = jget requirement ''source_ref'';
          raw_candidates = jget context ''candidates''; raw_evidence = jget_or context ''deterministic_evidence'' (JList []) in
      bindE (raise_if (\<not> is_obj requirement) ''checkpoint context requires requirement evidence'') (\<lambda>_.
      bindE (raise_if (\<not> nonempty_str wanted) ''checkpoint requirement text must be non-empty'') (\<lambda>_.
      bindE (raise_if (\<not> nonempty_str ref) ''checkpoint requirement source_ref must be non-empty'') (\<lambda>_.
      bindE (raise_if (\<not> is_list raw_candidates) ''checkpoint context candidates must be a list'') (\<lambda>_.
      bindE (candidate_loop [] (list_items raw_candidates)) (\<lambda>by_id.
      bindE (raise_if (fst ` set by_id \<noteq> set ids) ''checkpoint context must contain exactly the draft candidates'') (\<lambda>_.
      bindE (mapE (project_candidate by_id) ids) (\<lambda>candidates.
      bindE (raise_if (\<not> is_list raw_evidence) ''deterministic_evidence must be a list'') (\<lambda>_.
      bindE (mapE project_evidence (enumerate 0 (list_items raw_evidence))) (\<lambda>evidence.
      (let state = JObj [(''requirement'', JObj [(''text'', wanted), (''source_ref'', ref)]),
             (''candidates'', JList (map fst candidates)), (''deterministic_evidence'', JList (map fst evidence)),
             (''provider_authority'', JStr ''evidence_only'')] in
      bindE (raise_if (MAX_PROJECTED_STATE_BYTES < length (dumps False state))
              (''checkpoint projected state exceeds '' @ int_str (int MAX_PROJECTED_STATE_BYTES) @ '' bytes'')) (\<lambda>_.
      Inr (state, firsts (str_of ref # concat (map snd candidates) @ map snd evidence))))))))))))))"

definition QUESTION_TEXT :: string where
  "QUESTION_TEXT = ''Using only the supplied requirement, candidate artifacts, and scoped deterministic evidence, choose the candidate_id that best satisfies the requirement. Do not infer missing verification.''"

definition checkpoint_question :: "string list \<Rightarrow> json" where
  "checkpoint_question ids =
     JObj [(''primitive'', JStr ''choice''), (''instructions'', JStr QUESTION_TEXT),
       (''criteria'', JObj (map (\<lambda>cid. (cid, JStr (''Candidate '' @ cid))) ids))]"

definition build_checkpoint_request :: "ext \<Rightarrow> json \<Rightarrow> json \<Rightarrow> json result" where
  "build_checkpoint_request X draft_value context =
     bindE (normalize_decision_draft X draft_value) (\<lambda>draft.
     bindE (normalize_context (candidate_ids draft) context) (\<lambda>(state, refs).
     (let missing = sorted_set (filter (\<lambda>r. r \<notin> set refs) (map str_of (list_items (jget draft ''evidence_refs''))));
          payload = [(''decision_id'', JStr PROPOSAL_SELECTION_DECISION_ID), (''question_set_version'', JStr QUESTION_SET_VERSION),
            (''projector_version'', JStr PROJECTOR_VERSION), (''state'', state), (''question'', checkpoint_question (candidate_ids draft))] in
     bindE (raise_if (missing \<noteq> []) (''checkpoint context is missing draft evidence refs: '' @ py_join '', '' missing)) (\<lambda>_.
     Inr (JObj (payload @ [(''request_sha256'', JStr (sha256 X (dumps False (JObj payload)))),
       (''source_refs'', JList (map JStr refs))]))))))"


subsection \<open>What the evidence says\<close>

definition semantic_candidate :: "json \<Rightarrow> decision_evidence \<Rightarrow> string option" where
  "semantic_candidate draft ev =
     (if de_decision ev \<noteq> PROPOSAL_SELECTION_DECISION_ID \<or> de_status ev \<noteq> ''success'' \<or> de_type ev \<noteq> ''choice'' then None
      else if \<not> is_str (de_value ev) \<or> str_of (de_value ev) \<notin> set (candidate_ids draft) then None
      else Some (str_of (de_value ev)))"

text \<open>\<open>sorted(values, reverse=True)\<close> and \<open>max(distribution, key=distribution.get)\<close>.\<close>

fun insert_desc :: "json \<Rightarrow> json list \<Rightarrow> json list" where
  "insert_desc x [] = [x]"
| "insert_desc x (y # ys) = (if num_less y x then x # y # ys else y # insert_desc x ys)"

definition sort_desc :: "json list \<Rightarrow> json list" where
  "sort_desc xs = foldl (\<lambda>acc x. insert_desc x acc) [] xs"

fun max_key :: "string \<times> json \<Rightarrow> (string \<times> json) list \<Rightarrow> string" where
  "max_key best [] = fst best"
| "max_key best (kv # rest) = (if num_less (snd best) (snd kv) then max_key kv rest else max_key best rest)"

definition numeric_distribution :: "decision_evidence \<Rightarrow> (string \<times> json) list" where
  "numeric_distribution ev = filter (\<lambda>(k, v). is_number v \<and> \<not> is_bool v) (de_distribution ev)"

definition float_of :: "json \<Rightarrow> json result" where
  "float_of v = (if is_number v then Inr v else Inl (TypeError ''float''))"

type_synonym subtract = "json \<Rightarrow> json \<Rightarrow> json"

definition margin_of :: "subtract \<Rightarrow> (string \<times> json) list \<Rightarrow> json" where
  "margin_of sub dist = (let ranked = sort_desc (map snd dist) in sub (ranked ! 0) (ranked ! 1))"

definition evidence_outcome :: "subtract \<Rightarrow> json \<Rightarrow> decision_evidence \<Rightarrow> checkpoint_policy \<Rightarrow> string result" where
  "evidence_outcome sub draft ev p =
     (case semantic_candidate draft ev of
        None \<Rightarrow> Inr ''provider_failure''
      | Some candidate \<Rightarrow>
          if de_confidence ev = JNull \<or> is_bool (de_confidence ev) then Inr ''provider_failure''
          else
            bindE (float_of (de_confidence ev)) (\<lambda>confidence.
            if \<not> in_unit confidence then Inr ''provider_failure''
            else if num_less confidence (cp_confidence p) then Inr ''uncertainty''
            else
              (let dist = numeric_distribution ev in
               if fst ` set dist \<noteq> set (candidate_ids draft) then Inr ''provider_failure''
               else if \<not> list_all (in_unit \<circ> snd) dist then Inr ''provider_failure''
               else if length dist < 2 then Inr ''provider_failure''
               else if py_eq (margin_of sub dist) (JFloat ''0.0'') \<or> num_less (margin_of sub dist) (cp_margin p) then Inr ''uncertainty''
               else if max_key (hd dist) (tl dist) \<noteq> candidate then Inr ''provider_failure''
               else if jget draft ''initial_agent_choice'' = JStr candidate then Inr ''agreement'' else Inr ''disagreement'')))"

subsection \<open>Reconciliation\<close>

definition one_of_texts :: "json \<Rightarrow> string list \<Rightarrow> bool" where
  "one_of_texts v names \<longleftrightarrow> v \<in> JStr ` set names"

definition WAITING :: "string list" where
  "WAITING = [''defer_for_evidence'', ''escalate_review'']"

definition INDEPENDENT_BASES :: "string list" where
  "INDEPENDENT_BASES = [''deterministic_authority'', ''additional_evidence'', ''independent_review'', ''human_authority'']"

definition NEW_AUTHORITY :: "string list" where
  "NEW_AUTHORITY = [''additional_evidence'', ''independent_review'', ''human_authority'']"

definition check_agreement :: "json \<Rightarrow> json \<Rightarrow> json \<Rightarrow> json \<Rightarrow> unit result" where
  "check_agreement draft disposition basis resolved =
     raise_if (\<not> (disposition = JStr ''retain_initial_on_agreement'' \<and> basis = JStr ''semantic_agreement''
                  \<and> resolved = jget draft ''initial_agent_choice''))
       ''agreement resolution must retain the initial choice''"

definition check_disagreement :: "string option \<Rightarrow> json \<Rightarrow> json \<Rightarrow> json \<Rightarrow> json \<Rightarrow> unit result" where
  "check_disagreement candidate disposition basis resolved refs =
     (if disposition = JStr ''accept_semantic_candidate'' then
        raise_if (basis \<noteq> JStr ''semantic_evidence'' \<or> resolved \<noteq> opt_str candidate)
          ''semantic acceptance must resolve to the semantic candidate''
      else if disposition = JStr ''reject_semantic_candidate'' then
        bindE (raise_if (\<not> one_of_texts basis INDEPENDENT_BASES) ''semantic rejection requires an independent reconciliation basis'') (\<lambda>_.
        bindE (raise_if (resolved = JNull) ''semantic rejection requires a resolved_choice'') (\<lambda>_.
        bindE (raise_if (resolved = opt_str candidate) ''semantic rejection cannot resolve to the semantic candidate'') (\<lambda>_.
        raise_if (\<not> truthy refs) ''semantic rejection requires evidence_refs'')))
      else raise_if (\<not> one_of_texts disposition WAITING) ''disagreement requires reconciliation or escalation'')"

definition check_uncertainty :: "json \<Rightarrow> json \<Rightarrow> json \<Rightarrow> json \<Rightarrow> unit result" where
  "check_uncertainty disposition basis resolved refs =
     (if one_of_texts disposition WAITING then Inr ()
      else if disposition = JStr ''resolve_uncertainty'' \<and> one_of_texts basis NEW_AUTHORITY then
        raise_if (resolved = JNull \<or> \<not> truthy refs) ''uncertainty resolution requires resolved_choice and evidence_refs''
      else Inl (WorkflowError ''uncertainty cannot be collapsed without new authority/evidence''))"

definition check_failure :: "checkpoint_policy \<Rightarrow> json \<Rightarrow> json \<Rightarrow> json \<Rightarrow> json \<Rightarrow> unit result" where
  "check_failure p draft disposition basis resolved =
     raise_if (\<not> one_of_texts disposition WAITING
               \<and> \<not> (cp_failure p = ''fallback_initial'' \<and> disposition = JStr ''provider_fallback''
                    \<and> basis = JStr ''provider_failure_policy'' \<and> resolved = jget draft ''initial_agent_choice''))
       ''provider failure is blocked by checkpoint policy''"

definition validate_resolution ::
  "ext \<Rightarrow> json \<Rightarrow> json \<Rightarrow> string option \<Rightarrow> string \<Rightarrow> checkpoint_policy \<Rightarrow> json result" where
  "validate_resolution X resolution draft candidate outcome p =
     bindE (validate_instance X resolution DECISION_RESOLUTION_SCHEMA ''decision resolution'') (\<lambda>_.
     bindE (raise_if (jget resolution ''decision_id'' \<noteq> JStr PROPOSAL_SELECTION_DECISION_ID) ''decision resolution has wrong decision_id'') (\<lambda>_.
     bindE (raise_if (\<not> py_eq (jget resolution ''draft_id'') (jget draft ''draft_id'')) ''decision resolution has wrong draft_id'') (\<lambda>_.
     bindE (raise_if (jget resolution ''initial_agent_choice'' \<noteq> jget draft ''initial_agent_choice'')
             ''decision resolution changed initial_agent_choice'') (\<lambda>_.
     bindE (raise_if (jget resolution ''semantic_candidate'' \<noteq> opt_str candidate)
             ''decision resolution semantic_candidate does not match evidence'') (\<lambda>_.
     bindE (jidx resolution ''disposition'') (\<lambda>disposition.
     bindE (jidx resolution ''basis'') (\<lambda>basis.
     (let resolved = jget resolution ''resolved_choice''; refs = jget_or resolution ''evidence_refs'' (JList []) in
     bindE (raise_if (resolved \<noteq> JNull \<and> resolved \<notin> JStr ` set (candidate_ids draft)) ''resolved_choice must name a candidate_id'') (\<lambda>_.
     bindE (raise_if (one_of_texts disposition WAITING \<and> resolved \<noteq> JNull)
             ''defer/escalate dispositions cannot carry a resolved_choice'') (\<lambda>_.
     bindE (if outcome = ''agreement'' then check_agreement draft disposition basis resolved
            else if outcome = ''disagreement'' then check_disagreement candidate disposition basis resolved refs
            else if outcome = ''uncertainty'' then check_uncertainty disposition basis resolved refs
            else check_failure p draft disposition basis resolved) (\<lambda>_. Inr resolution)))))))))))"

definition advance_allowed :: "json option \<Rightarrow> string \<Rightarrow> bool" where
  "advance_allowed resolution outcome =
     (case resolution of
        None \<Rightarrow> False
      | Some r \<Rightarrow>
          jget r ''resolved_choice'' \<noteq> JNull \<and> \<not> one_of_texts (jget r ''disposition'') WAITING
          \<and> \<not> (outcome = ''provider_failure'' \<and> jget r ''disposition'' \<noteq> JStr ''provider_fallback''))"

subsection \<open>Running a checkpoint\<close>

text \<open>A provider raises, returns something that is no evidence, or returns evidence.\<close>

datatype provider_answer =
    Raised string
  | Foreign
  | Answer decision_evidence

definition failed_evidence :: "json \<Rightarrow> string \<Rightarrow> string \<Rightarrow> decision_evidence" where
  "failed_evidence request status error_class =
     \<lparr>de_decision = PROPOSAL_SELECTION_DECISION_ID, de_status = status, de_type = ''choice'', de_value = JNull,
      de_confidence = JNull, de_probability = JNull, de_distribution = [], de_model = JNull,
      de_questions = JStr QUESTION_SET_VERSION, de_request = jget request ''request_sha256'', de_request_id = JNull,
      de_projector = JStr PROJECTOR_VERSION, de_usage = [],
      de_refs = map str_of (list_items (jget request ''source_refs'')), de_error = JStr error_class\<rparr>"

definition wrong_identity :: "json \<Rightarrow> decision_evidence \<Rightarrow> bool" where
  "wrong_identity request ev \<longleftrightarrow>
     de_decision ev \<noteq> PROPOSAL_SELECTION_DECISION_ID
     \<or> de_request ev \<noteq> JNull \<and> de_request ev \<noteq> jget request ''request_sha256''
     \<or> de_questions ev \<noteq> JNull \<and> de_questions ev \<noteq> JStr QUESTION_SET_VERSION
     \<or> de_projector ev \<noteq> JNull \<and> de_projector ev \<noteq> JStr PROJECTOR_VERSION"

definition received_evidence :: "json \<Rightarrow> provider_answer \<Rightarrow> decision_evidence" where
  "received_evidence request answer =
     (case answer of
        Raised error_class \<Rightarrow> failed_evidence request ''service_failure'' error_class
      | Foreign \<Rightarrow> failed_evidence request ''invalid_contract'' ''provider_return_type''
      | Answer ev \<Rightarrow>
          if wrong_identity request ev then failed_evidence request ''invalid_contract'' ''provider_evidence_identity_mismatch''
          else ev)"

definition agreed_resolution :: "json \<Rightarrow> string option \<Rightarrow> json" where
  "agreed_resolution draft candidate =
     JObj [(''schema'', JStr DECISION_RESOLUTION_SCHEMA), (''decision_id'', JStr PROPOSAL_SELECTION_DECISION_ID),
       (''draft_id'', jget draft ''draft_id''), (''initial_agent_choice'', jget draft ''initial_agent_choice''),
       (''semantic_candidate'', opt_str candidate), (''resolved_choice'', jget draft ''initial_agent_choice''),
       (''disposition'', JStr ''retain_initial_on_agreement''), (''basis'', JStr ''semantic_agreement''),
       (''actor'', JStr ''agent-workflow''),
       (''reason'', JStr ''Initial agent choice and independent semantic candidate agree.''), (''evidence_refs'', JList [])]"

definition resolve_checkpoint ::
  "ext \<Rightarrow> json \<Rightarrow> string option \<Rightarrow> string \<Rightarrow> checkpoint_policy \<Rightarrow> json option \<Rightarrow> json option result" where
  "resolve_checkpoint X draft candidate outcome p resolution =
     (case resolution of
        None \<Rightarrow>
          if outcome = ''agreement'' then
            bindE (jidx draft ''draft_id'') (\<lambda>_.
            bindE (validate_instance X (agreed_resolution draft candidate) DECISION_RESOLUTION_SCHEMA ''decision resolution'') (\<lambda>_.
            Inr (Some (agreed_resolution draft candidate))))
          else Inr None
      | Some r \<Rightarrow> bindE (validate_resolution X r draft candidate outcome p) (\<lambda>v. Inr (Some v)))"

definition opt_json :: "json option \<Rightarrow> json" where
  "opt_json v = (case v of None \<Rightarrow> JNull | Some x \<Rightarrow> x)"

text \<open>\<open>float(v)\<close> of a number.\<close>

fun as_float :: "json \<Rightarrow> json" where
  "as_float (JInt i) = JFloat (int_str i @ ''.0'')"
| "as_float v = v"

definition checkpoint_receipt ::
  "ext \<Rightarrow> json \<Rightarrow> json \<Rightarrow> string \<Rightarrow> json \<Rightarrow> checkpoint_policy \<Rightarrow> decision_evidence \<Rightarrow> string option \<Rightarrow> string \<Rightarrow> json option \<Rightarrow> json" where
  "checkpoint_receipt X draft request provider elapsed p ev candidate outcome resolution =
     (let allowed = advance_allowed resolution outcome in
     JObj [(''schema'', JStr SEMANTIC_CHECKPOINT_RECEIPT_SCHEMA), (''decision_id'', JStr PROPOSAL_SELECTION_DECISION_ID),
       (''draft_id'', jget draft ''draft_id''), (''draft_sha256'', JStr (sha256 X (dumps False draft))),
       (''projected_state_sha256'', JStr (sha256 X (dumps False (jget request ''state'')))),
       (''request_sha256'', jget request ''request_sha256''), (''question_set_version'', JStr QUESTION_SET_VERSION),
       (''projector_version'', JStr PROJECTOR_VERSION), (''candidate_ids'', jget draft ''candidate_ids''),
       (''initial_agent_choice'', jget draft ''initial_agent_choice''), (''provider'', JStr (py_strip provider)),
       (''provider_elapsed_seconds'', elapsed),
       (''policy'', JObj [(''minimum_confidence'', as_float (cp_confidence p)), (''minimum_margin'', as_float (cp_margin p)),
         (''provider_failure'', JStr (cp_failure p))]),
       (''projected_source_refs'', jget request ''source_refs''),
       (''semantic'', JObj [(''status'', JStr (de_status ev)), (''candidate'', opt_str candidate), (''confidence'', de_confidence ev),
         (''probability'', de_probability ev), (''distribution'', JObj (de_distribution ev)), (''model'', de_model ev),
         (''request_id'', de_request_id ev), (''usage'', JObj (de_usage ev)),
         (''source_refs'', if de_refs ev = [] then jget request ''source_refs'' else JList (map JStr (de_refs ev))),
         (''error_class'', de_error ev)]),
       (''outcome'', JStr outcome), (''resolution'', opt_json resolution),
       (''applied_result'', if allowed then jget (opt_json resolution) ''resolved_choice'' else JNull),
       (''advance_allowed'', JBool allowed)])"

definition run_checkpoint ::
  "ext \<Rightarrow> subtract \<Rightarrow> json \<Rightarrow> json \<Rightarrow> (json \<Rightarrow> provider_answer) \<Rightarrow> string \<Rightarrow> json \<Rightarrow> checkpoint_policy \<Rightarrow> json option \<Rightarrow> json result" where
  "run_checkpoint X sub draft_value context ask provider elapsed p resolution =
     bindE (raise_if (py_strip provider = []) ''provider_name must be non-empty'') (\<lambda>_.
     bindE (normalize_decision_draft X draft_value) (\<lambda>draft.
     bindE (build_checkpoint_request X draft context) (\<lambda>request.
     (let ev = received_evidence request (ask request); candidate = semantic_candidate draft ev in
     bindE (evidence_outcome sub draft ev p) (\<lambda>outcome.
     bindE (resolve_checkpoint X draft candidate outcome p resolution) (\<lambda>resolved.
     bindE (jidx draft ''draft_id'') (\<lambda>_.
     (let receipt = checkpoint_receipt X draft request provider elapsed p ev candidate outcome resolved in
     bindE (validate_instance X receipt SEMANTIC_CHECKPOINT_RECEIPT_SCHEMA ''semantic checkpoint receipt'') (\<lambda>_. Inr receipt)))))))))"


subsection \<open>The request does not show the agent's choice\<close>

lemma normalize_draft_Inr:
  assumes "normalize_decision_draft X d = Inr d'"
  shows "d' = d" and "jget d ''initial_agent_choice'' \<in> JStr ` set (candidate_ids d)"
proof -
  from assms obtain ids where "d' = d" and u: "unique_strings (jget d ''candidate_ids'') ''candidate_ids'' 2 = Inr ids"
    and i: "jget d ''initial_agent_choice'' \<in> JStr ` set ids"
    unfolding normalize_decision_draft_def by auto
  from u have "ids = candidate_ids d" by (auto simp: unique_strings_def candidate_ids_def Let_def)
  with i show "jget d ''initial_agent_choice'' \<in> JStr ` set (candidate_ids d)" by simp
  show "d' = d" by fact
qed

text \<open>
  C19. The provider is asked without being told what the agent would choose: two drafts about the same
  candidates give the same request, digest and source references included, whatever their own choice,
  rationale, identifiers or evidence references are.
\<close>

theorem request_hides_choice:
  assumes "build_checkpoint_request X d context = Inr r" and "build_checkpoint_request X d' context = Inr r'"
    and "jget d ''candidate_ids'' = jget d' ''candidate_ids''"
  shows "r = r'"
proof -
  have "candidate_ids d = candidate_ids d'" using assms(3) by (simp add: candidate_ids_def)
  moreover from assms(1,2) have "normalize_decision_draft X d = Inr d" "normalize_decision_draft X d' = Inr d'"
    unfolding build_checkpoint_request_def by (auto dest: normalize_draft_Inr(1))
  ultimately show ?thesis using assms(1,2)
    by (auto simp: build_checkpoint_request_def Let_def)
qed

subsection \<open>Nothing advances without a reason\<close>

definition justified :: "checkpoint_policy \<Rightarrow> json \<Rightarrow> string \<Rightarrow> json \<Rightarrow> json \<Rightarrow> json option \<Rightarrow> bool" where
  "justified p draft outcome candidate applied resolution \<longleftrightarrow>
     (let initial = jget draft ''initial_agent_choice'' in
      applied \<in> JStr ` set (candidate_ids draft)
      \<and> (outcome = ''agreement'' \<and> applied = initial \<and> candidate = initial
       \<or> outcome = ''disagreement'' \<and> candidate \<noteq> initial
         \<and> (\<exists>r. resolution = Some r
              \<and> (jget r ''disposition'' = JStr ''accept_semantic_candidate'' \<and> applied = candidate
                \<or> jget r ''disposition'' = JStr ''reject_semantic_candidate'' \<and> applied \<noteq> candidate
                  \<and> one_of_texts (jget r ''basis'') INDEPENDENT_BASES \<and> truthy (jget_or r ''evidence_refs'' (JList []))))
       \<or> outcome = ''uncertainty''
         \<and> (\<exists>r. resolution = Some r \<and> jget r ''disposition'' = JStr ''resolve_uncertainty''
              \<and> one_of_texts (jget r ''basis'') NEW_AUTHORITY \<and> truthy (jget_or r ''evidence_refs'' (JList [])))
       \<or> outcome = ''provider_failure'' \<and> cp_failure p = ''fallback_initial'' \<and> applied = initial
         \<and> (\<exists>r. resolution = Some r \<and> jget r ''disposition'' = JStr ''provider_fallback'')))"

lemma evidence_outcome_cases:
  assumes "evidence_outcome sub draft ev p = Inr out"
  shows "out = ''agreement'' \<and> jget draft ''initial_agent_choice'' = opt_str (semantic_candidate draft ev)
     \<or> out = ''disagreement'' \<and> jget draft ''initial_agent_choice'' \<noteq> opt_str (semantic_candidate draft ev)
     \<or> out = ''uncertainty'' \<or> out = ''provider_failure''"
proof (cases "semantic_candidate draft ev")
  case (Some c)
  with assms show ?thesis by (auto simp: evidence_outcome_def Let_def split: if_splits)
qed (use assms in \<open>simp add: evidence_outcome_def\<close>)

lemma jidx_jget_eq: "jidx v k = Inr x \<Longrightarrow> x = jget v k"
  by (auto simp: jaccess split: if_splits option.splits)

lemma validate_resolution_Inr:
  assumes "validate_resolution X r draft candidate outcome p = Inr v"
  defines "d \<equiv> jget r ''disposition''" and "b \<equiv> jget r ''basis''" and "c \<equiv> jget r ''resolved_choice''"
    and "refs \<equiv> jget_or r ''evidence_refs'' (JList [])"
  shows "v = r" and "c = JNull \<or> c \<in> JStr ` set (candidate_ids draft)"
    and "outcome = ''agreement'' \<Longrightarrow> check_agreement draft d b c = Inr ()"
    and "outcome = ''disagreement'' \<Longrightarrow> check_disagreement candidate d b c refs = Inr ()"
    and "outcome = ''uncertainty'' \<Longrightarrow> check_uncertainty d b c refs = Inr ()"
    and "outcome = ''provider_failure'' \<Longrightarrow> check_failure p draft d b c = Inr ()"
proof -
  from assms(1) obtain disposition basis where i: "jidx r ''disposition'' = Inr disposition" "jidx r ''basis'' = Inr basis"
    and v: "v = r" and m: "c = JNull \<or> c \<in> JStr ` set (candidate_ids draft)"
    and k: "(if outcome = ''agreement'' then check_agreement draft disposition basis c
            else if outcome = ''disagreement'' then check_disagreement candidate disposition basis c refs
            else if outcome = ''uncertainty'' then check_uncertainty disposition basis c refs
            else check_failure p draft disposition basis c) = Inr ()"
    unfolding validate_resolution_def c_def refs_def Let_def by auto
  have "disposition = d" "basis = b" using i by (simp_all add: d_def b_def jidx_jget_eq)
  with k v m show "v = r" "c = JNull \<or> c \<in> JStr ` set (candidate_ids draft)"
    "outcome = ''agreement'' \<Longrightarrow> check_agreement draft d b c = Inr ()"
    "outcome = ''disagreement'' \<Longrightarrow> check_disagreement candidate d b c refs = Inr ()"
    "outcome = ''uncertainty'' \<Longrightarrow> check_uncertainty d b c refs = Inr ()"
    "outcome = ''provider_failure'' \<Longrightarrow> check_failure p draft d b c = Inr ()" by simp_all
qed

lemma resolve_justified:
  assumes "normalize_decision_draft X draft = Inr draft" and "evidence_outcome sub draft ev p = Inr outcome"
    and "resolve_checkpoint X draft (semantic_candidate draft ev) outcome p resolution = Inr resolved"
    and "advance_allowed resolved outcome"
  shows "justified p draft outcome (opt_str (semantic_candidate draft ev)) (jget (opt_json resolved) ''resolved_choice'') resolution"
proof (cases resolution)
  case None
  with assms(3,4) have o: "outcome = ''agreement''" and r: "resolved = Some (agreed_resolution draft (semantic_candidate draft ev))"
    by (auto simp: resolve_checkpoint_def advance_allowed_def split: if_splits)
  have "jget (opt_json resolved) ''resolved_choice'' = jget draft ''initial_agent_choice''"
    by (simp add: r opt_json_def agreed_resolution_def jget_fields)
  with o evidence_outcome_cases [OF assms(2)] normalize_draft_Inr(2) [OF assms(1)] show ?thesis
    by (simp add: justified_def Let_def)
next
  case (Some r)
  with assms(3) have v: "validate_resolution X r draft (semantic_candidate draft ev) outcome p = Inr r" and res: "resolved = Some r"
    by (auto simp: resolve_checkpoint_def dest: validate_resolution_Inr(1))
  note checks = validate_resolution_Inr [OF v]
  have a: "jget r ''resolved_choice'' \<noteq> JNull" "\<not> one_of_texts (jget r ''disposition'') WAITING"
    "outcome = ''provider_failure'' \<Longrightarrow> jget r ''disposition'' = JStr ''provider_fallback''"
    using assms(4) by (auto simp: res advance_allowed_def)
  with checks(2) have m: "jget r ''resolved_choice'' \<in> JStr ` set (candidate_ids draft)" by blast
  from evidence_outcome_cases [OF assms(2)] show ?thesis
  proof (elim disjE conjE)
    assume "outcome = ''agreement''" "jget draft ''initial_agent_choice'' = opt_str (semantic_candidate draft ev)"
    with checks(3) m show ?thesis by (simp add: justified_def Let_def res opt_json_def check_agreement_def)
  next
    assume "outcome = ''disagreement''" "jget draft ''initial_agent_choice'' \<noteq> opt_str (semantic_candidate draft ev)"
    with checks(4) m a Some show ?thesis
      by (auto simp: justified_def Let_def res opt_json_def check_disagreement_def split: if_splits)
  next
    assume "outcome = ''uncertainty''"
    with checks(5) m a Some show ?thesis
      by (auto simp: justified_def Let_def res opt_json_def check_uncertainty_def split: if_splits)
  next
    assume "outcome = ''provider_failure''"
    with checks(6) m a Some show ?thesis
      by (auto simp: justified_def Let_def res opt_json_def check_failure_def)
  qed
qed

text \<open>
  C18. A checkpoint lets a selection advance only for a reason the receipt shows. If the receipt of
  \<open>run_checkpoint\<close> allows it, the applied result is one of the draft's candidates, and: the evidence
  agreed with the agent and its choice is kept; or it disagreed, and a supplied resolution either
  accepts the semantic candidate or rejects it for another one on an independent basis with evidence;
  or it was uncertain, and a supplied resolution brings new authority with evidence; or the provider
  failed, the policy falls back to the agent's choice, and a supplied resolution says so.
\<close>

theorem checkpoint_advance_justified:
  assumes "run_checkpoint X sub draft context ask provider elapsed p resolution = Inr receipt"
    and "jget receipt ''advance_allowed'' = JBool True"
  shows "justified p draft (str_of (jget receipt ''outcome'')) (jget (jget receipt ''semantic'') ''candidate'')
           (jget receipt ''applied_result'') resolution"
proof -
  from assms(1) obtain d request outcome resolved where n: "normalize_decision_draft X draft = Inr d"
    and o: "evidence_outcome sub d (received_evidence request (ask request)) p = Inr outcome"
    and r: "resolve_checkpoint X d (semantic_candidate d (received_evidence request (ask request))) outcome p resolution = Inr resolved"
    and receipt: "receipt = checkpoint_receipt X d request provider elapsed p (received_evidence request (ask request))
        (semantic_candidate d (received_evidence request (ask request))) outcome resolved"
    unfolding run_checkpoint_def Let_def by auto
  note d = normalize_draft_Inr(1) [OF n]
  from assms(2) have a: "advance_allowed resolved outcome"
    by (simp add: receipt checkpoint_receipt_def Let_def jget_fields)
  with resolve_justified [OF n [unfolded d] o [unfolded d] r [unfolded d] a] show ?thesis
    by (simp add: receipt d checkpoint_receipt_def Let_def jget_fields)
qed

subsection \<open>A checkpoint where the provider disagrees\<close>

definition demo_draft :: "string \<Rightarrow> json" where
  "demo_draft initial = JObj [(''draft_id'', JStr ''d1''), (''decision_id'', JStr PROPOSAL_SELECTION_DECISION_ID),
     (''candidate_ids'', JList [JStr ''a'', JStr ''b'']), (''initial_agent_choice'', JStr initial),
     (''rationale'', JStr ''simple''), (''evidence_refs'', JList [JStr ''spec''])]"

definition demo_candidate :: "string \<Rightarrow> json" where
  "demo_candidate cid = JObj [(''candidate_id'', JStr cid), (''artifact'', JStr ''patch''), (''source_refs'', JList [JStr (''patch-'' @ cid)])]"

definition demo_context :: json where
  "demo_context = JObj [(''requirement'', JObj [(''text'', JStr ''sort''), (''source_ref'', JStr ''spec'')]),
     (''candidates'', JList [demo_candidate ''a'', demo_candidate ''b''])]"

definition demo_answer_evidence :: decision_evidence where
  "demo_answer_evidence = \<lparr>de_decision = PROPOSAL_SELECTION_DECISION_ID, de_status = ''success'', de_type = ''choice'',
     de_value = JStr ''b'', de_confidence = JFloat ''0.9'', de_probability = JNull,
     de_distribution = [(''a'', JFloat ''0.1''), (''b'', JFloat ''0.9'')], de_model = JNull, de_questions = JNull,
     de_request = JNull, de_request_id = JNull, de_projector = JNull, de_usage = [], de_refs = [], de_error = JNull\<rparr>"

definition demo_checkpoint_policy :: checkpoint_policy where
  "demo_checkpoint_policy = \<lparr>cp_confidence = JFloat ''0.6'', cp_margin = JFloat ''0.2'', cp_failure = ''block''\<rparr>"

definition demo_resolution :: json where
  "demo_resolution = JObj [(''decision_id'', JStr PROPOSAL_SELECTION_DECISION_ID), (''draft_id'', JStr ''d1''),
     (''initial_agent_choice'', JStr ''a''), (''semantic_candidate'', JStr ''b''), (''resolved_choice'', JStr ''b''),
     (''disposition'', JStr ''accept_semantic_candidate''), (''basis'', JStr ''semantic_evidence''), (''evidence_refs'', JList [])]"

definition demo_state :: json where
  "demo_state = JObj [(''requirement'', JObj [(''text'', JStr ''sort''), (''source_ref'', JStr ''spec'')]),
     (''candidates'', JList [JObj [(''candidate_id'', JStr ''a''), (''artifact'', JStr ''patch''), (''source_refs'', JList [JStr ''patch-a''])],
        JObj [(''candidate_id'', JStr ''b''), (''artifact'', JStr ''patch''), (''source_refs'', JList [JStr ''patch-b''])]]),
     (''deterministic_evidence'', JList []), (''provider_authority'', JStr ''evidence_only'')]"

lemma demo_normalized: "normalize_decision_draft demo_ext (demo_draft ''a'') = Inr (demo_draft ''a'')"
  "normalize_decision_draft demo_ext (demo_draft ''b'') = Inr (demo_draft ''b'')"
  by code_simp+

lemma demo_projected: "normalize_context [''a'', ''b''] demo_context = Inr (demo_state, [''spec'', ''patch-a'', ''patch-b''])"
proof -
  have "length (dumps False demo_state) \<le> 1000" by code_simp
  then have l: "\<not> MAX_PROJECTED_STATE_BYTES < length (dumps False demo_state)" by (simp add: MAX_PROJECTED_STATE_BYTES_def)
  have c: "candidate_loop [] [demo_candidate ''a'', demo_candidate ''b''] = Inr [(''a'', demo_candidate ''a''), (''b'', demo_candidate ''b'')]"
    by code_simp
  have p: "mapE (project_candidate [(''a'', demo_candidate ''a''), (''b'', demo_candidate ''b'')]) [''a'', ''b'']
      = Inr [(JObj [(''candidate_id'', JStr ''a''), (''artifact'', JStr ''patch''), (''source_refs'', JList [JStr ''patch-a''])], [''patch-a'']),
          (JObj [(''candidate_id'', JStr ''b''), (''artifact'', JStr ''patch''), (''source_refs'', JList [JStr ''patch-b''])], [''patch-b''])]"
    by code_simp
  have f: "firsts [''spec'', ''patch-a'', ''patch-b''] = [''spec'', ''patch-a'', ''patch-b'']" by code_simp
  have r: "jget demo_context ''requirement'' = JObj [(''text'', JStr ''sort''), (''source_ref'', JStr ''spec'')]"
    "jget demo_context ''candidates'' = JList [demo_candidate ''a'', demo_candidate ''b'']"
    "jget_or demo_context ''deterministic_evidence'' (JList []) = JList []" by code_simp+
  note l = l [unfolded demo_state_def]
  have none: "mapE project_evidence [] = Inr []" by simp
  show ?thesis
    by (simp add: normalize_context_def r c p f l none jget_fields demo_state_def nonempty_str_def
        del: candidate_loop.simps mapE.simps dumps.simps)
qed

lemma demo_request_built:
  assumes "x = ''a'' \<or> x = ''b''"
  shows "\<exists>r. build_checkpoint_request demo_ext (demo_draft x) demo_context = Inr r"
proof -
  have c: "candidate_ids (demo_draft x) = [''a'', ''b'']" "list_items (jget (demo_draft x) ''evidence_refs'') = [JStr ''spec'']"
    by (simp_all add: candidate_ids_def demo_draft_def jget_fields)
  have s: "sorted_set (filter (\<lambda>r. r \<notin> set [''spec'', ''patch-a'', ''patch-b'']) (map str_of [JStr ''spec''])) = []"
    by (simp add: sorted_set_def)
  from assms demo_normalized have n: "normalize_decision_draft demo_ext (demo_draft x) = Inr (demo_draft x)" by auto
  show ?thesis
    unfolding build_checkpoint_request_def n bindE_Inr c demo_projected prod.case Let_def s by (simp only: simp_thms raise_if_False bindE_Inr) blast
qed

theorem request_hides_choice_witness:
  "\<exists>r r'. build_checkpoint_request demo_ext (demo_draft ''a'') demo_context = Inr r
     \<and> build_checkpoint_request demo_ext (demo_draft ''b'') demo_context = Inr r' \<and> r = r'"
proof -
  obtain r r' where r: "build_checkpoint_request demo_ext (demo_draft ''a'') demo_context = Inr r"
    and r': "build_checkpoint_request demo_ext (demo_draft ''b'') demo_context = Inr r'"
    using demo_request_built [of "''a''"] demo_request_built [of "''b''"] by auto
  have "jget (demo_draft ''a'') ''candidate_ids'' = jget (demo_draft ''b'') ''candidate_ids''" by (simp add: demo_draft_def jget_fields)
  from request_hides_choice [OF r r' this] r r' show ?thesis by blast
qed

theorem checkpoint_advance_justified_witness:
  "\<exists>receipt. run_checkpoint demo_ext (\<lambda>_ _. JFloat ''0.8'') (demo_draft ''a'') demo_context (\<lambda>_. Answer demo_answer_evidence)
       ''p'' (JFloat ''0.1'') demo_checkpoint_policy (Some demo_resolution) = Inr receipt
     \<and> jget receipt ''advance_allowed'' = JBool True
     \<and> justified demo_checkpoint_policy (demo_draft ''a'') (str_of (jget receipt ''outcome''))
           (jget (jget receipt ''semantic'') ''candidate'') (jget receipt ''applied_result'') (Some demo_resolution)"
proof -
  obtain r where r: "build_checkpoint_request demo_ext (demo_draft ''a'') demo_context = Inr r" using demo_request_built [of "''a''"] by auto
  have ev: "received_evidence r (Answer demo_answer_evidence) = demo_answer_evidence"
    by (simp add: received_evidence_def wrong_identity_def demo_answer_evidence_def)
  have c: "semantic_candidate (demo_draft ''a'') demo_answer_evidence = Some ''b''"
    "evidence_outcome (\<lambda>_ _. JFloat ''0.8'') (demo_draft ''a'') demo_answer_evidence demo_checkpoint_policy = Inr ''disagreement''"
    "resolve_checkpoint demo_ext (demo_draft ''a'') (Some ''b'') ''disagreement'' demo_checkpoint_policy (Some demo_resolution) = Inr (Some demo_resolution)"
    "jidx (demo_draft ''a'') ''draft_id'' = Inr (JStr ''d1'')" "advance_allowed (Some demo_resolution) ''disagreement''" "py_strip ''p'' = ''p''"
    by code_simp+
  have "\<exists>receipt. run_checkpoint demo_ext (\<lambda>_ _. JFloat ''0.8'') (demo_draft ''a'') demo_context (\<lambda>_. Answer demo_answer_evidence)
       ''p'' (JFloat ''0.1'') demo_checkpoint_policy (Some demo_resolution) = Inr receipt \<and> jget receipt ''advance_allowed'' = JBool True"
    by (simp add: run_checkpoint_def Let_def demo_normalized r ev c checkpoint_receipt_def jget_fields) (simp add: demo_ext_def)
  then obtain receipt where "run_checkpoint demo_ext (\<lambda>_ _. JFloat ''0.8'') (demo_draft ''a'') demo_context (\<lambda>_. Answer demo_answer_evidence)
       ''p'' (JFloat ''0.1'') demo_checkpoint_policy (Some demo_resolution) = Inr receipt" "jget receipt ''advance_allowed'' = JBool True" by blast
  with checkpoint_advance_justified [OF this] show ?thesis by blast
qed

end
