(* ===== verification/Routing.thy ===== *)
theory Routing
  imports Decision_Checkpoint
begin

text \<open>
  \<open>routing.py\<close>, \<open>decisions.py\<close> and \<open>policy.py\<close>: which class of agent, executor and model a task is
  routed to. The deterministic router reads the configured policies; a decision mode may ask a semantic
  provider for evidence, which the application's own policy turns into an applied result; the route is
  then computed again by the same router. The configuration is a record of the values the router reads,
  dictionaries are association lists; the provider (\<open>semantic/typesafe.py\<close> over its SDK), the clock and
  the subtraction and rounding of floats are arguments.
\<close>

subsection \<open>Shell patterns\<close>

text \<open>
  \<open>fnmatch.fnmatchcase\<close> over code points: \<open>*\<close>, \<open>?\<close>, \<open>[...]\<close> with ranges and \<open>!\<close>; a bracket that is
  never closed is a literal.
\<close>

datatype glob = Star | AnyOne | Lit string | Among bool "(string \<times> string) list"

fun set_ranges :: "string list \<Rightarrow> (string \<times> string) list" where
  "set_ranges (x # h # y # rest) =
     (if h = ''-'' then (x, y) # set_ranges rest else (x, x) # set_ranges (h # y # rest))"
| "set_ranges (x # rest) = (x, x) # set_ranges rest"
| "set_ranges [] = []"

definition bracket :: "string list \<Rightarrow> (bool \<times> string list \<times> string list) option" where
  "bracket cs =
     (let negated = cs \<noteq> [] \<and> hd cs = ''!''; b = (if negated then tl cs else cs);
          lead = (if b \<noteq> [] \<and> hd b = '']'' then [hd b] else []); rest = drop (length lead) b;
          tail = dropWhile (\<lambda>c. c \<noteq> '']'') rest in
      if tail = [] then None else Some (negated, lead @ takeWhile (\<lambda>c. c \<noteq> '']'') rest, tl tail))"

lemma tail_of: "(if t = [] then None else Some (a, b, tl t)) = Some (n, body, rest) \<Longrightarrow> rest = tl t"
  by (simp split: if_splits)

lemma bracket_shorter: "bracket cs = Some (n, body, rest) \<Longrightarrow> length rest < Suc (length cs)"
  unfolding bracket_def Let_def
  by (drule tail_of) (simp only: length_tl, rule le_imp_less_Suc, rule order_trans [OF diff_le_self],
      rule order_trans [OF length_dropWhile_le], simp)

function parse_glob :: "string list \<Rightarrow> glob list" where
  "parse_glob [] = []"
| "parse_glob (c # cs) =
     (if c = ''*'' then Star # parse_glob cs
      else if c = ''?'' then AnyOne # parse_glob cs
      else if c = ''['' then
        (case bracket cs of
           None \<Rightarrow> Lit c # parse_glob cs
         | Some (negated, body, rest) \<Rightarrow> Among negated (set_ranges body) # parse_glob rest)
      else Lit c # parse_glob cs)"
  by pat_completeness auto
termination
  by (relation "measure length") (auto dest: bracket_shorter)

fun one_matches :: "glob \<Rightarrow> string \<Rightarrow> bool" where
  "one_matches (Lit l) c = (c = l)"
| "one_matches (Among negated ranges) c = ((\<exists>(lo, hi) \<in> set ranges. lo \<le> c \<and> c \<le> hi) \<noteq> negated)"
| "one_matches _ c = True"

fun glob_match :: "glob list \<Rightarrow> string list \<Rightarrow> bool" where
  "glob_match [] s = (s = [])"
| "glob_match (Star # p) [] = glob_match p []"
| "glob_match (Star # p) (c # s) = (glob_match p (c # s) \<or> glob_match (Star # p) s)"
| "glob_match (g # p) [] = False"
| "glob_match (g # p) (c # s) = (one_matches g c \<and> glob_match p s)"

definition fnmatchcase :: "string \<Rightarrow> string \<Rightarrow> bool" where
  "fnmatchcase name pattern = glob_match (parse_glob (code_points pattern)) (code_points name)"

subsection \<open>The configuration the router reads\<close>

record class_policy =
  cl_interactive :: bool
  cl_executor :: string
  cl_model :: string
  cl_allowed :: "(string \<times> string list) list"

record decision_rule =
  dr_disposition :: "string option"
  dr_minimum :: json

record routing_settings =
  rs_classes :: "(string \<times> class_policy) list"
  rs_no_go :: "(string \<times> string list) list"
  rs_mode :: string
  rs_profile :: string
  rs_profiles :: "(string \<times> (string \<times> decision_rule) list) list"

subsection \<open>The deterministic router\<close>

definition ROUTING_ADVICE_SCHEMA :: string where
  "ROUTING_ADVICE_SCHEMA = ''agent-workflow/routing-advice/v1''"

definition no_go_model :: "routing_settings \<Rightarrow> string \<Rightarrow> string \<Rightarrow> bool" where
  "no_go_model S executor model =
     (case map_of (rs_no_go S) executor of None \<Rightarrow> False | Some patterns \<Rightarrow> list_ex (fnmatchcase model) patterns)"

definition allowed_models :: "class_policy \<Rightarrow> string \<Rightarrow> string list" where
  "allowed_models p executor = (case map_of (cl_allowed p) executor of None \<Rightarrow> [] | Some models \<Rightarrow> models)"

definition model_candidates :: "class_policy \<Rightarrow> string \<Rightarrow> string list" where
  "model_candidates p executor =
     (let listed = allowed_models p executor in
      if cl_executor p = executor \<and> cl_model p \<in> set listed then cl_model p # remove1 (cl_model p) listed else listed)"

definition safe_model :: "routing_settings \<Rightarrow> string \<Rightarrow> string \<Rightarrow> string result" where
  "safe_model S agent_class executor =
     (case map_of (rs_classes S) agent_class of
        None \<Rightarrow> Inl (WorkflowError (''unknown routing agent class: '' @ agent_class))
      | Some p \<Rightarrow>
          (case find (\<lambda>m. \<not> no_go_model S executor m) (model_candidates p executor) of
             Some m \<Rightarrow> Inr m
           | None \<Rightarrow> Inl (WorkflowError (''routing policy has no non-no-go model for class '' @ py_repr (JStr agent_class)
                          @ '' and executor '' @ py_repr (JStr executor)))))"

definition metadata_text :: "json \<Rightarrow> string \<Rightarrow> string \<Rightarrow> string" where
  "metadata_text metadata key other = py_lower (py_strip (py_str (jget_or metadata key (JStr other))))"

definition class_of_task :: "string \<Rightarrow> string \<times> string" where
  "class_of_task task_type =
     (if task_type \<in> {''research'', ''discovery'', ''exploratory'', ''spike''} then (''exploratory'', ''TASK_EXPLORATORY'')
      else if task_type \<in> {''review'', ''audit'', ''security'', ''verification''} then (''review'', ''TASK_REVIEW'')
      else (''implementation'', ''TASK_IMPLEMENTATION''))"

definition interaction_of :: "json \<Rightarrow> bool \<Rightarrow> bool \<times> string list" where
  "interaction_of wanted usual =
     (if wanted = JBool True then (True, [''INTERACTION_REQUIRED''])
      else if wanted = JBool False then (False, [''INTERACTION_NOT_REQUIRED''])
      else (usual, []))"

definition or_empty :: "json \<Rightarrow> json" where
  "or_empty v = (if truthy v then v else JObj [])"

definition enforce :: "json \<Rightarrow> (string \<times> json) list \<Rightarrow> (string \<times> json) list" where
  "enforce selection recommendation =
     map (\<lambda>(k, v). (k, if truthy selection \<and> jget selection k \<noteq> JNull then jget selection k else v)) recommendation"

definition advise_routing :: "json \<Rightarrow> routing_settings \<Rightarrow> json \<Rightarrow> json result" where
  "advise_routing metadata_value S selection =
     (let metadata = or_empty metadata_value; (agent_class, code) = class_of_task (metadata_text metadata ''task_type'' ''implementation'');
          risky = metadata_text metadata ''risk'' ''normal'' \<in> {''high'', ''critical''} \<and> agent_class = ''implementation'' in
      case map_of (rs_classes S) agent_class of
        None \<Rightarrow> Inl (WorkflowError (''routing class is not configured: '' @ agent_class))
      | Some p \<Rightarrow>
          bindE (safe_model S agent_class (cl_executor p)) (\<lambda>model.
          (let (interactive, asked) = interaction_of (jget metadata ''requires_interaction'') (cl_interactive p);
               recommendation = [(''agent_class'', JStr agent_class), (''executor'', JStr (cl_executor p)),
                 (''model'', JStr model), (''interactive'', JBool interactive)];
               enforced = enforce selection recommendation;
               disagreements = sorted_set (map (fst \<circ> fst) (filter (\<lambda>(r, e). \<not> py_eq (snd r) (snd e)) (zip recommendation enforced)));
               codes = [code] @ (if risky then [''RISK_HIGH_IMPLEMENTATION''] else []) @ asked
                 @ (if disagreements \<noteq> [] then [''ENFORCED_SELECTION_DIFFERS''] else []) in
           Inr (JObj [(''schema'', JStr ROUTING_ADVICE_SCHEMA), (''recommendation'', JObj recommendation),
             (''explanation_codes'', JList (map JStr (sorted_set codes))), (''enforced_selection'', JObj enforced),
             (''policy_disagreements'', JList (map JStr disagreements))]))))"


subsection \<open>Decisions and modes\<close>

definition DECISION_RECEIPT_SCHEMA :: string where
  "DECISION_RECEIPT_SCHEMA = ''agent-workflow/decision-execution-receipt/v2''"

record decision_definition =
  dd_type :: string
  dd_classification :: string
  dd_consequence :: string
  dd_automatable :: bool

record decision_mode =
  dm_provider :: "string option"
  dm_disposition :: string
  dm_capture :: bool
  dm_summary :: string

definition DECISIONS :: "(string \<times> decision_definition) list" where
  "DECISIONS =
     [(''routing.task_class'', \<lparr>dd_type = ''choice'', dd_classification = ''SEMANTIC_BOUNDED'', dd_consequence = ''medium'', dd_automatable = True\<rparr>),
      (''routing.interaction_required'', \<lparr>dd_type = ''noul'', dd_classification = ''SEMANTIC_BOUNDED'', dd_consequence = ''medium'', dd_automatable = True\<rparr>),
      (''routing.semantic_risk'', \<lparr>dd_type = ''score'', dd_classification = ''SEMANTIC_BOUNDED'', dd_consequence = ''high'', dd_automatable = False\<rparr>)]"

definition MODES :: "(string \<times> decision_mode) list" where
  "MODES =
     [(''deterministic'', \<lparr>dm_provider = None, dm_disposition = ''deterministic'', dm_capture = False,
         dm_summary = ''built-in deterministic authority only''\<rparr>),
      (''typesafe'', \<lparr>dm_provider = Some ''typesafe'', dm_disposition = ''automated'', dm_capture = False,
         dm_summary = ''TypeSafe semantic evidence consumed by Agent-Workflow policy''\<rparr>),
      (''comparative'', \<lparr>dm_provider = Some ''typesafe'', dm_disposition = ''shadow'', dm_capture = True,
         dm_summary = ''TypeSafe semantic evidence shadowed against deterministic control''\<rparr>)]"

definition mode_inventory :: json where
  "mode_inventory =
     JList (map (\<lambda>(name, m). JObj [(''name'', JStr name), (''plugin'', JNull), (''provider'', opt_str (dm_provider m)),
       (''disposition'', JStr (dm_disposition m)), (''capture_comparison'', JBool (dm_capture m)), (''summary'', JStr (dm_summary m))]) MODES)"

definition mode_named :: "string \<Rightarrow> decision_mode result" where
  "mode_named name =
     (case map_of MODES name of Some m \<Rightarrow> Inr m | None \<Rightarrow> Inl (WorkflowError (''unknown decision mode: '' @ name)))"

definition active_profile :: "routing_settings \<Rightarrow> (string \<times> decision_rule) list" where
  "active_profile S = (case map_of (rs_profiles S) (rs_profile S) of None \<Rightarrow> [] | Some rules \<Rightarrow> rules)"

definition profile_rule :: "routing_settings \<Rightarrow> string \<Rightarrow> string \<Rightarrow> decision_rule" where
  "profile_rule S decision_id usual =
     (case map_of (active_profile S) decision_id of
        Some r \<Rightarrow> r
      | None \<Rightarrow> \<lparr>dr_disposition = Some usual, dr_minimum = JFloat ''0.8''\<rparr>)"

definition rule_disposition :: "decision_rule \<Rightarrow> decision_mode \<Rightarrow> string" where
  "rule_disposition r m = (case dr_disposition r of None \<Rightarrow> dm_disposition m | Some d \<Rightarrow> if d = [] then dm_disposition m else d)"

definition require_decision_runtime_ready :: "routing_settings \<Rightarrow> json \<Rightarrow> json \<Rightarrow> json result" where
  "require_decision_runtime_ready S capability shared =
     bindE (mode_named (rs_mode S)) (\<lambda>m.
     (let base = [(''mode'', JStr (rs_mode S)), (''provider'', opt_str (dm_provider m)), (''capture_comparison'', JBool (dm_capture m)),
            (''ready'', JBool True)]; named = ''decision mode '' @ py_repr (JStr (rs_mode S)) in
      if dm_provider m \<noteq> Some ''typesafe'' then Inr (JObj base)
      else
        bindE (raise_if (\<not> truthy (jget capability ''typesafe_sdk_installed''))
                (named @ '' requires the TypeSafe SDK in the runtime environment'')) (\<lambda>_.
        bindE (raise_if (\<not> truthy (jget capability ''api_key_configured''))
                (named @ '' requires TYPESAFE_API_KEY in the runtime environment'')) (\<lambda>_.
        if \<not> dm_capture m then Inr (JObj (base @ [(''typesafe'', capability)]))
        else
          bindE (raise_if (\<not> truthy (jget shared ''installed'') \<or> \<not> truthy (jget shared ''compatible''))
                  ''comparative decision mode requires agent-workflow-comparative-eval==0.2.0 in the runtime environment'') (\<lambda>_.
          Inr (JObj (base @ [(''typesafe'', capability), (''comparative_eval'', shared)])))))))"

definition SUPPORTED_DECISIONS :: "string list" where
  "SUPPORTED_DECISIONS = [''routing.task_class'', ''routing.interaction_required'', ''routing.semantic_risk'']"

definition validate_decision_configuration :: "routing_settings \<Rightarrow> json \<Rightarrow> unit result \<Rightarrow> json result" where
  "validate_decision_configuration S capability shared_library =
     bindE (mode_named (rs_mode S)) (\<lambda>m.
     (let configured = map fst (active_profile S); semantic = (dm_provider m = Some ''typesafe'');
          unknown = sorted_set (filter (\<lambda>i. i \<notin> fst ` set DECISIONS) configured);
          unsupported = sorted_set (filter (\<lambda>i. i \<notin> set SUPPORTED_DECISIONS) configured) in
     bindE (raise_if (unknown \<noteq> []) (''decision profile contains unknown decision IDs: '' @ py_join '', '' unknown)) (\<lambda>_.
     bindE (raise_if (semantic \<and> unsupported \<noteq> [])
             (''TypeSafe provider does not support configured profile decisions: '' @ py_join '', '' unsupported)) (\<lambda>_.
     bindE (if dm_capture m then shared_library else Inr ()) (\<lambda>_.
     Inr (JObj ([(''mode'', JStr (rs_mode S)), (''profile'', JStr (rs_profile S)), (''plugin'', JNull), (''provider'', opt_str (dm_provider m)),
        (''disposition'', JStr (dm_disposition m)), (''capture_comparison'', JBool (dm_capture m)), (''valid'', JBool True)]
        @ (if semantic then [(''capability'', capability)] else []))))))))"

subsection \<open>From evidence to an applied result\<close>

definition num_ge :: "json \<Rightarrow> json \<Rightarrow> bool" where
  "num_ge v w \<longleftrightarrow> num_less w v \<or> num_eq v w"

definition TASK_CLASSES :: "(string \<times> string) list" where
  "TASK_CLASSES = [(''implementation'', ''implementation''), (''review'', ''review''), (''diagnosis'', ''exploratory''),
     (''exploratory'', ''exploratory''), (''research'', ''exploratory''), (''documentation'', ''implementation'')]"

text \<open>The candidate, and the reason for falling back to the control where there is one.\<close>

definition policy_candidate ::
  "subtract \<Rightarrow> string \<Rightarrow> decision_definition \<Rightarrow> decision_evidence \<Rightarrow> json \<Rightarrow> json \<times> string option" where
  "policy_candidate sub decision_id d ev threshold =
     (if de_status ev \<noteq> ''success'' then (JNull, Some (de_status ev))
      else if dd_type d = ''noul'' then
        (let p = (if de_probability ev \<noteq> JNull then de_probability ev
                  else if is_number (de_value ev) \<and> \<not> is_bool (de_value ev) then as_float (de_value ev) else JNull) in
         if p = JNull then (JNull, Some ''invalid_contract'')
         else if num_ge p threshold then (JBool True, None)
         else if num_ge (sub (JFloat ''1.0'') threshold) p then (JBool False, None)
         else (JNull, Some ''semantic_uncertainty''))
      else if de_confidence ev \<noteq> JNull \<and> num_less (de_confidence ev) threshold then (JNull, Some ''semantic_uncertainty'')
      else if decision_id = ''routing.task_class'' then
        (case map_of TASK_CLASSES (py_str (de_value ev)) of None \<Rightarrow> (JNull, Some ''no_match'') | Some c \<Rightarrow> (JStr c, None))
      else (de_value ev, None))"

definition missing_evidence :: "string \<Rightarrow> string \<Rightarrow> string \<Rightarrow> string \<Rightarrow> decision_evidence" where
  "missing_evidence decision_id status semantic_type error_class =
     \<lparr>de_decision = decision_id, de_status = status, de_type = semantic_type, de_value = JNull, de_confidence = JNull,
      de_probability = JNull, de_distribution = [], de_model = JNull, de_questions = JNull, de_request = JNull,
      de_request_id = JNull, de_projector = JNull, de_usage = [], de_refs = [], de_error = JStr error_class\<rparr>"

definition evidence_section :: "decision_evidence \<Rightarrow> json" where
  "evidence_section ev =
     JObj [(''status'', JStr (de_status ev)), (''semantic_type'', JStr (de_type ev)), (''confidence'', de_confidence ev),
       (''probability'', de_probability ev), (''distribution'', JObj (de_distribution ev)), (''model'', de_model ev),
       (''question_set_version'', de_questions ev), (''projector_version'', de_projector ev),
       (''request_sha256'', de_request ev), (''request_id'', de_request_id ev), (''usage'', JObj (de_usage ev)),
       (''source_refs'', JList (map JStr (de_refs ev))), (''error_class'', de_error ev)]"

text \<open>What one decision came to: the arguments \<open>_receipt\<close> gets beside the configuration.\<close>

record decision_result =
  re_control :: json
  re_evidence :: json
  re_candidate :: json
  re_disposition :: string
  re_applied :: json
  re_fallback :: "string option"
  re_semantic :: "decision_evidence option"
  re_provider :: "string option"
  re_elapsed :: json

definition decision_receipt_value :: "routing_settings \<Rightarrow> string \<Rightarrow> decision_definition \<Rightarrow> decision_result \<Rightarrow> json" where
  "decision_receipt_value S decision_id d r =
     JObj [(''schema'', JStr DECISION_RECEIPT_SCHEMA), (''decision_id'', JStr decision_id), (''decision_version'', JInt 1),
        (''classification'', JStr (dd_classification d)), (''consequence'', JStr (dd_consequence d)),
        (''mode'', JStr (rs_mode S)), (''profile'', JStr (rs_profile S)), (''control_result'', re_control r),
        (''evidence_result'', re_evidence r), (''policy_candidate_result'', re_candidate r),
        (''disposition'', JStr (re_disposition r)), (''applied_result'', re_applied r),
        (''fallback'', JObj [(''used'', JBool (re_fallback r \<noteq> None)), (''reason'', opt_str (re_fallback r))]),
        (''provider'', JObj [(''name'', opt_str (re_provider r)), (''elapsed_seconds'', re_elapsed r)]),
        (''semantic'', case re_semantic r of None \<Rightarrow> JNull | Some ev \<Rightarrow> evidence_section ev)]"

definition decision_receipt :: "ext \<Rightarrow> routing_settings \<Rightarrow> string \<Rightarrow> decision_definition \<Rightarrow> decision_result \<Rightarrow> json result" where
  "decision_receipt X S decision_id d r =
     bindE (validate_instance X (decision_receipt_value S decision_id d r) DECISION_RECEIPT_SCHEMA (''decision receipt:'' @ decision_id))
       (\<lambda>_. Inr (decision_receipt_value S decision_id d r))"

definition control_only :: "json \<Rightarrow> decision_result" where
  "control_only control =
     \<lparr>re_control = control, re_evidence = JNull, re_candidate = JNull, re_disposition = ''deterministic'',
      re_applied = control, re_fallback = None, re_semantic = None, re_provider = None, re_elapsed = JNull\<rparr>"

definition decide_by_policy ::
  "subtract \<Rightarrow> routing_settings \<Rightarrow> decision_mode \<Rightarrow> string \<Rightarrow> decision_definition \<Rightarrow> json \<Rightarrow> decision_evidence \<Rightarrow> json \<Rightarrow> decision_result" where
  "decide_by_policy sub S m decision_id d control ev elapsed =
     (let rule = profile_rule S decision_id (dm_disposition m); disposition = rule_disposition rule m;
          (candidate, fallback) = policy_candidate sub decision_id d ev (dr_minimum rule);
          evidence_result = (if de_status ev \<in> {''success'', ''no_match''} then de_value ev else JNull);
          automated = (fallback = None \<and> disposition = ''automated'') in
      \<lparr>re_control = control, re_evidence = evidence_result, re_candidate = candidate, re_disposition = disposition,
       re_applied = (if automated \<and> dd_automatable d then candidate else control),
       re_fallback = (if automated \<and> \<not> dd_automatable d then Some ''policy_rejection'' else fallback),
       re_semantic = Some ev, re_provider = dm_provider m, re_elapsed = elapsed\<rparr>)"

text \<open>
  The provider raises, with the name of its exception, or returns evidence by decision; an entry that
  is no evidence is like a missing one.
\<close>

datatype set_answer =
    SetRaised string
  | SetAnswer "(string \<times> decision_evidence) list"

definition evidence_for :: "set_answer \<Rightarrow> string \<Rightarrow> decision_definition \<Rightarrow> decision_evidence" where
  "evidence_for answer decision_id d =
     (case answer of
        SetRaised error_class \<Rightarrow> missing_evidence decision_id ''service_failure'' (dd_type d) error_class
      | SetAnswer found \<Rightarrow>
          (case map_of found decision_id of
             Some ev \<Rightarrow> ev
           | None \<Rightarrow> missing_evidence decision_id ''invalid_contract'' (dd_type d) ''missing_evidence''))"

text \<open>The provider and its environment: is the API key set, what it answers, how long it took.\<close>

record provider_env =
  pe_key :: bool
  pe_answer :: "string list \<Rightarrow> json \<Rightarrow> (string \<times> json) list \<Rightarrow> set_answer"
  pe_elapsed :: json

definition known_decision :: "(string \<times> json) list \<Rightarrow> string \<Rightarrow> (string \<times> decision_definition \<times> json) result" where
  "known_decision controls decision_id =
     (case map_of DECISIONS decision_id of
        None \<Rightarrow> Inl (WorkflowError (''unknown decision ID: '' @ decision_id))
      | Some d \<Rightarrow>
          (case map_of controls decision_id of
             None \<Rightarrow> Inl (WorkflowError (''missing deterministic control value for '' @ decision_id))
           | Some control \<Rightarrow> Inr (decision_id, d, control)))"

definition execute_decision_set ::
  "ext \<Rightarrow> subtract \<Rightarrow> routing_settings \<Rightarrow> provider_env \<Rightarrow> string list \<Rightarrow> json \<Rightarrow> (string \<times> json) list \<Rightarrow> (string \<times> json) list result" where
  "execute_decision_set X sub S P ids state controls =
     bindE (mapE (known_decision controls) ids) (\<lambda>decisions.
     bindE (mode_named (rs_mode S)) (\<lambda>m.
     if rs_mode S = ''deterministic'' then
       mapE (\<lambda>(i, d, control). bindE (decision_receipt X S i d (control_only control)) (\<lambda>r. Inr (i, r))) decisions
     else
       bindE (raise_if (dm_provider m \<noteq> Some ''typesafe'') (''unsupported semantic provider: '' @ py_str (opt_str (dm_provider m)))) (\<lambda>_.
       bindE (raise_if (\<not> pe_key P)
               (''decision mode '' @ py_repr (JStr (rs_mode S)) @ '' requires TYPESAFE_API_KEY in the runtime environment'')) (\<lambda>_.
       (let answer = pe_answer P ids state controls in
        mapE (\<lambda>(i, d, control). bindE (decision_receipt X S i d
            (decide_by_policy sub S m i d control (evidence_for answer i d) (pe_elapsed P))) (\<lambda>r. Inr (i, r))) decisions)))))"

subsection \<open>Routing with a decision mode\<close>

definition control_risk :: "json \<Rightarrow> int" where
  "control_risk source =
     (let risk = metadata_text source ''risk'' ''normal'' in
      if risk \<in> {''high'', ''critical''} then 2 else if risk \<in> {''low'', ''minimal''} then 0 else 1)"

definition decision_state :: "json \<Rightarrow> string option \<Rightarrow> string option \<Rightarrow> json" where
  "decision_state source task_text source_ref =
     (let words = (if truthy (jget source ''task'') then jget source ''task''
                   else if truthy (jget source ''text'') then jget source ''text'' else JStr ''workflow task'') in
      JObj [(''task'', case task_text of Some (c # t) \<Rightarrow> JStr (c # t) | _ \<Rightarrow> JStr (py_str words)), (''metadata'', source),
        (''source_refs'', case source_ref of Some (c # r) \<Rightarrow> JList [JStr (c # r)] | _ \<Rightarrow> JList [])])"

definition ROUTING_DECISIONS :: "string list" where
  "ROUTING_DECISIONS = [''routing.task_class'', ''routing.interaction_required'', ''routing.semantic_risk'']"

definition task_type_for :: "string \<Rightarrow> string" where
  "task_type_for task_class =
     (if task_class = ''exploratory'' then ''research'' else if task_class = ''review'' then ''review'' else ''implementation'')"

definition compose :: "json \<Rightarrow> routing_settings \<Rightarrow> json \<Rightarrow> json \<Rightarrow> json \<Rightarrow> json result" where
  "compose source S selection task_class interaction =
     (let typed = (if task_class = JNull then source else jset ''task_type'' (JStr (task_type_for (py_str task_class))) source);
          composed = (if interaction = JNull then typed else jset ''requires_interaction'' (JBool (truthy interaction)) typed) in
      advise_routing composed S selection)"

definition receipt_field :: "(string \<times> json) list \<Rightarrow> string \<Rightarrow> string \<Rightarrow> json" where
  "receipt_field receipts decision_id key = (case map_of receipts decision_id of None \<Rightarrow> JNull | Some r \<Rightarrow> jget r key)"

definition first_elapsed :: "(string \<times> json) list \<Rightarrow> json" where
  "first_elapsed receipts =
     (case filter (\<lambda>v. v \<noteq> JNull) (map (\<lambda>(_, r). jget (jget r ''provider'') ''elapsed_seconds'') receipts) of
        [] \<Rightarrow> JNull | v # _ \<Rightarrow> v)"

text \<open>The clock gives the seconds of the control, of the applied route and of the candidate route.\<close>

definition advise_routing_with_policy ::
  "ext \<Rightarrow> subtract \<Rightarrow> provider_env \<Rightarrow> json \<times> json \<times> json \<Rightarrow> json \<Rightarrow> routing_settings \<Rightarrow> json \<Rightarrow> string option \<Rightarrow> string option \<Rightarrow> json result" where
  "advise_routing_with_policy X sub P = (\<lambda>(t_control, t_applied, t_candidate) metadata S selection task_text source_ref.
     (let source = or_empty metadata in
     bindE (advise_routing source S selection) (\<lambda>control.
     bindE (execute_decision_set X sub S P ROUTING_DECISIONS (decision_state source task_text source_ref)
         [(''routing.task_class'', jget (jget control ''recommendation'') ''agent_class''),
          (''routing.interaction_required'', jget (jget control ''recommendation'') ''interactive''),
          (''routing.semantic_risk'', JInt (control_risk source))]) (\<lambda>receipts.
     bindE (compose source S selection (receipt_field receipts ''routing.task_class'' ''applied_result'')
         (receipt_field receipts ''routing.interaction_required'' ''applied_result'')) (\<lambda>applied.
     (let timing = JObj [(''control_seconds'', t_control), (''applied_policy_seconds'', t_applied),
            (''provider_elapsed_seconds'', first_elapsed receipts)];
          report = jupdate applied [(''decision_mode'', JStr (rs_mode S)), (''decision_profile'', JStr (rs_profile S)),
            (''decision_receipts'', JObj receipts), (''deterministic_control'', control), (''decision_timing'', timing)] in
      if rs_mode S = ''deterministic'' then Inr report
      else
        bindE (compose source S selection (receipt_field receipts ''routing.task_class'' ''policy_candidate_result'')
            (receipt_field receipts ''routing.interaction_required'' ''policy_candidate_result'')) (\<lambda>candidate.
        Inr (jupdate report [(''counterfactual_candidate'', candidate),
          (''decision_timing'', jset ''candidate_policy_seconds'' t_candidate timing)]))))))))"


subsection \<open>Every route is an allowed one\<close>

definition route_allowed :: "routing_settings \<Rightarrow> json \<Rightarrow> bool" where
  "route_allowed S advice \<longleftrightarrow>
     (let r = jget advice ''recommendation''; model = str_of (jget r ''model'') in
      case map_of (rs_classes S) (str_of (jget r ''agent_class'')) of
        None \<Rightarrow> False
      | Some p \<Rightarrow> jget r ''executor'' = JStr (cl_executor p) \<and> is_str (jget r ''model'')
                    \<and> model \<in> set (allowed_models p (cl_executor p)) \<and> \<not> no_go_model S (cl_executor p) model)"

lemma find_Some_member: "find P xs = Some x \<Longrightarrow> x \<in> set xs \<and> P x"
  by (induction xs) (auto split: if_splits)

lemma set_model_candidates: "set (model_candidates p x) \<subseteq> set (allowed_models p x)"
  using set_remove1_subset [of "cl_model p" "allowed_models p x"] by (auto simp: model_candidates_def Let_def)

lemma safe_model_allowed:
  assumes "safe_model S c x = Inr m" and "map_of (rs_classes S) c = Some p"
  shows "m \<in> set (allowed_models p x) \<and> \<not> no_go_model S x m"
proof -
  from assms have "find (\<lambda>m. \<not> no_go_model S x m) (model_candidates p x) = Some m"
    by (simp add: safe_model_def split: option.splits)
  from find_Some_member [OF this] set_model_candidates [of p x] show ?thesis by blast
qed

text \<open>The parts of a successful advice.\<close>

lemma advise_routing_Inr:
  assumes "advise_routing v S selection = Inr advice"
  defines "metadata \<equiv> or_empty v"
  obtains agent_class code p model interactive asked
  where "class_of_task (metadata_text metadata ''task_type'' ''implementation'') = (agent_class, code)"
    and "map_of (rs_classes S) agent_class = Some p" and "safe_model S agent_class (cl_executor p) = Inr model"
    and "interaction_of (jget metadata ''requires_interaction'') (cl_interactive p) = (interactive, asked)"
    and "jget advice ''recommendation'' = JObj [(''agent_class'', JStr agent_class), (''executor'', JStr (cl_executor p)),
           (''model'', JStr model), (''interactive'', JBool interactive)]"
    and "jget advice ''enforced_selection'' = JObj (enforce selection (obj_items (jget advice ''recommendation'')))"
proof -
  obtain agent_class code where c: "class_of_task (metadata_text metadata ''task_type'' ''implementation'') = (agent_class, code)"
    by fastforce
  with assms(1) obtain p model where p: "map_of (rs_classes S) agent_class = Some p"
    and m: "safe_model S agent_class (cl_executor p) = Inr model"
    by (auto simp: advise_routing_def Let_def metadata_def [symmetric] case_prod_beta split: option.splits)
  obtain interactive asked where i: "interaction_of (jget metadata ''requires_interaction'') (cl_interactive p) = (interactive, asked)"
    by fastforce
  have a: "jget advice ''recommendation'' = JObj [(''agent_class'', JStr agent_class), (''executor'', JStr (cl_executor p)),
           (''model'', JStr model), (''interactive'', JBool interactive)]"
    "jget advice ''enforced_selection'' = JObj (enforce selection (obj_items (jget advice ''recommendation'')))"
    using assms(1) by (auto simp: advise_routing_def Let_def metadata_def [symmetric] case_prod_beta c p m i jget_fields)
  from c p m i a show thesis by (rule that)
qed

lemma advise_routing_allowed:
  assumes "advise_routing v S selection = Inr advice"
  shows "route_allowed S advice"
proof -
  from assms obtain c code p m i asked where p: "map_of (rs_classes S) c = Some p" "safe_model S c (cl_executor p) = Inr m"
    and r: "jget advice ''recommendation'' = JObj [(''agent_class'', JStr c), (''executor'', JStr (cl_executor p)),
           (''model'', JStr m), (''interactive'', JBool i)]"
    by (rule advise_routing_Inr)
  from safe_model_allowed [OF p(2,1)] show ?thesis
    by (simp add: route_allowed_def Let_def r p(1) jget_fields)
qed


subsection \<open>What a decision receipt says\<close>

lemma known_decision_Inr:
  "known_decision controls i = Inr y \<Longrightarrow> \<exists>d c. y = (i, d, c) \<and> map_of DECISIONS i = Some d \<and> map_of controls i = Some c"
  by (auto simp: known_decision_def split: option.splits)

lemma decision_receipt_Inr: "decision_receipt X S i d r = Inr v \<Longrightarrow> v = decision_receipt_value S i d r"
  by (auto simp: decision_receipt_def)

text \<open>The result each receipt was built from.\<close>

definition result_of ::
  "subtract \<Rightarrow> routing_settings \<Rightarrow> provider_env \<Rightarrow> decision_mode \<Rightarrow> set_answer \<Rightarrow> string \<Rightarrow> decision_definition \<Rightarrow> json \<Rightarrow> decision_result" where
  "result_of sub S P m answer i d control =
     (if rs_mode S = ''deterministic'' then control_only control
      else decide_by_policy sub S m i d control (evidence_for answer i d) (pe_elapsed P))"

lemma execute_decision_set_Inr:
  assumes "execute_decision_set X sub S P ids state controls = Inr receipts"
  obtains m answer where "mode_named (rs_mode S) = Inr m"
    and "list_all2 (\<lambda>i (j, r). j = i \<and> (\<exists>d c. map_of DECISIONS i = Some d \<and> map_of controls i = Some c
           \<and> r = decision_receipt_value S i d (result_of sub S P m answer i d c))) ids receipts"
proof -
  let ?answer = "pe_answer P ids state controls"
  from assms obtain decisions m where d: "mapE (known_decision controls) ids = Inr decisions" and m: "mode_named (rs_mode S) = Inr m"
    and r: "mapE (\<lambda>(i, d, c). bindE (decision_receipt X S i d (result_of sub S P m ?answer i d c)) (\<lambda>r. Inr (i, r))) decisions
        = Inr receipts"
    by (cases "rs_mode S = ''deterministic''") (auto simp: execute_decision_set_def result_of_def Let_def)
  have "list_all2 (\<lambda>i (j, r). j = i \<and> (\<exists>d c. map_of DECISIONS i = Some d \<and> map_of controls i = Some c
           \<and> r = decision_receipt_value S i d (result_of sub S P m ?answer i d c))) ids receipts"
    using d [unfolded mapE_Inr_iff] r [unfolded mapE_Inr_iff]
    by (rule list_all2_trans [rotated]) (auto dest!: known_decision_Inr decision_receipt_Inr)
  with m show thesis by (rule that)
qed

lemma execute_decision_set_keys:
  assumes "execute_decision_set X sub S P ids state controls = Inr receipts"
  shows "map fst receipts = ids"
proof -
  from execute_decision_set_Inr [OF assms] obtain m answer where
    "list_all2 (\<lambda>i (j, r). j = i \<and> (\<exists>d c. map_of DECISIONS i = Some d \<and> map_of controls i = Some c
           \<and> r = decision_receipt_value S i d (result_of sub S P m answer i d c))) ids receipts" .
  then have "list_all2 (\<lambda>i jr. i = fst jr) ids receipts" by (rule list_all2_mono) auto
  then have "list_all2 (=) ids (map fst receipts)" by (simp add: list_all2_map2)
  then show ?thesis by (simp add: list_all2_eq [symmetric])
qed

lemma execute_decision_set_member:
  assumes "execute_decision_set X sub S P ids state controls = Inr receipts" and "(i, r) \<in> set receipts"
  obtains m answer d c where "mode_named (rs_mode S) = Inr m" and "map_of DECISIONS i = Some d" and "map_of controls i = Some c"
    and "r = decision_receipt_value S i d (result_of sub S P m answer i d c)"
proof -
  from execute_decision_set_Inr [OF assms(1)] obtain m answer where m: "mode_named (rs_mode S) = Inr m"
    and a: "list_all2 (\<lambda>i (j, r). j = i \<and> (\<exists>d c. map_of DECISIONS i = Some d \<and> map_of controls i = Some c
           \<and> r = decision_receipt_value S i d (result_of sub S P m answer i d c))) ids receipts" .
  from assms(2) obtain k where "k < length receipts" "receipts ! k = (i, r)" by (auto simp: in_set_conv_nth)
  with list_all2_nthD2 [OF a this(1)] obtain d c where "map_of DECISIONS i = Some d" "map_of controls i = Some c"
    "r = decision_receipt_value S i d (result_of sub S P m answer i d c)" by auto
  with m show thesis by (rule that)
qed

lemma policy_candidate_success:
  "policy_candidate sub i d ev t = (v, None) \<Longrightarrow> de_status ev = ''success''"
  by (auto simp: policy_candidate_def Let_def split: if_splits)

text \<open>
  C21. Semantic evidence overrides the deterministic control only with the authority of the policy. In
  every receipt of \<open>execute_decision_set\<close>, whatever the provider answered, the applied result is either
  the control value or the policy's candidate; and it is the candidate only if the mode asks a
  provider, the decision is one that may be automated (never \<open>routing.semantic_risk\<close>), the profile or
  the mode disposes it as automated, no fallback is recorded and the evidence reports success.
\<close>

theorem semantic_override_needs_authority:
  assumes "execute_decision_set X sub S P ids state controls = Inr receipts" and "(i, r) \<in> set receipts"
    and "jget r ''applied_result'' \<noteq> jget r ''control_result''"
  shows "i \<in> {''routing.task_class'', ''routing.interaction_required''} \<and> rs_mode S \<in> {''typesafe'', ''comparative''}
    \<and> jget r ''applied_result'' = jget r ''policy_candidate_result'' \<and> jget r ''disposition'' = JStr ''automated''
    \<and> jget (jget r ''fallback'') ''used'' = JBool False \<and> jget (jget r ''semantic'') ''status'' = JStr ''success''
    \<and> map_of controls i = Some (jget r ''control_result'')"
proof -
  from execute_decision_set_member [OF assms(1,2)] obtain m answer d c where m: "mode_named (rs_mode S) = Inr m"
    and d: "map_of DECISIONS i = Some d" and c: "map_of controls i = Some c"
    and r: "r = decision_receipt_value S i d (result_of sub S P m answer i d c)" .
  define ev where "ev = evidence_for answer i d"
  define rule where "rule = profile_rule S i (dm_disposition m)"
  obtain v f where v: "policy_candidate sub i d ev (dr_minimum rule) = (v, f)" by fastforce
  have modes: "rs_mode S \<in> {''deterministic'', ''typesafe'', ''comparative''}"
    using m by (auto simp: mode_named_def MODES_def split: if_splits)
  have n: "rs_mode S \<noteq> ''deterministic''"
    using assms(3) by (auto simp: r result_of_def control_only_def decision_receipt_value_def jget_fields)
  with assms(3) have a: "f = None \<and> rule_disposition rule m = ''automated'' \<and> dd_automatable d"
    by (auto simp: r result_of_def decide_by_policy_def decision_receipt_value_def jget_fields Let_def v
        rule_def [symmetric] ev_def [symmetric] split: if_splits)
  then have "i \<in> {''routing.task_class'', ''routing.interaction_required''}"
    using d by (auto simp: DECISIONS_def split: if_splits)
  moreover from a v have "de_status ev = ''success''" by (auto dest: policy_candidate_success)
  ultimately show ?thesis using modes n a c
    by (auto simp: r result_of_def decide_by_policy_def decision_receipt_value_def jget_fields Let_def v
        rule_def [symmetric] ev_def [symmetric] evidence_section_def)
qed


subsection \<open>Routing with a policy\<close>

text \<open>
  C20. Whatever evidence a provider returns, the route is an allowed one: the class of the advice is
  configured, its executor is the default of the class, its model is on the allowlist of the class for
  that executor and matches none of the executor's no-go patterns. This holds of the advice itself, of
  the deterministic control it reports, and of the counterfactual candidate when there is one.
\<close>

theorem routed_model_allowed:
  assumes "advise_routing_with_policy X sub P clock metadata S selection task_text source_ref = Inr advice"
  shows "route_allowed S advice \<and> route_allowed S (jget advice ''deterministic_control'')
    \<and> (rs_mode S = ''deterministic'' \<or> route_allowed S (jget advice ''counterfactual_candidate''))"
proof -
  obtain t1 t2 t3 where clock: "clock = (t1, t2, t3)" by (cases clock)
  define source where "source = or_empty metadata"
  from assms obtain control receipts applied where control: "advise_routing source S selection = Inr control"
    and applied: "compose source S selection (receipt_field receipts ''routing.task_class'' ''applied_result'')
        (receipt_field receipts ''routing.interaction_required'' ''applied_result'') = Inr applied"
    and rest: "(let timing = JObj [(''control_seconds'', t1), (''applied_policy_seconds'', t2),
            (''provider_elapsed_seconds'', first_elapsed receipts)];
          report = jupdate applied [(''decision_mode'', JStr (rs_mode S)), (''decision_profile'', JStr (rs_profile S)),
            (''decision_receipts'', JObj receipts), (''deterministic_control'', control), (''decision_timing'', timing)] in
      if rs_mode S = ''deterministic'' then Inr report
      else
        bindE (compose source S selection (receipt_field receipts ''routing.task_class'' ''policy_candidate_result'')
            (receipt_field receipts ''routing.interaction_required'' ''policy_candidate_result'')) (\<lambda>candidate.
        Inr (jupdate report [(''counterfactual_candidate'', candidate),
          (''decision_timing'', jset ''candidate_policy_seconds'' t3 timing)]))) = Inr advice"
    unfolding advise_routing_with_policy_def clock prod.case Let_def [of "or_empty metadata"] source_def by auto
  have ok: "route_allowed S v" if "compose source S selection a b = Inr v" for a b v
    using that unfolding compose_def Let_def by (rule advise_routing_allowed)
  show ?thesis
  proof (cases "rs_mode S = ''deterministic''")
    case True
    with rest have a: "advice = jupdate applied [(''decision_mode'', JStr (rs_mode S)), (''decision_profile'', JStr (rs_profile S)),
            (''decision_receipts'', JObj receipts), (''deterministic_control'', control),
            (''decision_timing'', JObj [(''control_seconds'', t1), (''applied_policy_seconds'', t2),
              (''provider_elapsed_seconds'', first_elapsed receipts)])]" by (simp add: Let_def)
    have f: "jget advice ''recommendation'' = jget applied ''recommendation''" "jget advice ''deterministic_control'' = control"
      by (simp_all add: a jupdate_def)
    from True ok [OF applied] advise_routing_allowed [OF control] show ?thesis
      by (simp add: f route_allowed_def [of S advice]) (simp add: route_allowed_def)
  next
    case False
    with rest obtain candidate where c: "compose source S selection (receipt_field receipts ''routing.task_class'' ''policy_candidate_result'')
            (receipt_field receipts ''routing.interaction_required'' ''policy_candidate_result'') = Inr candidate"
      and f: "jget advice ''recommendation'' = jget applied ''recommendation''" "jget advice ''deterministic_control'' = control"
        "jget advice ''counterfactual_candidate'' = candidate"
      by (auto simp: Let_def jupdate_def)
    from ok [OF c] ok [OF applied] advise_routing_allowed [OF control] show ?thesis
      by (simp add: f route_allowed_def [of S advice]) (simp add: route_allowed_def)
  qed
qed

lemma jget_or_jset [simp]: "jget_or (jset k x v) k' d = (if k' = k then x else jget_or v k' d)"
  by (simp add: jget_or_def)

lemma or_empty_twice [simp]: "or_empty (or_empty v) = or_empty v"
  by (simp add: or_empty_def)

lemma or_empty_jset [simp]: "or_empty (jset k x v) = jset k x v"
proof -
  have "AList.update k x xs \<noteq> []" for xs :: "(string \<times> json) list" by (cases xs) (auto split: if_splits)
  then show ?thesis by (simp add: or_empty_def jset_def)
qed

lemma class_again:
  assumes "class_of_task t = (c, code)"
  shows "class_of_task (py_lower (py_strip (py_str (JStr (task_type_for (py_str (JStr c))))))) = (c, code)"
proof -
  have l: "py_lower (py_strip ''research'') = ''research''" "py_lower (py_strip ''review'') = ''review''"
    "py_lower (py_strip ''implementation'') = ''implementation''" by code_simp+
  from assms show ?thesis by (auto simp: class_of_task_def task_type_for_def l split: if_splits)
qed

text \<open>The route of the control's own class and interaction is the control's.\<close>

lemma compose_control:
  assumes "advise_routing source S selection = Inr control"
    and "compose source S selection (jget (jget control ''recommendation'') ''agent_class'')
           (jget (jget control ''recommendation'') ''interactive'') = Inr applied"
  shows "jget applied ''recommendation'' = jget control ''recommendation''"
    and "jget applied ''enforced_selection'' = jget control ''enforced_selection''"
proof -
  from assms(1) obtain c code p m i asked where k: "class_of_task (metadata_text (or_empty source) ''task_type'' ''implementation'') = (c, code)"
    "map_of (rs_classes S) c = Some p" "safe_model S c (cl_executor p) = Inr m"
    and r: "jget control ''recommendation'' = JObj [(''agent_class'', JStr c), (''executor'', JStr (cl_executor p)),
           (''model'', JStr m), (''interactive'', JBool i)]"
    and e: "jget control ''enforced_selection'' = JObj (enforce selection (obj_items (jget control ''recommendation'')))"
    by (rule advise_routing_Inr)
  let ?m = "jset ''requires_interaction'' (JBool i) (jset ''task_type'' (JStr (task_type_for (py_str (JStr c)))) source)"
  from assms(2) have a: "advise_routing ?m S selection = Inr applied" by (simp add: compose_def r jget_fields)
  then obtain c' code' p' m' i' asked' where k': "class_of_task (metadata_text (or_empty ?m) ''task_type'' ''implementation'') = (c', code')"
    "map_of (rs_classes S) c' = Some p'" "safe_model S c' (cl_executor p') = Inr m'"
    "interaction_of (jget (or_empty ?m) ''requires_interaction'') (cl_interactive p') = (i', asked')"
    and r': "jget applied ''recommendation'' = JObj [(''agent_class'', JStr c'), (''executor'', JStr (cl_executor p')),
           (''model'', JStr m'), (''interactive'', JBool i')]"
    and e': "jget applied ''enforced_selection'' = JObj (enforce selection (obj_items (jget applied ''recommendation'')))"
    by (rule advise_routing_Inr)
  have "c' = c" using k'(1) class_again [OF k(1)] by (simp add: metadata_text_def del: py_str.simps)
  moreover have "i' = i" using k'(4) by (cases i) (auto simp: interaction_of_def)
  ultimately show "jget applied ''recommendation'' = jget control ''recommendation''" using k k' by (simp add: r r')
  then show "jget applied ''enforced_selection'' = jget control ''enforced_selection''" by (simp add: e e')
qed

text \<open>
  C22. In the deterministic mode the decision layer changes nothing: the recommendation, the enforced
  selection and the reported control of \<open>advise_routing_with_policy\<close> are those of \<open>advise_routing\<close> on the
  same metadata, although the route is computed a second time from the applied results.
\<close>

theorem deterministic_route_is_control:
  assumes "advise_routing_with_policy X sub P clock metadata S selection task_text source_ref = Inr advice"
    and "rs_mode S = ''deterministic''"
  shows "\<exists>control. advise_routing metadata S selection = Inr control
    \<and> jget advice ''recommendation'' = jget control ''recommendation''
    \<and> jget advice ''enforced_selection'' = jget control ''enforced_selection''
    \<and> jget advice ''deterministic_control'' = control"
proof -
  obtain t1 t2 t3 where clock: "clock = (t1, t2, t3)" by (cases clock)
  define source where "source = or_empty metadata"
  define controls where "controls control = [(''routing.task_class'', jget (jget control ''recommendation'') ''agent_class''),
          (''routing.interaction_required'', jget (jget control ''recommendation'') ''interactive''),
          (''routing.semantic_risk'', JInt (control_risk source))]" for control
  from assms obtain control receipts applied where control: "advise_routing source S selection = Inr control"
    and receipts: "execute_decision_set X sub S P ROUTING_DECISIONS (decision_state source task_text source_ref) (controls control) = Inr receipts"
    and applied: "compose source S selection (receipt_field receipts ''routing.task_class'' ''applied_result'')
        (receipt_field receipts ''routing.interaction_required'' ''applied_result'') = Inr applied"
    and a: "advice = jupdate applied [(''decision_mode'', JStr (rs_mode S)), (''decision_profile'', JStr (rs_profile S)),
            (''decision_receipts'', JObj receipts), (''deterministic_control'', control),
            (''decision_timing'', JObj [(''control_seconds'', t1), (''applied_policy_seconds'', t2),
              (''provider_elapsed_seconds'', first_elapsed receipts)])]"
    unfolding advise_routing_with_policy_def clock prod.case Let_def source_def controls_def by auto
  have field: "receipt_field receipts i ''applied_result'' = v" if "i \<in> set ROUTING_DECISIONS" "map_of (controls control) i = Some v" for i v
  proof -
    from that(1) execute_decision_set_keys [OF receipts] obtain r where r: "map_of receipts i = Some r"
      by (metis map_of_eq_None_iff not_None_eq set_map)
    from execute_decision_set_member [OF receipts map_of_SomeD [OF r]] obtain m answer d c where
      "map_of (controls control) i = Some c" "r = decision_receipt_value S i d (result_of sub S P m answer i d c)" .
    with that(2) assms(2) r show ?thesis
      by (simp add: receipt_field_def result_of_def control_only_def decision_receipt_value_def jget_fields)
  qed
  have "receipt_field receipts ''routing.task_class'' ''applied_result'' = jget (jget control ''recommendation'') ''agent_class''"
    "receipt_field receipts ''routing.interaction_required'' ''applied_result'' = jget (jget control ''recommendation'') ''interactive''"
    by (rule field; simp add: ROUTING_DECISIONS_def controls_def)+
  with applied have "compose source S selection (jget (jget control ''recommendation'') ''agent_class'')
      (jget (jget control ''recommendation'') ''interactive'') = Inr applied" by simp
  note c = compose_control [OF control this]
  have "advise_routing metadata S selection = Inr control" using control by (simp add: source_def advise_routing_def)
  with c show ?thesis by (simp add: a jupdate_def)
qed


subsection \<open>A provider that names another class\<close>

definition demo_routing :: "string \<Rightarrow> routing_settings" where
  "demo_routing mode = \<lparr>rs_classes =
       [(''implementation'', \<lparr>cl_interactive = False, cl_executor = ''x'', cl_model = ''m-old'', cl_allowed = [(''x'', [''m-old'', ''m-new''])]\<rparr>),
        (''review'', \<lparr>cl_interactive = False, cl_executor = ''x'', cl_model = ''r'', cl_allowed = [(''x'', [''r''])]\<rparr>)],
     rs_no_go = [(''x'', [''*-[n-p]l?''])], rs_mode = mode, rs_profile = ''p'', rs_profiles = []\<rparr>"

definition demo_found :: "(string \<times> decision_evidence) list" where
  "demo_found =
     [(''routing.task_class'', (missing_evidence ''routing.task_class'' ''success'' ''choice'' '''')
         \<lparr>de_value := JStr ''review'', de_confidence := JFloat ''0.9'', de_error := JNull\<rparr>)]"

definition demo_env :: provider_env where
  "demo_env = \<lparr>pe_key = True, pe_answer = (\<lambda>_ _ _. SetAnswer demo_found), pe_elapsed = JFloat ''0.2''\<rparr>"

abbreviation demo_minus :: subtract where
  "demo_minus \<equiv> \<lambda>_ _. JFloat ''0.2''"

definition demo_task :: json where
  "demo_task = JObj [(''task_type'', JStr '' Feature ''), (''risk'', JStr ''high'')]"

definition demo_controls :: "(string \<times> json) list" where
  "demo_controls = [(''routing.task_class'', JStr ''implementation''), (''routing.interaction_required'', JBool False),
     (''routing.semantic_risk'', JInt 2)]"

lemma demo_models: "no_go_model (demo_routing mode) ''x'' ''m-old''" "\<not> no_go_model (demo_routing mode) ''x'' ''m-new''"
  "\<not> no_go_model (demo_routing mode) ''x'' ''r''"
  unfolding demo_routing_def no_go_model_def by code_simp+


lemma demo_typesafe: "\<not> isl (advise_routing_with_policy demo_ext demo_minus demo_env (JNull, JNull, JNull) demo_task
    (demo_routing ''typesafe'') JNull None None)"
  by code_simp

lemma demo_deterministic: "\<not> isl (advise_routing_with_policy demo_ext demo_minus demo_env (JNull, JNull, JNull) demo_task
    (demo_routing ''deterministic'') JNull None None)"
  by code_simp

lemma demo_override:
  "case execute_decision_set demo_ext demo_minus (demo_routing ''typesafe'') demo_env ROUTING_DECISIONS demo_task demo_controls of
     Inl _ \<Rightarrow> False
   | Inr receipts \<Rightarrow> receipt_field receipts ''routing.task_class'' ''applied_result'' = JStr ''review''
       \<and> receipt_field receipts ''routing.task_class'' ''control_result'' = JStr ''implementation''"
  by code_simp

theorem routed_model_allowed_witness:
  "\<exists>advice. advise_routing_with_policy demo_ext demo_minus demo_env (JNull, JNull, JNull) demo_task (demo_routing ''typesafe'')
       JNull None None = Inr advice
     \<and> route_allowed (demo_routing ''typesafe'') advice
     \<and> route_allowed (demo_routing ''typesafe'') (jget advice ''counterfactual_candidate'')"
proof -
  obtain advice where a: "advise_routing_with_policy demo_ext demo_minus demo_env (JNull, JNull, JNull) demo_task
      (demo_routing ''typesafe'') JNull None None = Inr advice"
    using demo_typesafe by (auto simp: isl_def) (meson sum.exhaust)
  have "rs_mode (demo_routing ''typesafe'') \<noteq> ''deterministic''" by (simp add: demo_routing_def)
  with routed_model_allowed [OF a] a show ?thesis by blast
qed

theorem semantic_override_needs_authority_witness:
  "\<exists>receipts r. execute_decision_set demo_ext demo_minus (demo_routing ''typesafe'') demo_env ROUTING_DECISIONS demo_task demo_controls
       = Inr receipts \<and> (''routing.task_class'', r) \<in> set receipts \<and> jget r ''applied_result'' = JStr ''review''
     \<and> jget r ''disposition'' = JStr ''automated'' \<and> jget (jget r ''semantic'') ''status'' = JStr ''success''"
proof -
  obtain receipts where e: "execute_decision_set demo_ext demo_minus (demo_routing ''typesafe'') demo_env ROUTING_DECISIONS demo_task
      demo_controls = Inr receipts"
    and f: "receipt_field receipts ''routing.task_class'' ''applied_result'' = JStr ''review''"
      "receipt_field receipts ''routing.task_class'' ''control_result'' = JStr ''implementation''"
    using demo_override by (auto split: sum.splits)
  from f(1) obtain r where m: "map_of receipts ''routing.task_class'' = Some r" by (auto simp: receipt_field_def split: option.splits)
  with f have r: "jget r ''applied_result'' = JStr ''review''" "jget r ''control_result'' = JStr ''implementation''"
    by (simp_all add: receipt_field_def)
  then have "jget r ''applied_result'' \<noteq> jget r ''control_result''" by simp
  from semantic_override_needs_authority [OF e map_of_SomeD [OF m] this] e map_of_SomeD [OF m] r(1) show ?thesis by blast
qed

theorem deterministic_route_is_control_witness:
  "\<exists>advice control. advise_routing_with_policy demo_ext demo_minus demo_env (JNull, JNull, JNull) demo_task
       (demo_routing ''deterministic'') JNull None None = Inr advice
     \<and> advise_routing demo_task (demo_routing ''deterministic'') JNull = Inr control
     \<and> jget advice ''recommendation'' = jget control ''recommendation''"
proof -
  obtain advice where a: "advise_routing_with_policy demo_ext demo_minus demo_env (JNull, JNull, JNull) demo_task
      (demo_routing ''deterministic'') JNull None None = Inr advice"
    using demo_deterministic by (auto simp: isl_def) (meson sum.exhaust)
  have "rs_mode (demo_routing ''deterministic'') = ''deterministic''" by (simp add: demo_routing_def)
  from deterministic_route_is_control [OF a this] a show ?thesis by blast
qed


subsection \<open>Budgets\<close>

definition over :: "json \<Rightarrow> json \<Rightarrow> bool" where
  "over used limit \<longleftrightarrow> is_number used \<and> is_number limit \<and> num_less limit used"

definition budget_failure :: "string \<Rightarrow> json \<Rightarrow> json \<Rightarrow> string \<Rightarrow> (string \<times> json) list \<Rightarrow> string \<Rightarrow> json" where
  "budget_failure metric observed limit operator source version =
     JObj ([(''metric'', JStr metric), (''observed'', observed), (''limit'', limit), (''operator'', JStr operator)]
           @ source @ [(''accounting_version'', JStr version)])"

definition billed_cost :: "json \<Rightarrow> json \<times> string" where
  "billed_cost usage =
     (if jget usage ''provider_billed_cost'' = JNull then (jget usage ''local_estimated_cost'', ''local_estimated_cost'')
      else (jget usage ''provider_billed_cost'', ''provider_billed_cost''))"

definition budget_failures :: "(json \<Rightarrow> json) \<Rightarrow> json \<Rightarrow> json \<Rightarrow> json \<Rightarrow> json list" where
  "budget_failures round6 usage budgets wall =
     (let (cost, source) = billed_cost usage; version = ''provider-evidence/v1'';
          expected = jget budgets ''currency''; actual = jget usage ''currency'' in
      concat (map (\<lambda>(u, b). if over (jget usage u) (jget budgets b)
                            then [budget_failure u (jget usage u) (jget budgets b) ''>'' [] version] else [])
        [(''input_tokens'', ''max_input_tokens''), (''output_tokens'', ''max_output_tokens'')])
      @ (if over cost (jget budgets ''max_cost'')
         then [budget_failure ''cost'' cost (jget budgets ''max_cost'') ''>'' [(''source'', JStr source)] version] else [])
      @ (if truthy expected \<and> truthy actual \<and> \<not> py_eq expected actual
         then [budget_failure ''currency'' actual expected ''!='' [] version] else [])
      @ (if is_number (jget budgets ''max_wall_seconds'') \<and> num_less (jget budgets ''max_wall_seconds'') wall
         then [budget_failure ''wall_seconds'' (round6 wall) (jget budgets ''max_wall_seconds'') ''>'' [] ''monotonic-wall/v1''] else []))"

definition evaluate_budgets :: "(json \<Rightarrow> json) \<Rightarrow> json \<Rightarrow> json \<Rightarrow> json \<Rightarrow> json" where
  "evaluate_budgets round6 usage_value budgets_value wall =
     (let usage = (if is_obj usage_value then usage_value else JObj []);
          budgets = (if is_obj budgets_value then budgets_value else JObj []);
          configured = list_ex (\<lambda>k. jget budgets k \<noteq> JNull)
            [''max_input_tokens'', ''max_output_tokens'', ''max_cost'', ''currency'', ''max_wall_seconds''];
          failures = budget_failures round6 usage budgets wall in
      JObj [(''policy_result'', JStr (if failures \<noteq> [] then ''failed'' else if configured then ''passed'' else ''not_evaluated'')),
        (''policy_failures'', JList failures),
        (''policy_failure_category'', if failures \<noteq> [] then JStr ''budget_exhausted'' else JNull)])"

text \<open>What a limit allows.\<close>

definition within :: "json \<Rightarrow> json \<Rightarrow> bool" where
  "within used limit \<longleftrightarrow> is_number used \<and> is_number limit \<longrightarrow> \<not> num_less limit used"

definition keeps_budgets :: "json \<Rightarrow> json \<Rightarrow> json \<Rightarrow> bool" where
  "keeps_budgets usage budgets wall \<longleftrightarrow>
     within (jget usage ''input_tokens'') (jget budgets ''max_input_tokens'')
     \<and> within (jget usage ''output_tokens'') (jget budgets ''max_output_tokens'')
     \<and> within (if jget usage ''provider_billed_cost'' = JNull then jget usage ''local_estimated_cost''
               else jget usage ''provider_billed_cost'') (jget budgets ''max_cost'')
     \<and> within wall (jget budgets ''max_wall_seconds'')
     \<and> (truthy (jget budgets ''currency'') \<and> truthy (jget usage ''currency'')
          \<longrightarrow> py_eq (jget budgets ''currency'') (jget usage ''currency''))"

lemma within_iff_not_over: "within used limit \<longleftrightarrow> \<not> over used limit"
  by (auto simp: within_def over_def)

lemma over_wall: "is_number wall \<Longrightarrow> is_number limit \<and> num_less limit wall \<longleftrightarrow> over wall limit"
  by (simp add: over_def)

lemma no_budget_failures:
  assumes "is_number wall"
  shows "budget_failures round6 usage budgets wall = [] \<longleftrightarrow> keeps_budgets usage budgets wall"
proof (cases "jget usage ''provider_billed_cost'' = JNull")
  case True
  then show ?thesis
    unfolding budget_failures_def Let_def keeps_budgets_def within_iff_not_over over_wall [OF assms] billed_cost_def
    by (simp del: de_Morgan_conj) blast
next
  case False
  then show ?thesis
    unfolding budget_failures_def Let_def keeps_budgets_def within_iff_not_over over_wall [OF assms] billed_cost_def
    by (simp del: de_Morgan_conj) blast
qed

text \<open>
  C23. Budgets are enforced at their bounds. For objects, the verdict of \<open>evaluate_budgets\<close> is failed
  exactly if the input tokens, the output tokens, the billed cost (the estimate where none is billed) or
  the wall clock time exceed their configured limit or the currencies differ; a value equal to its limit
  passes, and one that is missing is not compared. Otherwise no failure is listed and the verdict tells
  whether anything was configured.
\<close>

theorem budget_verdict_exact:
  assumes "is_obj usage" and "is_obj budgets" and "is_number wall"
    and "verdict = evaluate_budgets round6 usage budgets wall"
  shows "jget verdict ''policy_result'' =
      JStr (if \<not> keeps_budgets usage budgets wall then ''failed''
            else if \<exists>k \<in> {''max_input_tokens'', ''max_output_tokens'', ''max_cost'', ''currency'', ''max_wall_seconds''}.
                      jget budgets k \<noteq> JNull then ''passed'' else ''not_evaluated'')
    \<and> (jget verdict ''policy_failures'' = JList [] \<longleftrightarrow> keeps_budgets usage budgets wall)
    \<and> jget verdict ''policy_failure_category'' = (if keeps_budgets usage budgets wall then JNull else JStr ''budget_exhausted'')"
  unfolding assms(4)
  by (simp add: evaluate_budgets_def Let_def jget_fields no_budget_failures assms(1-3))

theorem budget_verdict_exact_witness:
  "\<exists>verdict usage budgets. usage = JObj [(''input_tokens'', JInt 10), (''output_tokens'', JInt 7)]
     \<and> budgets = JObj [(''max_input_tokens'', JInt 10), (''max_output_tokens'', JInt 6)]
     \<and> verdict = evaluate_budgets (\<lambda>w. w) usage budgets (JFloat ''1.5'')
     \<and> jget verdict ''policy_result'' = JStr ''failed'' \<and> length (list_items (jget verdict ''policy_failures'')) = 1"
proof -
  let ?u = "JObj [(''input_tokens'', JInt 10), (''output_tokens'', JInt 7)]"
  let ?b = "JObj [(''max_input_tokens'', JInt 10), (''max_output_tokens'', JInt 6)]"
  have n: "is_obj ?u" "is_obj ?b" "is_number (JFloat ''1.5'')" by code_simp+
  have k: "\<not> keeps_budgets ?u ?b (JFloat ''1.5'')" by code_simp
  have "length (list_items (jget (evaluate_budgets (\<lambda>w. w) ?u ?b (JFloat ''1.5'')) ''policy_failures'')) = 1" by code_simp
  with budget_verdict_exact [OF n refl, of "\<lambda>w. w"] k show ?thesis by auto
qed

end
