(* ===== verification/Spec2Isabelle.thy ===== *)
theory Spec2Isabelle
  imports Workflow_Service Hierarchy_Receipts Run_Lifecycle Task_Chains Steering Orchestrator_Inbox Routing
begin

text \<open>
  Verification of the workflow engine of \<open>agent-workflow\<close> (\<open>src/src/agent_workflow/\<close>).

  The program runs graphs of coding-agent tasks and keeps evidence of what they did. A workflow is an
  immutable snapshot of its task graph; everything that happens to it is an event in an append-only
  JSONL journal, and its status is whatever the replay of that journal gives. A scheduler reads the
  status, launches eligible nodes as agent runs, and moves a node on only when the evidence of its run
  (a sealed run directory, an acceptance receipt) says so. A finished workflow is closed by a receipt.
  Agent runs have their own lifecycle journal, a message log shared with the parent, a steering journal
  and consumer cursors; an orchestrator imports the messages of its children into an inbox. Hierarchies
  of agents narrow a budgeted contract from orchestrator to team to worker and are closed by receipts.

  \<^bold>\<open>Theories and the code they model.\<close>

  \<^item> \<open>Prelude\<close>: the exceptions as values (\<open>errors.py\<close>, \<open>JournalCapacityError\<close>,
    \<open>OrchestratorInboxError\<close>), the combinators that sequence computations which may raise, the string
    helpers of Python. \<open>Kept\<close>: the locale for what every operation of a component keeps.
  \<^item> \<open>Json\<close>, \<open>Json_Codec\<close>, \<open>Json_Roundtrip\<close>, \<open>Json_Pretty\<close>: JSON values, Python's operations on them,
    \<open>json.dumps\<close> and \<open>json.loads\<close>, compact and indented, with their round trips.
  \<^item> \<open>Util\<close>: \<open>util.py\<close> (identifiers, slugs, canonical JSON). \<open>Contracts\<close>, \<open>Launch_Contract\<close>:
    \<open>contracts.py\<close>. \<open>Journal\<close>: \<open>journal.py\<close>; a journal file is a \<open>slot\<close> (absent, a regular file with its
    bytes and link count, or something else), a transaction is one function on slots.
  \<^item> \<open>Workflow\<close>, \<open>Workflow_Normal\<close>, \<open>Workflow_Replay\<close>, \<open>Workflow_Journal\<close>: \<open>workflow.py\<close>.
    \<open>normalize_snapshot\<close> gives the record \<open>snapshot\<close>; \<open>replay_event\<close> and
    \<open>reconstruct_workflow_status\<close> give the map from node ids to \<open>node\<close> records.
  \<^item> \<open>Task_Chains\<close>: \<open>task_chains.py\<close>, \<open>task_integration.py\<close>. \<open>Receipts\<close>: reading and verifying seals
    (\<open>receipts.py\<close>, \<open>path_security.py\<close>); a run directory is a map from paths to entries. \<open>Run_Lifecycle\<close>:
    \<open>events.py\<close>, \<open>state.py\<close>, \<open>run_lifecycle.py\<close>. \<open>Scores\<close>: \<open>eval/scoring.py\<close>. \<open>Acceptance\<close>:
    \<open>lifecycle.py\<close>, \<open>approval.py\<close>.
  \<^item> \<open>Input_Bindings\<close>: \<open>bindings.py\<close>. \<open>Scheduler\<close>, \<open>Scheduler_Safety\<close>: \<open>scheduler.py\<close> over a \<open>host\<close>
    record of what it sees of the file system. \<open>Workflow_Receipt\<close>: \<open>workflow_receipt.py\<close>.
    \<open>Workflow_Service\<close>: \<open>workflow_service.py\<close>, the operations behind the command line.
  \<^item> \<open>Hierarchy\<close>, \<open>Hierarchy_Store\<close>, \<open>Hierarchy_Journal\<close>, \<open>Hierarchy_Receipts\<close>:
    \<open>hierarchy/contracts.py\<close>, \<open>journals.py\<close> and \<open>receipts.py\<close>.
  \<^item> \<open>Messages\<close>: \<open>messages.py\<close>. \<open>Steering\<close>: \<open>steering.py\<close>. \<open>Consumer_Cursors\<close>:
    \<open>consumer_cursors.py\<close>. \<open>Orchestrator_Inbox\<close>: \<open>orchestrator_inbox.py\<close>.
  \<^item> \<open>Decision_Checkpoint\<close>: \<open>decision_checkpoint.py\<close> and \<open>plugin_api.DecisionEvidence\<close>.
    \<open>Routing\<close>: \<open>routing.py\<close>, \<open>decisions.py\<close>, \<open>policy.py\<close> and the values of \<open>config.py\<close> they read.

  \<^bold>\<open>How the code is rendered.\<close> A Python string is the list of its UTF-8 bytes, a float its \<open>repr\<close>,
  an integer an \<open>int\<close>; a dictionary is an association list in insertion order. A function that may raise
  returns \<open>error + 'a\<close>; one that changes files returns the new state beside its result, also when it
  raises. Messages of the program's own exceptions are exact, the text of an operating system error is
  dropped, and \<open>TypeError\<close> stands for \<open>AttributeError\<close> too. Definitions keep the names of the code, less a
  leading underscore.

  \<^bold>\<open>What is not under \<open>src/\<close>\<close> is an argument: the schema validator (\<open>schema_errors\<close>) and SHA-256
  (\<open>sha256\<close>) in the record \<open>ext\<close>, the file system seen by a read in the record \<open>host\<close>, time stamps, fresh
  identifiers, the arithmetic of floats, the adapter that delivers a steer request, the semantic
  provider. Nothing is assumed of them, except where a property on tamper evidence states that the
  digest has no collision among the contents at hand.

  \<^bold>\<open>What is shown.\<close>

  \<^item> Workflows: a normalised snapshot is well formed and acyclic; every rebuilt status respects the
    dependencies, keeps the lineage of attempts and never reopens a completed node (\<open>Workflow_Normal\<close>,
    \<open>Workflow_Replay\<close>, by rule induction over the step relation \<open>wstep\<close>); an append is what the next
    reconstruction replays.
  \<^item> Scheduling: the plan is exactly the eligible prefix within the parallelism limit; every appended event
    is one the replay accepts; completion needs a verified seal, approval an acceptance receipt; the
    journal only grows.
  \<^item> Evidence: seals and workflow receipts that verify are bound to the bytes they name; sealing then
    verifying succeeds; resolved inputs come from sealed predecessors only; an acceptance passed its gates.
  \<^item> Runs: an execution moves along its transition table, never leaves a terminal state, and the projections
    agree with the authority of the seal.
  \<^item> Hierarchies: team contracts narrow, receipts are sound against the journals and the budgets,
    imports are idempotent, installed files are written once.
  \<^item> Messages: \<open>message_log_exact\<close> compares the incremental validation with a reference predicate; terminal
    steering outcomes are final, and an inactive run leaves no request pending after one round; a
    consumer applies each message once and in order; the inbox imports each message once, and a replay
    that ends has drained its sources.
  \<^item> Checkpoints: the provider's request does not depend on the agent's choice, and a selection advances
    only for a reason the receipt shows.
  \<^item> Routing: the model of every route is on the allowlist of its class and matches no forbidden pattern,
    whatever evidence a provider returns; evidence overrides the deterministic control only with the
    authority of the policy, and not at all in the deterministic mode; budgets are judged at their bounds.

  The laws shared by components are locales with their interpretations on the model:
  \<open>append_only_log\<close> and \<open>numbered_journal\<close> (\<open>Journal\<close>; used by the workflow, lifecycle and message
  journals) and \<open>kept_relation\<close> (\<open>Kept\<close>; used by the service, the hierarchy store, steering and the
  inbox).

  \<^bold>\<open>Loops and bounds.\<close> All definitions are total. The decoder of JSON carries fuel that bounds its
  nesting; it starts with twice the length of its input, which the round trip shows to be enough for
  every encoded value. The replay of the
  inbox terminates because every round that goes on imports at least one message
  (\<open>replay_ends_drained\<close>). Capacities of journals, receipts and requests are those of the code.

  \<^bold>\<open>Not modelled.\<close> Starting and supervising processes (\<open>process.py\<close>, \<open>runner.py\<close>, \<open>supervisor.py\<close>,
  \<open>agent_runs.py\<close>, \<open>worktrees.py\<close>): they drive the kernel, \<open>git\<close> and \<open>tmux\<close>. The command line, configuration
  files, the SQLite index and its reports, prompt packs, evaluation statistics and the adapters to plugins
  and MCP: parsing, printing and libraries around the modelled services. The production of seals and
  scores, the control bridge of a sandboxed child and the polling waits. Advisory locks and \<open>fsync\<close> appear
  as the atomicity of one operation; a crash inside an operation is not modelled.
\<close>

end
